(* ===== verification/Prelude.thy ===== *)
theory Prelude
  imports Complex_Main "HOL-Library.Char_ord" "HOL-Library.List_Lexorder"
begin

text \<open>
  What every component shares: Python's exceptions as values, the two result shapes of the
  development (a pure computation that may raise, \<open>'a res\<close>, and a computation on a state that
  may raise, \<open>('s, 'a) prog\<close>), their combinators and the facts that let \<open>simp\<close> read
  a successful run backwards. The collection \<open>ok_iff\<close> turns "this computation returned" into
  the list of guards it passed, \<open>ok_cases\<close> opens the branches it may have taken; \<open>keeps\<close> holds the introduction rules for state invariants.

  Text is modelled by its UTF-8 bytes: a Python \<open>str\<close> is a \<open>string\<close> whose characters are
  the bytes of its encoding. Equality, prefixes, splitting at an ASCII character and the order of
  \<open>sorted\<close> agree with those on code points.
\<close>

named_theorems ok_iff
named_theorems ok_cases
named_theorems keeps

section \<open>Exceptions\<close>

datatype exc_kind =
    ValueError | UnicodeDecodeError | ArgumentTypeError
  | KeyError | IndexError | TypeError | AttributeError | StopIteration
  | OverflowError | ZeroDivisionError
  | OSError | FileNotFoundError | FileExistsError | TimeoutError | InterruptedError | ProcessLookupError
  | RuntimeError | ConformanceError
  | CalledProcessError | TimeoutExpired | HarnessInputError
  | SystemExit

datatype exc = Exc (exc_kind: exc_kind) (exc_msg: string)

text \<open>\<open>except K\<close> also takes the subclasses of \<open>K\<close>.\<close>

definition is_subclass :: "exc_kind \<Rightarrow> exc_kind \<Rightarrow> bool" where
  "is_subclass k k' = (k = k' \<or> List.member
     [(UnicodeDecodeError, ValueError), (FileNotFoundError, OSError), (FileExistsError, OSError),
      (TimeoutError, OSError), (InterruptedError, OSError), (ProcessLookupError, OSError),
      (ConformanceError, RuntimeError)] (k, k'))"

definition caught_by :: "exc_kind list \<Rightarrow> exc \<Rightarrow> bool" where
  "caught_by ks e = list_ex (is_subclass (exc_kind e)) ks"

lemma is_subclass_refl [simp]: "is_subclass k k"
  by (simp add: is_subclass_def)

text \<open>The class hierarchy is an order; a clause that catches more catches what a smaller one does.\<close>

instantiation exc_kind :: order
begin

definition less_eq_exc_kind :: "exc_kind \<Rightarrow> exc_kind \<Rightarrow> bool" where
  "k \<le> k' \<longleftrightarrow> is_subclass k k'"

definition less_exc_kind :: "exc_kind \<Rightarrow> exc_kind \<Rightarrow> bool" where
  "k < k' \<longleftrightarrow> is_subclass k k' \<and> k \<noteq> (k' :: exc_kind)"

instance
  by standard (auto simp: less_eq_exc_kind_def less_exc_kind_def is_subclass_def)

end

lemma caught_by_wider: "caught_by ks e \<Longrightarrow> (\<And>k. k \<in> set ks \<Longrightarrow> \<exists>k' \<in> set ks'. k \<le> k') \<Longrightarrow> caught_by ks' e"
  unfolding caught_by_def list_ex_iff by (metis less_eq_exc_kind_def order_trans)

lemma caught_by_Nil [simp]: "\<not> caught_by [] e"
  by (simp add: caught_by_def)

lemma caught_by_Cons [simp]:
  "caught_by (k # ks) e \<longleftrightarrow> is_subclass (exc_kind e) k \<or> caught_by ks e"
  by (simp add: caught_by_def)

section \<open>Computations that may raise\<close>

type_synonym 'a res = "exc + 'a"

abbreviation raise :: "exc_kind \<Rightarrow> string \<Rightarrow> 'a res" where
  "raise k msg \<equiv> Inl (Exc k msg)"

definition bindE :: "'a res \<Rightarrow> ('a \<Rightarrow> 'b res) \<Rightarrow> 'b res" where
  "bindE m f = (case m of Inl e \<Rightarrow> Inl e | Inr a \<Rightarrow> f a)"

text \<open>\<open>if c: raise e\<close> in front of the rest of a function body.\<close>

definition unlessE :: "bool \<Rightarrow> exc_kind \<Rightarrow> string \<Rightarrow> 'a res \<Rightarrow> 'a res" where
  "unlessE bad k msg rest = (if bad then raise k msg else rest)"

definition of_option :: "exc_kind \<Rightarrow> string \<Rightarrow> 'a option \<Rightarrow> 'a res" where
  "of_option k msg x = (case x of None \<Rightarrow> raise k msg | Some a \<Rightarrow> Inr a)"

definition is_ok :: "'a res \<Rightarrow> bool" where
  "is_ok m = (case m of Inl _ \<Rightarrow> False | Inr _ \<Rightarrow> True)"

fun mapE :: "('a \<Rightarrow> 'b res) \<Rightarrow> 'a list \<Rightarrow> 'b list res" where
  "mapE f [] = Inr []"
| "mapE f (x # xs) = bindE (f x) (\<lambda>y. bindE (mapE f xs) (\<lambda>ys. Inr (y # ys)))"

fun foldE :: "('a \<Rightarrow> 's \<Rightarrow> 's res) \<Rightarrow> 'a list \<Rightarrow> 's \<Rightarrow> 's res" where
  "foldE f [] s = Inr s"
| "foldE f (x # xs) s = bindE (f x s) (foldE f xs)"

lemma bindE_Inl [simp]: "bindE (Inl e) f = Inl e"
  by (simp add: bindE_def)

lemma bindE_Inr [simp]: "bindE (Inr a) f = f a"
  by (simp add: bindE_def)

lemma bindE_assoc: "bindE (bindE m f) g = bindE m (\<lambda>x. bindE (f x) g)"
  by (simp add: bindE_def split: sum.splits)

lemma bindE_cong [fundef_cong]:
  "m = m' \<Longrightarrow> (\<And>a. m' = Inr a \<Longrightarrow> f a = g a) \<Longrightarrow> bindE m f = bindE m' g"
  by (simp add: bindE_def split: sum.splits)

lemma bindE_ok [ok_iff]: "bindE m f = Inr b \<longleftrightarrow> (\<exists>a. m = Inr a \<and> f a = Inr b)"
  by (simp add: bindE_def split: sum.splits)

lemma bindE_error:
  "bindE m f = Inl e \<longleftrightarrow> m = Inl e \<or> (\<exists>a. m = Inr a \<and> f a = Inl e)"
  by (simp add: bindE_def split: sum.splits)

lemma unlessE_simps [simp]: "unlessE True k msg rest = raise k msg" "unlessE False k msg rest = rest"
  by (simp_all add: unlessE_def)

lemma unlessE_ok [ok_iff]: "unlessE bad k msg rest = Inr b \<longleftrightarrow> \<not> bad \<and> rest = Inr b"
  by (simp add: unlessE_def)

lemma unlessE_error:
  "unlessE bad k msg rest = Inl e \<longleftrightarrow> (if bad then e = Exc k msg else rest = Inl e)"
  by (auto simp: unlessE_def)

lemma of_option_simps [simp]:
  "of_option k msg None = raise k msg" "of_option k msg (Some a) = Inr a"
  by (simp_all add: of_option_def)

lemma of_option_ok [ok_iff]: "of_option k msg x = Inr a \<longleftrightarrow> x = Some a"
  by (simp add: of_option_def split: option.splits)

lemma if_raise_ok [ok_iff]:
  "(if c then Inl e else m) = Inr b \<longleftrightarrow> \<not> c \<and> m = Inr b"
  "(if c then m else Inl e) = Inr b \<longleftrightarrow> c \<and> m = Inr b"
  by simp_all

lemma is_ok_simps [simp]: "is_ok (Inr a)" "\<not> is_ok (Inl e)"
  by (simp_all add: is_ok_def)

lemma is_ok_iff: "is_ok m \<longleftrightarrow> (\<exists>a. m = Inr a)"
  by (simp add: is_ok_def split: sum.splits)

lemma mapE_ok [ok_iff]: "mapE f xs = Inr ys \<longleftrightarrow> list_all2 (\<lambda>x y. f x = Inr y) xs ys"
  by (induction xs arbitrary: ys) (auto simp: ok_iff list_all2_Cons1)

lemma mapE_length: "mapE f xs = Inr ys \<Longrightarrow> length ys = length xs"
  by (simp add: mapE_ok list_all2_lengthD)

lemma mapE_Inr [simp]: "mapE (\<lambda>x. Inr (f x)) xs = Inr (map f xs)"
  by (induction xs) simp_all

lemma mapE_nth: "mapE f xs = Inr ys \<Longrightarrow> i < length xs \<Longrightarrow> f (xs ! i) = Inr (ys ! i)"
  by (simp add: mapE_ok list_all2_conv_all_nth)

lemma mapE_mem: "mapE f xs = Inr ys \<Longrightarrow> y \<in> set ys \<Longrightarrow> \<exists>x \<in> set xs. f x = Inr y"
  by (metis in_set_conv_nth mapE_length mapE_nth)

lemma mapE_cong [fundef_cong]:
  "xs = ys \<Longrightarrow> (\<And>x. x \<in> set ys \<Longrightarrow> f x = g x) \<Longrightarrow> mapE f xs = mapE g ys"
  by (induction ys arbitrary: xs) auto

lemma foldE_append: "foldE f (xs @ ys) s = bindE (foldE f xs s) (foldE f ys)"
  by (induction xs arbitrary: s) (simp_all add: bindE_def split: sum.splits)

lemma foldE_invariant:
  assumes "foldE f xs s = Inr t" and "P s"
    and "\<And>x s s'. x \<in> set xs \<Longrightarrow> P s \<Longrightarrow> f x s = Inr s' \<Longrightarrow> P s'"
  shows "P t"
  using assms by (induction xs arbitrary: s) (auto simp: ok_iff)

section \<open>Computations on a state that may raise\<close>

type_synonym ('s, 'a) prog = "'s \<Rightarrow> 'a res \<times> 's"

definition retS :: "'a \<Rightarrow> ('s, 'a) prog" where
  "retS a = (\<lambda>s. (Inr a, s))"

definition liftS :: "'a res \<Rightarrow> ('s, 'a) prog" where
  "liftS r = (\<lambda>s. (r, s))"

definition raiseS :: "exc_kind \<Rightarrow> string \<Rightarrow> ('s, 'a) prog" where
  "raiseS k msg = (\<lambda>s. (raise k msg, s))"

definition bindS :: "('s, 'a) prog \<Rightarrow> ('a \<Rightarrow> ('s, 'b) prog) \<Rightarrow> ('s, 'b) prog" where
  "bindS m f = (\<lambda>s. case m s of (Inl e, t) \<Rightarrow> (Inl e, t) | (Inr a, t) \<Rightarrow> f a t)"

definition seqS :: "('s, 'a) prog \<Rightarrow> ('s, 'b) prog \<Rightarrow> ('s, 'b) prog" where
  "seqS m n = bindS m (\<lambda>_. n)"

definition modifyS :: "('s \<Rightarrow> 's) \<Rightarrow> ('s, unit) prog" where
  "modifyS f = (\<lambda>s. (Inr (), f s))"

definition getS :: "('s \<Rightarrow> 'a) \<Rightarrow> ('s, 'a) prog" where
  "getS f = (\<lambda>s. (Inr (f s), s))"

text \<open>\<open>try: m  finally: f\<close>: the clean-up always runs, and its own exception replaces the body's outcome.\<close>

definition finallyS :: "('s, 'a) prog \<Rightarrow> ('s, unit) prog \<Rightarrow> ('s, 'a) prog" where
  "finallyS m f = (\<lambda>s. case m s of (r, t) \<Rightarrow>
     (case f t of (Inl e, u) \<Rightarrow> (Inl e, u) | (Inr _, u) \<Rightarrow> (r, u)))"

text \<open>\<open>try: m  except ks as e: h e\<close>.\<close>

definition catchS :: "exc_kind list \<Rightarrow> ('s, 'a) prog \<Rightarrow> (exc \<Rightarrow> ('s, 'a) prog) \<Rightarrow> ('s, 'a) prog" where
  "catchS ks m h = (\<lambda>s. case m s of
       (Inl e, t) \<Rightarrow> (if caught_by ks e then h e t else (Inl e, t))
     | (Inr a, t) \<Rightarrow> (Inr a, t))"

text \<open>\<open>except BaseException as e: h; raise\<close>.\<close>

definition on_errorS :: "('s, 'a) prog \<Rightarrow> (exc \<Rightarrow> ('s, unit) prog) \<Rightarrow> ('s, 'a) prog" where
  "on_errorS m h = (\<lambda>s. case m s of
       (Inl e, t) \<Rightarrow> (case h e t of (Inl e', u) \<Rightarrow> (Inl e', u) | (Inr _, u) \<Rightarrow> (Inl e, u))
     | (Inr a, t) \<Rightarrow> (Inr a, t))"

fun forS :: "('a \<Rightarrow> ('s, unit) prog) \<Rightarrow> 'a list \<Rightarrow> ('s, unit) prog" where
  "forS f [] = retS ()"
| "forS f (x # xs) = seqS (f x) (forS f xs)"

fun mapS :: "('a \<Rightarrow> ('s, 'b) prog) \<Rightarrow> 'a list \<Rightarrow> ('s, 'b list) prog" where
  "mapS f [] = retS []"
| "mapS f (x # xs) = bindS (f x) (\<lambda>y. bindS (mapS f xs) (\<lambda>ys. retS (y # ys)))"

text \<open>A method of an object that is a field of the state.\<close>

definition zoomS :: "('s \<Rightarrow> 't) \<Rightarrow> ('t \<Rightarrow> 's \<Rightarrow> 's) \<Rightarrow> ('t, 'a) prog \<Rightarrow> ('s, 'a) prog" where
  "zoomS get put m = (\<lambda>s. case m (get s) of (r, t) \<Rightarrow> (r, put t s))"

definition whenS :: "bool \<Rightarrow> ('s, unit) prog \<Rightarrow> ('s, unit) prog" where
  "whenS c m = (if c then m else retS ())"

lemmas prog_defs = retS_def liftS_def raiseS_def bindS_def seqS_def modifyS_def getS_def

lemma bindS_ok [ok_iff]:
  "bindS m f s = (Inr b, u) \<longleftrightarrow> (\<exists>a t. m s = (Inr a, t) \<and> f a t = (Inr b, u))"
  by (auto simp: bindS_def split: prod.splits sum.splits)

lemma seqS_ok [ok_iff]:
  "seqS m n s = (Inr b, u) \<longleftrightarrow> (\<exists>a t. m s = (Inr a, t) \<and> n t = (Inr b, u))"
  by (simp add: seqS_def bindS_ok)

lemma pure_ok [ok_iff]:
  "retS a s = (r, t) \<longleftrightarrow> r = Inr a \<and> t = s"
  "raiseS k msg s = (r, t) \<longleftrightarrow> r = raise k msg \<and> t = s"
  "liftS x s = (r, t) \<longleftrightarrow> r = x \<and> t = s"
  by (auto simp: prog_defs)

lemma modifyS_ok [ok_iff]: "modifyS f s = (r, t) \<longleftrightarrow> r = Inr () \<and> t = f s"
  by (auto simp: prog_defs)

lemma getS_ok [ok_iff]: "getS g s = (r, t) \<longleftrightarrow> r = Inr (g s) \<and> t = s"
  by (auto simp: prog_defs)

lemma finallyS_ok [ok_iff]:
  "finallyS m f s = (Inr a, u) \<longleftrightarrow> (\<exists>t. m s = (Inr a, t) \<and> f t = (Inr (), u))"
  by (auto simp: finallyS_def split: prod.splits sum.splits)

lemma on_errorS_ok [ok_iff]: "on_errorS m h s = (Inr a, t) \<longleftrightarrow> m s = (Inr a, t)"
  by (auto simp: on_errorS_def split: prod.splits sum.splits)

lemma on_errorS_error:
  "on_errorS m h s = (Inl e, u) \<Longrightarrow>
   \<exists>e' t. m s = (Inl e', t) \<and> (h e' t = (Inl e, u) \<or> e = e' \<and> h e t = (Inr (), u))"
  by (auto simp: on_errorS_def split: prod.splits sum.splits)

lemma bindS_getS [simp]: "bindS (getS g) f s = f (g s) s"
  by (simp add: prog_defs)

lemma bindS_liftS_Inr [simp]: "bindS (liftS (Inr a)) f = f a"
  by (simp add: prog_defs)

lemma bindS_liftS_Inl [simp]: "bindS (liftS (Inl e)) f s = (Inl e, s)"
  by (simp add: prog_defs)

lemma seqS_modifyS [simp]: "seqS (modifyS g) m s = m (g s)"
  by (simp add: prog_defs)

lemma modifyS_run [simp]: "modifyS g s = (Inr (), g s)"
  by (simp add: prog_defs)

lemma retS_run [simp]: "retS a s = (Inr a, s)"
  by (simp add: prog_defs)

lemma liftS_run [simp]: "liftS r s = (r, s)"
  by (simp add: prog_defs)

lemma raiseS_run [simp]: "raiseS k msg s = (raise k msg, s)"
  by (simp add: prog_defs)

lemma seqS_run: "m s = (Inr a, t) \<Longrightarrow> seqS m n s = n t"
  by (simp add: prog_defs)

lemma seqS_assoc: "seqS (seqS m n) p = seqS m (seqS n p)"
  by (rule ext) (simp add: seqS_def bindS_def split: prod.splits sum.splits)

lemma bindS_run: "m s = (Inr a, t) \<Longrightarrow> bindS m f s = f a t"
  by (simp add: prog_defs)

lemma bindS_run_error: "m s = (Inl e, t) \<Longrightarrow> bindS m f s = (Inl e, t)"
  by (simp add: prog_defs)

lemma finallyS_run: "m s = (r, t) \<Longrightarrow> g t = (Inr (), u) \<Longrightarrow> finallyS m g s = (r, u)"
  by (simp add: finallyS_def)

lemma run_cases [ok_cases]:
  "(case x of None \<Rightarrow> m | Some y \<Rightarrow> f y) s = r \<longleftrightarrow> (x = None \<and> m s = r) \<or> (\<exists>y. x = Some y \<and> f y s = r)"
  "(case xy of (a, b) \<Rightarrow> g a b) s = r \<longleftrightarrow> (\<exists>a b. xy = (a, b) \<and> g a b s = r)"
  "(if c then m else n) s = r \<longleftrightarrow> (c \<and> m s = r) \<or> (\<not> c \<and> n s = r)"
  by (auto split: option.splits prod.splits)

text \<open>An invariant of the state, whether the computation returns or raises.\<close>

definition preserves :: "('s \<Rightarrow> bool) \<Rightarrow> ('s, 'a) prog \<Rightarrow> bool" where
  "preserves P m \<longleftrightarrow> (\<forall>s. P s \<longrightarrow> P (snd (m s)))"

lemma preservesD: "preserves P m \<Longrightarrow> P s \<Longrightarrow> m s = (r, t) \<Longrightarrow> P t"
  by (auto simp: preserves_def dest: spec [of _ s])

lemma preserves_retS [keeps]: "preserves P (retS a)"
  by (simp add: preserves_def prog_defs)

lemma preserves_liftS [keeps]: "preserves P (liftS r)"
  by (simp add: preserves_def prog_defs)

lemma preserves_raiseS [keeps]: "preserves P (raiseS k msg)"
  by (simp add: preserves_def prog_defs)

lemma preserves_getS [keeps]: "preserves P (getS g)"
  by (simp add: preserves_def prog_defs)

lemma preserves_modifyS [keeps]: "(\<And>s. P s \<Longrightarrow> P (f s)) \<Longrightarrow> preserves P (modifyS f)"
  by (simp add: preserves_def modifyS_def)

lemma preserves_bindS [keeps]:
  "preserves P m \<Longrightarrow> (\<And>a. preserves P (f a)) \<Longrightarrow> preserves P (bindS m f)"
  unfolding preserves_def bindS_def by (fastforce split: prod.splits sum.splits)

lemma preserves_seqS [keeps]: "preserves P m \<Longrightarrow> preserves P n \<Longrightarrow> preserves P (seqS m n)"
  unfolding seqS_def by (rule preserves_bindS)

lemma preserves_finallyS [keeps]:
  "preserves P m \<Longrightarrow> preserves P f \<Longrightarrow> preserves P (finallyS m f)"
  unfolding preserves_def finallyS_def by (fastforce split: prod.splits sum.splits)

lemma preserves_catchS [keeps]:
  "preserves P m \<Longrightarrow> (\<And>e. preserves P (h e)) \<Longrightarrow> preserves P (catchS ks m h)"
  unfolding preserves_def catchS_def by (fastforce split: prod.splits sum.splits)

lemma preserves_on_errorS [keeps]:
  assumes m: "preserves P m" and h: "\<And>e. preserves P (h e)"
  shows "preserves P (on_errorS m h)"
  unfolding preserves_def
proof (intro allI impI)
  fix s assume "P s"
  obtain r t where run: "m s = (r, t)" by fastforce
  with m \<open>P s\<close> have "P t" by (metis preservesD)
  show "P (snd (on_errorS m h s))"
  proof (cases r)
    case (Inl e)
    obtain r' u where handled: "h e t = (r', u)" by fastforce
    with h \<open>P t\<close> have "P u" by (metis preservesD)
    with run Inl handled show ?thesis
      by (simp add: on_errorS_def split: sum.splits)
  next
    case (Inr a)
    with run \<open>P t\<close> show ?thesis by (simp add: on_errorS_def)
  qed
qed

lemma preserves_if [keeps]:
  "preserves P m \<Longrightarrow> preserves P n \<Longrightarrow> preserves P (if c then m else n)"
  by simp

lemma preserves_forS [keeps]: "(\<And>x. x \<in> set xs \<Longrightarrow> preserves P (f x)) \<Longrightarrow> preserves P (forS f xs)"
  by (induction xs) (auto intro: keeps)

lemma preserves_zoomS [keeps]:
  "(\<And>s t r. P s \<Longrightarrow> m (get s) = (r, t) \<Longrightarrow> P (put t s)) \<Longrightarrow> preserves P (zoomS get put m)"
  by (auto simp: preserves_def zoomS_def split: prod.splits)

lemma preserves_whenS [keeps]: "preserves P m \<Longrightarrow> preserves P (whenS c m)"
  by (simp add: whenS_def preserves_retS)

lemma preserves_mapS [keeps]: "(\<And>x. x \<in> set xs \<Longrightarrow> preserves P (f x)) \<Longrightarrow> preserves P (mapS f xs)"
  by (induction xs) (auto intro!: keeps)

section \<open>Lists\<close>

text \<open>\<open>any(x == y for ...)\<close> on sorted data and duplicate checks by \<open>len(set(xs)) != len(xs)\<close>.\<close>

lemma card_set_distinct: "card (set xs) = length xs \<longleftrightarrow> distinct xs"
  by (metis card_distinct distinct_card)

fun enum_from :: "nat \<Rightarrow> 'a list \<Rightarrow> (nat \<times> 'a) list" where
  "enum_from i [] = []"
| "enum_from i (x # xs) = (i, x) # enum_from (Suc i) xs"

lemma length_enum_from [simp]: "length (enum_from i xs) = length xs"
  by (induction xs arbitrary: i) simp_all

lemma nth_enum_from [simp]: "k < length xs \<Longrightarrow> enum_from i xs ! k = (i + k, xs ! k)"
  by (induction xs arbitrary: i k) (auto simp: nth_Cons split: nat.splits)

lemma map_snd_enum_from [simp]: "map snd (enum_from i xs) = xs"
  by (induction xs arbitrary: i) simp_all

section \<open>Loops that may not end\<close>

text \<open>
  A loop that waits for its environment is the iteration of one pass of its body: the pass ends
  the loop with a result (\<open>Inl\<close>) or gives the state of the next pass (\<open>Inr\<close>). The
  model runs it on fuel; \<open>None\<close> is a loop still running when the fuel is used up.
\<close>

fun repeat_until :: "nat \<Rightarrow> ('s \<Rightarrow> 'r + 's) \<Rightarrow> 's \<Rightarrow> 'r option" where
  "repeat_until 0 poll s = None"
| "repeat_until (Suc n) poll s = (case poll s of Inl r \<Rightarrow> Some r | Inr t \<Rightarrow> repeat_until n poll t)"

type_synonym ('s, 'a) fprog = "'s \<Rightarrow> ('a res \<times> 's) option"

definition liftF :: "('s, 'a) prog \<Rightarrow> ('s, 'a) fprog" where
  "liftF m = (\<lambda>s. Some (m s))"

definition bindF :: "('s, 'a) fprog \<Rightarrow> ('a \<Rightarrow> ('s, 'b) fprog) \<Rightarrow> ('s, 'b) fprog" where
  "bindF m f = (\<lambda>s. case m s of None \<Rightarrow> None
     | Some (r, t) \<Rightarrow> (case r of Inl e \<Rightarrow> Some (Inl e, t) | Inr a \<Rightarrow> f a t))"

definition seqF :: "('s, 'a) fprog \<Rightarrow> ('s, 'b) fprog \<Rightarrow> ('s, 'b) fprog" where
  "seqF m n = bindF m (\<lambda>_. n)"

text \<open>\<open>except Exception\<close> takes every exception but \<open>SystemExit\<close>.\<close>

definition catch_exception :: "('s, 'a) prog \<Rightarrow> (exc \<Rightarrow> ('s, 'a) prog) \<Rightarrow> ('s, 'a) prog" where
  "catch_exception m h = (\<lambda>s. case m s of
       (Inl e, t) \<Rightarrow> (if exc_kind e = SystemExit then (Inl e, t) else h e t)
     | (Inr a, t) \<Rightarrow> (Inr a, t))"

definition catchF :: "('s, 'a) fprog \<Rightarrow> (exc \<Rightarrow> ('s, 'a) fprog) \<Rightarrow> ('s, 'a) fprog" where
  "catchF m h = (\<lambda>s. case m s of None \<Rightarrow> None
     | Some (r, t) \<Rightarrow> (case r of
           Inl e \<Rightarrow> if exc_kind e = SystemExit then Some (Inl e, t) else h e t
         | Inr a \<Rightarrow> Some (Inr a, t)))"

definition catch_onF :: "exc_kind list \<Rightarrow> ('s, 'a) fprog \<Rightarrow> (exc \<Rightarrow> ('s, 'a) prog) \<Rightarrow> ('s, 'a) fprog" where
  "catch_onF ks m h = (\<lambda>s. map_option (\<lambda>x. catchS ks (\<lambda>_. x) h s) (m s))"

definition finallyF :: "('s, 'a) fprog \<Rightarrow> ('s, unit) prog \<Rightarrow> ('s, 'a) fprog" where
  "finallyF m f = (\<lambda>s. map_option (\<lambda>x. finallyS (\<lambda>_. x) f s) (m s))"

lemma liftF_ok [ok_iff]: "liftF m s = Some x \<longleftrightarrow> m s = x"
  by (simp add: liftF_def)

lemma bindF_ok [ok_iff]:
  "bindF m f s = Some (Inr b, u) \<longleftrightarrow> (\<exists>a t. m s = Some (Inr a, t) \<and> f a t = Some (Inr b, u))"
  by (auto simp: bindF_def split: option.splits sum.splits)

lemma seqF_ok [ok_iff]:
  "seqF m n s = Some (Inr b, u) \<longleftrightarrow> (\<exists>a t. m s = Some (Inr a, t) \<and> n t = Some (Inr b, u))"
  by (simp add: seqF_def bindF_ok)

lemma repeat_until_more: "repeat_until n poll s = Some r \<Longrightarrow> n \<le> m \<Longrightarrow> repeat_until m poll s = Some r"
proof (induction n arbitrary: s m)
  case (Suc n)
  then obtain k where "m = Suc k" "n \<le> k" by (cases m) auto
  with Suc show ?case by (auto split: sum.splits)
qed simp

text \<open>The last pass: what it ends with, from a state in which every invariant of the loop holds.\<close>

lemma repeat_until_last:
  assumes "repeat_until n poll s = Some r" and "P s" and "\<And>s t. P s \<Longrightarrow> poll s = Inr t \<Longrightarrow> P t"
  obtains t where "P t" and "poll t = Inl r"
proof -
  from assms have "\<exists>t. P t \<and> poll t = Inl r"
  proof (induction n arbitrary: s)
    case (Suc n)
    then show ?case by (cases "poll s") auto
  qed simp
  with that show ?thesis by blast
qed

text \<open>One pass of a wait on the state \<open>(locals, self)\<close>, from a computation that returns
  \<open>Inl result\<close> to end the loop or \<open>Inr locals\<close> to go on.\<close>

definition pass_of :: "('l \<Rightarrow> ('s, 'a + 'l) prog) \<Rightarrow> 'l \<times> 's \<Rightarrow> ('a res \<times> 's) + ('l \<times> 's)" where
  "pass_of body = (\<lambda>(l, self). case body l self of
       (Inl e, s) \<Rightarrow> Inl (Inl e, s)
     | (Inr (Inl a), s) \<Rightarrow> Inl (Inr a, s)
     | (Inr (Inr l'), s) \<Rightarrow> Inr (l', s))"

lemma pass_of_run: "body l s = (r, t) \<Longrightarrow> pass_of body (l, s) = (case r of
    Inl e \<Rightarrow> Inl (Inl e, t) | Inr (Inl a) \<Rightarrow> Inl (Inr a, t) | Inr (Inr l') \<Rightarrow> Inr (l', t))"
  by (simp add: pass_of_def)

lemma pass_of_ok [ok_iff]:
  "pass_of body (l, self) = Inl (Inr a, s) \<longleftrightarrow> body l self = (Inr (Inl a), s)"
  "pass_of body (l, self) = Inr (l', s) \<longleftrightarrow> body l self = (Inr (Inr l'), s)"
  by (auto simp: pass_of_def split: prod.splits sum.splits)

text \<open>
  Every wait of the program polls its environment until a deadline of a monotonic clock. A loop
  that fits this interface ends as soon as the fuel exceeds \<open>left\<close>, a bound on the passes that
  the time left allows; \<open>ok\<close> is what the loop keeps true, the behaviour of the clock included.
\<close>

locale bounded_poll =
  fixes poll :: "'s \<Rightarrow> 'r + 's"
    and left :: "'s \<Rightarrow> nat"
    and ok :: "'s \<Rightarrow> bool"
  assumes pass: "ok s \<Longrightarrow> poll s = Inr t \<Longrightarrow> left t < left s \<and> ok t"
begin

lemma enough_fuel: "ok s \<Longrightarrow> left s < n \<Longrightarrow> \<exists>r. repeat_until n poll s = Some r"
proof (induction n arbitrary: s)
  case (Suc n)
  show ?case
  proof (cases "poll s")
    case (Inr t)
    with Suc.prems pass [of s t] have "left t < n" "ok t" by auto
    with Suc.IH Inr show ?thesis by simp
  qed simp
qed simp

end

text \<open>The clock a wait reads: time never runs backwards over a part of a pass.\<close>

definition forward :: "('s \<Rightarrow> rat) \<Rightarrow> ('s, 'a) prog \<Rightarrow> bool" where
  "forward clock m \<longleftrightarrow> (\<forall>s. clock s \<le> clock (snd (m s)))"

lemma forwardD: "forward clock m \<Longrightarrow> m s = (r, t) \<Longrightarrow> clock s \<le> clock t"
  by (metis forward_def snd_conv)

lemma forward_pure [keeps]:
  "forward clock (retS a)" "forward clock (raiseS k msg)" "forward clock (liftS r)" "forward clock (getS g)"
  by (simp_all add: forward_def getS_def)

lemma forward_bindS [keeps]:
  assumes m: "forward clock m" and f: "\<And>a. forward clock (f a)"
  shows "forward clock (bindS m f)"
  unfolding forward_def
proof
  fix s
  obtain r mid where run: "m s = (r, mid)" by fastforce
  show "clock s \<le> clock (snd (bindS m f s))"
  proof (cases r)
    case (Inl e)
    with forwardD [OF m run] run show ?thesis by (simp add: bindS_def)
  next
    case (Inr a)
    with run have "bindS m f s = f a mid" by (simp add: bindS_def)
    with forwardD [OF m run] f [of a] show ?thesis
      by (metis forward_def order_trans)
  qed
qed

lemma forward_seqS [keeps]: "forward clock m \<Longrightarrow> forward clock n \<Longrightarrow> forward clock (seqS m n)"
  unfolding seqS_def by (rule forward_bindS)

lemma forward_if [keeps]: "forward clock m \<Longrightarrow> forward clock n \<Longrightarrow> forward clock (if c then m else n)"
  by simp

lemma forward_finallyS [keeps]:
  assumes m: "forward clock m" and f: "forward clock f"
  shows "forward clock (finallyS m f)"
  unfolding forward_def
proof
  fix s
  obtain r t r' u where run: "m s = (r, t)" "f t = (r', u)" by fastforce
  with forwardD [OF m] forwardD [OF f] have "clock s \<le> clock u" by (meson order_trans)
  with run show "clock s \<le> clock (snd (finallyS m f s))"
    by (simp add: finallyS_def split: sum.splits)
qed

text \<open>The passes the time to the deadline still allows, when each takes at least \<open>d\<close>.\<close>

definition passes_left :: "('s \<Rightarrow> rat) \<Rightarrow> rat \<Rightarrow> rat \<Rightarrow> 'l \<times> 's \<Rightarrow> nat" where
  "passes_left clock d deadline s = nat \<lceil>(deadline - clock (snd s)) / d\<rceil>"

lemma ceiling_step:
  fixes d :: rat
  assumes "0 < d" "t < deadline" "t + d \<le> u"
  shows "nat \<lceil>(deadline - u) / d\<rceil> < nat \<lceil>(deadline - t) / d\<rceil>"
proof -
  have "(deadline - u) / d \<le> (deadline - (t + d)) / d"
    using assms by (intro divide_right_mono) auto
  also have "(deadline - (t + d)) / d = (deadline - t) / d - 1"
    using assms(1) by (simp add: diff_divide_distrib add_divide_distrib)
  finally have "(deadline - u) / d \<le> (deadline - t) / d - 1" .
  then have "\<lceil>(deadline - u) / d\<rceil> \<le> \<lceil>(deadline - t) / d - 1\<rceil>" by (rule ceiling_mono)
  also have "\<dots> = \<lceil>(deadline - t) / d\<rceil> - 1" by simp
  finally have "\<lceil>(deadline - u) / d\<rceil> < \<lceil>(deadline - t) / d\<rceil>" by simp
  moreover have "0 < \<lceil>(deadline - t) / d\<rceil>"
    using assms by simp
  ultimately show ?thesis by linarith
qed

text \<open>A wait whose pass goes on only before the deadline, and takes at least \<open>d\<close> then, is a
  bounded poll.\<close>

lemma bounded_pass:
  assumes "\<And>l s l' s'. ok \<Longrightarrow> body l s = (Inr (Inr l'), s') \<Longrightarrow> clock s < deadline \<and> clock s + d \<le> clock s'"
    and "ok \<Longrightarrow> 0 < d"
  shows "bounded_poll (pass_of body) (passes_left clock d deadline) (\<lambda>_. ok)"
proof
  fix s t
  assume "ok" and "pass_of body s = Inr t"
  then show "passes_left clock d deadline t < passes_left clock d deadline s \<and> ok"
    using assms ceiling_step [of d "clock (snd s)" deadline "clock (snd t)"]
    by (cases s; cases t) (auto simp: passes_left_def pass_of_ok)
qed

section \<open>Partial correctness\<close>

text \<open>
  \<open>holds P m Q E\<close>: from a state in \<open>P\<close> the computation ends, if it ends on its fuel,
  with a result and a state in \<open>Q\<close> or with an exception and a state in \<open>E\<close>.
\<close>

fun ends :: "('a \<Rightarrow> 's \<Rightarrow> bool) \<Rightarrow> ('s \<Rightarrow> bool) \<Rightarrow> ('a res \<times> 's) option \<Rightarrow> bool" where
  "ends Q E None = True"
| "ends Q E (Some (Inl e, t)) = E t"
| "ends Q E (Some (Inr a, t)) = Q a t"

definition holds ::
  "('s \<Rightarrow> bool) \<Rightarrow> ('s, 'a) fprog \<Rightarrow> ('a \<Rightarrow> 's \<Rightarrow> bool) \<Rightarrow> ('s \<Rightarrow> bool) \<Rightarrow> bool" where
  "holds P m Q E \<longleftrightarrow> (\<forall>s. P s \<longrightarrow> ends Q E (m s))"

lemma holdsI: "(\<And>s. P s \<Longrightarrow> ends Q E (m s)) \<Longrightarrow> holds P m Q E"
  by (simp add: holds_def)

lemma holdsD: "holds P m Q E \<Longrightarrow> P s \<Longrightarrow> ends Q E (m s)"
  by (simp add: holds_def)

lemma ends_cases:
  assumes "ends Q E x"
  obtains "x = None" | e t where "x = Some (Inl e, t)" "E t" | a t where "x = Some (Inr a, t)" "Q a t"
  using assms by (cases "(Q, E, x)" rule: ends.cases) auto

lemma ends_weaken: "ends Q E x \<Longrightarrow> (\<And>a s. Q a s \<Longrightarrow> Q' a s) \<Longrightarrow> (\<And>s. E s \<Longrightarrow> E' s) \<Longrightarrow> ends Q' E' x"
  by (erule ends_cases) auto

lemma holds_weaken:
  "holds P m Q E \<Longrightarrow> (\<And>s. P' s \<Longrightarrow> P s) \<Longrightarrow> (\<And>a s. Q a s \<Longrightarrow> Q' a s) \<Longrightarrow> (\<And>s. E s \<Longrightarrow> E' s) \<Longrightarrow>
   holds P' m Q' E'"
  by (rule holdsI, rule ends_weaken, erule holdsD, simp_all)

lemma holds_bindF:
  assumes m: "holds P m Q E" and f: "\<And>a. holds (Q a) (f a) R E"
  shows "holds P (bindF m f) R E"
proof (rule holdsI)
  fix s assume "P s"
  from holdsD [OF m this] show "ends R E (bindF m f s)"
    by (cases rule: ends_cases) (simp_all add: bindF_def holdsD [OF f])
qed

lemma holds_seqF: "holds P m (\<lambda>_. Q) E \<Longrightarrow> holds Q n R E \<Longrightarrow> holds P (seqF m n) R E"
  unfolding seqF_def by (rule holds_bindF)

lemma holds_keeps:
  assumes m: "preserves P m" and "\<And>s. P s \<Longrightarrow> E s"
  shows "holds P (liftF m) (\<lambda>_. P) E"
proof (rule holdsI)
  fix s assume "P s"
  obtain r t where run: "m s = (r, t)" by fastforce
  with preservesD [OF m \<open>P s\<close>] assms(2) show "ends (\<lambda>_. P) E (liftF m s)"
    by (cases r) (simp_all add: liftF_def)
qed

lemma holds_retS: "(\<And>s. P s \<Longrightarrow> Q a s) \<Longrightarrow> holds P (liftF (retS a)) Q E"
  by (simp add: holds_def liftF_def)

lemma holds_raiseS: "(\<And>s. P s \<Longrightarrow> E s) \<Longrightarrow> holds P (liftF (raiseS k msg)) Q E"
  by (simp add: holds_def liftF_def)

lemma holds_modifyS: "(\<And>s. P s \<Longrightarrow> Q () (f s)) \<Longrightarrow> holds P (liftF (modifyS f)) Q E"
  by (simp add: holds_def liftF_def)

lemma holds_if: "(c \<Longrightarrow> holds P m Q E) \<Longrightarrow> (\<not> c \<Longrightarrow> holds P n Q E) \<Longrightarrow> holds P (if c then m else n) Q E"
  by simp

lemma liftF_bindS: "liftF (bindS m f) = bindF (liftF m) (\<lambda>a. liftF (f a))"
  by (rule ext) (simp add: liftF_def bindF_def bindS_def split: prod.splits sum.splits)

lemma liftF_seqS: "liftF (seqS m n) = seqF (liftF m) (liftF n)"
  by (simp add: seqS_def seqF_def liftF_bindS)

lemma liftF_if: "liftF (if c then m else n) = (if c then liftF m else liftF n)"
  by simp

lemma holds_if_liftF:
  "(c \<Longrightarrow> holds P (liftF m) Q E) \<Longrightarrow> (\<not> c \<Longrightarrow> holds P (liftF n) Q E) \<Longrightarrow>
   holds P (liftF (if c then m else n)) Q E"
  by simp

text \<open>The parts of a computation that keep an assertion, and those that move it on.\<close>

lemma holds_bind_keeps:
  "preserves P m \<Longrightarrow> (\<And>s. P s \<Longrightarrow> E s) \<Longrightarrow> (\<And>a. holds P (f a) R E) \<Longrightarrow> holds P (bindF (liftF m) f) R E"
  by (rule holds_bindF [OF holds_keeps])

lemma holds_seq_keeps:
  "preserves P m \<Longrightarrow> (\<And>s. P s \<Longrightarrow> E s) \<Longrightarrow> holds P n R E \<Longrightarrow> holds P (seqF (liftF m) n) R E"
  by (rule holds_seqF [OF holds_keeps])

lemma holds_catchF:
  assumes m: "holds P m Q E" and h: "\<And>e. holds E (h e) Q F" and "\<And>s. E s \<Longrightarrow> F s"
  shows "holds P (catchF m h) Q F"
proof (rule holdsI)
  fix s assume "P s"
  from holdsD [OF m this] show "ends Q F (catchF m h s)"
    by (cases rule: ends_cases) (simp_all add: catchF_def holdsD [OF h] assms(3))
qed

lemma holds_finallyS:
  assumes m: "holds P (liftF m) Q E" and f: "\<And>a. holds (Q a) (liftF f) (\<lambda>_. Q' a) F"
    and g: "holds E (liftF f) (\<lambda>_. F) F"
  shows "holds P (liftF (finallyS m f)) Q' F"
proof (rule holdsI)
  fix s assume "P s"
  obtain r t where run: "m s = (r, t)" by fastforce
  obtain r' u where final: "f t = (r', u)" by fastforce
  from holdsD [OF m \<open>P s\<close>] run have "case r of Inl e \<Rightarrow> E t | Inr a \<Rightarrow> Q a t"
    by (cases r) (simp_all add: liftF_def)
  then show "ends Q' F (liftF (finallyS m f) s)"
    using holdsD [OF f] holdsD [OF g] run final
    by (cases r; cases r') (fastforce simp: liftF_def finallyS_def)+
qed

lemma holds_poll:
  assumes body: "\<And>l. holds (I l) (liftF (body l)) (\<lambda>x. case x of Inl a \<Rightarrow> Q a | Inr l' \<Rightarrow> I l') E"
  shows "holds (I l) (\<lambda>s. repeat_until fuel (pass_of body) (l, s)) Q E"
proof (rule holdsI)
  fix s assume "I l s"
  then show "ends Q E (repeat_until fuel (pass_of body) (l, s))"
  proof (induction fuel arbitrary: l s)
    case (Suc n)
    from holdsD [OF body Suc.prems] show ?case
      by (cases rule: ends_cases)
         (auto simp: liftF_def pass_of_run intro: Suc.IH split: sum.splits)
  qed simp
qed

end
