(* ===== verification/Py_Text.thy ===== *)
theory Py_Text
  imports Prelude
begin

text \<open>
  The string operations of Python's standard library that the sources use, on UTF-8 bytes:
  character classes of the regular expressions, prefixes and suffixes, \<open>str.split\<close>,
  \<open>str.strip\<close>, \<open>str.replace\<close>, decimal printing and parsing, and strict UTF-8 decoding.
  The lemmas are the round trips and confinement facts that the components build on.
\<close>

type_synonym bytes = string

section \<open>Character classes\<close>

definition in_range :: "char \<Rightarrow> char \<Rightarrow> char \<Rightarrow> bool" where
  "in_range lo hi c = (lo \<le> c \<and> c \<le> hi)"

definition is_digit :: "char \<Rightarrow> bool" where
  "is_digit c = in_range (CHR ''0'') (CHR ''9'') c"

definition is_lower :: "char \<Rightarrow> bool" where
  "is_lower c = in_range (CHR ''a'') (CHR ''z'') c"

definition is_upper :: "char \<Rightarrow> bool" where
  "is_upper c = in_range (CHR ''A'') (CHR ''Z'') c"

definition is_alnum :: "char \<Rightarrow> bool" where
  "is_alnum c = (is_digit c \<or> is_lower c \<or> is_upper c)"

text \<open>The class \<open>[0-9a-f]\<close> of the digest checks.\<close>

definition is_hex :: "char \<Rightarrow> bool" where
  "is_hex c = (is_digit c \<or> in_range (CHR ''a'') (CHR ''f'') c)"

text \<open>The class \<open>\s\<close> and the default argument of \<open>str.strip\<close>, in ASCII.\<close>

definition is_space :: "char \<Rightarrow> bool" where
  "is_space c = (let n = of_char c :: nat in n = 32 \<or> (9 \<le> n \<and> n \<le> 13) \<or> (28 \<le> n \<and> n \<le> 31))"

definition is_control :: "char \<Rightarrow> bool" where
  "is_control c = ((of_char c :: nat) < 32)"

definition digit_val :: "char \<Rightarrow> nat" where
  "digit_val c = of_char c - 48"

definition hex_val :: "char \<Rightarrow> nat option" where
  "hex_val c =
     (if is_digit c then Some (of_char c - 48)
      else if in_range (CHR ''a'') (CHR ''f'') c then Some (of_char c - 87)
      else if in_range (CHR ''A'') (CHR ''F'') c then Some (of_char c - 55)
      else None)"

text \<open>\<open>str.lower\<close> on the ASCII letters.\<close>

definition lower_char :: "char \<Rightarrow> char" where
  "lower_char c = (if is_upper c then char_of ((of_char c :: nat) + 32) else c)"

definition lower :: "string \<Rightarrow> string" where
  "lower = map lower_char"

section \<open>Prefixes, suffixes, substrings\<close>

definition starts_with :: "'a list \<Rightarrow> 'a list \<Rightarrow> bool" where
  "starts_with p s = (take (length p) s = p)"

definition ends_with :: "'a list \<Rightarrow> 'a list \<Rightarrow> bool" where
  "ends_with p s = starts_with (rev p) (rev s)"

fun contains :: "'a list \<Rightarrow> 'a list \<Rightarrow> bool" where
  "contains p [] = (p = [])"
| "contains p (x # xs) = (starts_with p (x # xs) \<or> contains p xs)"

definition remove_prefix :: "string \<Rightarrow> string \<Rightarrow> string" where
  "remove_prefix p s = (if starts_with p s then drop (length p) s else s)"

definition remove_suffix :: "string \<Rightarrow> string \<Rightarrow> string" where
  "remove_suffix p s = (if ends_with p s then take (length s - length p) s else s)"

lemma starts_with_append [simp]: "starts_with p (p @ s)"
  by (simp add: starts_with_def)

lemma starts_with_iff: "starts_with p s \<longleftrightarrow> (\<exists>t. s = p @ t)"
  by (metis append_eq_conv_conj append_take_drop_id starts_with_def)

lemma ends_with_iff: "ends_with p s \<longleftrightarrow> (\<exists>t. s = t @ p)"
  unfolding ends_with_def starts_with_iff
  by (metis rev_append rev_rev_ident)

lemma contains_iff: "contains p s \<longleftrightarrow> (\<exists>u v. s = u @ p @ v)"
proof (induction s)
  case Nil
  then show ?case by auto
next
  case (Cons x xs)
  have "contains p (x # xs) \<longleftrightarrow> (\<exists>v. x # xs = p @ v) \<or> (\<exists>u v. xs = u @ p @ v)"
    by (simp add: Cons.IH starts_with_iff)
  also have "\<dots> \<longleftrightarrow> (\<exists>u v. x # xs = u @ p @ v)"
  proof
    assume "\<exists>u v. x # xs = u @ p @ v"
    then obtain u v where "x # xs = u @ p @ v" by blast
    then show "(\<exists>v. x # xs = p @ v) \<or> (\<exists>u v. xs = u @ p @ v)"
      by (cases u) auto
  qed (metis append_Cons append_Nil)
  finally show ?case .
qed

lemma remove_prefix_append [simp]: "remove_prefix p (p @ s) = s"
  by (simp add: remove_prefix_def)

section \<open>Splitting and joining\<close>

text \<open>\<open>s.split(c)\<close> for a one-character separator: always at least one field.\<close>

fun split_on :: "'a \<Rightarrow> 'a list \<Rightarrow> 'a list list" where
  "split_on c [] = [[]]"
| "split_on c (x # xs) =
     (if x = c then [] # split_on c xs
      else (case split_on c xs of [] \<Rightarrow> [[x]] | f # fs \<Rightarrow> (x # f) # fs))"

fun join_with :: "'a list \<Rightarrow> 'a list list \<Rightarrow> 'a list" where
  "join_with c [] = []"
| "join_with c [f] = f"
| "join_with c (f # g # fs) = f @ c @ join_with c (g # fs)"

lemma split_on_not_Nil [simp]: "split_on c xs \<noteq> []"
  by (cases xs) (auto split: list.splits)

lemma join_split: "join_with [c] (split_on c xs) = xs"
proof (induction xs)
  case (Cons x xs)
  then show ?case
    by (cases "split_on c xs"; cases "tl (split_on c xs)") (auto split: list.splits)
qed simp

lemma split_on_fields: "f \<in> set (split_on c xs) \<Longrightarrow> c \<notin> set f"
  by (induction xs arbitrary: f) (auto split: if_splits list.splits)

lemma split_on_no_sep: "c \<notin> set f \<Longrightarrow> split_on c f = [f]"
  by (induction f) auto

lemma split_on_append: "c \<notin> set f \<Longrightarrow> split_on c (f @ c # xs) = f # split_on c xs"
  by (induction f) auto

lemma split_join:
  "fs \<noteq> [] \<Longrightarrow> (\<And>f. f \<in> set fs \<Longrightarrow> c \<notin> set f) \<Longrightarrow> split_on c (join_with [c] fs) = fs"
  by (induction "[c]" fs rule: join_with.induct)
     (simp_all add: split_on_no_sep split_on_append)

lemma split_on_set: "x \<in> set xs \<Longrightarrow> x \<noteq> c \<Longrightarrow> \<exists>f \<in> set (split_on c xs). x \<in> set f"
  by (induction xs) (auto split: list.splits)

lemma split_on_sub: "f \<in> set (split_on c xs) \<Longrightarrow> set f \<subseteq> set xs"
  by (induction xs arbitrary: f) (force split: if_splits list.splits)+

text \<open>\<open>s.partition(sep)\<close> for a one-character separator.\<close>

definition partition_at :: "char \<Rightarrow> string \<Rightarrow> string \<times> string \<times> string" where
  "partition_at c s =
     (let h = takeWhile (\<lambda>x. x \<noteq> c) s; t = dropWhile (\<lambda>x. x \<noteq> c) s
      in case t of [] \<Rightarrow> (s, [], []) | _ # r \<Rightarrow> (h, [c], r))"

definition strip :: "(char \<Rightarrow> bool) \<Rightarrow> string \<Rightarrow> string" where
  "strip p s = rev (dropWhile p (rev (dropWhile p s)))"

fun splitlines :: "string \<Rightarrow> string list" where
  "splitlines s = (let ls = split_on (char_of (10::nat)) s in if last ls = [] then butlast ls else ls)"

text \<open>\<open>s.replace(CRLF, LF)\<close>.\<close>

fun crlf_to_lf :: "string \<Rightarrow> string" where
  "crlf_to_lf (a # b # s) =
     (if a = char_of (13::nat) \<and> b = char_of (10::nat) then b # crlf_to_lf s else a # crlf_to_lf (b # s))"
| "crlf_to_lf s = s"

lemma first_sep_unique:
  "c \<notin> set a \<Longrightarrow> c \<notin> set b \<Longrightarrow> a @ c # s = b @ c # t \<longleftrightarrow> a = b \<and> s = t"
proof (induction a arbitrary: b)
  case Nil
  then show ?case by (cases b) auto
next
  case (Cons x a)
  then show ?case by (cases b) auto
qed

section \<open>Decimal numbers\<close>

fun nat_str :: "nat \<Rightarrow> string" where
  "nat_str n = (if n < 10 then [char_of (48 + n)] else nat_str (n div 10) @ [char_of (48 + n mod 10)])"

declare nat_str.simps [simp del]

definition int_str :: "int \<Rightarrow> string" where
  "int_str i = (if i < 0 then CHR ''-'' # nat_str (nat (- i)) else nat_str (nat i))"

fun dec_val :: "nat \<Rightarrow> string \<Rightarrow> nat" where
  "dec_val acc [] = acc"
| "dec_val acc (c # cs) = dec_val (10 * acc + digit_val c) cs"

text \<open>
  \<open>int(text)\<close>: surrounding white space, an optional sign, digits with single underscores
  between them.
\<close>

fun digits_ok :: "string \<Rightarrow> bool" where
  "digits_ok [] = False"
| "digits_ok [c] = is_digit c"
| "digits_ok (c # d # cs) =
     (is_digit c \<and> (if d = CHR ''_'' then digits_ok cs else digits_ok (d # cs)))"

definition parse_int :: "string \<Rightarrow> int res" where
  "parse_int s =
     (let t = strip is_space s;
          neg = (case t of c # _ \<Rightarrow> c = CHR ''-'' | [] \<Rightarrow> False);
          body = (case t of c # r \<Rightarrow> if c = CHR ''-'' \<or> c = CHR ''+'' then r else t | [] \<Rightarrow> []);
          v = int (dec_val 0 (filter (\<lambda>c. c \<noteq> CHR ''_'') body))
      in if digits_ok body then Inr (if neg then - v else v)
         else raise ValueError ''invalid literal for int() with base 10'')"

lemma of_char_digit: "n < 10 \<Longrightarrow> (of_char (char_of (48 + n :: nat) :: char) :: nat) = 48 + n"
  by (simp add: of_char_of)

lemma nat_str_not_Nil [simp]: "nat_str n \<noteq> []"
  by (subst nat_str.simps) simp

lemma nat_str_digits: "c \<in> set (nat_str n) \<Longrightarrow> is_digit c"
proof (induction n rule: nat_str.induct)
  case (1 n)
  have digit: "is_digit (char_of (48 + k))" if "k < 10" for k :: nat
    using that by (simp add: is_digit_def in_range_def less_eq_char_def of_char_digit)
  from 1 show ?case
    by (subst (asm) nat_str.simps) (auto simp: digit split: if_splits)
qed

lemma dec_val_append: "dec_val a (xs @ ys) = dec_val (dec_val a xs) ys"
  by (induction xs arbitrary: a) simp_all

lemma dec_val_nat_str: "dec_val 0 (nat_str n) = n"
proof (induction n rule: nat_str.induct)
  case (1 n)
  show ?case
  proof (cases "n < 10")
    case True
    then show ?thesis
      by (subst nat_str.simps) (simp add: digit_val_def of_char_digit)
  next
    case False
    with 1 show ?thesis
      by (subst nat_str.simps)
         (simp add: digit_val_def dec_val_append of_char_digit)
  qed
qed

lemma nat_str_inject [simp]: "nat_str m = nat_str n \<longleftrightarrow> m = n"
  by (metis dec_val_nat_str)

lemma int_str_inject [simp]: "int_str i = int_str j \<longleftrightarrow> i = j"
proof -
  have minus: "nat_str n \<noteq> CHR ''-'' # s" for n s
    using nat_str_digits [of "CHR ''-''" n] by (auto simp: is_digit_def in_range_def less_eq_char_def)
  then show ?thesis
    by (auto simp: int_str_def minus minus [symmetric])
qed

section \<open>UTF-8\<close>

text \<open>
  \<open>bytes.decode("utf-8")\<close> succeeds exactly on the well-formed sequences: continuation bytes
  80..BF, no overlong form, no surrogate, nothing above U+10FFFF.
\<close>

definition cont :: "char \<Rightarrow> bool" where
  "cont c = (let n = of_char c :: nat in 128 \<le> n \<and> n < 192)"

fun utf8_valid :: "bytes \<Rightarrow> bool" where
  "utf8_valid [] = True"
| "utf8_valid (a # s) =
     (let n = of_char a :: nat in
      if n < 128 then utf8_valid s
      else if 194 \<le> n \<and> n < 224 then
        (case s of b # s' \<Rightarrow> cont b \<and> utf8_valid s' | _ \<Rightarrow> False)
      else if 224 \<le> n \<and> n < 240 then
        (case s of b # c # s' \<Rightarrow>
           cont b \<and> cont c \<and> (n = 224 \<longrightarrow> 160 \<le> (of_char b :: nat)) \<and>
           (n = 237 \<longrightarrow> (of_char b :: nat) < 160) \<and> utf8_valid s'
         | _ \<Rightarrow> False)
      else if 240 \<le> n \<and> n < 245 then
        (case s of b # c # d # s' \<Rightarrow>
           cont b \<and> cont c \<and> cont d \<and> (n = 240 \<longrightarrow> 144 \<le> (of_char b :: nat)) \<and>
           (n = 244 \<longrightarrow> (of_char b :: nat) < 144) \<and> utf8_valid s'
         | _ \<Rightarrow> False)
      else False)"

definition decode_utf8 :: "bytes \<Rightarrow> string res" where
  "decode_utf8 b = (if utf8_valid b then Inr b else raise UnicodeDecodeError ''invalid utf-8'')"

definition is_ascii :: "char \<Rightarrow> bool" where
  "is_ascii c = ((of_char c :: nat) < 128)"

lemma utf8_valid_ascii: "list_all is_ascii s \<Longrightarrow> utf8_valid s"
  by (induction s) (simp_all add: is_ascii_def)

end
