(* ===== verification/Py_Float.thy ===== *)
theory Py_Float
  imports Py_Text "HOL-Library.Log_Nat"
begin

text \<open>
  Python's \<open>float\<close>: an IEEE 754 binary64 value, as the rational it stands for, an infinity or
  NaN (the two zeros are one value here: no code modelled tells them apart). The operations
  round to nearest, ties to even, with gradual underflow, as the hardware does; the exact
  result of an operation on rationals is computed first and rounded by \<open>rnd64\<close>.
\<close>

datatype pyfloat = Fin rat | PInf | NInf | NaN

section \<open>Rounding\<close>

text \<open>The exponent of the binade of a positive rational: \<open>2 ^ e \<le> q < 2 ^ (e + 1)\<close>.\<close>

definition binade :: "rat \<Rightarrow> int" where
  "binade q = (case quotient_of q of (n, d) \<Rightarrow>
     let b = int (floorlog 2 (nat n)) - int (floorlog 2 (nat d))
     in if (2::rat) powi b \<le> q then b else b - 1)"

definition round_even :: "rat \<Rightarrow> int" where
  "round_even r = (let f = \<lfloor>r\<rfloor>; d = r - of_int f
     in if d < 1 / 2 then f else if 1 / 2 < d then f + 1 else if even f then f else f + 1)"

definition rnd64 :: "rat \<Rightarrow> rat" where
  "rnd64 q = (if q = 0 then 0
     else let u = 2 powi (max (binade \<bar>q\<bar>) (-1022) - 52)
          in (if q < 0 then -1 else 1) * of_int (round_even (\<bar>q\<bar> / u)) * u)"

definition float_bound :: rat where
  "float_bound = 2 ^ 1024"

text \<open>The result of a float operation whose exact value is \<open>q\<close>.\<close>

definition to_float :: "rat \<Rightarrow> pyfloat" where
  "to_float q = (let r = rnd64 q in if float_bound \<le> r then PInf else if r \<le> - float_bound then NInf else Fin r)"

lemma round_even_nonneg: "0 \<le> r \<Longrightarrow> 0 \<le> round_even r"
  by (auto simp: round_even_def Let_def)

lemma round_even_of_int [simp]: "round_even (of_int i) = i"
  by (simp add: round_even_def)

lemma round_even_mono: "r \<le> s \<Longrightarrow> round_even r \<le> round_even s"
proof -
  assume le: "r \<le> s"
  then have fl: "\<lfloor>r\<rfloor> \<le> \<lfloor>s\<rfloor>" by (rule floor_mono)
  show ?thesis
  proof (cases "\<lfloor>r\<rfloor> = \<lfloor>s\<rfloor>")
    case True
    with le show ?thesis by (auto simp: round_even_def Let_def)
  next
    case False
    with fl have "\<lfloor>r\<rfloor> + 1 \<le> \<lfloor>s\<rfloor>" by simp
    moreover have "round_even r \<le> \<lfloor>r\<rfloor> + 1" "\<lfloor>s\<rfloor> \<le> round_even s"
      by (simp_all add: round_even_def Let_def)
    ultimately show ?thesis by linarith
  qed
qed

lemma round_even_upper: "of_int (round_even r) \<le> r + 1"
proof -
  have "round_even r \<le> \<lfloor>r\<rfloor> + 1" by (simp add: round_even_def Let_def)
  then have "(of_int (round_even r) :: rat) \<le> of_int (\<lfloor>r\<rfloor> + 1)" by (simp only: of_int_le_iff)
  also have "\<dots> \<le> r + 1" by simp
  finally show ?thesis .
qed

lemma rnd64_0 [simp]: "rnd64 0 = 0"
  by (simp add: rnd64_def)

lemma rnd64_nonneg: "0 \<le> q \<Longrightarrow> 0 \<le> rnd64 q"
proof -
  assume "0 \<le> q"
  have "0 \<le> (of_int (round_even (q / u)) * u :: rat)" if "0 < u" for u
    using that \<open>0 \<le> q\<close> round_even_nonneg [of "q / u"] by simp
  with \<open>0 \<le> q\<close> show ?thesis
    by (simp add: rnd64_def Let_def)
qed

lemma to_float_nonneg: "0 \<le> q \<Longrightarrow> (\<exists>r. 0 \<le> r \<and> to_float q = Fin r) \<or> to_float q = PInf"
  using rnd64_nonneg [of q] by (auto simp: to_float_def Let_def float_bound_def)

text \<open>Small integers are exact.\<close>

lemma of_nat_power_two:
  "2 ^ k \<le> n \<Longrightarrow> (2::rat) ^ k \<le> of_nat n" "n < 2 ^ k \<Longrightarrow> of_nat n < (2::rat) ^ k"
proof -
  assume "2 ^ k \<le> n"
  then have "(of_nat (2 ^ k) :: rat) \<le> of_nat n" by (rule of_nat_mono)
  then show "(2::rat) ^ k \<le> of_nat n" by simp
next
  assume "n < 2 ^ k"
  then have "(of_nat n :: rat) < of_nat (2 ^ k)" by (rule of_nat_less_iff [THEN iffD2])
  then show "of_nat n < (2::rat) ^ k" by simp
qed

lemma floorlog_powi:
  assumes "0 < n"
  shows "(2::rat) powi (int (floorlog 2 n) - 1) \<le> of_nat n" "of_nat n < (2::rat) powi int (floorlog 2 n)"
proof -
  from assms have bounds: "2 ^ (floorlog 2 n - 1) \<le> n" "n < 2 ^ floorlog 2 n"
    using floorlog_bounds [of n 2] by auto
  have "0 < floorlog 2 n" using assms by (simp add: floorlog_def)
  then have "int (floorlog 2 n) - 1 = int (floorlog 2 n - 1)" by simp
  then show "(2::rat) powi (int (floorlog 2 n) - 1) \<le> of_nat n" "of_nat n < (2::rat) powi int (floorlog 2 n)"
    using of_nat_power_two(1) [OF bounds(1)] of_nat_power_two(2) [OF bounds(2)] by (simp_all only: power_int_of_nat)
qed

lemma binade_bounds:
  assumes "0 < q"
  shows "(2::rat) powi binade q \<le> q \<and> q < 2 powi (binade q + 1)"
proof -
  obtain n d where nd: "quotient_of q = (n, d)" by fastforce
  then have d: "0 < d" by (rule quotient_of_denom_pos)
  from nd have q: "q = of_int n / of_int d" by (rule quotient_of_div)
  with assms d have n: "0 < n" by (simp add: zero_less_divide_iff)
  define b where "b = int (floorlog 2 (nat n)) - int (floorlog 2 (nat d))"
  let ?fn = "int (floorlog 2 (nat n))" and ?fd = "int (floorlog 2 (nat d))"
  have nb: "(2::rat) powi (?fn - 1) \<le> of_int n" "of_int n < (2::rat) powi ?fn"
    and db: "(2::rat) powi (?fd - 1) \<le> of_int d" "of_int d < (2::rat) powi ?fd"
    using floorlog_powi [of "nat n"] floorlog_powi [of "nat d"] n d by simp_all
  have "q < 2 powi ?fn / 2 powi (?fd - 1)"
    unfolding q using nb db d n by (intro frac_less) (simp_all add: power_int_minus)
  also have "\<dots> = 2 powi (b + 1)"
    by (simp add: b_def power_int_diff power_int_add field_simps)
  finally have upper: "q < 2 powi (b + 1)" .
  have "2 powi (?fn - 1) / 2 powi ?fd \<le> q"
    unfolding q using nb db d n by (intro frac_le) simp_all
  then have lower: "2 powi (b - 1) \<le> q"
    by (simp add: b_def power_int_diff power_int_add field_simps)
  show ?thesis
    using upper lower by (auto simp: binade_def nd b_def [symmetric] Let_def)
qed

lemma rnd64_of_int:
  assumes "\<bar>i\<bar> < 2 ^ 53"
  shows "rnd64 (of_int i) = of_int i"
proof (cases "i = 0")
  case False
  define e where "e = max (binade \<bar>of_int i\<bar>) (-1022) - 52"
  have "(2::rat) powi binade \<bar>of_int i\<bar> \<le> of_int \<bar>i\<bar>"
    using binade_bounds [of "\<bar>of_int i\<bar>"] False by simp
  also have "\<dots> < of_int (2 ^ 53)"
    using assms by (simp only: of_int_less_iff)
  also have "of_int (2 ^ 53) = (2::rat) powi 53"
    by (simp add: power_int_def)
  finally have "binade \<bar>of_int i\<bar> < 53"
    using power_int_increasing [of 53 "binade \<bar>of_int i\<bar>" "2::rat"] by (auto simp: not_less [symmetric])
  then have e: "e \<le> 0" by (simp add: e_def)
  have "(2::rat) powi - e = of_int (2 ^ nat (- e))"
    using e by (simp add: power_int_def)
  then have scaled: "\<bar>of_int i\<bar> / (2::rat) powi e = of_int (\<bar>i\<bar> * 2 ^ nat (- e))"
    by (simp add: power_int_minus field_simps)
  have "rnd64 (of_int i) = (if i < 0 then -1 else 1) * of_int (round_even (\<bar>of_int i\<bar> / 2 powi e)) * 2 powi e"
    using False by (simp add: rnd64_def e_def Let_def)
  also have "\<dots> = (if i < 0 then -1 else 1) * (\<bar>of_int i\<bar> / 2 powi e) * 2 powi e"
    by (simp only: scaled round_even_of_int)
  also have "\<dots> = of_int i" by simp
  finally show ?thesis .
qed simp

lemma to_float_of_int:
  assumes "\<bar>i\<bar> < 2 ^ 53"
  shows "to_float (of_int i) = Fin (of_int i)"
proof -
  have "(2::int) ^ 53 \<le> 2 ^ 1024" by (intro power_increasing) auto
  with assms have "i < 2 ^ 1024" "- (2 ^ 1024) < i" by linarith+
  then have "(of_int i :: rat) < of_int (2 ^ 1024)" "of_int (- (2 ^ 1024)) < (of_int i :: rat)"
    by (simp_all only: of_int_less_iff)
  then have "of_int i < float_bound" "- float_bound < of_int i"
    by (simp_all only: float_bound_def of_int_minus of_int_power of_int_numeral)
  with rnd64_of_int [OF assms] show ?thesis
    by (simp add: to_float_def Let_def)
qed

text \<open>A quotient that is a small integer is exact.\<close>

lemma to_float_quotient:
  "b \<noteq> 0 \<Longrightarrow> a = c * b \<Longrightarrow> \<bar>c\<bar> < 2 ^ 53 \<Longrightarrow> to_float (of_int a / of_int b) = Fin (of_int c)"
  using to_float_of_int [of c] by simp

text \<open>Rounding at most doubles a value, so a moderate value never overflows.\<close>

lemma rnd64_minus: "rnd64 (- q) = - rnd64 q"
  by (auto simp: rnd64_def Let_def)

lemma rnd64_upper:
  assumes "0 \<le> q"
  shows "rnd64 q \<le> 2 * q + 1"
proof (cases "q = 0")
  case False
  define u where "u = (2::rat) powi (max (binade q) (-1022) - 52)"
  have u: "0 < u" by (simp add: u_def)
  have "u \<le> q + 1"
  proof (cases "-1022 \<le> binade q")
    case True
    then have "u \<le> 2 powi binade q" unfolding u_def by (intro power_int_increasing) auto
    also have "\<dots> \<le> q" using binade_bounds [of q] assms False by simp
    finally show ?thesis by simp
  next
    case False
    then have "u \<le> 2 powi 0" unfolding u_def by (intro power_int_increasing) auto
    with assms show ?thesis by simp
  qed
  moreover have "of_int (round_even (q / u)) \<le> q / u + 1"
    by (rule round_even_upper)
  then have "of_int (round_even (q / u)) * u \<le> (q / u + 1) * u"
    using u by (intro mult_right_mono) auto
  moreover have "(q / u + 1) * u = q + u" using u by (simp add: field_simps)
  ultimately have "of_int (round_even (q / u)) * u \<le> 2 * q + 1" by linarith
  moreover have "rnd64 q = of_int (round_even (q / u)) * u"
    using assms False by (simp add: rnd64_def u_def Let_def)
  ultimately show ?thesis by simp
qed simp

lemma to_float_moderate:
  assumes "\<bar>q\<bar> \<le> 2 ^ 1000"
  shows "\<exists>r. to_float q = Fin r"
proof -
  have bound: "rnd64 \<bar>q\<bar> < float_bound"
  proof -
    have "rnd64 \<bar>q\<bar> \<le> 2 * 2 ^ 1000 + 1" using rnd64_upper [of "\<bar>q\<bar>"] assms by simp
    also have "\<dots> < float_bound" by (simp add: float_bound_def)
    finally show ?thesis .
  qed
  moreover have "0 \<le> rnd64 \<bar>q\<bar>" by (simp add: rnd64_nonneg)
  ultimately show ?thesis
    using rnd64_minus [of q] by (cases "0 \<le> q") (auto simp: to_float_def Let_def)
qed

section \<open>Operations\<close>

text \<open>\<open>float(i)\<close> and true division of two \<open>int\<close>s raise when the result is out of range.\<close>

definition checked_float :: "string \<Rightarrow> rat \<Rightarrow> pyfloat res" where
  "checked_float msg q = (case to_float q of Fin r \<Rightarrow> Inr (Fin r) | _ \<Rightarrow> raise OverflowError msg)"

definition float_of_int :: "int \<Rightarrow> pyfloat res" where
  "float_of_int i = checked_float ''int too large to convert to float'' (of_int i)"

definition int_truediv :: "int \<Rightarrow> int \<Rightarrow> pyfloat res" where
  "int_truediv a b = (if b = 0 then raise ZeroDivisionError ''division by zero''
     else checked_float ''integer division result too large for a float'' (of_int a / of_int b))"

fun fadd :: "pyfloat \<Rightarrow> pyfloat \<Rightarrow> pyfloat" where
  "fadd (Fin a) (Fin b) = to_float (a + b)"
| "fadd NaN _ = NaN"
| "fadd _ NaN = NaN"
| "fadd PInf NInf = NaN"
| "fadd NInf PInf = NaN"
| "fadd PInf _ = PInf"
| "fadd _ PInf = PInf"
| "fadd NInf _ = NInf"
| "fadd _ NInf = NInf"

fun fneg :: "pyfloat \<Rightarrow> pyfloat" where
  "fneg (Fin a) = Fin (- a)"
| "fneg PInf = NInf"
| "fneg NInf = PInf"
| "fneg NaN = NaN"

definition fsub :: "pyfloat \<Rightarrow> pyfloat \<Rightarrow> pyfloat" where
  "fsub a b = fadd a (fneg b)"

text \<open>Products and quotients; \<open>0 * inf\<close> and \<open>inf / inf\<close> are not a number, a zero
  divisor raises.\<close>

definition signed_inf :: "bool \<Rightarrow> pyfloat" where
  "signed_inf negative = (if negative then NInf else PInf)"

fun fmul :: "pyfloat \<Rightarrow> pyfloat \<Rightarrow> pyfloat" where
  "fmul (Fin a) (Fin b) = to_float (a * b)"
| "fmul NaN _ = NaN"
| "fmul _ NaN = NaN"
| "fmul (Fin a) b = (if a = 0 then NaN else signed_inf ((a < 0) \<noteq> (b = NInf)))"
| "fmul a (Fin b) = (if b = 0 then NaN else signed_inf ((b < 0) \<noteq> (a = NInf)))"
| "fmul a b = signed_inf (a \<noteq> b)"

fun fdiv :: "pyfloat \<Rightarrow> pyfloat \<Rightarrow> pyfloat res" where
  "fdiv a (Fin b) = (if b = 0 then raise ZeroDivisionError ''float division by zero''
     else Inr (case a of Fin c \<Rightarrow> to_float (c / b) | NaN \<Rightarrow> NaN | _ \<Rightarrow> signed_inf ((b < 0) \<noteq> (a = NInf))))"
| "fdiv _ NaN = Inr NaN"
| "fdiv (Fin a) _ = Inr (Fin 0)"
| "fdiv _ _ = Inr NaN"

fun flt :: "pyfloat \<Rightarrow> pyfloat \<Rightarrow> bool" where
  "flt (Fin a) (Fin b) = (a < b)"
| "flt NInf b = (b \<noteq> NInf \<and> b \<noteq> NaN)"
| "flt a PInf = (a \<noteq> PInf \<and> a \<noteq> NaN)"
| "flt _ _ = False"

lemma flt_asym: "flt a b \<Longrightarrow> \<not> flt b a"
  by (cases a; cases b) auto

definition feq :: "pyfloat \<Rightarrow> pyfloat \<Rightarrow> bool" where
  "feq a b = (a = b \<and> a \<noteq> NaN)"

definition fle :: "pyfloat \<Rightarrow> pyfloat \<Rightarrow> bool" where
  "fle a b = (flt a b \<or> feq a b)"

fun isfinite :: "pyfloat \<Rightarrow> bool" where
  "isfinite (Fin _) = True"
| "isfinite _ = False"

text \<open>\<open>math.isclose(a, b, abs_tol=t)\<close> with the default relative tolerance \<open>1e-09\<close>.\<close>

fun isclose :: "rat \<Rightarrow> pyfloat \<Rightarrow> pyfloat \<Rightarrow> bool" where
  "isclose t (Fin a) (Fin b) =
     (a = b \<or> (let d = rnd64 \<bar>b - a\<bar>; rel = rnd64 (1 / 10 ^ 9)
              in d \<le> rnd64 \<bar>rel * b\<bar> \<or> d \<le> rnd64 \<bar>rel * a\<bar> \<or> d \<le> rnd64 t))"
| "isclose t a b = feq a b"

lemma int_truediv_nonneg:
  "int_truediv a b = Inr f \<Longrightarrow> 0 \<le> a \<Longrightarrow> 0 < b \<Longrightarrow> \<exists>r. 0 \<le> r \<and> f = Fin r"
  using to_float_nonneg [of "of_int a / of_int b"]
  by (auto simp: int_truediv_def checked_float_def split: pyfloat.splits)

lemma int_truediv_moderate:
  assumes "\<bar>a\<bar> < 2 ^ 100" and "0 < b"
  shows "\<exists>r. int_truediv a b = Inr (Fin r)"
proof -
  have "\<bar>of_int a / of_int b :: rat\<bar> \<le> of_int \<bar>a\<bar>"
    using assms(2) by (simp add: abs_divide divide_le_eq) (metis abs_ge_zero less_numeral_extra(1) mult_left_mono mult.right_neutral of_int_0_le_iff of_int_abs of_int_1_le_iff int_one_le_iff_zero_less)
  also have "(of_int \<bar>a\<bar> :: rat) \<le> of_int (2 ^ 1000)"
  proof -
    have "(2::int) ^ 100 \<le> 2 ^ 1000" by (intro power_increasing) auto
    with assms(1) show ?thesis by (simp only: of_int_le_iff)
  qed
  also have "(of_int (2 ^ 1000) :: rat) = 2 ^ 1000" by simp
  finally show ?thesis
    using to_float_moderate [of "of_int a / of_int b"] assms(2)
    by (auto simp: int_truediv_def checked_float_def)
qed

lemma int_truediv_exact:
  "b \<noteq> 0 \<Longrightarrow> a = c * b \<Longrightarrow> \<bar>c\<bar> < 2 ^ 53 \<Longrightarrow> int_truediv a b = Inr (Fin (of_int c))"
  by (simp add: int_truediv_def checked_float_def to_float_of_int)

lemma int_truediv_zero [simp]: "b \<noteq> 0 \<Longrightarrow> int_truediv 0 b = Inr (Fin 0)"
  using int_truediv_exact [of b 0 0] by simp

lemma fle_refl [simp]: "fle (Fin a) (Fin a)"
  by (simp add: fle_def feq_def)

lemma fle_Fin [simp]: "fle (Fin a) (Fin b) \<longleftrightarrow> a \<le> b"
  by (auto simp: fle_def feq_def)

lemma isclose_refl [simp]: "isclose t (Fin a) (Fin a)"
  by simp

section \<open>Printing\<close>

definition hex_digit :: "nat \<Rightarrow> char" where
  "hex_digit n = (if n < 10 then char_of (48 + n) else char_of (87 + n))"

fun hex_fixed :: "nat \<Rightarrow> nat \<Rightarrow> string" where
  "hex_fixed 0 n = []"
| "hex_fixed (Suc w) n = hex_fixed w (n div 16) @ [hex_digit (n mod 16)]"

text \<open>\<open>float.hex\<close>.\<close>

definition float_hex :: "pyfloat \<Rightarrow> string" where
  "float_hex f = (case f of
       PInf \<Rightarrow> ''inf'' | NInf \<Rightarrow> ''-inf'' | NaN \<Rightarrow> ''nan''
     | Fin q \<Rightarrow>
         if q = 0 then ''0x0.0p+0''
         else let e = max (binade \<bar>q\<bar>) (-1022);
                  m = \<bar>q\<bar> / 2 powi e;
                  lead = nat \<lfloor>m\<rfloor>;
                  frac = nat \<lfloor>(m - of_nat lead) * 2 ^ 52\<rfloor>
              in (if q < 0 then ''-'' else []) @ ''0x'' @ nat_str lead @ ''.'' @ hex_fixed 13 frac @ ''p''
                 @ (if 0 \<le> e then ''+'' else []) @ int_str e)"

lemma length_hex_fixed [simp]: "length (hex_fixed w n) = w"
  by (induction w arbitrary: n) simp_all

end
