(* ===== verification/Py_Json.thy ===== *)
theory Py_Json
  imports Py_Float "HOL-Library.AList"
begin

text \<open>
  Documents: the values \<open>json.loads\<close> and the contract readers return, and the operations the
  sources apply to them. A \<open>dict\<close> is the association list of its items in insertion order,
  with distinct keys; \<open>d[k] = v\<close> is \<open>AList.update\<close>, which keeps the place of a key that
  is present. Subscripts raise as Python's do, \<open>==\<close> compares numbers by value and dicts
  without regard to order.
\<close>

datatype json =
    JNull | JBool bool | JInt int | JFloat pyfloat | JStr string
  | JList "json list" | JObj "(string \<times> json) list"

type_synonym dict = "(string \<times> json) list"

abbreviation dset :: "'k \<Rightarrow> 'v \<Rightarrow> ('k \<times> 'v) list \<Rightarrow> ('k \<times> 'v) list" where
  "dset \<equiv> AList.update"

text \<open>\<open>{**a, **b}\<close> and \<open>a.update(b)\<close>.\<close>

definition dmerge :: "('k \<times> 'v) list \<Rightarrow> ('k \<times> 'v) list \<Rightarrow> ('k \<times> 'v) list" where
  "dmerge a b = fold (\<lambda>(k, v). dset k v) b a"

section \<open>Reading\<close>

definition dict_item :: "dict \<Rightarrow> string \<Rightarrow> json res" where
  "dict_item d k = of_option KeyError k (map_of d k)"

text \<open>\<open>x[k]\<close> for a string \<open>k\<close>.\<close>

fun item :: "json \<Rightarrow> string \<Rightarrow> json res" where
  "item (JObj d) k = dict_item d k"
| "item _ k = raise TypeError k"

text \<open>\<open>d.get(k)\<close>.\<close>

definition dget :: "dict \<Rightarrow> string \<Rightarrow> json" where
  "dget d k = (case map_of d k of None \<Rightarrow> JNull | Some v \<Rightarrow> v)"

fun get :: "json \<Rightarrow> string \<Rightarrow> json res" where
  "get (JObj d) k = Inr (dget d k)"
| "get _ k = raise AttributeError ''get''"

fun path_item :: "json \<Rightarrow> string list \<Rightarrow> json res" where
  "path_item x [] = Inr x"
| "path_item x (k # ks) = bindE (item x k) (\<lambda>y. path_item y ks)"

fun as_list :: "json \<Rightarrow> json list res" where
  "as_list (JList xs) = Inr xs"
| "as_list (JObj d) = Inr (map (JStr \<circ> fst) d)"
| "as_list (JStr s) = Inr (map (\<lambda>c. JStr [c]) s)"
| "as_list _ = raise TypeError ''object is not iterable''"

fun as_items :: "json \<Rightarrow> dict res" where
  "as_items (JObj d) = Inr d"
| "as_items _ = raise AttributeError ''items''"

fun as_str :: "json \<Rightarrow> string option" where
  "as_str (JStr s) = Some s"
| "as_str _ = None"

fun as_int :: "json \<Rightarrow> int option" where
  "as_int (JInt i) = Some i"
| "as_int _ = None"

fun is_str :: "json \<Rightarrow> bool" where
  "is_str (JStr _) = True" | "is_str _ = False"

fun is_list :: "json \<Rightarrow> bool" where
  "is_list (JList _) = True" | "is_list _ = False"

fun is_dict :: "json \<Rightarrow> bool" where
  "is_dict (JObj _) = True" | "is_dict _ = False"

text \<open>\<open>bool(x)\<close>, the test of \<open>if x\<close>.\<close>

fun truthy :: "json \<Rightarrow> bool" where
  "truthy JNull = False"
| "truthy (JBool b) = b"
| "truthy (JInt i) = (i \<noteq> 0)"
| "truthy (JFloat f) = (f \<noteq> Fin 0)"
| "truthy (JStr s) = (s \<noteq> [])"
| "truthy (JList xs) = (xs \<noteq> [])"
| "truthy (JObj d) = (d \<noteq> [])"

section \<open>Comparison\<close>

fun num_of :: "json \<Rightarrow> pyfloat option" where
  "num_of (JBool b) = Some (Fin (if b then 1 else 0))"
| "num_of (JInt i) = Some (Fin (of_int i))"
| "num_of (JFloat f) = Some f"
| "num_of _ = None"

definition num_eq :: "json \<Rightarrow> json \<Rightarrow> bool" where
  "num_eq x y = (case (num_of x, num_of y) of (Some a, Some b) \<Rightarrow> feq a b | _ \<Rightarrow> False)"

fun py_eq :: "json \<Rightarrow> json \<Rightarrow> bool"
  and py_eqs :: "json list \<Rightarrow> json list \<Rightarrow> bool"
  and py_eqo :: "dict \<Rightarrow> dict \<Rightarrow> bool" where
  "py_eq x y = (case x of
      JNull \<Rightarrow> y = JNull
    | JStr s \<Rightarrow> y = JStr s
    | JList xs \<Rightarrow> (case y of JList ys \<Rightarrow> py_eqs xs ys | _ \<Rightarrow> False)
    | JObj a \<Rightarrow> (case y of JObj b \<Rightarrow> length a = length b \<and> py_eqo a b | _ \<Rightarrow> False)
    | _ \<Rightarrow> num_eq x y)"
| "py_eqs [] ys = (ys = [])"
| "py_eqs (x # xs) ys = (case ys of [] \<Rightarrow> False | y # ys' \<Rightarrow> py_eq x y \<and> py_eqs xs ys')"
| "py_eqo [] b = True"
| "py_eqo ((k, v) # a) b = ((case map_of b k of None \<Rightarrow> False | Some w \<Rightarrow> py_eq v w) \<and> py_eqo a b)"

text \<open>\<open>x < y\<close> and \<open>x <= y\<close> on numbers; other operands raise.\<close>

definition num_lt :: "json \<Rightarrow> json \<Rightarrow> bool res" where
  "num_lt x y = (case (num_of x, num_of y) of (Some a, Some b) \<Rightarrow> Inr (flt a b)
     | _ \<Rightarrow> raise TypeError ''unorderable types'')"

definition num_le :: "json \<Rightarrow> json \<Rightarrow> bool res" where
  "num_le x y = (case (num_of x, num_of y) of (Some a, Some b) \<Rightarrow> Inr (fle a b)
     | _ \<Rightarrow> raise TypeError ''unorderable types'')"

text \<open>Distinct keys at every level: what a \<open>dict\<close> guarantees.\<close>

fun wf_json :: "json \<Rightarrow> bool" and wf_dict :: "dict \<Rightarrow> bool" and wf_list :: "json list \<Rightarrow> bool" where
  "wf_json (JObj d) = (distinct (map fst d) \<and> wf_dict d)"
| "wf_json (JList xs) = wf_list xs"
| "wf_json _ = True"
| "wf_dict [] = True"
| "wf_dict ((k, v) # d) = (wf_json v \<and> wf_dict d)"
| "wf_list [] = True"
| "wf_list (x # xs) = (wf_json x \<and> wf_list xs)"

text \<open>What \<open>json.dumps(x, allow_nan=False)\<close> accepts.\<close>

fun finite_json :: "json \<Rightarrow> bool" and finite_dict :: "dict \<Rightarrow> bool" and finite_list :: "json list \<Rightarrow> bool" where
  "finite_json (JFloat f) = isfinite f"
| "finite_json (JList xs) = finite_list xs"
| "finite_json (JObj d) = finite_dict d"
| "finite_json _ = True"
| "finite_dict [] = True"
| "finite_dict ((k, v) # d) = (finite_json v \<and> finite_dict d)"
| "finite_list [] = True"
| "finite_list (x # xs) = (finite_json x \<and> finite_list xs)"

lemma finite_dict_map_of: "map_of d k = Some v \<Longrightarrow> finite_dict d \<Longrightarrow> finite_json v"
  by (induction d) (auto split: if_splits)

section \<open>Facts\<close>

lemma dset_lookup [simp]: "map_of (dset k v d) = (map_of d)(k \<mapsto> v)"
  by (rule ext) (simp add: update_conv)

lemma dmerge_keys: "fst ` set (dmerge a b) = fst ` set a \<union> fst ` set b"
  unfolding dmerge_def by (induction b arbitrary: a) (simp_all add: case_prod_unfold dom_update)

lemma dmerge_lookup: "distinct (map fst b) \<Longrightarrow> map_of (dmerge a b) = map_of a ++ map_of b"
proof (induction b arbitrary: a)
  case (Cons p b)
  obtain k v where p: "p = (k, v)" by fastforce
  with Cons.prems have fresh: "map_of b k = None" by (simp add: map_of_eq_None_iff)
  have "map_of (dmerge a (p # b)) = map_of (dset k v a) ++ map_of b"
    using Cons.IH [of "dset k v a"] Cons.prems p by (simp add: dmerge_def del: dset_lookup)
  also have "\<dots> = map_of a ++ map_of (p # b)"
    using fresh p by (auto simp: map_add_def fun_eq_iff split: option.splits)
  finally show ?case .
qed (simp add: dmerge_def)

lemma dict_item_ok [ok_iff]: "dict_item d k = Inr v \<longleftrightarrow> map_of d k = Some v"
  by (simp add: dict_item_def of_option_ok)

lemma item_ok [ok_iff]: "item x k = Inr v \<longleftrightarrow> (\<exists>d. x = JObj d \<and> map_of d k = Some v)"
  by (cases x) (auto simp: ok_iff)

lemma as_items_ok [ok_iff]: "as_items x = Inr d \<longleftrightarrow> x = JObj d"
  by (cases x) auto

lemma get_ok [ok_iff]: "get x k = Inr v \<longleftrightarrow> (\<exists>d. x = JObj d \<and> v = dget d k)"
  by (cases x) auto

text \<open>\<open>isinstance\<close> checks that raise on every other type.\<close>

lemma only_type [ok_iff]:
  "(case x of JObj d \<Rightarrow> f d | _ \<Rightarrow> Inl e) = Inr r \<longleftrightarrow> (\<exists>d. x = JObj d \<and> f d = Inr r)"
  "(case x of JList xs \<Rightarrow> g xs | _ \<Rightarrow> Inl e) = Inr r \<longleftrightarrow> (\<exists>xs. x = JList xs \<and> g xs = Inr r)"
  "(case x of JStr s \<Rightarrow> h s | _ \<Rightarrow> Inl e) = Inr r \<longleftrightarrow> (\<exists>s. x = JStr s \<and> h s = Inr r)"
  "(case x of JInt i \<Rightarrow> k i | _ \<Rightarrow> Inl e) = Inr r \<longleftrightarrow> (\<exists>i. x = JInt i \<and> k i = Inr r)"
  by (cases x; simp)+

lemma dget_update [simp]: "dget (dset k v d) j = (if j = k then v else dget d j)"
  by (simp add: dget_def)

lemma as_str_iff [simp]: "as_str x = Some s \<longleftrightarrow> x = JStr s"
  by (cases x) auto

lemma as_int_iff [simp]: "as_int x = Some i \<longleftrightarrow> x = JInt i"
  by (cases x) auto

lemma is_str_iff: "is_str x \<longleftrightarrow> (\<exists>s. x = JStr s)"
  and is_list_iff: "is_list x \<longleftrightarrow> (\<exists>xs. x = JList xs)"
  and is_dict_iff: "is_dict x \<longleftrightarrow> (\<exists>d. x = JObj d)"
  by (cases x; auto)+

declare py_eq.simps [simp del]

lemma num_eq_other [simp]:
  "\<not> num_eq x JNull" "\<not> num_eq x (JStr s)" "\<not> num_eq x (JList xs)" "\<not> num_eq x (JObj d)"
  by (simp_all add: num_eq_def split: option.splits)

lemma py_eq_str [simp]: "py_eq x (JStr s) \<longleftrightarrow> x = JStr s"
  and py_eq_str' [simp]: "py_eq (JStr s) x \<longleftrightarrow> x = JStr s"
  and py_eq_null [simp]: "py_eq x JNull \<longleftrightarrow> x = JNull"
  and py_eq_null' [simp]: "py_eq JNull x \<longleftrightarrow> x = JNull"
  by (auto simp: py_eq.simps split: json.splits)

lemma py_eq_int [simp]: "py_eq (JInt i) (JInt j) \<longleftrightarrow> i = j"
  by (auto simp: py_eq.simps num_eq_def feq_def)

lemma py_eq_bool [simp]: "py_eq (JBool a) (JBool b) \<longleftrightarrow> a = b"
  by (auto simp: py_eq.simps num_eq_def feq_def)

lemma py_eqs_strs [simp]: "py_eqs (map JStr xs) (map JStr ys) \<longleftrightarrow> xs = ys"
proof (induction xs arbitrary: ys)
  case (Cons x xs)
  then show ?case by (cases ys) auto
qed auto

lemma py_eq_strs [simp]: "py_eq (JList (map JStr xs)) (JList (map JStr ys)) \<longleftrightarrow> xs = ys"
  by (simp add: py_eq.simps)

lemma finite_dset: "finite_dict d \<Longrightarrow> finite_json v \<Longrightarrow> finite_dict (dset k v d)" 
  by (induction d) auto

lemma finite_dmerge: "finite_dict a \<Longrightarrow> finite_dict b \<Longrightarrow> finite_dict (dmerge a b)" 
  unfolding dmerge_def by (induction b arbitrary: a) (auto simp: finite_dset)

lemma finite_append: "finite_dict (a @ b) = (finite_dict a \<and> finite_dict b)" 
  by (induction a) auto

lemma finite_list_append: "finite_list (xs @ ys) = (finite_list xs \<and> finite_list ys)"
  by (induction xs) auto

end
