(* ===== verification/Measurements.thy ===== *)
theory Measurements
  imports Py_Json
begin

text \<open>
  \<open>robotics_observability/measurements.py\<close>: the sequence and latency measurement of one ROS
  channel. The state of a \<open>MessageStream\<close> is the last accepted publication sequence number;
  \<open>observe\<close> is its only method. The locale \<open>delivery_meter\<close> is what the metrics node relies
  on; its one law on positions gives the accounting of a whole run.
\<close>

section \<open>Data\<close>

record measurement =
  age_ms :: "pyfloat option"
  received_delta :: "int option"
  lost_delta :: "int option"
  sequence_error_delta :: int

record message_stream =
  last_sequence :: "int option"

definition rmw_unsupported_sequence_number :: int where
  "rmw_unsupported_sequence_number = 2 ^ 64 - 1"

section \<open>Metadata\<close>

fun optional_int :: "json \<Rightarrow> int option" where
  "optional_int (JInt i) = Some i"
| "optional_int _ = None"

definition positive_int :: "json \<Rightarrow> int option" where
  "positive_int v = (case optional_int v of None \<Rightarrow> None | Some i \<Rightarrow> if 0 < i then Some i else None)"

definition sequence_number :: "json \<Rightarrow> int option" where
  "sequence_number v = (case optional_int v of None \<Rightarrow> None
     | Some i \<Rightarrow> if i < 0 \<or> i = rmw_unsupported_sequence_number then None else Some i)"

definition source_to_reception_latency_ms :: "dict \<Rightarrow> pyfloat option res" where
  "source_to_reception_latency_ms metadata =
     (case (positive_int (dget metadata ''source_timestamp''),
            positive_int (dget metadata ''received_timestamp'')) of
        (Some src, Some rcv) \<Rightarrow>
          if rcv < src then Inr None
          else bindE (int_truediv (rcv - src) 1000000) (\<lambda>ms. Inr (Some ms))
      | _ \<Rightarrow> Inr None)"

section \<open>The stream\<close>

definition new_stream :: message_stream where
  "new_stream = \<lparr>last_sequence = None\<rparr>"

definition observe :: "dict \<Rightarrow> int \<Rightarrow> (message_stream, measurement) prog" where
  "observe metadata publisher_count =
     bindS (liftS (source_to_reception_latency_ms metadata)) (\<lambda>age.
       case sequence_number (dget metadata ''publication_sequence_number'') of
         None \<Rightarrow> retS \<lparr>age_ms = age, received_delta = None, lost_delta = None, sequence_error_delta = 1\<rparr>
       | Some sequence \<Rightarrow>
           if publisher_count \<noteq> 1 then
             retS \<lparr>age_ms = age, received_delta = None, lost_delta = None, sequence_error_delta = 1\<rparr>
           else bindS (getS last_sequence) (\<lambda>last.
             let stale = (case last of None \<Rightarrow> False | Some l \<Rightarrow> sequence \<le> l);
                 lost = (case last of None \<Rightarrow> 0 | Some l \<Rightarrow> max (sequence - l - 1) 0)
             in if stale then
                  retS \<lparr>age_ms = age, received_delta = Some 0, lost_delta = Some 0, sequence_error_delta = 1\<rparr>
                else seqS (modifyS (\<lambda>self. self\<lparr>last_sequence := Some sequence\<rparr>))
                  (retS \<lparr>age_ms = age, received_delta = Some 1, lost_delta = Some lost, sequence_error_delta = 0\<rparr>)))"

section \<open>Interface to the metrics node\<close>

text \<open>The sequence numbers a measurement accounts for: received or inferred lost.\<close>

definition accounted :: "measurement \<Rightarrow> int" where
  "accounted x = (case received_delta x of None \<Rightarrow> 0 | Some r \<Rightarrow> r) + (case lost_delta x of None \<Rightarrow> 0 | Some l \<Rightarrow> l)"

text \<open>The first sequence number that arrives while exactly one publisher owns the channel.\<close>

fun first_accepted :: "('m \<Rightarrow> int option) \<Rightarrow> ('m \<times> int) list \<Rightarrow> int option" where
  "first_accepted seq [] = None"
| "first_accepted seq ((m, n) # ms) =
     (case (if n = 1 then seq m else None) of None \<Rightarrow> first_accepted seq ms | Some f \<Rightarrow> Some f)"

locale delivery_meter =
  fixes observe :: "'m \<Rightarrow> int \<Rightarrow> ('s, measurement) prog"
    and position :: "'s \<Rightarrow> int option"
    and sequence_of :: "'m \<Rightarrow> int option"
  assumes advance: "observe m n s = (Inr x, t) \<Longrightarrow> position s = Some p \<Longrightarrow>
      \<exists>q. position t = Some q \<and> p \<le> q \<and> accounted x = q - p"
    and first: "observe m n s = (Inr x, t) \<Longrightarrow> position s = None \<Longrightarrow>
      position t = (if n = 1 then sequence_of m else None) \<and>
      accounted x = (if position t = None then 0 else 1)"
begin

lemma run_from_position:
  "mapS (\<lambda>(m, n). observe m n) ms s = (Inr xs, t) \<Longrightarrow> position s = Some p \<Longrightarrow>
     \<exists>q. position t = Some q \<and> p \<le> q \<and> sum_list (map accounted xs) = q - p"
proof (induction ms arbitrary: s p xs)
  case Nil
  then show ?case by (auto simp: ok_iff)
next
  case (Cons mn ms)
  obtain m n where mn: "mn = (m, n)" by fastforce
  from Cons.prems(1) obtain x u ys where
      head: "observe m n s = (Inr x, u)" and
      tail: "mapS (\<lambda>(m, n). observe m n) ms u = (Inr ys, t)" and xs: "xs = x # ys"
    by (auto simp: ok_iff mn)
  from advance [OF head Cons.prems(2)] obtain q where
      q: "position u = Some q" "p \<le> q" "accounted x = q - p" by blast
  from Cons.IH [OF tail q(1)] obtain r where
      "position t = Some r" "q \<le> r" "sum_list (map accounted ys) = r - q" by blast
  with q xs show ?case by auto
qed

lemma run_from_start:
  "mapS (\<lambda>(m, n). observe m n) ms s = (Inr xs, t) \<Longrightarrow> position s = None \<Longrightarrow>
     (case first_accepted sequence_of ms of
        None \<Rightarrow> position t = None \<and> sum_list (map accounted xs) = 0
      | Some f \<Rightarrow> \<exists>q. position t = Some q \<and> f \<le> q \<and> sum_list (map accounted xs) = q - f + 1)"
proof (induction ms arbitrary: s xs)
  case Nil
  then show ?case by (auto simp: ok_iff)
next
  case (Cons mn ms)
  obtain m n where mn: "mn = (m, n)" by fastforce
  from Cons.prems(1) obtain x u ys where
      head: "observe m n s = (Inr x, u)" and
      tail: "mapS (\<lambda>(m, n). observe m n) ms u = (Inr ys, t)" and xs: "xs = x # ys"
    by (auto simp: ok_iff mn)
  note pos = first [OF head Cons.prems(2)]
  show ?case
  proof (cases "position u")
    case None
    with pos have "first_accepted sequence_of (mn # ms) = first_accepted sequence_of ms"
      by (auto simp: mn split: option.splits)
    moreover have "sum_list (map accounted xs) = sum_list (map accounted ys)"
      using None pos xs by simp
    ultimately show ?thesis using Cons.IH [OF tail None] by (simp split: option.splits)
  next
    case (Some f)
    from run_from_position [OF tail Some] obtain q where
        "position t = Some q" "f \<le> q" "sum_list (map accounted ys) = q - f" by blast
    moreover have "n = 1 \<and> sequence_of m = Some f" using pos Some by (simp split: if_splits)
    ultimately show ?thesis using pos Some xs mn by simp
  qed
qed

end

section \<open>Facts\<close>

lemma positive_int_iff: "positive_int v = Some i \<longleftrightarrow> v = JInt i \<and> 0 < i"
  by (cases v) (auto simp: positive_int_def)

lemma sequence_number_iff:
  "sequence_number v = Some i \<longleftrightarrow> v = JInt i \<and> 0 \<le> i \<and> i \<noteq> rmw_unsupported_sequence_number"
  by (cases v) (auto simp: sequence_number_def)

lemmas observe_unfold = observe_def bindS_def liftS_def retS_def seqS_def modifyS_def getS_def Let_def

lemma observe_cases:
  assumes "observe metadata n s = (Inr x, t)"
  obtains (unsupported) "n \<noteq> 1 \<or> sequence_number (dget metadata ''publication_sequence_number'') = None"
      "t = s" "received_delta x = None" "lost_delta x = None" "sequence_error_delta x = 1"
  | (stale) i l where "n = 1" "sequence_number (dget metadata ''publication_sequence_number'') = Some i"
      "last_sequence s = Some l" "i \<le> l" "t = s"
      "received_delta x = Some 0" "lost_delta x = Some 0" "sequence_error_delta x = 1"
  | (accepted) i where "n = 1" "sequence_number (dget metadata ''publication_sequence_number'') = Some i"
      "t = s\<lparr>last_sequence := Some i\<rparr>" "received_delta x = Some 1" "sequence_error_delta x = 0"
      "lost_delta x = Some (case last_sequence s of None \<Rightarrow> 0 | Some l \<Rightarrow> i - l - 1)"
      "\<And>l. last_sequence s = Some l \<Longrightarrow> l < i"
  using assms
  by (auto simp: observe_unfold split: sum.splits option.splits if_splits)

lemma observe_error_keeps_state: "observe metadata n s = (Inl e, t) \<Longrightarrow> t = s"
  by (auto simp: observe_unfold split: sum.splits option.splits if_splits)

interpretation stream_meter: delivery_meter observe last_sequence
    "\<lambda>metadata. sequence_number (dget metadata ''publication_sequence_number'')"
proof unfold_locales
  fix m n s x t p
  assume run: "observe m n s = (Inr x, t)" and p: "last_sequence s = Some p"
  from run show "\<exists>q. last_sequence t = Some q \<and> p \<le> q \<and> accounted x = q - p"
    by (cases rule: observe_cases) (use p in \<open>auto simp: accounted_def\<close>)
next
  fix m n s x t
  assume run: "observe m n s = (Inr x, t)" and "last_sequence s = None"
  from run \<open>last_sequence s = None\<close>
  show "last_sequence t = (if n = 1 then sequence_number (dget m ''publication_sequence_number'') else None) \<and>
      accounted x = (if last_sequence t = None then 0 else 1)"
    by (cases rule: observe_cases) (auto simp: accounted_def)
qed

section \<open>Properties\<close>

text \<open>
  C21: over any run of observations from a new stream, the messages counted as received plus the
  messages inferred lost are exactly the sequence numbers from the first accepted one to the
  last accepted one; with none accepted, nothing is counted.
\<close>

theorem stream_accounts_for_every_sequence:
  assumes "mapS (\<lambda>(m, n). observe m n) msgs new_stream = (Inr xs, s)"
  shows "case first_accepted (\<lambda>m. sequence_number (dget m ''publication_sequence_number'')) msgs of
      None \<Rightarrow> last_sequence s = None \<and> sum_list (map accounted xs) = 0
    | Some first \<Rightarrow> \<exists>q. last_sequence s = Some q \<and> first \<le> q \<and>
        sum_list (map accounted xs) = q - first + 1"
  using stream_meter.run_from_start [OF assms] by (simp add: new_stream_def)

theorem stream_accounts_for_every_sequence_witness:
  "sum_list (map accounted [
      \<lparr>age_ms = None, received_delta = Some 1, lost_delta = Some 0, sequence_error_delta = 0\<rparr>,
      \<lparr>age_ms = None, received_delta = Some 1, lost_delta = Some 3, sequence_error_delta = 0\<rparr>]) = 9 - 5 + (1::int)"
proof -
  have "mapS (\<lambda>(m, n). observe m n)
      [([(''publication_sequence_number'', JInt 5)], 1), ([(''publication_sequence_number'', JInt 9)], 1)]
      new_stream =
    (Inr [\<lparr>age_ms = None, received_delta = Some 1, lost_delta = Some 0, sequence_error_delta = 0\<rparr>,
          \<lparr>age_ms = None, received_delta = Some 1, lost_delta = Some 3, sequence_error_delta = 0\<rparr>],
     \<lparr>last_sequence = Some 9\<rparr>)"
    by (simp add: observe_unfold new_stream_def source_to_reception_latency_ms_def positive_int_def
        sequence_number_def rmw_unsupported_sequence_number_def dget_def)
  from stream_accounts_for_every_sequence [OF this] show ?thesis
    by (simp add: sequence_number_def rmw_unsupported_sequence_number_def dget_def)
qed

text \<open>
  A latency is reported only when both timestamps are positive integers in order, and then
  it is a finite, nonnegative number of milliseconds; booleans and missing fields give no evidence.
\<close>

theorem latency_is_evidence_or_absent:
  assumes "source_to_reception_latency_ms metadata = Inr (Some ms)"
  shows "\<exists>src rcv r. dget metadata ''source_timestamp'' = JInt src \<and>
    dget metadata ''received_timestamp'' = JInt rcv \<and> 0 < src \<and> src \<le> rcv \<and>
    ms = Fin r \<and> 0 \<le> r \<and> int_truediv (rcv - src) 1000000 = Inr ms"
proof -
  from assms obtain src rcv where
      "positive_int (dget metadata ''source_timestamp'') = Some src"
      "positive_int (dget metadata ''received_timestamp'') = Some rcv"
      and ms: "\<not> rcv < src" "int_truediv (rcv - src) 1000000 = Inr ms"
    by (auto simp: source_to_reception_latency_ms_def ok_iff split: option.splits if_splits)
  moreover from int_truediv_nonneg [OF ms(2)] ms(1) obtain r where "0 \<le> r" "ms = Fin r" by auto
  ultimately show ?thesis by (auto simp: positive_int_iff)
qed

theorem latency_is_evidence_or_absent_witness:
  "source_to_reception_latency_ms
     [(''source_timestamp'', JInt 1000000), (''received_timestamp'', JInt 3000000)] = Inr (Some (Fin 2)) \<and>
   (0::rat) \<le> 2"
proof -
  have run: "source_to_reception_latency_ms
     [(''source_timestamp'', JInt 1000000), (''received_timestamp'', JInt 3000000)] = Inr (Some (Fin 2))"
    using int_truediv_exact [of 1000000 2000000 2]
    by (simp add: source_to_reception_latency_ms_def positive_int_def dget_def)
  from latency_is_evidence_or_absent [OF run] run show ?thesis by simp
qed

end
