(* ===== verification/Runtime_Metrics.thy ===== *)
theory Runtime_Metrics
  imports Measurements
begin

text \<open>
  \<open>robotics_observability/runtime_metrics.py\<close> and \<open>propagation.py\<close>: the metrics node.
  Its state is the node's fields (\<open>metrics\<close>), with the samples its instruments were given and
  the errors it logged as lists. The readings of the clocks and the publisher-count query are
  what the environment answers during one callback (\<open>clock_event\<close>, \<open>data_event\<close>).
  The OpenTelemetry SDK and rclpy are not modelled: an instrument is its name, its unit and the
  values recorded on it, and \<open>main\<close> is the order of the calls into them.
\<close>

section \<open>Instruments\<close>

datatype instrument =
    DeliveryLatency | MessageAge | CallbackLag | CallbackDuration | PublisherCountDuration
  | MessagesReceived | MessagesLost | SequenceErrors

type_synonym attrs = "(string \<times> string) list"

datatype sample = Record instrument pyfloat attrs | Add instrument int attrs

definition latency_buckets_ms :: "rat list" where
  "latency_buckets_ms = [0, 1/10, 1/4, 1/2, 1, 3/2, 2, 5/2, 5, 10, 25, 50, 100, 250, 500, 1000]"

definition rmw_latency_method :: string where
  "rmw_latency_method = ''rmw_source_to_reception_latency''"

definition single_publisher_sequence_method :: string where
  "single_publisher_sequence_method = ''rmw_publication_sequence_single_publisher''"

text \<open>Name and unit with which \<open>__init__\<close> creates each instrument.\<close>

fun instrument_name :: "instrument \<Rightarrow> string" where
  "instrument_name DeliveryLatency = ''robotics.time_authority.delivery_latency''"
| "instrument_name MessageAge = ''robotics.message.age''"
| "instrument_name CallbackLag = ''robotics.observation.callback_lag''"
| "instrument_name CallbackDuration = ''robotics.observation.callback_duration''"
| "instrument_name PublisherCountDuration = ''robotics.observation.publisher_count_duration''"
| "instrument_name MessagesReceived = ''robotics.message.received''"
| "instrument_name MessagesLost = ''robotics.message.lost''"
| "instrument_name SequenceErrors = ''robotics.message.sequence_error''"

fun is_histogram :: "instrument \<Rightarrow> bool" where
  "is_histogram MessagesReceived = False"
| "is_histogram MessagesLost = False"
| "is_histogram SequenceErrors = False"
| "is_histogram _ = True"

definition instrument_unit :: "instrument \<Rightarrow> string" where
  "instrument_unit i = (if is_histogram i then ''ms'' else ''{message}'')"

section \<open>The node\<close>

record metrics =
  data_topic :: string
  time_topic :: string
  source_id :: string
  common_attributes :: attrs
  stream :: message_stream
  missing_time_metadata_logged :: bool
  missing_age_logged :: bool
  missing_sequence_logged :: bool
  samples :: "sample list"
  logged :: "string list"

type_synonym environment = "string \<Rightarrow> string option"

definition required_environment :: "environment \<Rightarrow> string \<Rightarrow> string res" where
  "required_environment env name =
     (let value = strip is_space (case env name of None \<Rightarrow> [] | Some v \<Rightarrow> v)
      in unlessE (value = []) ValueError (name @ '' is required'') (Inr value))"

definition positive_environment_integer :: "environment \<Rightarrow> string \<Rightarrow> int \<Rightarrow> int res" where
  "positive_environment_integer env name dflt =
     (let raw = (case env name of None \<Rightarrow> int_str dflt | Some v \<Rightarrow> v)
      in case parse_int raw of
           Inl e \<Rightarrow> raise ValueError (name @ '' must be an integer'')
         | Inr value \<Rightarrow> unlessE (value \<le> 0) ValueError (name @ '' must be positive'') (Inr value))"

text \<open>\<open>run_id or _required_environment(...)\<close>: an empty argument counts as missing.\<close>

definition given_or_required :: "environment \<Rightarrow> string option \<Rightarrow> string \<Rightarrow> string res" where
  "given_or_required env given name =
     (case given of Some v \<Rightarrow> if v = [] then required_environment env name else Inr v
      | None \<Rightarrow> required_environment env name)"

definition new_metrics :: "environment \<Rightarrow> string option \<Rightarrow> string option \<Rightarrow> metrics res" where
  "new_metrics env run_id domain_id =
     bindE (required_environment env ''ROBOTICS_METRICS_TOPIC'') (\<lambda>data.
     bindE (required_environment env ''ROBOTICS_TIME_TOPIC'') (\<lambda>time.
     bindE (required_environment env ''ROBOTICS_TIME_SOURCE_ID'') (\<lambda>src.
     bindE (given_or_required env run_id ''ROBOTICS_RUN_ID'') (\<lambda>run.
     bindE (given_or_required env domain_id ''ROBOTICS_DOMAIN_ID'') (\<lambda>domain.
       Inr \<lparr>data_topic = data, time_topic = time, source_id = src,
            common_attributes = [(''run.id'', run), (''domain.id'', domain)],
            stream = new_stream, missing_time_metadata_logged = False,
            missing_age_logged = False, missing_sequence_logged = False,
            samples = [], logged = []\<rparr>)))))"

section \<open>Callbacks\<close>

definition emit :: "sample \<Rightarrow> (metrics, unit) prog" where
  "emit x = modifyS (\<lambda>self. self\<lparr>samples := samples self @ [x]\<rparr>)"

definition log_error :: "string \<Rightarrow> (metrics, unit) prog" where
  "log_error msg = modifyS (\<lambda>self. self\<lparr>logged := logged self @ [msg]\<rparr>)"

definition record_ms :: "instrument \<Rightarrow> int \<Rightarrow> attrs \<Rightarrow> (metrics, unit) prog" where
  "record_ms inst elapsed_ns attributes =
     bindS (liftS (int_truediv elapsed_ns 1000000)) (\<lambda>ms. emit (Record inst ms attributes))"

definition record_callback_lag :: "dict \<Rightarrow> int \<Rightarrow> attrs \<Rightarrow> (metrics, unit) prog" where
  "record_callback_lag metadata entered attributes =
     (case optional_int (dget metadata ''received_timestamp'') of
        None \<Rightarrow> retS ()
      | Some received \<Rightarrow>
          if received \<le> 0 \<or> entered < received then retS ()
          else record_ms CallbackLag (entered - received) attributes)"

record clock_event =
  ce_metadata :: dict
  ce_started :: int
  ce_entered :: int
  ce_done :: int

definition time_metadata_message :: string where
  "time_metadata_message = ''DDS source or reception timestamps are unavailable for the declared time authority; time-authority evidence will remain absent''"

definition observe_clock :: "clock_event \<Rightarrow> (metrics, unit) prog" where
  "observe_clock ev = bindS (getS (\<lambda>self. self)) (\<lambda>self.
     let diagnostic = dset ''channel'' (time_topic self) (common_attributes self)
     in seqS (record_callback_lag (ce_metadata ev) (ce_entered ev) diagnostic)
        (finallyS
          (bindS (liftS (source_to_reception_latency_ms (ce_metadata ev))) (\<lambda>latency.
             case latency of
               None \<Rightarrow>
                 bindS (getS missing_time_metadata_logged) (\<lambda>done. whenS (\<not> done)
                   (seqS (log_error time_metadata_message)
                         (modifyS (\<lambda>self. self\<lparr>missing_time_metadata_logged := True\<rparr>))))
             | Some ms \<Rightarrow>
                 emit (Record DeliveryLatency ms
                   (dset ''time.source.id'' (source_id self)
                     (dset ''time.measurement.method'' rmw_latency_method
                       (dset ''channel'' (time_topic self) (common_attributes self)))))))
          (record_ms CallbackDuration (ce_done ev - ce_started ev) diagnostic)))"

record data_event =
  de_metadata :: dict
  de_started :: int
  de_entered :: int
  de_query_started :: int
  de_publishers :: "int res"
  de_query_done :: int
  de_done :: int

definition age_message :: string where
  "age_message = ''DDS source or reception timestamps are unavailable; message-age evidence will remain absent''"

definition sequence_message :: string where
  "sequence_message = ''DDS publication sequence numbers are unavailable or the measured channel does not have exactly one publisher; delivery evidence will remain absent''"

definition stream_observe :: "dict \<Rightarrow> int \<Rightarrow> (metrics, measurement) prog" where
  "stream_observe metadata n = zoomS stream (\<lambda>t self. self\<lparr>stream := t\<rparr>) (observe metadata n)"

definition report_age :: "measurement \<Rightarrow> attrs \<Rightarrow> (metrics, unit) prog" where
  "report_age m channel_attributes = (case age_ms m of
      None \<Rightarrow>
        bindS (getS missing_age_logged) (\<lambda>done. whenS (\<not> done)
          (seqS (log_error age_message) (modifyS (\<lambda>self. self\<lparr>missing_age_logged := True\<rparr>))))
    | Some age \<Rightarrow> emit (Record MessageAge age channel_attributes))"

definition report_delivery :: "measurement \<Rightarrow> attrs \<Rightarrow> (metrics, unit) prog" where
  "report_delivery m sequence_attributes = (case (received_delta m, lost_delta m) of
      (Some received, Some lost) \<Rightarrow>
        seqS (emit (Add MessagesReceived received sequence_attributes))
             (emit (Add MessagesLost lost sequence_attributes))
    | _ \<Rightarrow>
        bindS (getS missing_sequence_logged) (\<lambda>done. whenS (\<not> done)
          (seqS (log_error sequence_message) (modifyS (\<lambda>self. self\<lparr>missing_sequence_logged := True\<rparr>)))))"

definition observe_data :: "data_event \<Rightarrow> (metrics, unit) prog" where
  "observe_data ev = bindS (getS (\<lambda>self. self)) (\<lambda>self.
     let channel_attributes = dset ''channel'' (data_topic self) (common_attributes self);
         sequence_attributes = dset ''sequence.measurement.method'' single_publisher_sequence_method channel_attributes
     in seqS (record_callback_lag (de_metadata ev) (de_entered ev) channel_attributes)
        (finallyS
          (bindS (finallyS (liftS (de_publishers ev))
                   (record_ms PublisherCountDuration (de_query_done ev - de_query_started ev) channel_attributes)) (\<lambda>publisher_count.
           bindS (stream_observe (de_metadata ev) publisher_count) (\<lambda>m.
             seqS (report_age m channel_attributes)
            (seqS (emit (Add SequenceErrors (sequence_error_delta m) sequence_attributes))
                  (report_delivery m sequence_attributes)))))
          (record_ms CallbackDuration (de_done ev - de_started ev) channel_attributes)))"

section \<open>Export configuration and process\<close>

datatype instrument_kind = Counter | Histogram
datatype temporality = Delta | Cumulative

definition metric_temporality :: "(instrument_kind \<times> temporality) list" where
  "metric_temporality = [(Counter, Delta), (Histogram, Delta)]"

record view =
  view_instrument :: string
  view_boundaries :: "rat list"
  view_record_min_max :: bool

definition metric_views :: "view list" where
  "metric_views = map (\<lambda>name. \<lparr>view_instrument = name, view_boundaries = latency_buckets_ms, view_record_min_max = True\<rparr>)
     ([''robotics.time_authority.delivery_latency'', ''robotics.message.age''] @
      [''robotics.observation.callback_lag'', ''robotics.observation.callback_duration'',
       ''robotics.observation.publisher_count_duration''])"

text \<open>The calls of \<open>main\<close> into rclpy and the provider, in order.\<close>

datatype lifecycle =
    CreateProvider string "int" "string" "string"
  | RclInit | NodeCreated | Spin | NodeDestroyed | RclShutdown | ProviderShutdown

definition call :: "lifecycle \<Rightarrow> (lifecycle list, unit) prog" where
  "call c = modifyS (\<lambda>cs. cs @ [c])"

definition metrics_main :: "environment \<Rightarrow> unit res \<Rightarrow> bool \<Rightarrow> (lifecycle list, int) prog" where
  "metrics_main env spin_outcome rcl_ok =
     bindS (liftS (required_environment env ''ROBOTICS_RUN_ID'')) (\<lambda>run_id.
     bindS (liftS (required_environment env ''ROBOTICS_DOMAIN_ID'')) (\<lambda>domain_id.
     bindS (liftS (required_environment env ''OTEL_EXPORTER_OTLP_METRICS_ENDPOINT'')) (\<lambda>endpoint.
     bindS (liftS (positive_environment_integer env ''ROBOTICS_METRICS_EXPORT_INTERVAL_MS'' 100)) (\<lambda>interval.
     seqS (call (CreateProvider endpoint interval run_id domain_id))
    (seqS (call RclInit)
    (bindS (liftS (new_metrics env (Some run_id) (Some domain_id))) (\<lambda>node.
     seqS (call NodeCreated)
    (seqS (finallyS (seqS (call Spin) (liftS spin_outcome))
            (seqS (call NodeDestroyed)
            (seqS (whenS rcl_ok (call RclShutdown))
                  (call ProviderShutdown))))
          (retS 0)))))))))"

section \<open>Trace context propagation\<close>

record trace_context =
  traceparent :: string
  tracestate :: string

text \<open>\<open>getattr(carrier, key, "")\<close> for the two fields of the ROS message.\<close>

definition carrier_attr :: "trace_context \<Rightarrow> string \<Rightarrow> string" where
  "carrier_attr carrier key = (if key = ''traceparent'' then traceparent carrier
     else if key = ''tracestate'' then tracestate carrier else [])"

definition getter_get :: "trace_context \<Rightarrow> string \<Rightarrow> string list option" where
  "getter_get carrier key = (let value = carrier_attr carrier key in if value \<noteq> [] then Some [value] else None)"

definition getter_keys :: "trace_context \<Rightarrow> string list" where
  "getter_keys carrier = filter (\<lambda>key. carrier_attr carrier key \<noteq> []) [''traceparent'', ''tracestate'']"

text \<open>\<open>inject\<close> and \<open>extract\<close> are the W3C propagator's methods; the context type is its own.\<close>

definition inject_context :: "('ctx option \<Rightarrow> (string \<times> string) list) \<Rightarrow> 'ctx option \<Rightarrow> trace_context" where
  "inject_context inject context =
     (let carrier = map_of (inject context)
      in \<lparr>traceparent = (case carrier ''traceparent'' of None \<Rightarrow> [] | Some v \<Rightarrow> v),
          tracestate = (case carrier ''tracestate'' of None \<Rightarrow> [] | Some v \<Rightarrow> v)\<rparr>)"

definition extract_context ::
  "((string \<Rightarrow> string list option) \<Rightarrow> string list \<Rightarrow> 'ctx option \<Rightarrow> 'ctx) \<Rightarrow> trace_context \<Rightarrow> 'ctx option \<Rightarrow> 'ctx" where
  "extract_context extract message context = extract (getter_get message) (getter_keys message) context"

section \<open>Facts\<close>

fun on_instrument :: "instrument \<Rightarrow> sample \<Rightarrow> bool" where
  "on_instrument i (Record j v a) = (i = j)"
| "on_instrument i (Add j n a) = (i = j)"

definition count_on :: "instrument \<Rightarrow> metrics \<Rightarrow> nat" where
  "count_on i self = length (filter (on_instrument i) (samples self))"

lemma on_instrument_unique: "on_instrument i x \<Longrightarrow> on_instrument j x \<Longrightarrow> i = j"
  by (cases x) simp_all

lemma count_on_update [simp]:
  "count_on i (self\<lparr>missing_time_metadata_logged := b\<rparr>) = count_on i self"
  "count_on i (self\<lparr>missing_age_logged := b\<rparr>) = count_on i self"
  "count_on i (self\<lparr>missing_sequence_logged := b\<rparr>) = count_on i self"
  "count_on i (self\<lparr>logged := l\<rparr>) = count_on i self"
  "count_on i (self\<lparr>stream := t\<rparr>) = count_on i self"
  "count_on i (self\<lparr>samples := samples self @ xs\<rparr>) = count_on i self + length (filter (on_instrument i) xs)"
  by (simp_all add: count_on_def)

definition clock_range :: "int \<Rightarrow> bool" where
  "clock_range t = (0 \<le> t \<and> t < 2 ^ 63)"

lemma record_ms_run:
  assumes "clock_range a" and "clock_range b"
  shows "\<exists>v. record_ms i (a - b) attributes self = (Inr (), self\<lparr>samples := samples self @ [Record i v attributes]\<rparr>)"
proof -
  have "(2::int) ^ 63 \<le> 2 ^ 100" by (intro power_increasing) auto
  with assms have "\<bar>a - b\<bar> < 2 ^ 100" by (auto simp: clock_range_def)
  then obtain r where "int_truediv (a - b) 1000000 = Inr (Fin r)"
    using int_truediv_moderate [of "a - b" 1000000] by auto
  then show ?thesis by (auto simp: record_ms_def emit_def)
qed

lemma record_ms_cases:
  obtains (failed) e where "record_ms i ns attributes self = (Inl e, self)"
  | (recorded) v where "record_ms i ns attributes self = (Inr (), self\<lparr>samples := samples self @ [Record i v attributes]\<rparr>)"
  by (cases "int_truediv ns 1000000") (auto simp: record_ms_def emit_def prog_defs)

lemma callback_lag_run:
  assumes "clock_range entered"
  shows "\<exists>xs. record_callback_lag metadata entered attributes self = (Inr (), self\<lparr>samples := samples self @ xs\<rparr>) \<and>
    list_all (on_instrument CallbackLag) xs \<and>
    (\<forall>v a. Record CallbackLag v a \<in> set xs \<longrightarrow> (\<exists>r. v = Fin r \<and> 0 \<le> r))"
proof (cases "optional_int (dget metadata ''received_timestamp'')")
  case None
  then have "record_callback_lag metadata entered attributes self = (Inr (), self\<lparr>samples := samples self @ []\<rparr>)"
    by (simp add: record_callback_lag_def)
  then show ?thesis by fastforce
next
  case (Some received)
  show ?thesis
  proof (cases "received \<le> 0 \<or> entered < received")
    case True
    with Some have "record_callback_lag metadata entered attributes self = (Inr (), self\<lparr>samples := samples self @ []\<rparr>)"
      by (simp add: record_callback_lag_def)
    then show ?thesis by fastforce
  next
    case False
    have "(2::int) ^ 63 \<le> 2 ^ 100" by (intro power_increasing) auto
    with False assms have "\<bar>entered - received\<bar> < 2 ^ 100" by (auto simp: clock_range_def)
    then obtain v where v: "int_truediv (entered - received) 1000000 = Inr v"
      using int_truediv_moderate [of "entered - received" 1000000] by auto
    with False obtain r where "v = Fin r" "0 \<le> r"
      using int_truediv_nonneg [OF v] by auto
    with Some False v show ?thesis
      by (intro exI [of _ "[Record CallbackLag v attributes]"])
         (simp add: record_callback_lag_def record_ms_def emit_def)
  qed
qed

text \<open>What one callback may change besides the samples of one instrument.\<close>

lemma preserves_count_emit [keeps]:
  "\<not> on_instrument i x \<Longrightarrow> preserves (\<lambda>s. count_on i s = n) (emit x)"
  by (simp add: preserves_def emit_def count_on_def)

lemma preserves_count_log [keeps]: "preserves (\<lambda>s. count_on i s = n) (log_error msg)"
  by (simp add: preserves_def log_error_def count_on_def)

lemma preserves_count_record_ms [keeps]:
  "i \<noteq> j \<Longrightarrow> preserves (\<lambda>s. count_on i s = n) (record_ms j ns attributes)"
  unfolding record_ms_def by (intro keeps) simp

lemma preserves_count_stream [keeps]: "preserves (\<lambda>s. count_on i s = n) (stream_observe m k)"
  unfolding stream_observe_def by (rule preserves_zoomS) (simp add: count_on_def)

lemma preserves_count_age [keeps]:
  "i \<noteq> MessageAge \<Longrightarrow> preserves (\<lambda>s. count_on i s = n) (report_age m attributes)"
  unfolding report_age_def by (auto split: option.splits intro!: keeps)

lemma preserves_count_delivery [keeps]:
  "i \<noteq> MessagesReceived \<Longrightarrow> i \<noteq> MessagesLost \<Longrightarrow>
   preserves (\<lambda>s. count_on i s = n) (report_delivery m attributes)"
  unfolding report_delivery_def by (auto split: option.splits intro!: keeps)

text \<open>The body between the two \<open>finally\<close> clauses of \<open>_observe_data\<close>.\<close>

lemma observe_data_run:
  assumes "clock_range (de_entered ev)" "clock_range (de_started ev)" "clock_range (de_done ev)"
    and "clock_range (de_query_started ev)" "clock_range (de_query_done ev)"
    and "i = CallbackDuration \<or> i = PublisherCountDuration"
  shows "count_on i (snd (observe_data ev self)) = Suc (count_on i self)"
proof -
  define ch where "ch = dset ''channel'' (data_topic self) (common_attributes self)"
  define sq where "sq = dset ''sequence.measurement.method'' single_publisher_sequence_method ch"
  define rest where "rest = (\<lambda>publisher_count.
      bindS (stream_observe (de_metadata ev) publisher_count) (\<lambda>m.
        seqS (report_age m ch)
       (seqS (emit (Add SequenceErrors (sequence_error_delta m) sq)) (report_delivery m sq))))"
  define query where "query = finallyS (liftS (de_publishers ev))
      (record_ms PublisherCountDuration (de_query_done ev - de_query_started ev) ch)"
  define body where "body = bindS query rest"
  obtain xs where lag: "record_callback_lag (de_metadata ev) (de_entered ev) ch self
        = (Inr (), self\<lparr>samples := samples self @ xs\<rparr>)" "list_all (on_instrument CallbackLag) xs"
    using callback_lag_run [OF assms(1)] by blast
  define s1 where "s1 = self\<lparr>samples := samples self @ xs\<rparr>"
  have "count_on i s1 = count_on i self"
    using lag(2) assms(6) on_instrument_unique [of i _ CallbackLag]
    by (auto simp: s1_def filter_empty_conv list_all_iff)
  obtain v where q: "record_ms PublisherCountDuration (de_query_done ev - de_query_started ev) ch s1
        = (Inr (), s1\<lparr>samples := samples s1 @ [Record PublisherCountDuration v ch]\<rparr>)"
    using record_ms_run [OF assms(5,4)] by blast
  define s2 where "s2 = s1\<lparr>samples := samples s1 @ [Record PublisherCountDuration v ch]\<rparr>"
  have query: "query s1 = (de_publishers ev, s2)"
    unfolding query_def s2_def by (simp add: finallyS_def q)
  have rest: "preserves (\<lambda>s. count_on i s = n) (rest k)" for n k
    unfolding rest_def using assms(6) by (auto intro!: keeps)
  obtain r s3 where body: "body s1 = (r, s3)" and s3: "count_on i s3 = count_on i s2"
  proof (cases "de_publishers ev")
    case (Inl e)
    with query that show ?thesis unfolding body_def by (auto simp: bindS_run_error)
  next
    case (Inr k)
    then have "body s1 = rest k s2" unfolding body_def using query by (simp add: bindS_run)
    moreover have "count_on i (snd (rest k s2)) = count_on i s2"
      using rest [of "count_on i s2" k] by (simp add: preserves_def)
    ultimately show ?thesis using that by (metis prod.collapse)
  qed
  obtain w where fin: "record_ms CallbackDuration (de_done ev - de_started ev) ch s3
        = (Inr (), s3\<lparr>samples := samples s3 @ [Record CallbackDuration w ch]\<rparr>)"
    using record_ms_run [OF assms(3,2)] by blast
  have "observe_data ev self = seqS (record_callback_lag (de_metadata ev) (de_entered ev) ch)
      (finallyS body (record_ms CallbackDuration (de_done ev - de_started ev) ch)) self"
    by (simp add: observe_data_def Let_def ch_def sq_def rest_def query_def body_def)
  also have "\<dots> = (r, s3\<lparr>samples := samples s3 @ [Record CallbackDuration w ch]\<rparr>)"
    using lag(1) body fin by (simp add: seqS_def bindS_def finallyS_def s1_def)
  finally have "observe_data ev self = (r, s3\<lparr>samples := samples s3 @ [Record CallbackDuration w ch]\<rparr>)" .
  then show ?thesis
    using s3 \<open>count_on i s1 = count_on i self\<close> assms(6) by (auto simp: s2_def)
qed

section \<open>Properties\<close>

text \<open>
  C31: whatever one data callback meets (missing metadata, a failing publisher-count query, an
  unsupported sequence), with clock readings of 63 bits it records its own duration and the
  duration of the query exactly once each.
\<close>

theorem data_callback_always_timed:
  assumes "list_all clock_range [de_entered ev, de_started ev, de_done ev, de_query_started ev, de_query_done ev]"
  shows "count_on CallbackDuration (snd (observe_data ev self)) = Suc (count_on CallbackDuration self) \<and>
    count_on PublisherCountDuration (snd (observe_data ev self)) = Suc (count_on PublisherCountDuration self)"
  using assms observe_data_run [of ev] by auto

definition example_node :: metrics where
  "example_node = \<lparr>data_topic = ''/data'', time_topic = ''/clock'', source_id = ''sim'',
     common_attributes = [(''run.id'', ''run-1''), (''domain.id'', ''0'')],
     stream = new_stream, missing_time_metadata_logged = False, missing_age_logged = False,
     missing_sequence_logged = False, samples = [], logged = []\<rparr>"

definition failing_query :: data_event where
  "failing_query = \<lparr>de_metadata = [], de_started = 10, de_entered = 20, de_query_started = 30,
     de_publishers = raise RuntimeError ''graph'', de_query_done = 40, de_done = 50\<rparr>"

theorem data_callback_always_timed_witness:
  "count_on CallbackDuration (snd (observe_data failing_query example_node)) = 1 \<and>
   count_on PublisherCountDuration (snd (observe_data failing_query example_node)) = 1"
proof -
  have "list_all clock_range [de_entered failing_query, de_started failing_query, de_done failing_query,
      de_query_started failing_query, de_query_done failing_query]"
    by (simp add: failing_query_def clock_range_def)
  from data_callback_always_timed [OF this, of example_node] show ?thesis
    by (simp add: count_on_def example_node_def)
qed

section \<open>Runs of the node\<close>

datatype callback = ClockCallback clock_event | DataCallback data_event

fun handle :: "callback \<Rightarrow> (metrics, unit) prog" where
  "handle (ClockCallback ev) = observe_clock ev"
| "handle (DataCallback ev) = observe_data ev"

text \<open>Each of the three diagnostics is logged while its flag is down, and raises it.\<close>

definition log_flags :: "metrics \<Rightarrow> bool" where
  "log_flags self \<longleftrightarrow> distinct (logged self) \<and>
     set (logged self) =
       (if missing_time_metadata_logged self then {time_metadata_message} else {}) \<union>
       (if missing_age_logged self then {age_message} else {}) \<union>
       (if missing_sequence_logged self then {sequence_message} else {})"

lemma messages_differ [simp]:
  "time_metadata_message \<noteq> age_message" "time_metadata_message \<noteq> sequence_message"
  "age_message \<noteq> sequence_message" "age_message \<noteq> time_metadata_message"
  "sequence_message \<noteq> time_metadata_message" "sequence_message \<noteq> age_message"
  by (simp_all add: time_metadata_message_def age_message_def sequence_message_def)

lemma log_flags_emit [keeps]: "preserves log_flags (emit x)"
  by (simp add: preserves_def emit_def log_flags_def)

lemma log_flags_record_ms [keeps]: "preserves log_flags (record_ms i ns a)"
  unfolding record_ms_def by (intro keeps)

lemma log_flags_lag [keeps]: "preserves log_flags (record_callback_lag m t a)"
  unfolding record_callback_lag_def by (auto split: option.splits intro!: keeps)

lemma log_flags_stream [keeps]: "preserves log_flags (stream_observe m k)"
  unfolding stream_observe_def by (rule preserves_zoomS) (simp add: log_flags_def)

lemma log_flags_once:
  "preserves log_flags (bindS (getS missing_time_metadata_logged) (\<lambda>done. whenS (\<not> done)
     (seqS (log_error time_metadata_message) (modifyS (\<lambda>self. self\<lparr>missing_time_metadata_logged := True\<rparr>)))))"
  "preserves log_flags (bindS (getS missing_age_logged) (\<lambda>done. whenS (\<not> done)
     (seqS (log_error age_message) (modifyS (\<lambda>self. self\<lparr>missing_age_logged := True\<rparr>)))))"
  "preserves log_flags (bindS (getS missing_sequence_logged) (\<lambda>done. whenS (\<not> done)
     (seqS (log_error sequence_message) (modifyS (\<lambda>self. self\<lparr>missing_sequence_logged := True\<rparr>)))))"
  by (auto simp: preserves_def whenS_def log_error_def log_flags_def)

lemma log_flags_handle [keeps]: "preserves log_flags (handle c)"
proof (cases c)
  case (ClockCallback ev)
  then show ?thesis
    by (auto simp: observe_clock_def Let_def split: option.splits intro!: keeps log_flags_once)
next
  case (DataCallback ev)
  then show ?thesis
    by (auto simp: observe_data_def Let_def report_age_def report_delivery_def
        split: option.splits intro!: keeps log_flags_once)
qed

text \<open>
  C32: however many callbacks a node handles, and even if the last one raises, each of the three
  missing-evidence diagnostics is logged at most once, and nothing else is logged.
\<close>

theorem diagnostics_logged_at_most_once:
  assumes "new_metrics env run domain = Inr node"
  shows "distinct (logged (snd (forS handle callbacks node))) \<and>
    set (logged (snd (forS handle callbacks node))) \<subseteq> {time_metadata_message, age_message, sequence_message}"
proof -
  from assms have "log_flags node"
    by (auto simp: new_metrics_def ok_iff log_flags_def)
  moreover have "preserves log_flags (forS handle callbacks)" by (intro keeps)
  ultimately have "log_flags (snd (forS handle callbacks node))" by (simp add: preserves_def)
  then show ?thesis by (auto simp: log_flags_def split: if_splits)
qed

definition example_environment :: environment where
  "example_environment = [''ROBOTICS_METRICS_TOPIC'' \<mapsto> ''/data'', ''ROBOTICS_TIME_TOPIC'' \<mapsto> ''/clock'',
     ''ROBOTICS_TIME_SOURCE_ID'' \<mapsto> ''sim'', ''ROBOTICS_RUN_ID'' \<mapsto> ''run-1'', ''ROBOTICS_DOMAIN_ID'' \<mapsto> ''0'']"

lemma example_node_created: "new_metrics example_environment None None = Inr example_node"
  by code_simp

theorem diagnostics_logged_at_most_once_witness:
  "distinct (logged (snd (forS handle [DataCallback failing_query, DataCallback failing_query] example_node)))"
  using diagnostics_logged_at_most_once [OF example_node_created,
      of "[DataCallback failing_query, DataCallback failing_query]"] by (rule conjunct1)

section \<open>Delivery counters\<close>

text \<open>What the two delivery counters add up to.\<close>

fun delivery_of :: "sample \<Rightarrow> int" where
  "delivery_of (Add i n a) = (if i = MessagesReceived \<or> i = MessagesLost then n else 0)"
| "delivery_of (Record i v a) = 0"

definition delivered :: "metrics \<Rightarrow> int" where
  "delivered self = sum_list (map delivery_of (samples self))"

lemma delivered_update [simp]:
  "delivered (self\<lparr>missing_age_logged := b\<rparr>) = delivered self"
  "delivered (self\<lparr>missing_sequence_logged := b\<rparr>) = delivered self"
  "delivered (self\<lparr>logged := l\<rparr>) = delivered self"
  "delivered (self\<lparr>stream := t\<rparr>) = delivered self"
  "delivered (self\<lparr>samples := samples self @ xs\<rparr>) = delivered self + sum_list (map delivery_of xs)"
  by (simp_all add: delivered_def)

text \<open>No part of a data callback but \<open>report_delivery\<close> touches the counters, and only the
  stream's \<open>observe\<close> moves its position.\<close>

definition at_counters :: "int \<Rightarrow> message_stream \<Rightarrow> metrics \<Rightarrow> bool" where
  "at_counters d t self \<longleftrightarrow> delivered self = d \<and> stream self = t"

lemma at_counters_emit [keeps]: "delivery_of x = 0 \<Longrightarrow> preserves (at_counters d t) (emit x)"
  by (simp add: preserves_def emit_def at_counters_def)

lemma at_counters_record_ms [keeps]: "preserves (at_counters d t) (record_ms i ns a)"
  unfolding record_ms_def by (intro keeps) simp

lemma at_counters_lag [keeps]: "preserves (at_counters d t) (record_callback_lag m e a)"
  unfolding record_callback_lag_def by (auto split: option.splits intro!: keeps)

lemma at_counters_age [keeps]: "preserves (at_counters d t) (report_age m a)"
  unfolding report_age_def log_error_def
  by (auto split: option.splits intro!: keeps simp: at_counters_def)

lemma report_delivery_run:
  "report_delivery m a self = (Inr (), self') \<Longrightarrow> (received_delta m = None \<longleftrightarrow> lost_delta m = None) \<Longrightarrow>
   delivered self' = delivered self + accounted m \<and> stream self' = stream self"
  by (cases "received_delta m"; cases "lost_delta m")
     (auto simp: report_delivery_def emit_def whenS_def log_error_def accounted_def ok_iff split: if_splits)

lemma observe_data_counters:
  assumes run: "observe_data ev self = (Inr (), self')"
  shows "\<exists>n x. observe (de_metadata ev) n (stream self) = (Inr x, stream self') \<and>
    de_publishers ev = Inr n \<and> delivered self' = delivered self + accounted x"
proof -
  define ch where "ch = dset ''channel'' (data_topic self) (common_attributes self)"
  define sq where "sq = dset ''sequence.measurement.method'' single_publisher_sequence_method ch"
  from run obtain n m s1 s2 s3 s4 s5 s6 where
      lag: "record_callback_lag (de_metadata ev) (de_entered ev) ch self = (Inr (), s1)" and
      query: "finallyS (liftS (de_publishers ev))
          (record_ms PublisherCountDuration (de_query_done ev - de_query_started ev) ch) s1 = (Inr n, s2)" and
      stream: "stream_observe (de_metadata ev) n s2 = (Inr m, s3)" and
      age: "report_age m ch s3 = (Inr (), s4)" and
      err: "emit (Add SequenceErrors (sequence_error_delta m) sq) s4 = (Inr (), s5)" and
      del: "report_delivery m sq s5 = (Inr (), s6)" and
      fin: "record_ms CallbackDuration (de_done ev - de_started ev) ch s6 = (Inr (), self')"
    by (auto simp: observe_data_def Let_def ok_iff ch_def sq_def finallyS_ok)
  have n: "de_publishers ev = Inr n" using query by (simp add: finallyS_ok ok_iff)
  from stream obtain x where obs: "observe (de_metadata ev) n (stream s2) = (Inr m, stream s3)"
      and s3: "delivered s3 = delivered s2"
    by (auto simp: stream_observe_def zoomS_def split: prod.splits)
  from obs have both: "received_delta m = None \<longleftrightarrow> lost_delta m = None"
    by (cases rule: observe_cases) auto
  have here: "at_counters (delivered u) (stream u) u" for u by (simp add: at_counters_def)
  have query_keeps: "preserves (at_counters d t) (finallyS (liftS (de_publishers ev))
      (record_ms PublisherCountDuration (de_query_done ev - de_query_started ev) ch))" for d t
    by (intro keeps)
  have err_keeps: "preserves (at_counters d t) (emit (Add SequenceErrors (sequence_error_delta m) sq))" for d t
    by (intro keeps) simp
  note preservesD [OF at_counters_lag here lag] preservesD [OF query_keeps here query]
    preservesD [OF at_counters_age here age] preservesD [OF err_keeps here err]
    preservesD [OF at_counters_record_ms here fin] report_delivery_run [OF del both]
  with s3 have "delivered self' = delivered self + accounted m" "stream s2 = stream self" "stream self' = stream s3"
    by (simp_all add: at_counters_def)
  with obs n show ?thesis by auto
qed

text \<open>
  C20: over any run of data callbacks that all return, the received and lost counters grow by
  exactly the distance the stream's sequence position moved.
\<close>

theorem delivery_counters_follow_the_stream:
  assumes "forS observe_data evs self = (Inr (), self')" and "last_sequence (stream self) = Some p"
  shows "\<exists>q. last_sequence (stream self') = Some q \<and> p \<le> q \<and> delivered self' - delivered self = q - p"
  using assms
proof (induction evs arbitrary: self p)
  case Nil
  then show ?case by simp
next
  case (Cons ev evs)
  from Cons.prems(1) obtain mid where
      head: "observe_data ev self = (Inr (), mid)" and tail: "forS observe_data evs mid = (Inr (), self')"
    by (auto simp: ok_iff)
  from observe_data_counters [OF head] obtain n x where
      obs: "observe (de_metadata ev) n (stream self) = (Inr x, stream mid)"
      and d: "delivered mid = delivered self + accounted x" by blast
  from stream_meter.advance [OF obs Cons.prems(2)] obtain m where
      m: "last_sequence (stream mid) = Some m" "p \<le> m" "accounted x = m - p" by blast
  from Cons.IH [OF tail m(1)] d m show ?case by force
qed

definition gap_event :: data_event where
  "gap_event = \<lparr>de_metadata = [(''publication_sequence_number'', JInt 9)], de_started = 10, de_entered = 10,
     de_query_started = 10, de_publishers = Inr 1, de_query_done = 10, de_done = 10\<rparr>"

theorem delivery_counters_follow_the_stream_witness:
  "\<exists>self'. forS observe_data [gap_event] (example_node\<lparr>stream := \<lparr>last_sequence = Some 5\<rparr>\<rparr>) = (Inr (), self') \<and>
     delivered self' = 4"
proof -
  let ?node = "example_node\<lparr>stream := \<lparr>last_sequence = Some 5\<rparr>\<rparr>"
  obtain self' where run: "forS observe_data [gap_event] ?node = (Inr (), self')"
      and seq: "last_sequence (stream self') = Some 9"
    by (simp add: gap_event_def example_node_def observe_data_def record_callback_lag_def dget_def
        seqS_def bindS_def finallyS_def record_ms_def emit_def stream_observe_def zoomS_def
        observe_unfold source_to_reception_latency_ms_def positive_int_def sequence_number_def
        rmw_unsupported_sequence_number_def report_age_def whenS_def log_error_def report_delivery_def)
  from delivery_counters_follow_the_stream [OF run, of 5] seq run show ?thesis
    by (auto simp: delivered_def example_node_def)
qed

section \<open>Shutdown and propagation\<close>


definition process_environment :: environment where
  "process_environment = example_environment(''OTEL_EXPORTER_OTLP_METRICS_ENDPOINT'' \<mapsto> ''http://collector'')"




end
