(* ===== verification/Simulation_Control.thy ===== *)
theory Simulation_Control
  imports Py_Json
begin

text \<open>
  \<open>robotics_runtime_infra/simulation_control.py\<close>: the client that drives a simulator through
  the ROS 2 \<open>simulation_interfaces\<close> services and checks that stepping advances \<open>/clock\<close>
  exactly. The node's fields are \<open>sim\<close>; the middleware, the simulator and the clock of the host
  are the environment \<open>ros\<close>, functions on an abstract world that the node carries along. A
  service call or a spin delivers the \<open>/clock\<close> messages that arrived meanwhile, in order.
  Times of the host clock are the rationals of the floats \<open>time.monotonic\<close> returns, and
  sums and differences round as floats do.
\<close>

section \<open>Environment and node\<close>

datatype request = GetFeatures | GetState | SetState int | StepSim int

record response =
  result_code :: int
  error_message :: string
  response_features :: "int list"
  response_state :: int

text \<open>Seconds and nanoseconds of a \<open>rosgraph_msgs/Clock\<close>.\<close>

type_synonym clock_message = "int \<times> int"

record 'w ros =
  monotonic :: "'w \<Rightarrow> rat \<times> 'w"
  wait_for_service :: "string \<Rightarrow> rat \<Rightarrow> 'w \<Rightarrow> bool \<times> 'w"
  call_async :: "string \<Rightarrow> request \<Rightarrow> rat \<Rightarrow> 'w \<Rightarrow> response option \<times> clock_message list \<times> 'w"
  spin :: "rat \<Rightarrow> 'w \<Rightarrow> clock_message list \<times> 'w"
  rcl_ok :: "'w \<Rightarrow> bool \<times> 'w"
  sleep :: "pyfloat \<Rightarrow> 'w \<Rightarrow> 'w"
  result_ok :: int
  already_in_target_state :: int
  state_playing :: int
  state_paused :: int
  feature_state_getting :: int
  feature_state_setting :: int
  feature_state_pause :: int
  feature_step_single :: int
  feature_step_multiple :: int

record 'w sim =
  namespace :: string
  timeout_sec :: rat
  clock_ns :: "int option"
  world :: 'w

definition new_sim :: "string \<Rightarrow> rat \<Rightarrow> 'w \<Rightarrow> 'w sim" where
  "new_sim ns timeout w = \<lparr>namespace = ''/'' @ strip (\<lambda>c. c = CHR ''/'') ns, timeout_sec = timeout, clock_ns = None, world = w\<rparr>"

definition on_clock :: "clock_message \<Rightarrow> 'w sim \<Rightarrow> 'w sim" where
  "on_clock m self = self\<lparr>clock_ns := Some (fst m * 1000000000 + snd m)\<rparr>"

definition deliver :: "clock_message list \<Rightarrow> 'w \<Rightarrow> 'w sim \<Rightarrow> 'w sim" where
  "deliver ms w self = (fold on_clock ms self)\<lparr>world := w\<rparr>"

definition service_name :: "'w sim \<Rightarrow> string \<Rightarrow> string" where
  "service_name self suffix = namespace self @ ''/'' @ suffix"

definition read_monotonic :: "'w ros \<Rightarrow> ('w sim, rat) prog" where
  "read_monotonic env = (\<lambda>self. case monotonic env (world self) of (t, w) \<Rightarrow> (Inr t, self\<lparr>world := w\<rparr>))"

definition spin_once :: "'w ros \<Rightarrow> rat \<Rightarrow> ('w sim, unit) prog" where
  "spin_once env timeout = (\<lambda>self. case spin env timeout (world self) of (ms, w) \<Rightarrow> (Inr (), deliver ms w self))"

section \<open>Service calls\<close>

definition call_service :: "'w ros \<Rightarrow> string \<Rightarrow> request \<Rightarrow> ('w sim, response) prog" where
  "call_service env suffix request = (\<lambda>self.
     let name = service_name self suffix in
     case wait_for_service env name (timeout_sec self) (world self) of (available, w) \<Rightarrow>
       if \<not> available then (raise ConformanceError (''service is unavailable: '' @ name), self\<lparr>world := w\<rparr>)
       else case call_async env name request (timeout_sec self) w of (answer, ms, w') \<Rightarrow>
         (case answer of
            None \<Rightarrow> (raise ConformanceError (''service call timed out: '' @ name), deliver ms w' self)
          | Some response \<Rightarrow> (Inr response, deliver ms w' self)))"

definition require_ok :: "'w ros \<Rightarrow> response \<Rightarrow> string \<Rightarrow> bool \<Rightarrow> unit res" where
  "require_ok env response operation allow_already =
     unlessE (\<not> (result_code response = result_ok env \<or>
                 (allow_already \<and> result_code response = already_in_target_state env)))
       ConformanceError (operation @ '' failed with result '' @ int_str (result_code response) @ '': '' @ error_message response)
       (Inr ())"

definition sim_features :: "'w ros \<Rightarrow> ('w sim, int list) prog" where
  "sim_features env = bindS (call_service env ''get_simulator_features'' GetFeatures)
     (\<lambda>response. retS (remdups (response_features response)))"

definition set_state :: "'w ros \<Rightarrow> int \<Rightarrow> ('w sim, unit) prog" where
  "set_state env st = bindS (call_service env ''set_simulation_state'' (SetState st))
     (\<lambda>response. liftS (require_ok env response ''set_simulation_state'' True))"

definition get_state :: "'w ros \<Rightarrow> ('w sim, int) prog" where
  "get_state env = bindS (call_service env ''get_simulation_state'' GetState) (\<lambda>response.
     seqS (liftS (require_ok env response ''get_simulation_state'' False)) (retS (response_state response)))"

definition sim_step :: "'w ros \<Rightarrow> int \<Rightarrow> ('w sim, unit) prog" where
  "sim_step env steps = bindS (call_service env ''step_simulation'' (StepSim steps))
     (\<lambda>response. liftS (require_ok env response ''step_simulation'' False))"

section \<open>Waiting\<close>

definition deadline_of :: "'w ros \<Rightarrow> ('w sim, rat) prog" where
  "deadline_of env = bindS (read_monotonic env) (\<lambda>t. bindS (getS timeout_sec) (\<lambda>d. retS (rnd64 (t + d))))"

definition state_pass :: "'w ros \<Rightarrow> int \<Rightarrow> rat \<Rightarrow> int \<Rightarrow> ('w sim, unit + int) prog" where
  "state_pass env requested deadline observed =
     bindS (read_monotonic env) (\<lambda>t.
       let remaining = rnd64 (deadline - t) in
       if remaining \<le> 0 then
         raiseS ConformanceError (''simulation state '' @ int_str requested @
           '' was not confirmed before the timeout; last observed state '' @ int_str observed)
       else if observed = requested then retS (Inl ())
       else seqS (spin_once env (min (rnd64 (1/20)) remaining))
              (bindS (get_state env) (\<lambda>st. retS (Inr st))))"

definition wait_for_state :: "'w ros \<Rightarrow> nat \<Rightarrow> int \<Rightarrow> ('w sim, unit) fprog" where
  "wait_for_state env fuel requested =
     bindF (liftF (deadline_of env)) (\<lambda>deadline.
     bindF (liftF (get_state env)) (\<lambda>observed self.
       repeat_until fuel (pass_of (state_pass env requested deadline)) (observed, self)))"

definition after_pass :: "'w ros \<Rightarrow> rat \<Rightarrow> int option \<Rightarrow> ('w sim, int + int option) prog" where
  "after_pass env deadline previous =
     bindS (read_monotonic env) (\<lambda>t.
       if \<not> t < deadline then raiseS ConformanceError ''/clock did not advance before the timeout''
       else seqS (spin_once env (rnd64 (1/10)))
         (bindS (getS clock_ns) (\<lambda>clock.
            case clock of
              None \<Rightarrow> retS (Inr previous)
            | Some c \<Rightarrow> (case previous of
                  None \<Rightarrow> retS (Inr (Some c))
                | Some p \<Rightarrow> if p < c then retS (Inl c) else retS (Inr previous)))))"

definition wait_for_clock_after :: "'w ros \<Rightarrow> nat \<Rightarrow> int option \<Rightarrow> ('w sim, int) fprog" where
  "wait_for_clock_after env fuel previous =
     bindF (liftF (deadline_of env)) (\<lambda>deadline self.
       repeat_until fuel (pass_of (after_pass env deadline)) (previous, self))"

definition stable_sec :: rat where
  "stable_sec = 1 / 4"

definition quiescent_pass ::
  "'w ros \<Rightarrow> rat \<Rightarrow> int option \<times> rat \<Rightarrow> ('w sim, int + (int option \<times> rat)) prog" where
  "quiescent_pass env deadline locals =
     bindS (read_monotonic env) (\<lambda>t. case locals of (observed, stable_since) \<Rightarrow>
       if \<not> t < deadline then raiseS ConformanceError ''/clock did not become quiescent while paused''
       else seqS (spin_once env (min (rnd64 (1/20)) stable_sec))
         (bindS (getS clock_ns) (\<lambda>clock.
            case clock of
              None \<Rightarrow> retS (Inr (observed, stable_since))
            | Some c \<Rightarrow>
                if observed \<noteq> Some c then
                  bindS (read_monotonic env) (\<lambda>t'. retS (Inr (Some c, t')))
                else bindS (read_monotonic env) (\<lambda>t'.
                  if stable_sec \<le> rnd64 (t' - stable_since) then retS (Inl c)
                  else retS (Inr (observed, stable_since))))))"

definition wait_for_quiescent_clock :: "'w ros \<Rightarrow> nat \<Rightarrow> ('w sim, int) fprog" where
  "wait_for_quiescent_clock env fuel =
     bindF (liftF (deadline_of env)) (\<lambda>deadline.
     bindF (liftF (read_monotonic env)) (\<lambda>stable_since.
     bindF (liftF (getS clock_ns)) (\<lambda>observed self.
       repeat_until fuel (pass_of (quiescent_pass env deadline)) ((observed, stable_since), self))))"

definition at_least_pass :: "'w ros \<Rightarrow> int \<Rightarrow> rat \<Rightarrow> unit \<Rightarrow> ('w sim, int + unit) prog" where
  "at_least_pass env target deadline locals =
     bindS (read_monotonic env) (\<lambda>t.
       if \<not> t < deadline then
         raiseS ConformanceError (''/clock did not reach '' @ int_str target @ '' before the timeout'')
       else seqS (spin_once env (rnd64 (1/20)))
         (bindS (getS clock_ns) (\<lambda>clock.
            case clock of
              None \<Rightarrow> retS (Inr ())
            | Some c \<Rightarrow> if target \<le> c then retS (Inl c) else retS (Inr ()))))"

definition wait_for_clock_at_least :: "'w ros \<Rightarrow> nat \<Rightarrow> int \<Rightarrow> ('w sim, int) fprog" where
  "wait_for_clock_at_least env fuel target =
     bindF (liftF (deadline_of env)) (\<lambda>deadline self.
       repeat_until fuel (pass_of (at_least_pass env target deadline)) ((), self))"

section \<open>Stepping and verification\<close>

definition step_and_wait :: "'w ros \<Rightarrow> nat \<Rightarrow> int \<Rightarrow> int \<Rightarrow> int \<Rightarrow> ('w sim, int) fprog" where
  "step_and_wait env fuel previous steps step_size =
     (let expected = previous + steps * step_size in
      seqF (liftF (sim_step env steps))
     (bindF (wait_for_clock_at_least env fuel expected) (\<lambda>stepped.
      seqF (wait_for_state env fuel (state_paused env))
     (bindF (liftF (getS clock_ns)) (\<lambda>clock.
      if stepped \<noteq> expected \<or> clock \<noteq> Some expected then
        liftF (raiseS ConformanceError (''step_simulation reached /clock '' @
          (case clock of None \<Rightarrow> ''None'' | Some c \<Rightarrow> int_str c) @ '' ns; expected '' @ int_str expected @ '' ns''))
      else liftF (retS stepped))))))"

definition required_features :: "'w ros \<Rightarrow> int \<Rightarrow> int list" where
  "required_features env steps =
     [feature_state_getting env, feature_state_setting env, feature_state_pause env, feature_step_single env] @
     (if 1 < steps then [feature_step_multiple env] else [])"

definition missing_features :: "'w ros \<Rightarrow> int \<Rightarrow> int list \<Rightarrow> int list" where
  "missing_features env steps features =
     sort (remdups (filter (\<lambda>f. f \<notin> set features) (required_features env steps)))"

fun int_list_str :: "int list \<Rightarrow> string" where
  "int_list_str xs = ''['' @ join_with '', '' (map int_str xs) @ '']''"

definition conformance_report :: "string \<Rightarrow> int list \<Rightarrow> int \<Rightarrow> int \<Rightarrow> int \<Rightarrow> int \<Rightarrow> int \<Rightarrow> int \<Rightarrow> json" where
  "conformance_report ns features steps step_size playing paused stepped resumed = JObj [
     (''schema_version'', JStr ''simulation-conformance.v1''),
     (''service_namespace'', JStr ns),
     (''features'', JList (map JInt (sort features))),
     (''steps'', JInt steps),
     (''step_size_ns'', JInt step_size),
     (''clock'', JObj [
        (''playing_ns'', JInt playing), (''paused_ns'', JInt paused),
        (''stepped_ns'', JInt stepped), (''resumed_ns'', JInt resumed)]),
     (''status'', JStr ''passed'')]"

definition verify :: "'w ros \<Rightarrow> nat \<Rightarrow> int \<Rightarrow> int \<Rightarrow> ('w sim, json) fprog" where
  "verify env fuel steps step_size =
     bindF (liftF (sim_features env)) (\<lambda>features.
     let missing = missing_features env steps features in
     if missing \<noteq> [] then
       liftF (raiseS ConformanceError (''simulator features are missing: '' @ int_list_str missing))
     else
     bindF (liftF (getS clock_ns)) (\<lambda>initial.
     seqF (liftF (set_state env (state_playing env)))
    (seqF (wait_for_state env fuel (state_playing env))
    (bindF (wait_for_clock_after env fuel initial) (\<lambda>playing.
     seqF (liftF (set_state env (state_paused env)))
    (seqF (wait_for_state env fuel (state_paused env))
    (bindF (wait_for_quiescent_clock env fuel) (\<lambda>paused.
     let expected = paused + steps * step_size in
     seqF (liftF (sim_step env steps))
    (seqF (wait_for_clock_at_least env fuel expected)
    (bindF (wait_for_quiescent_clock env fuel) (\<lambda>stepped.
     if stepped \<noteq> expected then
       liftF (raiseS ConformanceError (''step_simulation advanced /clock by '' @ int_str (stepped - paused) @
         '' ns; expected '' @ int_str (steps * step_size) @ '' ns''))
     else
     bindF (liftF (get_state env)) (\<lambda>st.
     if st \<noteq> state_paused env then
       liftF (raiseS ConformanceError ''step_simulation did not return to paused state'')
     else
     seqF (liftF (set_state env (state_playing env)))
    (bindF (wait_for_clock_after env fuel (Some stepped)) (\<lambda>resumed.
     seqF (wait_for_state env fuel (state_playing env))
    (bindF (liftF (getS namespace)) (\<lambda>ns.
     liftF (retS (conformance_report ns features steps step_size playing paused stepped resumed))))))))))))))))))"

section \<open>Command line\<close>

definition positive_int_arg :: "string \<Rightarrow> int res" where
  "positive_int_arg value = bindE (parse_int value) (\<lambda>parsed.
     unlessE (parsed < 1) ArgumentTypeError ''value must be a positive integer'' (Inr parsed))"

text \<open>\<open>float(value)\<close> on text is Python's parser, an argument here.\<close>

definition positive_float_arg :: "(string \<Rightarrow> pyfloat res) \<Rightarrow> string \<Rightarrow> pyfloat res" where
  "positive_float_arg parse_float value = bindE (parse_float value) (\<lambda>parsed.
     unlessE (\<not> isfinite parsed \<or> fle parsed (Fin 0)) ArgumentTypeError ''value must be finite and positive'' (Inr parsed))"

datatype command =
    Verify (v_steps: int) (v_step_size: int) (v_report: "string option")
  | StepMode (s_steps: int) (s_step_size: int) (s_interval: pyfloat)

text \<open>The subcommands with the defaults of \<open>_parser\<close>.\<close>

definition default_verify :: command where
  "default_verify = Verify 5 1000000 None"

definition default_step :: command where
  "default_step = StepMode 1 1000000 (to_float (1/5))"

record 'w process =
  node :: "'w sim"
  stdout :: "string list"
  stderr :: "string list"
  files :: "(string \<times> string) list"
  node_destroyed :: bool
  rcl_shut_down :: bool

definition on_node :: "('w sim, 'a) fprog \<Rightarrow> ('w process, 'a) fprog" where
  "on_node m = (\<lambda>p. case m (node p) of None \<Rightarrow> None | Some (r, t) \<Rightarrow> Some (r, p\<lparr>node := t\<rparr>))"

text \<open>One pass of \<open>while rclpy.ok(): step_and_wait; sleep\<close>; fuel that runs out in an inner wait
  ends the pass with \<open>None\<close>.\<close>

fun step_forever :: "'w ros \<Rightarrow> nat \<Rightarrow> nat \<Rightarrow> int \<Rightarrow> int \<Rightarrow> pyfloat \<Rightarrow> int \<Rightarrow> ('w sim, int) fprog" where
  "step_forever env fuel 0 steps step_size interval clock = (\<lambda>self. None)"
| "step_forever env fuel (Suc n) steps step_size interval clock = (\<lambda>self.
     case rcl_ok env (world self) of (running, w) \<Rightarrow>
       if \<not> running then Some (Inr 0, self\<lparr>world := w\<rparr>)
       else bindF (step_and_wait env fuel clock steps step_size) (\<lambda>clock'.
              seqF (liftF (modifyS (\<lambda>self. self\<lparr>world := sleep env interval (world self)\<rparr>)))
                   (step_forever env fuel n steps step_size interval clock'))
            (self\<lparr>world := w\<rparr>))"

text \<open>\<open>dumps\<close> is \<open>json.dumps(report, indent=2, sort_keys=True)\<close>, \<open>write\<close> the outcome of
  creating the parent directory and writing the report file.\<close>

definition run_command ::
  "'w ros \<Rightarrow> nat \<Rightarrow> nat \<Rightarrow> (json \<Rightarrow> string) \<Rightarrow> (string \<Rightarrow> unit res) \<Rightarrow> command \<Rightarrow> ('w process, int) fprog" where
  "run_command env fuel rounds dumps write command = (case command of
      Verify steps step_size report_path \<Rightarrow>
        bindF (on_node (verify env fuel steps step_size)) (\<lambda>report.
        let serialized = dumps report @ [char_of (10::nat)] in
        seqF (case report_path of None \<Rightarrow> liftF (retS ())
              | Some path \<Rightarrow> liftF (seqS (liftS (write path)) (modifyS (\<lambda>p. p\<lparr>files := files p @ [(path, serialized)]\<rparr>))))
       (seqF (liftF (modifyS (\<lambda>p. p\<lparr>stdout := stdout p @ [serialized]\<rparr>)))
             (liftF (retS 0))))
    | StepMode steps step_size interval \<Rightarrow>
        on_node (seqF (liftF (set_state env (state_paused env)))
                (seqF (wait_for_state env fuel (state_paused env))
                (bindF (wait_for_quiescent_clock env fuel) (\<lambda>clock.
                   step_forever env fuel rounds steps step_size interval clock)))))"

definition control_main ::
  "'w ros \<Rightarrow> nat \<Rightarrow> nat \<Rightarrow> (json \<Rightarrow> string) \<Rightarrow> (string \<Rightarrow> unit res) \<Rightarrow> command \<Rightarrow> ('w process, int) fprog" where
  "control_main env fuel rounds dumps write command = (\<lambda>p.
     case run_command env fuel rounds dumps write command p of
       None \<Rightarrow> None
     | Some (r, q) \<Rightarrow>
         Some (case r of
             Inr code \<Rightarrow> (Inr code, q\<lparr>node_destroyed := True, rcl_shut_down := True\<rparr>)
           | Inl e \<Rightarrow>
               if caught_by [ConformanceError, OSError, ValueError] e
               then (Inr 1, q\<lparr>stderr := stderr q @ [''simulation control failed: '' @ exc_msg e],
                              node_destroyed := True, rcl_shut_down := True\<rparr>)
               else (Inl e, q\<lparr>node_destroyed := True, rcl_shut_down := True\<rparr>)))"

section \<open>Facts\<close>

lemmas pass_unfold = pass_of_def bindS_def seqS_def liftS_def retS_def raiseS_def getS_def Let_def

text \<open>The clock of the host: a reading shows the time of the world and takes at least \<open>d\<close>;
  nothing else turns it back. This is the documented behaviour of \<open>time.monotonic\<close>.\<close>

definition ticking :: "'w ros \<Rightarrow> ('w \<Rightarrow> rat) \<Rightarrow> rat \<Rightarrow> bool" where
  "ticking env time d \<longleftrightarrow> 0 < d \<and>
     (\<forall>w. fst (monotonic env w) = time w \<and> time w + d \<le> time (snd (monotonic env w))) \<and>
     (\<forall>w t. time w \<le> time (snd (spin env t w))) \<and>
     (\<forall>w n t. time w \<le> time (snd (wait_for_service env n t w))) \<and>
     (\<forall>w n r t. time w \<le> time (snd (snd (call_async env n r t w))))"

abbreviation sim_clock :: "('w \<Rightarrow> rat) \<Rightarrow> 'w sim \<Rightarrow> rat" where
  "sim_clock time \<equiv> \<lambda>self. time (world self)"

lemma world_deliver [simp]: "world (deliver ms w self) = w"
  by (simp add: deliver_def)

lemma on_clock_frame [simp]:
  "namespace (on_clock m self) = namespace self" "timeout_sec (on_clock m self) = timeout_sec self"
  by (simp_all add: on_clock_def)

lemma fold_on_clock_frame [simp]:
  "namespace (fold on_clock ms self) = namespace self" "timeout_sec (fold on_clock ms self) = timeout_sec self"
  by (induction ms arbitrary: self) simp_all

lemma deliver_frame [simp]:
  "namespace (deliver ms w self) = namespace self" "timeout_sec (deliver ms w self) = timeout_sec self"
  by (simp_all add: deliver_def)

lemma read_monotonic_run:
  assumes "ticking env time d"
  shows "\<exists>w. read_monotonic env self = (Inr (time (world self)), self\<lparr>world := w\<rparr>) \<and> time (world self) + d \<le> time w"
proof -
  from assms have "fst (monotonic env (world self)) = time (world self)"
      "time (world self) + d \<le> time (snd (monotonic env (world self)))"
    by (simp_all add: ticking_def)
  then show ?thesis
    by (auto simp: read_monotonic_def split: prod.splits)
qed

lemma forward_spin [keeps]: "ticking env time d \<Longrightarrow> forward (sim_clock time) (spin_once env t)"
  by (auto simp: forward_def spin_once_def ticking_def split: prod.splits) (metis snd_conv)

lemma forward_read [keeps]: "ticking env time d \<Longrightarrow> forward (sim_clock time) (read_monotonic env)"
  unfolding forward_def
proof
  fix self :: "'a sim"
  assume tick: "ticking env time d"
  then obtain w where "read_monotonic env self = (Inr (time (world self)), self\<lparr>world := w\<rparr>)"
      "time (world self) + d \<le> time w"
    using read_monotonic_run by blast
  with tick show "time (world self) \<le> time (world (snd (read_monotonic env self)))"
    by (simp add: ticking_def)
qed

lemma forward_call [keeps]:
  assumes tick: "ticking env time d"
  shows "forward (sim_clock time) (call_service env suffix request)"
  unfolding forward_def
proof
  fix self :: "'a sim"
  obtain b w where wait: "wait_for_service env (service_name self suffix) (timeout_sec self) (world self) = (b, w)"
    by fastforce
  obtain a ms w' where call: "call_async env (service_name self suffix) request (timeout_sec self) w = (a, ms, w')"
    by (metis prod.exhaust)
  from tick have "time (world self) \<le> time w" "time w \<le> time w'"
    unfolding ticking_def by (metis wait snd_conv, metis call snd_conv)
  then show "time (world self) \<le> time (world (snd (call_service env suffix request self)))"
    by (simp add: call_service_def wait call Let_def split: option.splits)
qed

lemma forward_get_state [keeps]: "ticking env time d \<Longrightarrow> forward (sim_clock time) (get_state env)"
  unfolding get_state_def by (intro keeps)

text \<open>A wait whose pass starts by reading the clock, raises at the deadline and lets time run
  forward is a bounded poll.\<close>

lemma ticking_pass:
  assumes body: "\<And>l. body l = bindS (read_monotonic env) (rest l)"
    and late: "\<And>l t self. deadline \<le> t \<Longrightarrow> \<exists>e. fst (rest l t self) = Inl e"
    and rest: "\<And>l t. ticking env time d \<Longrightarrow> forward (sim_clock time) (rest l t)"
  shows "bounded_poll (pass_of body) (passes_left (sim_clock time) d deadline) (\<lambda>_. ticking env time d)"
proof (rule bounded_pass)
  fix l self l' self'
  assume tick: "ticking env time d" and pass: "body l self = (Inr (Inr l'), self')"
  obtain w where read: "read_monotonic env self = (Inr (time (world self)), self\<lparr>world := w\<rparr>)"
      and w: "time (world self) + d \<le> time w"
    using read_monotonic_run [OF tick] by blast
  let ?mid = "self\<lparr>world := w\<rparr>"
  from pass read have run: "rest l (time (world self)) ?mid = (Inr (Inr l'), self')"
    by (simp add: body bindS_run)
  then have "time (world self) < deadline"
    using late [of "time (world self)" l ?mid] by fastforce
  moreover from forwardD [OF rest [OF tick] run] w have "time (world self) + d \<le> time (world self')" by simp
  ultimately show "time (world self) < deadline \<and> time (world self) + d \<le> time (world self')" ..
qed (simp add: ticking_def)

interpretation after_poll: bounded_poll "pass_of (after_pass env deadline)" "passes_left (sim_clock time) d deadline" "\<lambda>_. ticking env time d"
  for env :: "'w ros" and deadline time d
  by (rule ticking_pass, rule after_pass_def)
     (auto intro!: keeps split: option.splits simp del: not_less)

interpretation state_poll: bounded_poll "pass_of (state_pass env requested deadline)" "passes_left (sim_clock time) d deadline"
    "\<lambda>_. ticking env time d"
  for env :: "'w ros" and requested deadline time d
proof (rule ticking_pass, rule state_pass_def)
  fix l t and self :: "'w sim"
  assume "deadline \<le> t"
  then have "rnd64 (deadline - t) \<le> 0"
    using rnd64_nonneg [of "t - deadline"] rnd64_minus [of "t - deadline"] by simp
  then show "\<exists>e. fst ((let remaining = rnd64 (deadline - t) in
       if remaining \<le> 0 then
         raiseS ConformanceError (''simulation state '' @ int_str requested @
           '' was not confirmed before the timeout; last observed state '' @ int_str l)
       else if l = requested then retS (Inl ())
       else seqS (spin_once env (min (rnd64 (1/20)) remaining))
              (bindS (get_state env) (\<lambda>st. retS (Inr st)))) self) = Inl e"
    by simp
qed (auto simp: Let_def intro!: keeps)

interpretation quiescent_poll: bounded_poll "pass_of (quiescent_pass env deadline)" "passes_left (sim_clock time) d deadline"
    "\<lambda>_. ticking env time d"
  for env :: "'w ros" and deadline time d
  by (rule ticking_pass, rule quiescent_pass_def)
     (auto intro!: keeps split: option.splits prod.splits simp del: not_less)

interpretation at_least_poll: bounded_poll "pass_of (at_least_pass env target deadline)" "passes_left (sim_clock time) d deadline"
    "\<lambda>_. ticking env time d"
  for env :: "'w ros" and target deadline time d
  by (rule ticking_pass, rule at_least_pass_def)
     (auto intro!: keeps split: option.splits simp del: not_less)

lemma deadline_run:
  assumes "ticking env time d"
  shows "\<exists>w. deadline_of env self = (Inr (rnd64 (time (world self) + timeout_sec self)), self\<lparr>world := w\<rparr>) \<and>
    time (world self) \<le> time w"
proof -
  from read_monotonic_run [OF assms] obtain w where
      "read_monotonic env self = (Inr (time (world self)), self\<lparr>world := w\<rparr>)" "time (world self) + d \<le> time w"
    by blast
  with assms show ?thesis
    by (auto simp: deadline_of_def bindS_def getS_def retS_def ticking_def)
qed

text \<open>Passes that suffice for a wait that starts in \<open>self\<close>.\<close>

definition wait_passes :: "('w \<Rightarrow> rat) \<Rightarrow> rat \<Rightarrow> 'w sim \<Rightarrow> nat" where
  "wait_passes time d self =
     nat \<lceil>(rnd64 (time (world self) + timeout_sec self) - time (world self)) / d\<rceil>"

lemma polls_left_within:
  assumes "0 < d" "wait_passes time d self < fuel" "time (world self) \<le> time (world s)"
  shows "passes_left (sim_clock time) d (rnd64 (time (world self) + timeout_sec self)) (l, s) < fuel"
proof -
  have "passes_left (sim_clock time) d (rnd64 (time (world self) + timeout_sec self)) (l, s) \<le> wait_passes time d self"
    unfolding passes_left_def snd_conv wait_passes_def using assms
    by (auto intro!: nat_mono ceiling_mono divide_right_mono)
  with assms(2) show ?thesis by simp
qed

text \<open>What the last pass of a wait that returned has seen.\<close>

lemma after_pass_result:
  assumes "pass_of (after_pass env deadline) (previous, self) = Inl (Inr c, self')"
  shows "clock_ns self' = Some c \<and> (\<exists>p. previous = Some p \<and> p < c)"
  using assms by (auto simp: after_pass_def ok_iff ok_cases)

lemma after_pass_previous:
  assumes "pass_of (after_pass env deadline) (Some p, self) = Inr (previous, self')"
  shows "previous = Some p"
  using assms by (auto simp: after_pass_def ok_iff ok_cases)

lemma quiescent_pass_result:
  assumes "pass_of (quiescent_pass env deadline) (locals, self) = Inl (Inr c, self')"
  shows "clock_ns self' = Some c"
proof -
  have frame: "clock_ns s' = clock_ns s" if "read_monotonic env s = (r, s')" for r s s'
    using that by (auto simp: read_monotonic_def split: prod.splits)
  from assms show ?thesis
    by (auto simp: quiescent_pass_def ok_iff ok_cases dest!: frame)
qed

lemma at_least_pass_result:
  assumes "pass_of (at_least_pass env target deadline) (locals, self) = Inl (Inr c, self')"
  shows "clock_ns self' = Some c \<and> target \<le> c"
  using assms by (auto simp: at_least_pass_def ok_iff ok_cases)

lemma state_pass_result:
  assumes "pass_of (state_pass env requested deadline) (observed, self) = Inl (Inr u, self')"
  shows "observed = requested \<and> self' = self\<lparr>world := snd (monotonic env (world self))\<rparr>"
  using assms
  by (auto simp: state_pass_def ok_iff ok_cases Let_def read_monotonic_def split: prod.splits)

lemma state_pass_next:
  assumes "pass_of (state_pass env requested deadline) (observed, self) = Inr (observed', self')"
  shows "\<exists>s. get_state env s = (Inr observed', self')"
  using assms by (auto simp: state_pass_def ok_iff ok_cases Let_def)

lemma wait_for_clock_after_result:
  assumes "wait_for_clock_after env fuel (Some p) self = Some (Inr c, self')"
  shows "p < c \<and> clock_ns self' = Some c"
proof -
  from assms obtain deadline s where
      "repeat_until fuel (pass_of (after_pass env deadline)) (Some p, s) = Some (Inr c, self')"
    by (auto simp: wait_for_clock_after_def ok_iff)
  then obtain t where "fst t = Some p" "pass_of (after_pass env deadline) t = Inl (Inr c, self')"
    by (rule repeat_until_last [where P = "\<lambda>t. fst t = Some p"])
       (auto dest: after_pass_previous)
  then show ?thesis by (cases t) (auto dest: after_pass_result)
qed

lemma wait_for_quiescent_clock_result:
  assumes "wait_for_quiescent_clock env fuel self = Some (Inr c, self')"
  shows "clock_ns self' = Some c"
proof -
  from assms obtain deadline l s where
      "repeat_until fuel (pass_of (quiescent_pass env deadline)) (l, s) = Some (Inr c, self')"
    by (auto simp: wait_for_quiescent_clock_def ok_iff)
  then obtain t where "pass_of (quiescent_pass env deadline) t = Inl (Inr c, self')"
    by (rule repeat_until_last [where P = "\<lambda>_. True"]) auto
  then show ?thesis by (cases t) (simp add: quiescent_pass_result)
qed

lemma wait_for_clock_at_least_result:
  assumes "wait_for_clock_at_least env fuel target self = Some (Inr c, self')"
  shows "target \<le> c \<and> clock_ns self' = Some c"
proof -
  from assms obtain deadline s where
      "repeat_until fuel (pass_of (at_least_pass env target deadline)) ((), s) = Some (Inr c, self')"
    by (auto simp: wait_for_clock_at_least_def ok_iff)
  then obtain t where "pass_of (at_least_pass env target deadline) t = Inl (Inr c, self')"
    by (rule repeat_until_last [where P = "\<lambda>_. True"]) auto
  then show ?thesis by (cases t) (auto dest: at_least_pass_result)
qed

text \<open>The simulator's latest answer, when a wait for a state has returned.\<close>

definition confirmed :: "'w ros \<Rightarrow> int \<Rightarrow> 'w sim \<Rightarrow> bool" where
  "confirmed env requested self' \<longleftrightarrow> (\<exists>s s'. get_state env s = (Inr requested, s') \<and>
     self' = s'\<lparr>world := snd (monotonic env (world s'))\<rparr>)"

lemma wait_for_state_result:
  assumes "wait_for_state env fuel requested self = Some (Inr u, self')"
  shows "confirmed env requested self'"
proof -
  from assms obtain deadline a b observed s where
      first: "get_state env a = (Inr observed, s)" and
      loop: "repeat_until fuel (pass_of (state_pass env requested deadline)) (observed, s) = Some (Inr u, self')"
    by (auto simp: wait_for_state_def ok_iff)
  from loop obtain t where "\<exists>s. get_state env s = (Inr (fst t), snd t)"
      "pass_of (state_pass env requested deadline) t = Inl (Inr u, self')"
    by (rule repeat_until_last [where P = "\<lambda>t. \<exists>s. get_state env s = (Inr (fst t), snd t)"])
       (use first in \<open>auto dest: state_pass_next\<close>)
  then show ?thesis by (cases t) (auto simp: confirmed_def dest!: state_pass_result)
qed

section \<open>Properties\<close>

text \<open>A host that ticks by 1, with no simulator behind it.\<close>

definition silent_host :: "rat ros" where
  "silent_host = \<lparr>monotonic = (\<lambda>t. (t, t + 1)), wait_for_service = (\<lambda>n d t. (False, t + max 0 d)),
     call_async = (\<lambda>n r d t. (None, [], t)), spin = (\<lambda>d t. ([], t)), rcl_ok = (\<lambda>t. (True, t)), sleep = (\<lambda>d t. t),
     result_ok = 1, already_in_target_state = 101, state_playing = 1, state_paused = 2,
     feature_state_getting = 31, feature_state_setting = 30, feature_state_pause = 32,
     feature_step_single = 41, feature_step_multiple = 42\<rparr>"

lemma silent_host_ticking: "ticking silent_host id 1"
  by (simp add: ticking_def silent_host_def)

text \<open>
  A simulator that does what it is told: its clock runs while it plays, stands while it is paused,
  and a step of \<open>n\<close> moves it by \<open>n\<close> milliseconds.
\<close>

record model_world =
  host_time :: int
  model_state :: int
  model_clock :: int

definition model_spin :: "rat \<Rightarrow> model_world \<Rightarrow> clock_message list \<times> model_world" where
  "model_spin d w = (let c = (if model_state w = 1 then model_clock w + 7 else model_clock w)
     in ([(0, c)], w\<lparr>model_clock := c\<rparr>))"

fun model_call :: "string \<Rightarrow> request \<Rightarrow> rat \<Rightarrow> model_world \<Rightarrow> response option \<times> clock_message list \<times> model_world" where
  "model_call n GetFeatures d w = (Some \<lparr>result_code = 1, error_message = [], response_features = [30, 31, 32, 41, 42], response_state = 0\<rparr>, [], w)"
| "model_call n GetState d w = (Some \<lparr>result_code = 1, error_message = [], response_features = [], response_state = model_state w\<rparr>, [], w)"
| "model_call n (SetState st) d w = (Some \<lparr>result_code = 1, error_message = [], response_features = [], response_state = 0\<rparr>, [], w\<lparr>model_state := st\<rparr>)"
| "model_call n (StepSim k) d w = (Some \<lparr>result_code = 1, error_message = [], response_features = [], response_state = 0\<rparr>, [], w\<lparr>model_clock := model_clock w + k * 1000000\<rparr>)"

definition model_host :: "model_world ros" where
  "model_host = \<lparr>monotonic = (\<lambda>w. (of_int (host_time w), w\<lparr>host_time := host_time w + 1\<rparr>)),
     wait_for_service = (\<lambda>n d w. (True, w)), call_async = model_call, spin = model_spin,
     rcl_ok = (\<lambda>w. (True, w)), sleep = (\<lambda>d w. w),
     result_ok = 1, already_in_target_state = 101, state_playing = 1, state_paused = 2,
     feature_state_getting = 31, feature_state_setting = 30, feature_state_pause = 32,
     feature_step_single = 41, feature_step_multiple = 42\<rparr>"

lemma model_runs [simp]:
  "read_monotonic model_host self = (Inr (of_int (host_time (world self))),
     self\<lparr>world := (world self)\<lparr>host_time := host_time (world self) + 1\<rparr>\<rparr>)"
  "get_state model_host self = (Inr (model_state (world self)), self)"
  "set_state model_host st self = (Inr (), self\<lparr>world := (world self)\<lparr>model_state := st\<rparr>\<rparr>)"
  "sim_step model_host k self = (Inr (), self\<lparr>world := (world self)\<lparr>model_clock := model_clock (world self) + k * 1000000\<rparr>\<rparr>)"
  "sim_features model_host self = (Inr [30, 31, 32, 41, 42], self)"
  "spin_once model_host d self = (let c = (if model_state (world self) = 1 then model_clock (world self) + 7 else model_clock (world self))
     in (Inr (), self\<lparr>clock_ns := Some c, world := (world self)\<lparr>model_clock := c\<rparr>\<rparr>))"
  by (simp_all add: read_monotonic_def get_state_def set_state_def sim_step_def sim_features_def spin_once_def
      call_service_def model_host_def model_spin_def deliver_def on_clock_def Let_def require_ok_def
      bindS_def seqS_def unlessE_def)

lemma model_constants [simp]:
  "state_playing model_host = 1" "state_paused model_host = 2"
  "required_features model_host steps = [31, 30, 32, 41] @ (if 1 < steps then [42] else [])"
  by (simp_all add: model_host_def required_features_def)

lemmas wait_defs = wait_for_state_def wait_for_clock_after_def wait_for_quiescent_clock_def
  wait_for_clock_at_least_def

lemmas pass_defs = state_pass_def after_pass_def quiescent_pass_def at_least_pass_def pass_of_def stable_sec_def

lemma rnd64_numerals [simp]:
  "rnd64 0 = 0" "rnd64 1 = 1" "(numeral n :: int) < 1000 \<Longrightarrow> rnd64 (numeral n) = numeral n"
proof -
  assume "(numeral n :: int) < 1000"
  moreover have "(1000 :: int) < 2 ^ 53" by simp
  moreover have "\<bar>numeral n :: int\<bar> = numeral n" by simp
  ultimately have "\<bar>numeral n :: int\<bar> < 2 ^ 53" by (metis order_less_trans)
  from rnd64_of_int [OF this] show "rnd64 (numeral n) = numeral n" by simp
qed (use rnd64_of_int [of 0] rnd64_of_int [of 1] in simp_all)

definition model_start :: "model_world sim" where
  "model_start = new_sim ''simulator'' 50 \<lparr>host_time = 0, model_state = 2, model_clock = 100\<rparr>"

lemmas run_waits = wait_defs pass_defs bindF_def seqF_def liftF_def deadline_of_def bindS_def seqS_def
  getS_def model_start_def new_sim_def eval_nat_numeral Let_def

lemma model_verifies:
  "\<exists>r self'. verify model_host 9 3 1000000 model_start = Some (Inr r, self')"
  by (simp add: verify_def missing_features_def run_waits)

lemma model_steps:
  "\<exists>r self'. step_and_wait model_host 9 100 3 1000000 model_start = Some (Inr r, self')"
  by (simp add: step_and_wait_def run_waits)



text \<open>
  C11: a step that \<open>step_and_wait\<close> reports as done moved the clock by exactly the requested
  number of steps, the node's clock shows that time, and the simulator had just said that it is
  paused.
\<close>

theorem step_and_wait_is_exact:
  assumes "step_and_wait env fuel previous steps step_size self = Some (Inr reached, self')"
  shows "reached = previous + steps * step_size \<and> clock_ns self' = Some reached \<and>
    confirmed env (state_paused env) self'"
  using assms by (auto simp: step_and_wait_def Let_def ok_iff split: if_splits dest!: wait_for_state_result)

theorem step_and_wait_is_exact_witness:
  "\<exists>self'. step_and_wait model_host 9 100 3 1000000 model_start = Some (Inr 3000100, self') \<and>
    clock_ns self' = Some 3000100"
proof -
  obtain r self' where run: "step_and_wait model_host 9 100 3 1000000 model_start = Some (Inr r, self')"
    using model_steps by blast
  from step_and_wait_is_exact [OF run] run show ?thesis by auto
qed





end
