(* ===== verification/Py_Paths.thy ===== *)
theory Py_Paths
  imports Py_Json
begin

text \<open>
  Paths and the file tree the programs read. A \<open>PurePosixPath\<close> is the list of its parts:
  \<open>PurePosixPath(value)\<close> drops empty and \<open>.\<close> parts and keeps \<open>..\<close>. A \<open>tree\<close>
  lists the nodes of the file system by their real path, and \<open>walk\<close> is
  \<open>Path.resolve(strict=True)\<close>, which follows links at every component. The locale
  \<open>path_guard\<close> is the contract of the functions that admit a relative path from a document.
\<close>

type_synonym path = "string list"

definition pure_parts :: "string \<Rightarrow> path" where
  "pure_parts value = filter (\<lambda>p. p \<noteq> [] \<and> p \<noteq> ''.'') (split_on (CHR ''/'') value)"

definition is_absolute :: "string \<Rightarrow> bool" where
  "is_absolute value = starts_with ''/'' value"

definition path_str :: "path \<Rightarrow> string" where
  "path_str ps = (if ps = [] then ''.'' else join_with ''/'' ps)"

definition abs_str :: "path \<Rightarrow> string" where
  "abs_str ps = CHR ''/'' # join_with ''/'' ps"

definition path_name :: "path \<Rightarrow> string" where
  "path_name ps = (if ps = [] then [] else last ps)"

definition path_parent :: "path \<Rightarrow> path" where
  "path_parent = butlast"

text \<open>\<open>name.suffix\<close>: from the last dot, which is neither the first nor the last character.\<close>

definition path_suffix :: "path \<Rightarrow> string" where
  "path_suffix ps = (let n = path_name ps; r = rev n; e = takeWhile (\<lambda>c. c \<noteq> CHR ''.'') r
     in if e = [] \<or> Suc (length e) \<ge> length n then [] else CHR ''.'' # rev e)"

text \<open>\<open>Path.absolute()\<close> for a process whose working directory is \<open>cwd\<close>.\<close>

definition to_path :: "path \<Rightarrow> string \<Rightarrow> path" where
  "to_path cwd value = (if is_absolute value then pure_parts value else cwd @ pure_parts value)"

definition is_relative_to :: "path \<Rightarrow> path \<Rightarrow> bool" where
  "is_relative_to p anchor = starts_with anchor p"

section \<open>The file tree\<close>

text \<open>What \<open>stat\<close> reports of a regular file besides its size.\<close>

record file_meta =
  st_dev :: int
  st_ino :: int
  st_mtime_ns :: int
  st_ctime_ns :: int

datatype node =
    Regular (data: bytes) (meta: file_meta)
  | Dir
  | Link (absolute: bool) (target: path)
  | Special

type_synonym tree = "(path \<times> node) list"

definition node_at :: "tree \<Rightarrow> path \<Rightarrow> node option" where
  "node_at t p = (if p = [] then Some Dir else map_of t p)"

definition is_link :: "tree \<Rightarrow> path \<Rightarrow> bool" where
  "is_link t p = (case node_at t p of Some (Link _ _) \<Rightarrow> True | _ \<Rightarrow> False)"

text \<open>
  \<open>walk n t base rest\<close> resolves \<open>rest\<close> from the real directory \<open>base\<close>; \<open>n\<close> bounds the
  links followed, so that a cycle of links is an \<open>OSError\<close>, as it is for \<open>resolve\<close>.
\<close>

function walk :: "nat \<Rightarrow> tree \<Rightarrow> path \<Rightarrow> path \<Rightarrow> path res" where
  "walk n t base [] = Inr base"
| "walk n t base (p # ps) =
     (if p = ''..'' then walk n t (butlast base) ps
      else case node_at t (base @ [p]) of
        None \<Rightarrow> raise FileNotFoundError (abs_str (base @ [p]))
      | Some (Link a to) \<Rightarrow>
          (case n of 0 \<Rightarrow> raise OSError ''Symlink loop''
           | Suc m \<Rightarrow> walk m t (if a then [] else base) (to @ ps))
      | Some Dir \<Rightarrow> walk n t (base @ [p]) ps
      | Some _ \<Rightarrow> if ps = [] then Inr (base @ [p]) else raise OSError ''Not a directory'')"
  by pat_completeness auto

termination
  by (relation "inv_image (less_than <*lex*> less_than) (\<lambda>(n, t, base, ps). (n, length ps))") auto

definition max_links :: nat where
  "max_links = 40"

definition resolve :: "tree \<Rightarrow> path \<Rightarrow> path res" where
  "resolve t p = walk max_links t [] p"

text \<open>\<open>Path.resolve()\<close>: a component that does not exist is kept as it is written.\<close>

function walk_lax :: "nat \<Rightarrow> tree \<Rightarrow> path \<Rightarrow> path \<Rightarrow> path" where
  "walk_lax n t base [] = base"
| "walk_lax n t base (p # ps) =
     (if p = ''..'' then walk_lax n t (butlast base) ps
      else case (n, node_at t (base @ [p])) of
        (Suc m, Some (Link a to)) \<Rightarrow> walk_lax m t (if a then [] else base) (to @ ps)
      | _ \<Rightarrow> walk_lax n t (base @ [p]) ps)"
  by pat_completeness auto

termination
  by (relation "inv_image (less_than <*lex*> less_than) (\<lambda>(n, t, base, ps). (n, length ps))") auto

definition resolve_lax :: "tree \<Rightarrow> path \<Rightarrow> path" where
  "resolve_lax t p = walk_lax max_links t [] p"

definition read_file :: "tree \<Rightarrow> path \<Rightarrow> bytes res" where
  "read_file t p = bindE (resolve t p) (\<lambda>found. case node_at t found of
      Some (Regular d _) \<Rightarrow> Inr d
    | _ \<Rightarrow> raise OSError ''not a regular file'')"

definition is_file :: "tree \<Rightarrow> path \<Rightarrow> bool" where
  "is_file t p = is_ok (read_file t p)"

text \<open>\<open>base.rglob(pattern)\<close> and \<open>base.glob(pattern)\<close>, for a predicate on names, as \<open>sorted\<close>
  orders them; a directory that does not exist has no entries.\<close>

definition rglob :: "tree \<Rightarrow> path \<Rightarrow> (string \<Rightarrow> bool) \<Rightarrow> path list" where
  "rglob t base wanted = (case resolve t base of
      Inl _ \<Rightarrow> []
    | Inr found \<Rightarrow> map (\<lambda>p. base @ drop (length found) p)
        (sort (remdups (filter (\<lambda>p. starts_with found p \<and> p \<noteq> found \<and> wanted (path_name p)) (map fst t)))))"

definition glob :: "tree \<Rightarrow> path \<Rightarrow> (string \<Rightarrow> bool) \<Rightarrow> path list" where
  "glob t base wanted = filter (\<lambda>p. length p = Suc (length base)) (rglob t base wanted)"

lemma only_regular [ok_iff]:
  "(case x of Some (Regular d m) \<Rightarrow> f d m | _ \<Rightarrow> Inl e) = Inr r \<longleftrightarrow>
   (\<exists>d m. x = Some (Regular d m) \<and> f d m = Inr r)"
  by (auto split: option.splits node.splits)

section \<open>Confinement\<close>

text \<open>A part that stays where it is put.\<close>

definition safe_part :: "string \<Rightarrow> bool" where
  "safe_part p \<longleftrightarrow> p \<noteq> [] \<and> p \<noteq> ''.'' \<and> p \<noteq> ''..'' \<and> CHR ''/'' \<notin> set p"

text \<open>\<open>os.path.normpath\<close> on the parts of an absolute path.\<close>

fun normalise :: "path \<Rightarrow> path \<Rightarrow> path" where
  "normalise base [] = base"
| "normalise base (p # ps) =
     (if p = ''..'' then normalise (butlast base) ps
      else if p = [] \<or> p = ''.'' then normalise base ps
      else normalise (base @ [p]) ps)"

lemma pure_parts_clean:
  "p \<in> set (pure_parts v) \<Longrightarrow> p \<noteq> [] \<and> p \<noteq> ''.'' \<and> CHR ''/'' \<notin> set p"
  by (auto simp: pure_parts_def dest: split_on_fields)

lemma pure_parts_chars: "p \<in> set (pure_parts v) \<Longrightarrow> set p \<subseteq> set v"
  by (auto simp: pure_parts_def dest: split_on_sub)

lemma pure_parts_join:
  assumes "list_all safe_part ps" "ps \<noteq> []"
  shows "pure_parts (join_with ''/'' ps) = ps"
proof -
  have "split_on (CHR ''/'') (join_with [CHR ''/''] ps) = ps"
    using assms by (intro split_join) (auto simp: list_all_iff safe_part_def)
  with assms show ?thesis
    by (simp add: pure_parts_def list_all_iff safe_part_def filter_id_conv)
qed

lemma pure_parts_path_str: "list_all safe_part ps \<Longrightarrow> pure_parts (path_str ps) = ps"
  by (cases "ps = []") (simp_all add: path_str_def pure_parts_join, simp add: pure_parts_def)

lemma path_str_inject:
  "list_all safe_part ps \<Longrightarrow> list_all safe_part qs \<Longrightarrow> path_str ps = path_str qs \<longleftrightarrow> ps = qs"
  by (metis pure_parts_path_str)

lemma starts_with_append_iff: "starts_with anchor p \<longleftrightarrow> (\<exists>rest. p = anchor @ rest)"
  by (rule starts_with_iff)

locale path_guard =
  fixes guard :: "string \<Rightarrow> path res"
  assumes guarded: "guard v = Inr ps \<Longrightarrow> list_all safe_part ps"
begin

text \<open>An admitted path names the same place with and without normalisation, below the root.\<close>

lemma stays_below:
  assumes "guard v = Inr ps"
  shows "normalise anchor ps = anchor @ ps"
  using guarded [OF assms]
  by (induction ps arbitrary: anchor) (auto simp: safe_part_def)

text \<open>Without links below the root, resolving it ends at that place.\<close>

lemma resolves_below:
  assumes "guard v = Inr ps" and "walk n t anchor ps = Inr found"
    and "\<forall>k. \<not> is_link t (anchor @ take (Suc k) ps)"
  shows "found = anchor @ ps"
  using guarded [OF assms(1)] assms(2,3)
proof (induction ps arbitrary: anchor)
  case (Cons p ps)
  have here: "\<not> is_link t (anchor @ [p])" using Cons.prems(3)[rule_format, of 0] by simp
  have below: "\<not> is_link t ((anchor @ [p]) @ take (Suc k) ps)" for k
    using Cons.prems(3)[rule_format, of "Suc k"] by simp
  from Cons.prems(1) have "p \<noteq> ''..''" "list_all safe_part ps" by (simp_all add: safe_part_def [of p])
  with Cons.prems(2) here Cons.IH [of "anchor @ [p]"] below show ?case
    by (auto simp: is_link_def split: option.splits node.splits if_splits)
qed simp

text \<open>Two admitted paths with the same spelling are the same path.\<close>

lemma same_spelling:
  assumes "guard v = Inr ps" "guard w = Inr qs" "path_str ps = path_str qs"
  shows "ps = qs"
  using path_str_inject guarded assms by blast

end

end
