(* ===== verification/Export_Retained.thy ===== *)
theory Export_Retained
  imports Py_Paths
begin

text \<open>
  \<open>host/workers/legacy-finalization/export_retained.py\<close>: the copy of an admitted inventory to a
  new retained directory. The admission reads the file tree; the copy reads each source through
  an open file, whose blocks and \<open>stat\<close> results are what the system returned (\<open>reader\<close>),
  whatever changed meanwhile; the retained directory is the state \<open>store\<close>. SHA-256, the
  printers of \<open>json\<close> and what the disk returns for the bytes written are arguments.
\<close>

section \<open>Admission\<close>

definition relative :: "string \<Rightarrow> path res" where
  "relative value = (let ps = pure_parts value in
     unlessE (value = [] \<or> value \<in> {''.'', ''..''} \<or> is_absolute value \<or>
              list_ex (\<lambda>p. p \<in> {[], ''.'', ''..''}) ps)
       ValueError ''unsafe retained relative path''
    (unlessE (list_ex (\<lambda>c. (of_char c :: nat) < 32 \<or> (of_char c :: nat) = 127) value)
       ValueError ''control character in retained path''
    (Inr ps)))"

text \<open>\<open>identity(os.stat_result)\<close>: device, inode, size, modification and change time.\<close>

type_synonym identity = "int \<times> int \<times> int \<times> int \<times> int"

definition identity :: "bytes \<Rightarrow> file_meta \<Rightarrow> identity" where
  "identity d m = (st_dev m, st_ino m, int (length d), st_mtime_ns m, st_ctime_ns m)"

definition id_size :: "identity \<Rightarrow> int" where
  "id_size i = fst (snd (snd i))"

definition inside :: "tree \<Rightarrow> path \<Rightarrow> path \<Rightarrow> path res" where
  "inside t p source = bindE (resolve t p) (\<lambda>resolved.
     unlessE (\<not> is_relative_to resolved source) ValueError ''inventory source escapes its admitted root'' (Inr resolved))"

record admitted =
  a_item :: dict
  a_actual :: path
  a_output :: path
  a_facts :: identity

record admission =
  ad_names :: "string list"
  ad_paths :: "string list"
  ad_total :: int
  ad_entries :: "admitted list"

definition reserved :: "string list" where
  "reserved = [''export-manifest.json'', ''export-incomplete.json'']"

text \<open>\<open>cursor\<close> climbs from the declared path to the source root.\<close>

definition has_link :: "tree \<Rightarrow> path \<Rightarrow> path \<Rightarrow> bool" where
  "has_link t source ps = list_ex (\<lambda>k. is_link t (source @ take k ps)) (rev [1..<Suc (length ps)])"

definition admit_entry ::
  "(json \<Rightarrow> string) \<Rightarrow> tree \<Rightarrow> path \<Rightarrow> int \<Rightarrow> json \<Rightarrow> admission \<Rightarrow> admission res" where
  "admit_entry str t source maximum entry s = (case entry of
     JObj it \<Rightarrow>
       bindE (dict_item it ''name'') (\<lambda>name.
       case name of
         JStr n \<Rightarrow>
           unlessE (n = [] \<or> n \<in> set (ad_names s)) ValueError ''inventory names must be unique''
          (bindE (dict_item it ''relativePath'') (\<lambda>rp. bindE (relative (str rp)) (\<lambda>out.
           unlessE (path_str out \<in> set (ad_paths s) \<or> path_str out \<in> set reserved)
             ValueError ''inventory output paths must be unique''
          (bindE (dict_item it ''source'') (\<lambda>src. bindE (relative (str src)) (\<lambda>rel.
           unlessE (has_link t source rel) ValueError ''inventory contains a symbolic link''
          (bindE (inside t (source @ rel) source) (\<lambda>actual.
           case node_at t actual of
             Some (Regular d m) \<Rightarrow>
               unlessE (\<exists>v \<in> set_option (map_of it ''size_bytes''). \<not> py_eq v (JInt (int (length d))))
                 ValueError ''admitted source size differs''
              (let total = ad_total s + int (length d) in
               unlessE (maximum < total) ValueError ''inventory exceeds its byte bound''
              (Inr \<lparr>ad_names = ad_names s @ [n], ad_paths = ad_paths s @ [path_str out], ad_total = total,
                    ad_entries = ad_entries s @ [\<lparr>a_item = it, a_actual = actual, a_output = out,
                                                  a_facts = identity d m\<rparr>]\<rparr>))
           | _ \<Rightarrow> raise ValueError ''inventory source is not a regular file''))))))))
       | _ \<Rightarrow> raise ValueError ''inventory names must be unique'')
   | _ \<Rightarrow> raise TypeError ''inventory item must be an object'')"

definition empty_admission :: admission where
  "empty_admission = \<lparr>ad_names = [], ad_paths = [], ad_total = 0, ad_entries = []\<rparr>"

definition admit_entries ::
  "(json \<Rightarrow> string) \<Rightarrow> tree \<Rightarrow> path \<Rightarrow> int \<Rightarrow> json list \<Rightarrow> admission res" where
  "admit_entries str t source maximum entries =
     foldE (admit_entry str t source maximum) entries empty_admission"

text \<open>Everything \<open>export\<close> checks before it creates its destination.\<close>

definition admit_plan ::
  "(json \<Rightarrow> string) \<Rightarrow> tree \<Rightarrow> path \<Rightarrow> dict \<Rightarrow> (admission \<times> path) res" where
  "admit_plan str t cwd plan =
     unlessE (\<not> py_eq (dget plan ''version'') (JInt 1)) ValueError ''unsupported byte inventory''
    (bindE (dict_item plan ''sourceRoot'') (\<lambda>sr. bindE (resolve t (to_path cwd (str sr))) (\<lambda>source.
     bindE (dict_item plan ''destinationRoot'') (\<lambda>dr.
     bindE (dict_item plan ''entries'') (\<lambda>entries.
     bindE (dict_item plan ''maximumBytes'') (\<lambda>maximum.
     unlessE (node_at t source \<noteq> Some Dir \<or> \<not> is_absolute (str dr))
       ValueError ''admitted roots must be absolute directories''
    (case entries of
       JList es \<Rightarrow>
         unlessE (es = [] \<or> 4096 < length es) ValueError ''finite nonempty inventory required''
        (case maximum of
           JInt m \<Rightarrow>
             unlessE (\<not> (0 < m \<and> m \<le> 1024 ^ 4)) ValueError ''finite export byte bound required''
            (bindE (admit_entries str t source m es) (\<lambda>admission.
             let destination = pure_parts (str dr) in
             bindE (resolve t (path_parent destination)) (\<lambda>parent.
             let final = parent @ (if destination = [] then [] else [path_name destination]) in
             unlessE (is_relative_to final source \<or> is_relative_to source final)
               ValueError ''source and retained destination must have distinct lifetimes''
            (unlessE (node_at t final \<noteq> None) FileExistsError (abs_str final)
            (unlessE (node_at t parent \<noteq> Some Dir) OSError ''Not a directory''
            (Inr (admission, final)))))))
         | _ \<Rightarrow> raise ValueError ''finite export byte bound required'')
     | _ \<Rightarrow> raise ValueError ''finite nonempty inventory required'')))))))"

section \<open>The retained directory\<close>

text \<open>Paths relative to the directory that \<open>final.mkdir(exist_ok=False)\<close> created.\<close>

record store =
  stored :: "(path \<times> bytes) list"
  dirs :: "path list"
  sealed :: "path list"

definition empty_store :: store where
  "empty_store = \<lparr>stored = [], dirs = [], sealed = []\<rparr>"

definition exists_in :: "store \<Rightarrow> path \<Rightarrow> bool" where
  "exists_in s p \<longleftrightarrow> p = [] \<or> p \<in> set (dirs s) \<or> p \<in> set (map fst (stored s))"

definition mkdir_parents :: "path \<Rightarrow> (store, unit) prog" where
  "mkdir_parents p = (\<lambda>s.
     let above = map (\<lambda>k. take k p) [1..<Suc (length p)] in
     if list_ex (\<lambda>q. q \<in> set (map fst (stored s))) above
     then (raise (if p \<in> set (map fst (stored s)) then FileExistsError else OSError) (path_str p), s)
     else (Inr (), s\<lparr>dirs := dirs s @ filter (\<lambda>q. q \<notin> set (dirs s)) above\<rparr>))"

text \<open>\<open>open("x")\<close>.\<close>

definition create :: "path \<Rightarrow> (store, unit) prog" where
  "create p = (\<lambda>s. if exists_in s p then (raise FileExistsError (path_str p), s)
     else (Inr (), s\<lparr>stored := stored s @ [(p, [])]\<rparr>))"

definition contents :: "store \<Rightarrow> path \<Rightarrow> bytes" where
  "contents s p = (case map_of (stored s) p of None \<Rightarrow> [] | Some b \<Rightarrow> b)"

definition write_block :: "path \<Rightarrow> bytes \<Rightarrow> (store, unit) prog" where
  "write_block p block = modifyS (\<lambda>s. s\<lparr>stored := dset p (contents s p @ block) (stored s)\<rparr>)"

definition chmod_sealed :: "path \<Rightarrow> (store, unit) prog" where
  "chmod_sealed p = modifyS (\<lambda>s. s\<lparr>sealed := sealed s @ [p]\<rparr>)"

text \<open>\<open>write_text\<close>: a new file or the whole content of one.\<close>

definition write_text :: "path \<Rightarrow> bytes \<Rightarrow> (store, unit) prog" where
  "write_text p b = (\<lambda>s. if p = [] \<or> p \<in> set (dirs s) then (raise OSError ''Is a directory'', s)
     else (Inr (), s\<lparr>stored := dset p b (stored s)\<rparr>))"

section \<open>Copy\<close>

text \<open>What the system returned while one source was open: \<open>fstat\<close> after opening, the blocks of
  at most \<open>CHUNK\<close> bytes up to the first empty one, \<open>fstat\<close> and \<open>stat\<close> at the end.\<close>

record reader =
  r_opened :: identity
  r_blocks :: "bytes list"
  r_closed :: identity
  r_path :: identity

fun copy_blocks :: "path \<Rightarrow> int \<Rightarrow> bytes list \<Rightarrow> bytes \<Rightarrow> (store, bytes) prog" where
  "copy_blocks p limit [] acc = retS acc"
| "copy_blocks p limit (block # blocks) acc =
     (if block = [] then retS acc
      else if limit < int (length (acc @ block)) then raiseS ValueError ''source grew during export''
      else seqS (write_block p block) (copy_blocks p limit blocks (acc @ block)))"

definition copy_entry ::
  "(bytes \<Rightarrow> string) \<Rightarrow> (path \<Rightarrow> reader res) \<Rightarrow> (path \<Rightarrow> bytes \<Rightarrow> bytes) \<Rightarrow> admitted \<Rightarrow> (store, json) prog" where
  "copy_entry sha readers disk a =
     (let before = a_facts a; p = a_output a in
      seqS (mkdir_parents (path_parent p))
     (bindS (liftS (readers (a_actual a))) (\<lambda>r.
      seqS (create p)
     (if r_opened r \<noteq> before then raiseS ValueError ''source changed after admission''
      else bindS (copy_blocks p (id_size before) (r_blocks r) []) (\<lambda>read.
        if r_closed r \<noteq> before \<or> r_path r \<noteq> before then raiseS ValueError ''source changed during export''
        else let digest = sha read; count = int (length read) in
          if count \<noteq> id_size before \<or>
             (\<exists>v \<in> set_option (map_of (a_item a) ''sha256''). \<not> py_eq v (JStr digest))
          then raiseS ValueError ''export differs from admitted source bytes''
          else bindS (getS (\<lambda>s. contents s p)) (\<lambda>held.
            if sha (disk p held) \<noteq> digest \<or> int (length held) \<noteq> count
            then raiseS ValueError ''retained bytes differ from source''
            else seqS (chmod_sealed p)
              (bindS (liftS (dict_item (a_item a) ''name'')) (\<lambda>name.
               retS (JObj [(''name'', name), (''relativePath'', JStr (path_str p)),
                           (''sha256'', JStr digest), (''size_bytes'', JInt count)])))))))))"

text \<open>The loop, which keeps \<open>completed\<close> for the manifest of an incomplete attempt.\<close>

fun copy_all ::
  "(bytes \<Rightarrow> string) \<Rightarrow> (path \<Rightarrow> reader res) \<Rightarrow> (path \<Rightarrow> bytes \<Rightarrow> bytes) \<Rightarrow> admitted list \<Rightarrow>
   json list \<Rightarrow> store \<Rightarrow> (exc option \<times> json list) \<times> store" where
  "copy_all sha readers disk [] completed s = ((None, completed), s)"
| "copy_all sha readers disk (a # as) completed s =
     (case copy_entry sha readers disk a s of
        (Inl e, t) \<Rightarrow> ((Some e, completed), t)
      | (Inr row, t) \<Rightarrow> copy_all sha readers disk as (completed @ [row]) t)"

record export_io =
  o_sha :: "bytes \<Rightarrow> string"
  o_dumps :: "json \<Rightarrow> bytes"
  o_readers :: "path \<Rightarrow> reader res"
  o_disk :: "path \<Rightarrow> bytes \<Rightarrow> bytes"
  o_started :: int
  o_completed :: int

definition complete_manifest :: "export_io \<Rightarrow> json \<Rightarrow> json list \<Rightarrow> int \<Rightarrow> json" where
  "complete_manifest io run_id completed bytes_total = JObj [
     (''version'', JInt 1), (''status'', JStr ''complete''), (''runId'', run_id),
     (''entries'', JList completed), (''totalBytes'', JInt bytes_total),
     (''startedUnixNs'', JStr (int_str (o_started io))),
     (''completedUnixNs'', JStr (int_str (o_completed io)))]"

definition incomplete_manifest :: "json \<Rightarrow> json list \<Rightarrow> exc \<Rightarrow> json" where
  "incomplete_manifest run_id completed e = JObj [
     (''version'', JInt 1), (''status'', JStr ''incomplete''), (''runId'', run_id),
     (''completedEntries'', JList completed), (''error'', JStr (exc_msg e))]"

definition newline :: string where
  "newline = [char_of (10::nat)]"

definition export_body :: "export_io \<Rightarrow> dict \<Rightarrow> admission \<Rightarrow> (store, json) prog" where
  "export_body io plan admission = (\<lambda>s.
     case copy_all (o_sha io) (o_readers io) (o_disk io) (ad_entries admission) [] s of
       ((failed, completed), t) \<Rightarrow>
         on_errorS
           (seqS (liftS (case failed of None \<Rightarrow> Inr () | Some e \<Rightarrow> Inl e))
           (bindS (liftS (dict_item plan ''runId'')) (\<lambda>run_id.
            let result = complete_manifest io run_id completed (ad_total admission);
                manifest = [''export-manifest.json''] in
            seqS (create manifest)
           (seqS (write_block manifest (o_dumps io result @ newline))
           (seqS (chmod_sealed manifest)
            (retS result))))))
           (\<lambda>e. write_text [''export-incomplete.json'']
              (o_dumps io (incomplete_manifest (dget plan ''runId'') completed e) @ newline)) t)"

text \<open>\<open>export\<close> starts without a store; the store exists once the plan is admitted.\<close>

definition export ::
  "(json \<Rightarrow> string) \<Rightarrow> tree \<Rightarrow> path \<Rightarrow> export_io \<Rightarrow> dict \<Rightarrow> json res \<times> (path \<times> store) option" where
  "export str t cwd io plan = (case admit_plan str t cwd plan of
      Inl e \<Rightarrow> (Inl e, None)
    | Inr (admission, final) \<Rightarrow>
        (case export_body io plan admission empty_store of (r, s) \<Rightarrow> (r, Some (final, s))))"

section \<open>Facts\<close>

interpretation relative_guard: path_guard relative
proof
  fix v ps
  assume "relative v = Inr ps"
  then have "ps = pure_parts v" "list_all (\<lambda>p. p \<noteq> ''..'') ps"
    by (auto simp: relative_def Let_def ok_iff list_ex_iff list_all_iff)
  then show "list_all safe_part ps"
    by (auto simp: list_all_iff safe_part_def dest: pure_parts_clean)
qed

definition well_admitted :: "tree \<Rightarrow> path \<Rightarrow> admitted \<Rightarrow> bool" where
  "well_admitted t source a \<longleftrightarrow> list_all safe_part (a_output a) \<and> path_str (a_output a) \<notin> set reserved \<and>
     is_relative_to (a_actual a) source \<and>
     (\<exists>d m. node_at t (a_actual a) = Some (Regular d m) \<and> a_facts a = identity d m)"

definition admission_inv :: "tree \<Rightarrow> path \<Rightarrow> int \<Rightarrow> admission \<Rightarrow> bool" where
  "admission_inv t source maximum s \<longleftrightarrow>
     distinct (ad_names s) \<and> distinct (ad_paths s) \<and>
     ad_paths s = map (path_str \<circ> a_output) (ad_entries s) \<and>
     ad_total s = sum_list (map (id_size \<circ> a_facts) (ad_entries s)) \<and> ad_total s \<le> maximum \<and>
     list_all (well_admitted t source) (ad_entries s)"

lemma id_size_identity [simp]: "id_size (identity d m) = int (length d)"
  by (simp add: id_size_def identity_def)

lemma admit_entry_inv:
  assumes "admit_entry str t source maximum entry s = Inr s'" "admission_inv t source maximum s"
  shows "admission_inv t source maximum s'"
  using assms
  by (auto simp: admit_entry_def admission_inv_def well_admitted_def inside_def ok_iff Let_def
      dest!: relative_guard.guarded)

lemma admit_entries_inv:
  assumes "admit_entries str t source maximum entries = Inr s" "0 \<le> maximum"
  shows "admission_inv t source maximum s"
  using assms(1) unfolding admit_entries_def
proof (rule foldE_invariant)
  show "admission_inv t source maximum empty_admission"
    using assms(2) by (simp add: empty_admission_def admission_inv_def)
qed (rule admit_entry_inv)

lemma admit_plan_result:
  assumes "admit_plan str t cwd plan = Inr (admission, final)"
  shows "\<exists>source m. dget plan ''maximumBytes'' = JInt m \<and> m \<le> 1024 ^ 4 \<and>
    admission_inv t source m admission \<and> \<not> is_relative_to final source \<and> \<not> is_relative_to source final \<and>
    node_at t final = None"
proof -
  from assms obtain source dr es m where m: "dget plan ''maximumBytes'' = JInt m" "0 < m" "m \<le> 1024 ^ 4"
      and entries: "admit_entries str t source m es = Inr admission"
      and apart: "\<not> is_relative_to final source" "\<not> is_relative_to source final" "node_at t final = None"
    by (auto simp: admit_plan_def ok_iff Let_def dget_def)
  with admit_entries_inv [OF entries] show ?thesis by auto
qed

text \<open>A path of the store keeps its bytes while other paths are written.\<close>

definition holds :: "path \<Rightarrow> bytes \<Rightarrow> store \<Rightarrow> bool" where
  "holds q b s \<longleftrightarrow> map_of (stored s) q = Some b"

lemma holds_mkdir [keeps]: "preserves (holds q b) (mkdir_parents p)"
  by (simp add: preserves_def mkdir_parents_def holds_def Let_def)

lemma holds_chmod [keeps]: "preserves (holds q b) (chmod_sealed p)"
  unfolding chmod_sealed_def by (intro keeps) (simp add: holds_def)

lemma create_ok [ok_iff]:
  "create p s = (Inr u, t) \<longleftrightarrow> \<not> exists_in s p \<and> t = s\<lparr>stored := stored s @ [(p, [])]\<rparr>"
  by (auto simp: create_def)

lemma holds_create [keeps]: "preserves (holds q b) (create p)"
  by (auto simp: preserves_def create_def holds_def map_add_def split: option.splits)

lemma holds_write: "q \<noteq> p \<Longrightarrow> preserves (holds q b) (write_block p block)"
  unfolding write_block_def by (intro keeps) (simp add: holds_def)

lemma holds_copy_blocks: "q \<noteq> p \<Longrightarrow> preserves (holds q b) (copy_blocks p limit blocks acc)"
  by (induction blocks arbitrary: acc) (auto intro!: keeps holds_write)

lemma copy_blocks_run:
  assumes "copy_blocks p limit blocks acc s = (Inr read, t)" "holds p acc s"
  shows "holds p read t"
  using assms
proof (induction blocks arbitrary: acc s)
  case (Cons block blocks)
  then show ?case
    by (auto simp: ok_iff write_block_def contents_def holds_def split: if_splits)
qed (simp add: ok_iff)

text \<open>A copied entry: its row tells the digest and the size of the bytes that were read back.\<close>

definition faithful_row ::
  "(bytes \<Rightarrow> string) \<Rightarrow> (path \<Rightarrow> bytes \<Rightarrow> bytes) \<Rightarrow> store \<Rightarrow> admitted \<Rightarrow> json \<Rightarrow> bool" where
  "faithful_row sha disk s a row \<longleftrightarrow> (\<exists>name held. holds (a_output a) held s \<and>
     int (length held) = id_size (a_facts a) \<and> sha (disk (a_output a) held) = sha held \<and>
     row = JObj [(''name'', name), (''relativePath'', JStr (path_str (a_output a))),
                 (''sha256'', JStr (sha held)), (''size_bytes'', JInt (id_size (a_facts a)))])"

lemma copy_entry_row:
  assumes "copy_entry sha readers disk a s = (Inr row, t)"
  shows "faithful_row sha disk t a row"
proof -
  have new: "holds p [] (u\<lparr>stored := stored u @ [(p, [])]\<rparr>)" if "p \<notin> fst ` set (stored u)" for p u
  proof -
    from that have "map_of (stored u) p = None" by (simp add: map_of_eq_None_iff)
    then show ?thesis by (simp add: holds_def map_add_def)
  qed
  have held: "contents u p = b" if "holds p b u" for p b u
    using that by (simp add: holds_def contents_def)
  from assms show ?thesis
    by (clarsimp simp: copy_entry_def Let_def ok_iff ok_cases chmod_sealed_def exists_in_def)
       (drule copy_blocks_run, erule new, auto simp: faithful_row_def held holds_def)
qed

lemma copy_entry_new:
  assumes "copy_entry sha readers disk a s = (Inr row, t)"
  shows "map_of (stored s) (a_output a) = None"
  using assms
  by (auto simp: copy_entry_def mkdir_parents_def Let_def ok_iff exists_in_def map_of_eq_None_iff split: if_splits)

lemma holds_copy_entry:
  assumes "copy_entry sha readers disk a s = (Inr row, t)" "holds q b s"
  shows "holds q b t"
proof -
  from copy_entry_new [OF assms(1)] assms(2) have "q \<noteq> a_output a" by (auto simp: holds_def)
  then have "preserves (holds q b) (copy_entry sha readers disk a)"
    unfolding copy_entry_def Let_def by (intro keeps holds_copy_blocks)
  with assms show ?thesis by (metis preservesD)
qed

lemma copy_all_rows:
  assumes "copy_all sha readers disk as completed s = ((None, rows), t)"
    and "list_all2 (faithful_row sha disk s) before completed"
  shows "list_all2 (faithful_row sha disk t) (before @ as) rows"
  using assms
proof (induction "as" arbitrary: completed s before)
  case (Cons a "as")
  from Cons.prems(1) obtain row mid where
      entry: "copy_entry sha readers disk a s = (Inr row, mid)"
      and rest: "copy_all sha readers disk as (completed @ [row]) mid = ((None, rows), t)"
    by (auto split: prod.splits sum.splits)
  have "list_all2 (faithful_row sha disk mid) before completed"
    using Cons.prems(2) by (rule list_all2_mono) (auto simp: faithful_row_def intro: holds_copy_entry [OF entry])
  then have "list_all2 (faithful_row sha disk mid) (before @ [a]) (completed @ [row])"
    using copy_entry_row [OF entry] by (intro list_all2_appendI) simp_all
  from Cons.IH [OF rest this] show ?case by simp
qed simp

text \<open>Only outputs of the inventory are created.\<close>

definition only :: "path set \<Rightarrow> store \<Rightarrow> bool" where
  "only ps s \<longleftrightarrow> fst ` set (stored s) \<subseteq> ps"

lemma only_write [keeps]: "p \<in> ps \<Longrightarrow> preserves (only ps) (write_block p block)"
  unfolding write_block_def
  by (intro keeps) (simp add: only_def update_keys flip: set_map)

lemma only_copy_blocks [keeps]: "p \<in> ps \<Longrightarrow> preserves (only ps) (copy_blocks p limit blocks acc)"
  by (induction blocks arbitrary: acc) (auto intro!: keeps)

lemma only_steps [keeps]:
  "preserves (only ps) (mkdir_parents q)" "preserves (only ps) (chmod_sealed q)"
  "p \<in> ps \<Longrightarrow> preserves (only ps) (create p)"
  by (auto simp: preserves_def only_def mkdir_parents_def chmod_sealed_def create_def Let_def)

lemma only_copy_entry: "a_output a \<in> ps \<Longrightarrow> preserves (only ps) (copy_entry sha readers disk a)"
  unfolding copy_entry_def Let_def by (intro keeps)

lemma only_copy_all:
  assumes "copy_all sha readers disk as completed s = (x, t)" "only ps s" "a_output ` set as \<subseteq> ps"
  shows "only ps t"
  using assms
proof (induction "as" arbitrary: completed s)
  case (Cons a "as")
  obtain r mid where run: "copy_entry sha readers disk a s = (r, mid)" by fastforce
  from preservesD [OF only_copy_entry Cons.prems(2) run] Cons.prems(3) have "only ps mid" by simp
  with Cons run show ?case by (auto split: sum.splits)
qed simp

lemma holds_write_new:
  assumes "write_block p b s = (Inr u, t)" "create p r = (Inr v, s)"
  shows "holds p b t"
  using assms by (auto simp: ok_iff write_block_def holds_def contents_def map_add_def exists_in_def
      map_of_eq_None_iff [symmetric] split: option.splits)

lemma export_body_ok:
  assumes "export_body io plan admission s = (Inr result, t)"
  shows "\<exists>rows run_id mid. copy_all (o_sha io) (o_readers io) (o_disk io) (ad_entries admission) [] s = ((None, rows), mid) \<and>
    result = complete_manifest io run_id rows (ad_total admission) \<and>
    (\<forall>q b. holds q b mid \<longrightarrow> holds q b t) \<and>
    holds [''export-manifest.json''] (o_dumps io result @ newline) t"
proof -
  let ?m = "[''export-manifest.json'']"
  obtain failed rows mid where copied:
      "copy_all (o_sha io) (o_readers io) (o_disk io) (ad_entries admission) [] s = ((failed, rows), mid)"
    by (metis prod.exhaust)
  with assms obtain run_id s1 s2 where failed: "failed = None"
      and result: "result = complete_manifest io run_id rows (ad_total admission)"
      and created: "create ?m mid = (Inr (), s1)"
      and written: "write_block ?m (o_dumps io result @ newline) s1 = (Inr (), s2)"
      and sealed: "chmod_sealed ?m s2 = (Inr (), t)"
    by (cases failed) (auto simp: export_body_def Let_def bindS_ok seqS_ok on_errorS_ok pure_ok)
  have new: "holds ?m (o_dumps io result @ newline) s2"
    using written created by (rule holds_write_new)
  have "holds q b t" if "holds q b mid" for q b
  proof -
    from that have "q \<in> fst ` set (stored mid)"
      by (metis holds_def map_of_eq_None_iff option.distinct(1))
    moreover have "?m \<notin> fst ` set (stored mid)"
      using created by (simp add: create_ok exists_in_def)
    ultimately have "q \<noteq> ?m" by blast
    note kept = holds_write [OF this, of b "o_dumps io result @ newline"]
    from that show ?thesis
      using preservesD [OF holds_create _ created] preservesD [OF kept _ written]
        preservesD [OF holds_chmod _ sealed] by blast
  qed
  moreover have "holds ?m (o_dumps io result @ newline) t"
    using new by (rule preservesD [OF holds_chmod _ sealed])
  ultimately show ?thesis using copied failed result by blast
qed

text \<open>A run that fails after the destination exists.\<close>

lemma export_body_error:
  assumes "export_body io plan admission s = (Inl e, t)" and "only ps s"
    and "a_output ` set (ad_entries admission) \<subseteq> ps" and "[''export-manifest.json''] \<notin> ps"
  shows "[''export-manifest.json''] \<notin> fst ` set (stored t) \<and>
    ([''export-incomplete.json''] \<in> set (dirs t) \<or>
     (\<exists>rows. holds [''export-incomplete.json'']
        (o_dumps io (incomplete_manifest (dget plan ''runId'') rows e) @ newline) t))"
proof -
  let ?m = "[''export-manifest.json'']" and ?i = "[''export-incomplete.json'']"
  let ?run = "\<lambda>f rows. seqS (liftS (case f of None \<Rightarrow> Inr () | Some e \<Rightarrow> Inl e))
     (bindS (liftS (dict_item plan ''runId'')) (\<lambda>run_id.
      let result = complete_manifest io run_id rows (ad_total admission) in
      seqS (create ?m) (seqS (write_block ?m (o_dumps io result @ newline)) (seqS (chmod_sealed ?m) (retS result)))))"
  obtain f rows mid where copied:
      "copy_all (o_sha io) (o_readers io) (o_disk io) (ad_entries admission) [] s = ((f, rows), mid)"
    by (metis prod.exhaust)
  have "only ps mid" using copied assms(2,3) by (rule only_copy_all)
  then have none: "?m \<notin> fst ` set (stored mid)" using assms(4) by (auto simp: only_def)
  from assms(1) copied obtain e' mid' where failed: "?run f rows mid = (Inl e', mid')"
      and handled: "write_text ?i (o_dumps io (incomplete_manifest (dget plan ''runId'') rows e') @ newline) mid' = (Inl e, t) \<or>
        e = e' \<and> write_text ?i (o_dumps io (incomplete_manifest (dget plan ''runId'') rows e) @ newline) mid' = (Inr (), t)"
    by (auto simp: export_body_def Let_def dest!: on_errorS_error)
  have "mid' = mid"
    using failed by (auto simp: seqS_def bindS_def Let_def create_def write_block_def chmod_sealed_def dict_item_def
        of_option_def split: option.splits if_splits)
  with handled none show ?thesis
    by (auto simp: write_text_def holds_def update_keys split: if_splits simp flip: set_map)
qed

text \<open>A finding: \<open>.\<close> is refused, its spelling \<open>./\<close> is admitted as the root itself.\<close>

lemma relative_dot_slash: "relative ''./'' = Inr [] \<and> \<not> is_ok (relative ''.'')"
  by code_simp

section \<open>Properties\<close>

text \<open>
  A path that the export admits from a document has only plain parts, so it names a place
  below whatever directory it is joined to, with or without normalisation, and resolving it there
  ends at that place when no component is a link.
\<close>

theorem relative_paths_stay_below:
  assumes "relative v = Inr ps"
  shows "list_all safe_part ps \<and> normalise anchor ps = anchor @ ps \<and>
    (\<forall>n t found. walk n t anchor ps = Inr found \<and> (\<forall>k. \<not> is_link t (anchor @ take (Suc k) ps)) \<longrightarrow>
       found = anchor @ ps)"
  using relative_guard.guarded relative_guard.stays_below relative_guard.resolves_below assms by blast

theorem relative_paths_stay_below_witness:
  "relative ''logs/../x'' = raise ValueError ''unsafe retained relative path'' \<and>
   normalise [''srv'', ''run''] [''logs'', ''x''] = [''srv'', ''run'', ''logs'', ''x'']"
proof -
  have "relative ''logs//./x'' = Inr [''logs'', ''x'']" by code_simp
  from relative_paths_stay_below [OF this, of "[''srv'', ''run'']"]
  have "normalise [''srv'', ''run''] [''logs'', ''x''] = [''srv'', ''run'', ''logs'', ''x'']" by simp
  moreover have "relative ''logs/../x'' = raise ValueError ''unsafe retained relative path''" by code_simp
  ultimately show ?thesis by simp
qed

definition sample_meta :: file_meta where
  "sample_meta = \<lparr>st_dev = 1, st_ino = 7, st_mtime_ns = 10, st_ctime_ns = 10\<rparr>"

definition sample_tree :: tree where
  "sample_tree = [([''run''], Dir), ([''run'', ''a''], Regular ''ab'' sample_meta), ([''out''], Dir)]"

definition sample_plan :: dict where
  "sample_plan = [(''version'', JInt 1), (''runId'', JStr ''r1''), (''sourceRoot'', JStr ''/run''),
     (''destinationRoot'', JStr ''/out/kept''), (''maximumBytes'', JInt 10),
     (''entries'', JList [JObj [(''name'', JStr ''n''), (''relativePath'', JStr ''x/a''), (''source'', JStr ''a''),
        (''size_bytes'', JInt 2)]])]"

definition text_of :: "json \<Rightarrow> string" where
  "text_of j = (case as_str j of Some s \<Rightarrow> s | None \<Rightarrow> [])"

definition sample_admission :: admission where
  "sample_admission = \<lparr>ad_names = [''n''], ad_paths = [''x/a''], ad_total = 2,
     ad_entries = [\<lparr>a_item = [(''name'', JStr ''n''), (''relativePath'', JStr ''x/a''), (''source'', JStr ''a''),
        (''size_bytes'', JInt 2)], a_actual = [''run'', ''a''], a_output = [''x'', ''a''], a_facts = (1, 7, 2, 10, 10)\<rparr>]\<rparr>"

lemma sample_admitted:
  "admit_plan text_of sample_tree [] sample_plan = Inr (sample_admission, [''out'', ''kept''])"
  by code_simp



text \<open>
  C3: when the export returns, every entry of the inventory has its row in the manifest, in
  order; the bytes retained under the row's path have the recorded size and digest, and reading
  them back from the disk gave that digest; the manifest itself is the printed result.
\<close>

theorem complete_export_is_faithful:
  assumes "export str t cwd io plan = (Inr result, outcome)"
  shows "\<exists>admission final s rows run_id. outcome = Some (final, s) \<and>
    admit_plan str t cwd plan = Inr (admission, final) \<and>
    result = complete_manifest io run_id rows (ad_total admission) \<and>
    list_all2 (faithful_row (o_sha io) (o_disk io) s) (ad_entries admission) rows \<and>
    holds [''export-manifest.json''] (o_dumps io result @ newline) s"
proof -
  from assms obtain admission final s where plan: "admit_plan str t cwd plan = Inr (admission, final)"
      and run: "export_body io plan admission empty_store = (Inr result, s)" and out: "outcome = Some (final, s)"
    by (auto simp: export_def split: sum.splits prod.splits)
  from export_body_ok [OF run] obtain rows run_id mid where
      copied: "copy_all (o_sha io) (o_readers io) (o_disk io) (ad_entries admission) [] empty_store = ((None, rows), mid)"
      and result: "result = complete_manifest io run_id rows (ad_total admission)"
      and kept: "\<forall>q b. holds q b mid \<longrightarrow> holds q b s"
      and manifest: "holds [''export-manifest.json''] (o_dumps io result @ newline) s"
    by blast
  from copy_all_rows [OF copied, of "[]"]
  have "list_all2 (faithful_row (o_sha io) (o_disk io) mid) (ad_entries admission) rows" by simp
  then have "list_all2 (faithful_row (o_sha io) (o_disk io) s) (ad_entries admission) rows"
    by (rule list_all2_mono) (use kept in \<open>auto simp: faithful_row_def\<close>)
  with plan out result manifest show ?thesis by blast
qed

definition sample_io :: export_io where
  "sample_io = \<lparr>o_sha = (\<lambda>b. b), o_dumps = (\<lambda>_. ''{}''),
     o_readers = (\<lambda>_. Inr \<lparr>r_opened = (1, 7, 2, 10, 10), r_blocks = [''a'', ''b''], r_closed = (1, 7, 2, 10, 10),
                          r_path = (1, 7, 2, 10, 10)\<rparr>),
     o_disk = (\<lambda>_ b. b), o_started = 5, o_completed = 6\<rparr>"

definition grown_io :: export_io where
  "grown_io = sample_io\<lparr>o_readers := (\<lambda>_. Inr \<lparr>r_opened = (1, 7, 2, 10, 10), r_blocks = [''a'', ''bc''],
     r_closed = (1, 7, 2, 10, 10), r_path = (1, 7, 2, 10, 10)\<rparr>)\<rparr>"

theorem complete_export_is_faithful_witness:
  "\<exists>final s. export text_of sample_tree [] sample_io sample_plan =
      (Inr (complete_manifest sample_io (JStr ''r1'') [JObj [(''name'', JStr ''n''), (''relativePath'', JStr ''x/a''),
         (''sha256'', JStr ''ab''), (''size_bytes'', JInt 2)]] 2), Some (final, s)) \<and>
    holds [''export-manifest.json''] (''{}'' @ newline) s"
proof -
  have run: "fst (export text_of sample_tree [] sample_io sample_plan) =
      Inr (complete_manifest sample_io (JStr ''r1'') [JObj [(''name'', JStr ''n''), (''relativePath'', JStr ''x/a''),
         (''sha256'', JStr ''ab''), (''size_bytes'', JInt 2)]] 2)"
    by code_simp
  obtain outcome where "export text_of sample_tree [] sample_io sample_plan =
      (Inr (complete_manifest sample_io (JStr ''r1'') [JObj [(''name'', JStr ''n''), (''relativePath'', JStr ''x/a''),
         (''sha256'', JStr ''ab''), (''size_bytes'', JInt 2)]] 2), outcome)"
    using run by (metis prod.collapse)
  from complete_export_is_faithful [OF this] this show ?thesis
    by (auto simp: sample_io_def)
qed



end
