(* ===== verification/Collect_Inventory.thy ===== *)
theory Collect_Inventory
  imports Export_Retained
begin

text \<open>
  \<open>host/workers/legacy-finalization/collect_inventory.py\<close>: the collection of the retained
  inventory of a finished run and the checks that seal it. The file system is a tree; where the
  code reads again after the external validation, the model takes a second tree. The contract
  readers, the aggregation and the statement tool are the record \<open>harness\<close>.
\<close>

section \<open>Collection\<close>

record inventory_row =
  row_name :: string
  row_source :: string
  row_output :: string
  row_sha :: string
  row_size :: int

record collection =
  c_entries :: "inventory_row list"
  c_arguments :: "(string \<times> string) list"
  c_retained :: "(string \<times> string) list"
  c_identities :: "(string \<times> string \<times> int) list"
  c_counter :: nat

text \<open>The roots, the destination as written, and whether arguments name the source files.\<close>

record roots =
  src_root :: path
  dest_absolute :: bool
  dest_parts :: path
  source_arguments :: bool

definition supported_flags :: "string list" where
  "supported_flags = [''--scenario'', ''--runtime-manifest'', ''--acceptance-run'', ''--result'',
     ''--evidence-index'', ''--recording-summary'', ''--artifact'', ''--evidence'']"

definition evidence_kinds :: "string list" where
  "evidence_kinds = [''recording'', ''metrics'', ''junit'', ''other_evidence'']"

definition retained_path :: "roots \<Rightarrow> string \<Rightarrow> string" where
  "retained_path r out = (let ps = dest_parts r @ pure_parts out
     in if dest_absolute r then abs_str ps else path_str ps)"

definition subject_kind :: "string \<Rightarrow> string" where
  "subject_kind subject = (case partition_at (CHR '':'') subject of (k, sep, _) \<Rightarrow> if sep = [] then [] else k)"

definition argument_value :: "string \<Rightarrow> string \<Rightarrow> string" where
  "argument_value subject place = (if subject = [] then place else subject @ ''='' @ place)"

definition add ::
  "(bytes \<Rightarrow> string) \<Rightarrow> tree \<Rightarrow> roots \<Rightarrow> string \<Rightarrow> string \<Rightarrow> string \<Rightarrow> bool \<Rightarrow> collection \<Rightarrow> collection res" where
  "add sha t r flag subject source deduplicate s =
     unlessE (flag \<notin> set supported_flags) ValueError ''unsupported qualification binding''
    (bindE (relative source) (\<lambda>rel. bindE (inside t (src_root r @ rel) (src_root r)) (\<lambda>actual.
     case node_at t actual of
       Some (Regular d m) \<Rightarrow>
         (let digest = sha d; bytes_count = int (length d); kind = subject_kind subject in
          if deduplicate \<and> list_ex (\<lambda>(previous_kind, previous_digest, previous_size).
               previous_digest = digest \<and> previous_size = bytes_count \<and> previous_kind \<in> set evidence_kinds \<and>
               (kind \<noteq> ''recording'' \<or> previous_kind = ''recording'')) (c_identities s)
          then Inr s
          else let out = ''payloads/'' @ path_str rel; counter = Suc (c_counter s) in
            Inr \<lparr>c_entries = c_entries s @ [\<lparr>row_name = ''payload-'' @ nat_str counter, row_source = path_str rel,
                                           row_output = out, row_sha = digest, row_size = bytes_count\<rparr>],
                 c_arguments = c_arguments s @ [(flag, argument_value subject
                    (if source_arguments r then abs_str actual else retained_path r out))],
                 c_retained = c_retained s @ [(flag, argument_value subject (retained_path r out))],
                 c_identities = c_identities s @ [(kind, digest, bytes_count)],
                 c_counter = counter\<rparr>)
     | _ \<Rightarrow> raise ValueError ''qualification input is not a regular payload'')))"

definition empty_collection :: collection where
  "empty_collection = \<lparr>c_entries = [], c_arguments = [], c_retained = [], c_identities = [], c_counter = 0\<rparr>"

definition mandatory_subjects :: "string list" where
  "mandatory_subjects = [''metrics:metrics.otlp.jsonl'', ''junit:junit.xml'',
     ''other_evidence:fastdds-profile.xml'', ''other_evidence:host-topology.json'',
     ''other_evidence:runtime-resources.json'', ''other_evidence:capture/qos-overrides.yaml'',
     ''other_evidence:capture/mcap-writer.yaml'', ''qualification_profile:providers/profile.json'',
     ''provider_conformance:providers/conformance.json'', ''other_evidence:providers/configuration.json'',
     ''other_evidence:providers/observation.json'', ''other_evidence:logs/foundation.log'',
     ''other_evidence:logs/observer.log'']"

definition required_flags :: "string list" where
  "required_flags = [''--scenario'', ''--runtime-manifest'', ''--acceptance-run'', ''--result'', ''--evidence-index'']"

text \<open>\<open>str(item.get("subject", ""))\<close>.\<close>

definition subject_of :: "(json \<Rightarrow> string) \<Rightarrow> json \<Rightarrow> string res" where
  "subject_of str it = bindE (as_items it) (\<lambda>d. Inr (case map_of d ''subject'' of None \<Rightarrow> [] | Some v \<Rightarrow> str v))"

definition add_binding ::
  "(json \<Rightarrow> string) \<Rightarrow> (bytes \<Rightarrow> string) \<Rightarrow> tree \<Rightarrow> roots \<Rightarrow> json \<Rightarrow> collection \<Rightarrow> collection res" where
  "add_binding str sha t r it s = (case it of
     JObj d \<Rightarrow> bindE (dict_item d ''flag'') (\<lambda>flag. bindE (subject_of str it) (\<lambda>subject.
       bindE (dict_item d ''source'') (\<lambda>source. add sha t r (str flag) subject (str source) False s)))
   | _ \<Rightarrow> raise TypeError ''binding must be an object'')"

text \<open>\<open>add(str(item["flag"]), str(item["subject"]), str(item["source"]), deduplicate)\<close>.\<close>

definition add_listed ::
  "(json \<Rightarrow> string) \<Rightarrow> (bytes \<Rightarrow> string) \<Rightarrow> tree \<Rightarrow> roots \<Rightarrow> bool \<Rightarrow> json \<Rightarrow> collection \<Rightarrow> collection res" where
  "add_listed str sha t r deduplicate it s = bindE (item it ''flag'') (\<lambda>flag. bindE (item it ''subject'') (\<lambda>subject.
     bindE (item it ''source'') (\<lambda>source. add sha t r (str flag) (str subject) (str source) deduplicate s)))"

text \<open>\<open>plan.get(key, [])\<close>.\<close>

definition get_list :: "dict \<Rightarrow> string \<Rightarrow> json list res" where
  "get_list d k = (case map_of d k of None \<Rightarrow> Inr [] | Some v \<Rightarrow> as_list v)"

definition below :: "roots \<Rightarrow> path \<Rightarrow> string" where
  "below r p = path_str (drop (length (src_root r)) p)"

definition add_recordings ::
  "(bytes \<Rightarrow> string) \<Rightarrow> tree \<Rightarrow> roots \<Rightarrow> path list \<Rightarrow> path list \<Rightarrow> path \<Rightarrow> collection \<Rightarrow> collection res" where
  "add_recordings sha t r summary_files recording_files bags s =
     bindE (foldE (\<lambda>p. add sha t r ''--artifact''
         (''other_evidence:capture/bags/'' @ path_str (drop (length bags) p)) (below r p) False)
       (rglob t bags (\<lambda>n. n = ''metadata.yaml'')) s) (\<lambda>s.
     foldE (\<lambda>(i, summary, recording) s.
         bindE (add sha t r ''--recording-summary'' (''primary-'' @ nat_str i) (below r summary) False s)
           (add sha t r ''--evidence'' (''recording:primary-'' @ nat_str i @ ''.mcap'') (below r recording) False))
       (enum_from 0 (zip summary_files recording_files)) s)"

definition add_playback ::
  "(json \<Rightarrow> string) \<Rightarrow> (bytes \<Rightarrow> string) \<Rightarrow> tree \<Rightarrow> roots \<Rightarrow> dict \<Rightarrow> path list \<Rightarrow> collection \<Rightarrow> collection res" where
  "add_playback str sha t r plan recording_files s =
     bindE (dict_item plan ''playbackSourceSha256'') (\<lambda>original.
     bindE (foldE (\<lambda>p u. bindE (read_file t p) (\<lambda>d.
         unlessE (sha d = str original) ValueError ''new observation reused source recording bytes'' (Inr u)))
       recording_files ()) (\<lambda>_.
     bindE (dict_item plan ''playbackSourceDirectory'') (\<lambda>directory. bindE (relative (str directory)) (\<lambda>rel.
     bindE (foldE (\<lambda>p s. if is_file t p
           then add sha t r ''--artifact''
             ((if path_suffix p = ''.mcap'' then ''recording:'' else ''other_evidence:'') @ below r p) (below r p) True s
           else Inr s)
       (rglob t (src_root r @ rel) (\<lambda>_. True)) s) (\<lambda>s.
     bindE (get_list plan ''playbackBindings'') (\<lambda>items. foldE (add_listed str sha t r True) items s))))))"

fun unique_rows :: "inventory_row list \<Rightarrow> inventory_row list" where
  "unique_rows [] = []"
| "unique_rows (x # xs) = x # unique_rows (filter (\<lambda>y. row_output y \<noteq> row_output x) xs)"

record inventory =
  i_run_id :: json
  i_source_root :: string
  i_destination_root :: string
  i_maximum :: json
  i_entries :: "inventory_row list"

definition plan_roots :: "(json \<Rightarrow> string) \<Rightarrow> tree \<Rightarrow> path \<Rightarrow> bool \<Rightarrow> dict \<Rightarrow> roots res" where
  "plan_roots str t cwd source_args plan =
     bindE (dict_item plan ''sourceRoot'') (\<lambda>sr. bindE (resolve t (to_path cwd (str sr))) (\<lambda>source.
     bindE (dict_item plan ''destinationRoot'') (\<lambda>dr.
     Inr \<lparr>src_root = source, dest_absolute = is_absolute (str dr), dest_parts = pure_parts (str dr),
          source_arguments = source_args\<rparr>)))"

definition check_subjects :: "dict \<Rightarrow> string list \<Rightarrow> (string \<times> string) list \<Rightarrow> unit res" where
  "check_subjects plan subjects arguments =
     unlessE (\<not> set mandatory_subjects \<subseteq> set subjects) ValueError
       ''required legacy raw/configuration/provider inventory is incomplete''
    (unlessE (dget plan ''dataSource'' = JStr ''simulator'' \<and> ''other_evidence:providers/world.sdf'' \<notin> set subjects)
       ValueError ''simulator source world is missing from the retained inventory''
    (unlessE (dget plan ''dataSource'' = JStr ''recording_playback'' \<and>
              ''dataset_manifest:dataset-manifest.json'' \<notin> set subjects)
       ValueError ''playback dataset manifest is missing from the retained inventory''
    (unlessE (\<not> set required_flags \<subseteq> fst ` set arguments) ValueError ''legacy core inputs are incomplete''
    (Inr ()))))"

text \<open>The whole collection; \<open>c_arguments\<close> and \<open>c_retained\<close> are its two argument lists.\<close>

definition collect ::
  "(json \<Rightarrow> string) \<Rightarrow> (bytes \<Rightarrow> string) \<Rightarrow> tree \<Rightarrow> path \<Rightarrow> bool \<Rightarrow> dict \<Rightarrow> (inventory \<times> collection) res" where
  "collect str sha t cwd source_args plan =
     bindE (plan_roots str t cwd source_args plan) (\<lambda>r.
     bindE (dict_item plan ''bindings'') (\<lambda>bindings. case bindings of
       JList items \<Rightarrow>
         bindE (foldE (add_binding str sha t r) items empty_collection) (\<lambda>s.
         bindE (mapE (subject_of str) items) (\<lambda>subjects.
         bindE (check_subjects plan subjects (c_arguments s)) (\<lambda>_.
         bindE (dict_item plan ''bagsDirectory'') (\<lambda>b. bindE (relative (str b)) (\<lambda>bags_rel.
         bindE (dict_item plan ''summariesDirectory'') (\<lambda>sd. bindE (relative (str sd)) (\<lambda>summaries_rel.
         let bags = src_root r @ bags_rel;
             recording_files = rglob t bags (ends_with ''.mcap'');
             summary_files = glob t (src_root r @ summaries_rel) (ends_with ''.recording-summary.json'') in
         unlessE (summary_files = [] \<or> length recording_files \<noteq> length summary_files)
           ValueError ''native MCAP/summary inventory differs''
        (bindE (add_recordings sha t r summary_files recording_files bags s) (\<lambda>s.
         bindE (if dget plan ''dataSource'' = JStr ''recording_playback''
                then add_playback str sha t r plan recording_files s
                else unlessE (dget plan ''dataSource'' \<noteq> JStr ''simulator'') ValueError ''unknown admitted data source'' (Inr s))
           (\<lambda>s.
         bindE (get_list plan ''productAndReadinessBindings'') (\<lambda>more.
         bindE (foldE (add_listed str sha t r False) more s) (\<lambda>s.
         bindE (dict_item plan ''runId'') (\<lambda>run_id. bindE (dict_item plan ''maximumBytes'') (\<lambda>maximum.
         Inr (\<lparr>i_run_id = run_id, i_source_root = abs_str (src_root r), i_destination_root = retained_path r [],
               i_maximum = maximum, i_entries = unique_rows (c_entries s)\<rparr>, s)))))))))))))))
     | _ \<Rightarrow> raise TypeError ''admitted qualification bindings required''))"

section \<open>Verification of a finished assessment\<close>

record harness =
  read_document :: "tree \<Rightarrow> path \<Rightarrow> bytes res"
  load_document :: "string \<Rightarrow> bytes \<Rightarrow> (json \<times> string) res"
  aggregate_results :: "path \<Rightarrow> path \<Rightarrow> path list \<Rightarrow> string res"
  create_statement :: "string list \<Rightarrow> string \<Rightarrow> unit res"

definition load_result :: "harness \<Rightarrow> tree \<Rightarrow> path \<Rightarrow> (json \<times> string \<times> int) res" where
  "load_result h t p = bindE (read_document h t p) (\<lambda>raw.
     bindE (load_document h ''acceptance_result'' raw) (\<lambda>(data, digest). Inr (data, digest, int (length raw))))"

definition exit_verdict :: "json \<Rightarrow> json \<Rightarrow> unit res" where
  "exit_verdict exit_code verdict =
     unlessE (exit_code \<noteq> JInt 0 \<and> exit_code \<noteq> JInt 1) ValueError ''completed assessment requires exit 0 or 1''
    (unlessE (exit_code \<noteq> JInt (if verdict = JStr ''passed'' then 0 else 1))
       ValueError ''assessment exit code and canonical verdict disagree''
    (Inr ()))"

definition flat :: "(string \<times> string) list \<Rightarrow> string list" where
  "flat xs = concat (map (\<lambda>(f, v). [f, v]) xs)"

definition binding ::
  "(json \<Rightarrow> string) \<Rightarrow> tree \<Rightarrow> path \<Rightarrow> dict \<Rightarrow> string \<Rightarrow> (string \<times> path) res" where
  "binding str t cwd plan flag =
     bindE (dict_item plan ''bindings'') (\<lambda>bs. bindE (as_list bs) (\<lambda>items.
     bindE (mapE (\<lambda>row. bindE (item row ''flag'') (\<lambda>f. Inr (f, row))) items) (\<lambda>flagged.
     case filter (\<lambda>(f, _). f = JStr flag) flagged of
       [(_, row)] \<Rightarrow>
         bindE (dict_item plan ''sourceRoot'') (\<lambda>sr. bindE (resolve t (to_path cwd (str sr))) (\<lambda>source.
         bindE (item row ''source'') (\<lambda>src. bindE (relative (str src)) (\<lambda>rel.
         bindE (inside t (source @ rel) source) (\<lambda>p.
         bindE (subject_of str row) (\<lambda>subject. Inr (subject, p)))))))
     | _ \<Rightarrow> raise ValueError (''completed legacy assessment requires one '' @ flag))))"

text \<open>\<open>a != b or c != d or ...\<close> in front of a \<open>raise\<close>, from left to right.\<close>

definition all_equal :: "string \<Rightarrow> (json res \<times> json res) list \<Rightarrow> unit res" where
  "all_equal msg pairs = foldE (\<lambda>(a, b) u. bindE a (\<lambda>x. bindE b (\<lambda>y.
     unlessE (\<not> py_eq x y) ValueError msg (Inr u)))) pairs ()"

definition check_payload :: "(bytes \<Rightarrow> string) \<Rightarrow> tree \<Rightarrow> path \<Rightarrow> string \<Rightarrow> json \<Rightarrow> unit res" where
  "check_payload sha t anchor field row =
     bindE (item row field) (\<lambda>f. bindE (of_option TypeError ''path'' (as_str f)) (\<lambda>name.
     bindE (relative name) (\<lambda>rel. bindE (inside t (anchor @ rel) anchor) (\<lambda>p.
     bindE (read_file t p) (\<lambda>d.
     all_equal ''payload differs from sealed completed inventory''
       [(Inr (JInt (int (length d))), item row ''size_bytes''), (Inr (JStr (sha d)), item row ''sha256'')])))))"

definition check_payloads :: "(bytes \<Rightarrow> string) \<Rightarrow> tree \<Rightarrow> json \<Rightarrow> path \<Rightarrow> string \<Rightarrow> unit res" where
  "check_payloads sha t inventory anchor field =
     bindE (item inventory ''entries'') (\<lambda>es. bindE (as_list es) (\<lambda>rows.
     foldE (\<lambda>row u. check_payload sha t anchor field row) rows ()))"

definition row_json :: "inventory_row \<Rightarrow> json" where
  "row_json row = JObj [(''name'', JStr (row_name row)), (''source'', JStr (row_source row)),
     (''relativePath'', JStr (row_output row)), (''sha256'', JStr (row_sha row)), (''size_bytes'', JInt (row_size row))]"

definition inventory_json :: "inventory \<Rightarrow> json" where
  "inventory_json i = JObj [(''version'', JInt 1), (''runId'', i_run_id i), (''sourceRoot'', JStr (i_source_root i)),
     (''destinationRoot'', JStr (i_destination_root i)), (''maximumBytes'', i_maximum i),
     (''entries'', JList (map row_json (i_entries i)))]"

definition arguments_json :: "(string \<times> string) list \<Rightarrow> json" where
  "arguments_json xs = JList (map JStr (flat xs))"

definition sealed_result :: "string \<Rightarrow> int \<Rightarrow> json" where
  "sealed_result digest bytes_count = JObj [(''sha256'', JStr digest), (''size_bytes'', JInt bytes_count)]"

text \<open>\<open>t'\<close> is the tree after the statement tool has run.\<close>

definition verify_result ::
  "(json \<Rightarrow> string) \<Rightarrow> (bytes \<Rightarrow> string) \<Rightarrow> harness \<Rightarrow> tree \<Rightarrow> tree \<Rightarrow> path \<Rightarrow> dict \<Rightarrow> int \<Rightarrow> json res" where
  "verify_result str sha h t t' cwd plan exit_code =
     bindE (collect str sha t cwd True plan) (\<lambda>(listing, c).
     bindE (num_lt (i_maximum listing) (JInt (sum_list (map row_size (i_entries listing))))) (\<lambda>too_big.
     unlessE too_big ValueError ''current assessment exceeds admitted export byte bound''
    (bindE (binding str t cwd plan ''--result'') (\<lambda>(domain, p).
     bindE (load_result h t p) (\<lambda>(doc, digest, bytes_count).
     bindE (all_equal ''completed result belongs to another admitted run or domain''
       [(item doc ''run_id'', Inr (i_run_id listing)), (item doc ''domain_id'', Inr (JStr domain))]) (\<lambda>_.
     bindE (item doc ''status'') (\<lambda>status. bindE (exit_verdict (JInt exit_code) status) (\<lambda>_.
     bindE (binding str t cwd plan ''--scenario'') (\<lambda>(_, scenario).
     bindE (binding str t cwd plan ''--acceptance-run'') (\<lambda>(_, context_path).
     bindE (aggregate_results h scenario context_path [p]) (\<lambda>aggregate.
     bindE (create_statement h (flat (c_arguments c)) aggregate) (\<lambda>_.
     bindE (dict_item plan ''sourceRoot'') (\<lambda>sr. bindE (resolve t' (to_path cwd (str sr))) (\<lambda>source.
     bindE (check_payloads sha t' (inventory_json listing) source ''source'') (\<lambda>_.
     bindE (load_result h t' p) (\<lambda>(_, digest', bytes_count').
     unlessE (digest' \<noteq> digest \<or> bytes_count' \<noteq> bytes_count) ValueError ''completed result changed during validation''
    (bindE (of_option StopIteration []
        (List.find (\<lambda>row. row_source row = path_str (drop (length source) p)) (i_entries listing))) (\<lambda>row.
     Inr (JObj [(''runId'', i_run_id listing), (''domainId'', JStr domain), (''verdict'', status),
       (''observerExitCode'', JInt exit_code), (''result'', sealed_result digest bytes_count),
       (''resultRelativePath'', JStr (row_output row)), (''inventory'', inventory_json listing),
       (''arguments'', arguments_json (c_retained c)),
       (''sourceArguments'', arguments_json (c_arguments c))])))))))))))))))))))"

definition verify_aggregate ::
  "(bytes \<Rightarrow> string) \<Rightarrow> harness \<Rightarrow> tree \<Rightarrow> tree \<Rightarrow> json \<Rightarrow> path \<Rightarrow> path \<Rightarrow> json \<Rightarrow> int \<Rightarrow> json res" where
  "verify_aggregate sha h t t' arguments aggregate result_path completed exit_code =
     (case arguments of JList values \<Rightarrow>
       unlessE (8192 < length values \<or> \<not> list_all is_str values) ValueError
         ''invalid retained qualification argument inventory''
      (bindE (item completed ''arguments'') (\<lambda>sealed_arguments.
       unlessE (\<not> py_eq arguments sealed_arguments) ValueError
         ''qualification arguments differ from sealed completed inventory''
      (bindE (load_result h t result_path) (\<lambda>(doc, digest, bytes_count).
       bindE (all_equal ''retained result differs from sealed completed assessment''
         [(Inr (sealed_result digest bytes_count), item completed ''result''), (item doc ''run_id'', item completed ''runId''),
          (item doc ''domain_id'', item completed ''domainId''), (item doc ''status'', item completed ''verdict'')]) (\<lambda>_.
       bindE (item doc ''status'') (\<lambda>status.
       bindE (item completed ''observerExitCode'') (\<lambda>observer. bindE (exit_verdict observer status) (\<lambda>_.
       bindE (item completed ''resultRelativePath'') (\<lambda>rrp.
       bindE (of_option TypeError ''path'' (as_str rrp)) (\<lambda>name. bindE (relative name) (\<lambda>rel.
       let retained = (butlast ^^ length rel) result_path in
       unlessE (retained @ rel \<noteq> result_path) ValueError ''retained result path differs from admitted inventory''
      (bindE (item completed ''inventory'') (\<lambda>listing.
       bindE (check_payloads sha t listing retained ''relativePath'') (\<lambda>_.
       bindE (read_document h t aggregate) (\<lambda>raw.
       bindE (load_document h ''acceptance_aggregate'' raw) (\<lambda>(document, document_sha).
       bindE (item document ''per_domain_aggregate'') (\<lambda>per_domain.
       bindE (exit_verdict (JInt exit_code) per_domain) (\<lambda>_.
       bindE (create_statement h (map (\<lambda>v. case v of JStr x \<Rightarrow> x | _ \<Rightarrow> []) values) (abs_str aggregate)) (\<lambda>_.
       bindE (read_document h t' aggregate) (\<lambda>raw'.
       unlessE (raw' \<noteq> raw) ValueError ''retained assessment changed during validation''
      (bindE (load_result h t' result_path) (\<lambda>(_, digest', _).
       unlessE (digest' \<noteq> digest) ValueError ''retained assessment changed during validation''
      (bindE (check_payloads sha t' listing retained ''relativePath'') (\<lambda>_.
       bindE (item completed ''runId'') (\<lambda>sealed_run. bindE (item completed ''result'') (\<lambda>sealed_json.
       Inr (JObj [(''runId'', sealed_run), (''verdict'', per_domain), (''aggregateExitCode'', JInt exit_code),
         (''aggregate'', sealed_result document_sha (int (length raw))), (''result'', sealed_json)])))))))))))))))))))))))))))
     | _ \<Rightarrow> raise ValueError ''invalid retained qualification argument inventory'')"

section \<open>Command line\<close>

datatype mode = Inventory | VerifyResult int | VerifyAggregate int

record cli =
  cli_mode :: mode
  cli_plan :: string
  cli_output :: string
  cli_arguments :: "string option"
  cli_aggregate :: "string option"
  cli_result :: "string option"
  cli_completed :: "string option"

definition read_json :: "(bytes \<Rightarrow> json res) \<Rightarrow> tree \<Rightarrow> path \<Rightarrow> string \<Rightarrow> json res" where
  "read_json loads t cwd p = bindE (read_file t (to_path cwd p)) loads"

text \<open>The check of a current collection against the sealed assessment, and the retry document.\<close>

definition retry_outputs ::
  "(bytes \<Rightarrow> json res) \<Rightarrow> tree \<Rightarrow> path \<Rightarrow> string \<Rightarrow> string \<Rightarrow> inventory \<Rightarrow> collection \<Rightarrow> (string \<times> json) list res" where
  "retry_outputs loads t cwd arguments_path completed_path listing c =
     bindE (read_json loads t cwd completed_path) (\<lambda>completed.
     bindE (item completed ''sourceArguments'') (\<lambda>source_args.
     unlessE (\<not> py_eq (arguments_json (c_arguments c)) source_args)
       ValueError ''current qualification roles differ from validated assessment''
    (bindE (item completed ''inventory'') (\<lambda>sealed_inventory.
     bindE (all_equal ''current export inventory differs from validated assessment''
       (map (\<lambda>field. (item (inventory_json listing) field, item sealed_inventory field))
         [''runId'', ''sourceRoot'', ''maximumBytes'', ''entries''])) (\<lambda>_.
     let place = arguments_path @ ''.completed-result.json'' in
     if resolve_lax t (to_path cwd place) = resolve_lax t (to_path cwd completed_path)
     then bindE (item completed ''arguments'') (\<lambda>sealed_arguments.
       unlessE (\<not> py_eq (arguments_json (c_retained c)) sealed_arguments \<or>
                \<not> py_eq (inventory_json listing) sealed_inventory)
         ValueError ''current qualification arguments differ from validated assessment'' (Inr []))
     else bindE (as_items completed) (\<lambda>d.
       Inr [(place, JObj (dset ''arguments'' (arguments_json (c_retained c))
                           (dset ''inventory'' (inventory_json listing) d)))]))))))"

definition main_outputs ::
  "(json \<Rightarrow> string) \<Rightarrow> (bytes \<Rightarrow> string) \<Rightarrow> (bytes \<Rightarrow> json res) \<Rightarrow> harness \<Rightarrow> tree \<Rightarrow> tree \<Rightarrow> path \<Rightarrow> cli \<Rightarrow> (string \<times> json) list res" where
  "main_outputs str sha loads h t t' cwd args =
     bindE (read_json loads t cwd (cli_plan args)) (\<lambda>plan_json. bindE (as_items plan_json) (\<lambda>plan.
     case cli_mode args of
       VerifyResult code \<Rightarrow>
         bindE (verify_result str sha h t t' cwd plan code) (\<lambda>v. Inr [(cli_output args, v)])
     | VerifyAggregate code \<Rightarrow>
         (case (cli_arguments args, cli_aggregate args, cli_result args, cli_completed args) of
           (Some a, Some g, Some r, Some c) \<Rightarrow>
             bindE (read_json loads t cwd c) (\<lambda>completed.
             bindE (item completed ''runId'') (\<lambda>run. bindE (dict_item plan ''runId'') (\<lambda>planned.
             unlessE (\<not> py_eq run planned) ValueError ''completed assessment belongs to another admitted run''
            (bindE (read_json loads t cwd a) (\<lambda>arguments.
             bindE (verify_aggregate sha h t t' arguments (to_path cwd g) (to_path cwd r) completed code) (\<lambda>v.
             Inr [(cli_output args, v)]))))))
         | _ \<Rightarrow> raise SystemExit ''aggregate validation requires arguments, aggregate, result and completed-result'')
     | Inventory \<Rightarrow>
         (case cli_arguments args of
           None \<Rightarrow> raise SystemExit ''inventory requires --arguments''
         | Some a \<Rightarrow>
             bindE (collect str sha t cwd (cli_completed args \<noteq> None) plan) (\<lambda>(listing, c).
             bindE (case cli_completed args of None \<Rightarrow> Inr [] | Some p \<Rightarrow> retry_outputs loads t cwd a p listing c) (\<lambda>more.
             Inr ([(cli_output args, inventory_json listing),
                   (a, arguments_json (if cli_completed args = None then c_arguments c else c_retained c))] @ more))))))"

text \<open>The files written so far, by absolute path.\<close>

definition write_new :: "(json \<Rightarrow> bytes) \<Rightarrow> path \<Rightarrow> string \<times> json \<Rightarrow> ((path \<times> bytes) list, unit) prog" where
  "write_new dumps cwd x = (case x of (name, v) \<Rightarrow> (\<lambda>w.
     if to_path cwd name \<in> fst ` set w then (raise FileExistsError name, w)
     else (Inr (), w @ [(to_path cwd name, dumps v @ newline)])))"

definition write_outputs ::
  "(json \<Rightarrow> bytes) \<Rightarrow> tree \<Rightarrow> path \<Rightarrow> (string \<times> json) list \<Rightarrow> ((path \<times> bytes) list, unit) prog" where
  "write_outputs dumps t cwd outputs =
     seqS (liftS (foldE (\<lambda>(name, _) u. unlessE (is_ok (resolve t (to_path cwd name))) ValueError
             ''inventory output already exists'' (Inr u)) outputs ()))
          (forS (write_new dumps cwd) outputs)"

definition collect_main ::
  "(json \<Rightarrow> string) \<Rightarrow> (bytes \<Rightarrow> string) \<Rightarrow> (bytes \<Rightarrow> json res) \<Rightarrow> (json \<Rightarrow> bytes) \<Rightarrow> harness \<Rightarrow> tree \<Rightarrow> tree \<Rightarrow> path \<Rightarrow>
   cli \<Rightarrow> ((path \<times> bytes) list, unit) prog" where
  "collect_main str sha loads dumps h t t' cwd args =
     bindS (liftS (main_outputs str sha loads h t t' cwd args)) (write_outputs dumps t' cwd)"

section \<open>Facts\<close>

text \<open>A row of the inventory tells the bytes of a regular file inside the source root.\<close>

definition sealed_row :: "(bytes \<Rightarrow> string) \<Rightarrow> tree \<Rightarrow> path \<Rightarrow> inventory_row \<Rightarrow> bool" where
  "sealed_row sha t source row \<longleftrightarrow> (\<exists>actual d m. inside t (source @ pure_parts (row_source row)) source = Inr actual \<and>
     node_at t actual = Some (Regular d m) \<and> row_sha row = sha d \<and> row_size row = int (length d) \<and>
     list_all safe_part (pure_parts (row_source row)) \<and> row_output row = ''payloads/'' @ row_source row)"

definition retained_for :: "roots \<Rightarrow> inventory_row \<Rightarrow> string \<times> string \<Rightarrow> bool" where
  "retained_for r row argument \<longleftrightarrow> fst argument \<in> set supported_flags \<and>
     (\<exists>subject. snd argument = argument_value subject (retained_path r (row_output row)))"

definition collected :: "(bytes \<Rightarrow> string) \<Rightarrow> tree \<Rightarrow> roots \<Rightarrow> collection \<Rightarrow> bool" where
  "collected sha t r s \<longleftrightarrow> list_all (sealed_row sha t (src_root r)) (c_entries s) \<and>
     list_all2 (retained_for r) (c_entries s) (c_retained s) \<and>
     c_counter s = length (c_entries s) \<and>
     map row_name (c_entries s) = map (\<lambda>i. ''payload-'' @ nat_str i) [1..<Suc (length (c_entries s))] \<and>
     map fst (c_arguments s) = map fst (c_retained s)"

lemma add_collected:
  assumes "add sha t r flag subject source deduplicate s = Inr s'" "collected sha t r s"
  shows "collected sha t r s' \<and> fst ` set (c_arguments s) \<subseteq> fst ` set (c_arguments s')"
proof -
  from assms(1) obtain rel actual d m where flag: "flag \<in> set supported_flags"
      and rel: "relative source = Inr rel" and actual: "inside t (src_root r @ rel) (src_root r) = Inr actual"
      and regular: "node_at t actual = Some (Regular d m)"
    by (auto simp: add_def ok_iff)
  note safe = relative_guard.guarded [OF rel]
  let ?row = "\<lparr>row_name = ''payload-'' @ nat_str (Suc (c_counter s)), row_source = path_str rel,
     row_output = ''payloads/'' @ path_str rel, row_sha = sha d, row_size = int (length d)\<rparr>"
  have "sealed_row sha t (src_root r) ?row"
    using actual regular safe by (simp add: sealed_row_def pure_parts_path_str)
  moreover have "retained_for r ?row (flag, argument_value subject (retained_path r (''payloads/'' @ path_str rel)))"
    using flag by (auto simp: retained_for_def)
  ultimately show ?thesis
    using assms(1) flag rel actual regular assms(2)
    by (auto simp: add_def collected_def Let_def list_all2_appendI split: if_splits)
qed

text \<open>Every loop of the collection only adds.\<close>

definition grows :: "(bytes \<Rightarrow> string) \<Rightarrow> tree \<Rightarrow> roots \<Rightarrow> (collection \<Rightarrow> collection res) \<Rightarrow> bool" where
  "grows sha t r f \<longleftrightarrow> (\<forall>s s'. f s = Inr s' \<longrightarrow> collected sha t r s \<longrightarrow>
     collected sha t r s' \<and> fst ` set (c_arguments s) \<subseteq> fst ` set (c_arguments s'))"

lemma growsD:
  "grows sha t r f \<Longrightarrow> f s = Inr s' \<Longrightarrow> collected sha t r s \<Longrightarrow>
   collected sha t r s' \<and> fst ` set (c_arguments s) \<subseteq> fst ` set (c_arguments s')"
  unfolding grows_def by blast

lemma grows_add [keeps]: "grows sha t r (add sha t r flag subject source deduplicate)"
  unfolding grows_def using add_collected by blast

lemma grows_Inr [keeps]: "grows sha t r Inr"
  by (simp add: grows_def)

lemma grows_foldE [keeps]: "(\<And>x. grows sha t r (f x)) \<Longrightarrow> grows sha t r (foldE f xs)"
proof (induction xs)
  case Nil
  then show ?case by (simp add: grows_def)
next
  case (Cons x xs)
  from Cons.prems [of x] Cons.IH [OF Cons.prems] show ?case
    by (simp add: grows_def bindE_ok) blast
qed

lemma grows_bind [keeps]: "grows sha t r f \<Longrightarrow> grows sha t r g \<Longrightarrow> grows sha t r (\<lambda>s. bindE (f s) g)"
  by (simp add: grows_def bindE_ok) blast

lemma grows_bind_pure [keeps]: "(\<And>a. grows sha t r (g a)) \<Longrightarrow> grows sha t r (\<lambda>s. bindE m (\<lambda>a. g a s))"
  by (simp add: grows_def bindE_ok) blast

lemma grows_unless [keeps]: "grows sha t r f \<Longrightarrow> grows sha t r (\<lambda>s. unlessE bad k msg (f s))"
  unfolding grows_def unlessE_ok by blast

lemma grows_if [keeps]: "grows sha t r f \<Longrightarrow> grows sha t r g \<Longrightarrow> grows sha t r (\<lambda>s. if c then f s else g s)"
  by (simp add: grows_def)

lemma grows_raise [keeps]: "grows sha t r (\<lambda>s. Inl e)"
  by (simp add: grows_def)

lemma grows_binding [keeps]: "grows sha t r (add_binding str sha t r it)"
proof (cases it)
  case (JObj d)
  have "add_binding str sha t r it = (\<lambda>s. bindE (dict_item d ''flag'') (\<lambda>flag. bindE (subject_of str it) (\<lambda>subject.
       bindE (dict_item d ''source'') (\<lambda>source. add sha t r (str flag) subject (str source) False s))))"
    by (simp add: add_binding_def JObj fun_eq_iff)
  then show ?thesis by (simp only:) (intro keeps)
qed (simp_all add: add_binding_def grows_def)

lemma grows_listed [keeps]: "grows sha t r (add_listed str sha t r deduplicate it)"
  unfolding add_listed_def [abs_def] by (intro keeps)

lemma grows_recordings [keeps]: "grows sha t r (add_recordings sha t r summary_files recording_files bags)"
  unfolding add_recordings_def [abs_def] by (intro keeps) (auto intro!: keeps split: prod.splits)

lemma grows_playback [keeps]: "grows sha t r (add_playback str sha t r plan recording_files)"
  unfolding add_playback_def [abs_def] by (intro keeps)

lemma unique_rows_outputs:
  "distinct (map row_output (unique_rows xs))" "set (unique_rows xs) \<subseteq> set xs"
  "row_output ` set (unique_rows xs) = row_output ` set xs"
proof (induction xs rule: unique_rows.induct)
  case (2 x xs)
  { case 1 with 2 show ?case by (auto simp: image_iff dest: subsetD) }
  { case 2 with "2.IH" show ?case by auto }
  { case 3 with "2.IH" show ?case by auto }
qed simp_all

lemma unique_rows_names: "distinct (map row_name xs) \<Longrightarrow> distinct (map row_name (unique_rows xs))"
proof (induction xs rule: unique_rows.induct)
  case (2 x xs)
  have "distinct (map row_name (filter (\<lambda>y. row_output y \<noteq> row_output x) xs))"
    using 2(2) by (simp add: distinct_map_filter)
  with 2 unique_rows_outputs(2) show ?case by fastforce
qed simp

lemma empty_collected: "collected sha t r empty_collection"
  by (simp add: collected_def empty_collection_def)

lemma collect_result:
  assumes "collect str sha t cwd source_args plan = Inr (listing, c)"
  shows "\<exists>r. plan_roots str t cwd source_args plan = Inr r \<and> collected sha t r c \<and>
    i_entries listing = unique_rows (c_entries c) \<and> set required_flags \<subseteq> fst ` set (c_retained c) \<and>
    dict_item plan ''runId'' = Inr (i_run_id listing) \<and> dict_item plan ''maximumBytes'' = Inr (i_maximum listing)"
proof -
  from assms obtain r items s1 s2 s3 more subjects summaries recordings bags where
      r: "plan_roots str t cwd source_args plan = Inr r"
      and bound: "foldE (add_binding str sha t r) items empty_collection = Inr s1"
      and subjects: "check_subjects plan subjects (c_arguments s1) = Inr ()"
      and recs: "add_recordings sha t r summaries recordings bags s1 = Inr s2"
      and source: "(if dget plan ''dataSource'' = JStr ''recording_playback''
                then add_playback str sha t r plan recordings s2
                else unlessE (dget plan ''dataSource'' \<noteq> JStr ''simulator'') ValueError ''unknown admitted data source'' (Inr s2)) = Inr s3"
      and last: "foldE (add_listed str sha t r False) more s3 = Inr c"
      and listing: "i_entries listing = unique_rows (c_entries c)"
        "dict_item plan ''runId'' = Inr (i_run_id listing)" "dict_item plan ''maximumBytes'' = Inr (i_maximum listing)"
    by (clarsimp simp: collect_def Let_def bindE_ok unlessE_ok only_type)
  note grow = growsD [OF grows_foldE [OF grows_binding] bound empty_collected]
  have 2: "collected sha t r s2 \<and> fst ` set (c_arguments s1) \<subseteq> fst ` set (c_arguments s2)"
    using growsD [OF grows_recordings recs] grow by blast
  have "grows sha t r (\<lambda>s. if dget plan ''dataSource'' = JStr ''recording_playback''
                then add_playback str sha t r plan recordings s
                else unlessE (dget plan ''dataSource'' \<noteq> JStr ''simulator'') ValueError ''unknown admitted data source'' (Inr s))"
    by (intro keeps)
  from growsD [OF this source] 2
  have 3: "collected sha t r s3 \<and> fst ` set (c_arguments s1) \<subseteq> fst ` set (c_arguments s3)" by blast
  from growsD [OF grows_foldE [OF grows_listed] last] 3
  have 4: "collected sha t r c" "fst ` set (c_arguments s1) \<subseteq> fst ` set (c_arguments c)" by blast+
  have "set required_flags \<subseteq> fst ` set (c_arguments s1)"
    using subjects by (simp add: check_subjects_def unlessE_ok)
  also have "fst ` set (c_arguments s1) \<subseteq> fst ` set (c_arguments c)" by (fact 4(2))
  also have "fst ` set (c_arguments c) = fst ` set (c_retained c)"
    using 4(1) by (simp add: collected_def flip: set_map)
  finally show ?thesis using r listing 4(1) by (intro exI [of _ r]) simp
qed

section \<open>Properties\<close>


definition run_tree :: tree where
  "run_tree = [([''run''], Dir), ([''run'', ''f''], Regular ''ab'' sample_meta),
     ([''run'', ''bags''], Dir), ([''run'', ''bags'', ''m.mcap''], Regular ''m'' sample_meta),
     ([''run'', ''sums''], Dir), ([''run'', ''sums'', ''a.recording-summary.json''], Regular ''s'' sample_meta)]"

definition bind_row :: "string \<Rightarrow> string \<Rightarrow> json" where
  "bind_row flag subject = JObj [(''flag'', JStr flag), (''subject'', JStr subject), (''source'', JStr ''f'')]"

definition run_plan :: dict where
  "run_plan = [(''runId'', JStr ''r1''), (''sourceRoot'', JStr ''/run''), (''destinationRoot'', JStr ''/kept''),
     (''maximumBytes'', JInt 10), (''dataSource'', JStr ''simulator''),
     (''bagsDirectory'', JStr ''bags''), (''summariesDirectory'', JStr ''sums''),
     (''bindings'', JList (map (bind_row ''--artifact'') (mandatory_subjects @ [''other_evidence:providers/world.sdf'']) @
        map (\<lambda>f. bind_row f []) required_flags))]"

lemma run_collected: "is_ok (collect text_of (\<lambda>b. b) run_tree [] True run_plan)"
  by code_simp


text \<open>
  A finished assessment is accepted only with the exit code that its verdict calls for: 0 for
  a passed result and 1 for any other, and no other value, a Boolean included, is an exit code.
\<close>

theorem exit_code_matches_verdict:
  "exit_verdict exit_code verdict = Inr () \<longleftrightarrow>
     (if verdict = JStr ''passed'' then exit_code = JInt 0 else exit_code = JInt 1)"
  by (auto simp: exit_verdict_def unlessE_ok)

lemma check_payload_ok:
  "check_payload sha t anchor field row = Inr () \<longleftrightarrow>
    (\<exists>name rel p d n. item row field = Inr (JStr name) \<and> relative name = Inr rel \<and>
       inside t (anchor @ rel) anchor = Inr p \<and> read_file t p = Inr d \<and>
       item row ''size_bytes'' = Inr n \<and> py_eq (JInt (int (length d))) n \<and> item row ''sha256'' = Inr (JStr (sha d)))"
  by (auto simp: check_payload_def all_equal_def bindE_ok unlessE_ok of_option_ok)

lemma foldE_unit_ok: "foldE (\<lambda>x u. f x) xs () = Inr () \<longleftrightarrow> (\<forall>x \<in> set xs. f x = Inr ())"
  by (induction xs) (auto simp: bindE_ok)


definition run_harness :: harness where
  "run_harness = \<lparr>read_document = read_file,
     load_document = (\<lambda>role raw. Inr (JObj [(''run_id'', JStr ''r1''), (''domain_id'', JStr []), (''status'', JStr ''failed'')], raw)),
     aggregate_results = (\<lambda>s c ps. Inr ''/tmp/a.json''), create_statement = (\<lambda>args a. Inr ())\<rparr>"



definition kept_tree :: tree where
  "kept_tree = [([''k''], Dir), ([''k'', ''payloads''], Dir), ([''k'', ''payloads'', ''f''], Regular ''ab'' sample_meta),
     ([''k'', ''agg''], Regular ''g'' sample_meta)]"

definition kept_harness :: harness where
  "kept_harness = run_harness\<lparr>load_document := (\<lambda>role raw. Inr (JObj [(''run_id'', JStr ''r1''), (''domain_id'', JStr []),
     (''status'', JStr ''failed''), (''per_domain_aggregate'', JStr ''failed'')], raw))\<rparr>"

definition kept_completed :: json where
  "kept_completed = JObj [(''runId'', JStr ''r1''), (''domainId'', JStr []), (''verdict'', JStr ''failed''),
     (''observerExitCode'', JInt 1), (''result'', sealed_result ''ab'' 2), (''resultRelativePath'', JStr ''payloads/f''),
     (''inventory'', JObj [(''entries'', JList [JObj [(''relativePath'', JStr ''payloads/f''), (''sha256'', JStr ''ab''),
        (''size_bytes'', JInt 2)]])]), (''arguments'', JList [JStr ''--result'', JStr ''/k/payloads/f''])]"


lemma forS_write_new:
  assumes "forS (write_new dumps cwd) outputs w = (r, w')" "distinct (map fst w)"
  shows "distinct (map fst w') \<and> set w \<subseteq> set w' \<and>
    (\<forall>x \<in> set w'. x \<in> set w \<or> (\<exists>o1 \<in> set outputs. fst x = to_path cwd (fst o1)))"
  using assms
proof (induction outputs arbitrary: w)
  case (Cons o1 outputs)
  obtain name v where o1: "o1 = (name, v)" by fastforce
  show ?case
  proof (cases "to_path cwd name \<in> fst ` set w")
    case True
    with Cons.prems o1 show ?thesis by (auto simp: write_new_def seqS_def bindS_def)
  next
    case False
    let ?w = "w @ [(to_path cwd name, dumps v @ newline)]"
    have "write_new dumps cwd o1 w = (Inr (), ?w)"
      using False o1 by (simp add: write_new_def)
    with Cons.prems False have "forS (write_new dumps cwd) outputs ?w = (r, w')" "distinct (map fst ?w)"
      by (auto simp: seqS_def bindS_def)
    from Cons.IH [OF this] o1 show ?thesis by auto
  qed
qed simp


definition inventory_cli :: cli where
  "inventory_cli = \<lparr>cli_mode = Inventory, cli_plan = ''/plan'', cli_output = ''/o'', cli_arguments = Some ''/o'',
     cli_aggregate = None, cli_result = None, cli_completed = None\<rparr>"


end
