(* ===== verification/Py_Codec.thy ===== *)
theory Py_Codec
  imports Py_Paths
begin

text \<open>
  The encodings of the standard library that the sources rely on: percent encoding
  (\<open>urllib.parse.quote\<close> and \<open>unquote\<close>), \<open>urlsplit\<close>, base64 decoding and UUIDs. The
  locale \<open>codec\<close> is the contract of an encoder and its decoder.
\<close>

locale codec =
  fixes enc :: "'a \<Rightarrow> 'b"
    and dec :: "'b \<Rightarrow> 'a"
  assumes dec_enc: "dec (enc x) = x"
begin

lemma enc_inject: "enc x = enc y \<longleftrightarrow> x = y"
  by (metis dec_enc)

lemma canonical_unique: "enc x = b \<Longrightarrow> dec b = x"
  using dec_enc by blast

end

section \<open>Percent encoding\<close>

definition unreserved :: "char \<Rightarrow> bool" where
  "unreserved c = (is_alnum c \<or> c \<in> {CHR ''_'', CHR ''.'', CHR ''-'', CHR ''~'', CHR ''/''})"

definition upper_hex :: "nat \<Rightarrow> char" where
  "upper_hex n = char_of (if n < 10 then 48 + n else 55 + n)"

text \<open>\<open>quote(s, safe="/")\<close>.\<close>

fun quote :: "string \<Rightarrow> string" where
  "quote [] = []"
| "quote (c # s) = (if unreserved c then c # quote s
     else CHR ''%'' # upper_hex (of_char c div 16) # upper_hex (of_char c mod 16) # quote s)"

fun unquote :: "string \<Rightarrow> string" where
  "unquote (p # a # b # s) =
     (if p = CHR ''%'' \<and> hex_val a \<noteq> None \<and> hex_val b \<noteq> None
      then char_of (16 * the (hex_val a) + the (hex_val b)) # unquote s
      else p # unquote (a # b # s))"
| "unquote s = s"

lemma hex_val_upper_hex: "n < 16 \<Longrightarrow> hex_val (upper_hex n) = Some n"
proof -
  assume "n < 16"
  then have "n \<in> set [0..<16]" by simp
  then show ?thesis
    by (auto simp: upt_rec hex_val_def upper_hex_def is_digit_def in_range_def less_eq_char_def of_char_of)
qed

lemma percent_reserved: "\<not> unreserved (CHR ''%'')"
  by code_simp

lemma unquote_quote: "unquote (quote s) = s"
proof (induction s)
  case (Cons c s)
  have plain: "unquote (c # quote s) = c # unquote (quote s)" if "c \<noteq> CHR ''%''"
    using that by (cases "quote s" rule: unquote.cases) (auto split: list.splits)
  have "(of_char c :: nat) div 16 < 16" "(of_char c :: nat) mod 16 < 16"
    using nat_of_char_less_256 [of c] by (simp_all add: div_less_iff_less_mult)
  then have "unquote (quote (c # s)) = c # unquote (quote s)" if "\<not> unreserved c"
    using that by (simp add: hex_val_upper_hex)
  moreover have "unquote (quote (c # s)) = c # unquote (quote s)" if "unreserved c"
    using that plain by (metis percent_reserved quote.simps(2))
  ultimately show ?case using Cons.IH by metis
qed simp

interpretation percent: codec quote unquote
  by unfold_locales (rule unquote_quote)

section \<open>URLs\<close>

record split_url =
  scheme :: string
  netloc :: string
  url_path :: string
  url_query :: string
  fragment :: string

definition scheme_char :: "char \<Rightarrow> bool" where
  "scheme_char c = (is_alnum c \<or> c \<in> {CHR ''+'', CHR ''-'', CHR ''.''})"

text \<open>\<open>urlsplit\<close>: leading blanks and tabs and line ends anywhere are dropped; the scheme is
  what a letter starts before the first colon; \<open>//\<close> opens the network location.\<close>

definition urlsplit :: "string \<Rightarrow> split_url res" where
  "urlsplit given =
     (let url = filter (\<lambda>c. c \<notin> {char_of (9::nat), char_of (10::nat), char_of (13::nat)})
                  (dropWhile (\<lambda>c. (of_char c :: nat) \<le> 32) given);
          before = takeWhile (\<lambda>c. c \<noteq> CHR '':'') url;
          has_scheme = (before \<noteq> url \<and> before \<noteq> [] \<and> (is_lower (hd before) \<or> is_upper (hd before)) \<and> list_all scheme_char before);
          rest = (if has_scheme then drop (Suc (length before)) url else url);
          has_net = starts_with ''//'' rest;
          net = (if has_net then takeWhile (\<lambda>c. c \<notin> {CHR ''/'', CHR ''?'', CHR ''#''}) (drop 2 rest) else []);
          tail = (if has_net then drop (2 + length net) rest else rest)
      in unlessE ((CHR ''['' \<in> set net) \<noteq> (CHR '']'' \<in> set net)) ValueError ''Invalid IPv6 URL''
        (case partition_at (CHR ''#'') tail of (main, _, frag) \<Rightarrow>
         case partition_at (CHR ''?'') main of (p, _, q) \<Rightarrow>
           Inr \<lparr>scheme = (if has_scheme then lower before else []), netloc = net, url_path = p, url_query = q, fragment = frag\<rparr>))"

section \<open>Base64\<close>

definition b64_val :: "char \<Rightarrow> nat option" where
  "b64_val c =
     (if is_upper c then Some (of_char c - 65)
      else if is_lower c then Some (of_char c - 71)
      else if is_digit c then Some (of_char c + 4)
      else if c = CHR ''+'' then Some 62
      else if c = CHR ''/'' then Some 63
      else None)"

fun b64_groups :: "nat list \<Rightarrow> bytes" where
  "b64_groups (a # b # c # d # r) =
     char_of (4 * a + b div 16) # char_of (16 * (b mod 16) + c div 4) # char_of (64 * (c mod 4) + d) # b64_groups r"
| "b64_groups [a, b, c] = [char_of (4 * a + b div 16), char_of (16 * (b mod 16) + c div 4)]"
| "b64_groups [a, b] = [char_of (4 * a + b div 16)]"
| "b64_groups _ = []"

text \<open>\<open>b64decode(s, validate=True)\<close>: \<open>[A-Za-z0-9+/]*={0,2}\<close> with the padding its length needs.\<close>

definition b64decode :: "string \<Rightarrow> bytes res" where
  "b64decode s =
     (let body = takeWhile (\<lambda>c. c \<noteq> CHR ''='') s; padding = dropWhile (\<lambda>c. c \<noteq> CHR ''='') s;
          digits = List.map_filter b64_val body; k = length body mod 4
      in if length digits = length body \<and> list_all (\<lambda>c. c = CHR ''='') padding \<and> length padding \<le> 2 \<and>
            (k = 0 \<or> k = 2 \<and> length padding = 2 \<or> k = 3 \<and> 1 \<le> length padding)
         then Inr (b64_groups digits) else raise ValueError ''Non-base64 digit found'')"

section \<open>UUIDs\<close>

text \<open>The 32 digits of \<open>UUID(text)\<close>; the other spellings it accepts are not canonical.\<close>

definition uuid_digits :: "string \<Rightarrow> string res" where
  "uuid_digits s = (let h = filter (\<lambda>c. c \<noteq> CHR ''-'') s in
     if length h = 32 \<and> list_all (\<lambda>c. hex_val c \<noteq> None) h then Inr (lower h)
     else raise ValueError ''badly formed hexadecimal UUID string'')"

definition uuid_str :: "string \<Rightarrow> string" where
  "uuid_str h = join_with ''-'' [take 8 h, take 4 (drop 8 h), take 4 (drop 12 h), take 4 (drop 16 h), drop 20 h]"

text \<open>\<open>version == 4\<close>, which is read only under the RFC 4122 variant.\<close>

definition uuid_version4 :: "string \<Rightarrow> bool" where
  "uuid_version4 h = (h ! 12 = CHR ''4'' \<and> h ! 16 \<in> {CHR ''8'', CHR ''9'', CHR ''a'', CHR ''b''})"

end
