(* ===== verification/Retained_Artifact.thy ===== *)
theory Retained_Artifact
  imports Py_Codec
begin

text \<open>
  \<open>docker/evidence-sink/retained-artifact.py\<close>: the verification of a retained S3 object against
  its upload registration and a pinned public key. The contract library (\<open>loads_mapping\<close>, the
  media type schema, \<open>validate_document\<close>, canonical printing), SHA-256 and the \<open>aws\<close> and
  \<open>cosign\<close> processes are the record \<open>tools\<close>; a process is what it printed, its exit code
  and the bytes it left in its output file. The working directory is the state \<open>workspace\<close>.
\<close>

section \<open>Tools\<close>

record completed_process =
  returncode :: int
  stdout_of :: bytes
  stderr_of :: bytes
  written :: bytes

record tools =
  loads_mapping :: "bytes \<Rightarrow> dict res"
  media_type_ok :: "json \<Rightarrow> bool"
  dumps_canonical :: "json \<Rightarrow> bytes"
  validate_document :: "json \<Rightarrow> unit res"
  sha256 :: "bytes \<Rightarrow> string"
  run_process :: "string list \<Rightarrow> completed_process res"

definition predicate_type :: string where
  "predicate_type = ''https://robotics-runtime.dev/attestations/artifact-retention/v1''"

definition max_artifact_bytes :: int where
  "max_artifact_bytes = 1073741824"

text \<open>\<open>file_facts\<close> of the bytes of a file.\<close>

definition file_facts :: "tools \<Rightarrow> bytes \<Rightarrow> string \<times> int" where
  "file_facts T b = (sha256 T b, int (length b))"

section \<open>Registration\<close>

record descriptor =
  d_uri :: string
  d_sha256 :: string
  d_size :: int
  d_media_type :: json
  d_revision :: string

definition descriptor_json :: "descriptor \<Rightarrow> json" where
  "descriptor_json d = JObj [(''uri'', JStr (d_uri d)), (''sha256'', JStr (d_sha256 d)), (''size_bytes'', JInt (d_size d)),
     (''media_type'', d_media_type d), (''immutable_revision'', JStr (d_revision d))]"

definition sha256_text :: "string \<Rightarrow> bool" where
  "sha256_text s = (length s = 64 \<and> list_all is_hex s)"

text \<open>\<open>[a-z0-9][a-z0-9.-]{1,61}[a-z0-9]\<close>.\<close>

definition bucket_name :: "string \<Rightarrow> bool" where
  "bucket_name s = (3 \<le> length s \<and> length s \<le> 63 \<and>
     (is_lower (hd s) \<or> is_digit (hd s)) \<and> (is_lower (last s) \<or> is_digit (last s)) \<and>
     list_all (\<lambda>c. is_lower c \<or> is_digit c \<or> c = CHR ''.'' \<or> c = CHR ''-'') s)"

definition require_run_id :: "json \<Rightarrow> string res" where
  "require_run_id v = (case v of
     JStr run_id \<Rightarrow>
       unlessE (\<not> starts_with ''run-'' run_id) ValueError ''registration must identify its run''
      (bindE (uuid_digits (drop 4 run_id)) (\<lambda>h.
       unlessE (\<not> uuid_version4 h \<or> run_id \<noteq> ''run-'' @ uuid_str h) ValueError
         ''registration run ID must have canonical UUID4 form'' (Inr run_id)))
   | _ \<Rightarrow> raise ValueError ''registration must identify its run'')"

definition require_location :: "json \<Rightarrow> (string \<times> string \<times> string) res" where
  "require_location v = (case v of
     JStr uri \<Rightarrow>
       bindE (urlsplit uri) (\<lambda>location.
       unlessE (scheme location \<noteq> ''s3'' \<or> \<not> bucket_name (netloc location) \<or> url_query location \<noteq> [] \<or> fragment location \<noteq> [])
         ValueError ''expected an S3 bucket URI without query or fragment''
      (bindE (decode_utf8 (unquote (remove_prefix ''/'' (url_path location)))) (\<lambda>key.
       unlessE (key = [] \<or> uri \<noteq> ''s3://'' @ netloc location @ ''/'' @ quote key) ValueError
         ''S3 object URI must use canonical percent encoding''
      (Inr (uri, netloc location, key)))))
   | _ \<Rightarrow> raise ValueError ''registration URI is missing'')"

definition registration_descriptor :: "tools \<Rightarrow> dict \<Rightarrow> int \<Rightarrow> (descriptor \<times> string \<times> string \<times> string) res" where
  "registration_descriptor T document maximum_size =
     unlessE (dget document ''upload_status'' \<noteq> JStr ''confirmed'') ValueError
       ''retention verification requires a confirmed upload''
    (bindE (require_run_id (dget document ''run_id'')) (\<lambda>run_id.
     case dget document ''size_bytes'' of
       JInt count \<Rightarrow>
         unlessE (\<not> (0 \<le> count \<and> count \<le> maximum_size)) ValueError
           ''artifact size must be nonnegative and within the download limit''
        (let media_type = dget document ''media_type'' in
         unlessE (\<not> media_type_ok T media_type) ValueError ''registration media type is invalid''
        (unlessE (media_type = JStr ''application/mcap'' \<and> count = 0) ValueError
           ''recording size must be positive and within the download limit''
        (case dget document ''sha256'' of
           JStr digest \<Rightarrow>
             unlessE (\<not> sha256_text digest) ValueError ''registration SHA-256 is invalid''
            (case dget document ''version_id'' of
               JStr revision \<Rightarrow>
                 unlessE (revision = [] \<or> revision = ''null'') ValueError
                   ''S3 requires a non-null immutable object version''
                (bindE (require_location (dget document ''uri'')) (\<lambda>(uri, bucket, key).
                 Inr (\<lparr>d_uri = uri, d_sha256 = digest, d_size = count, d_media_type = media_type, d_revision = revision\<rparr>,
                      run_id, bucket, key)))
             | _ \<Rightarrow> raise ValueError ''S3 requires a non-null immutable object version'')
         | _ \<Rightarrow> raise ValueError ''registration SHA-256 is invalid'')))
     | _ \<Rightarrow> raise ValueError ''artifact size must be nonnegative and within the download limit''))"

definition artifact_byte_limit :: "int \<Rightarrow> int res" where
  "artifact_byte_limit v = unlessE (\<not> (0 < v \<and> v \<le> max_artifact_bytes)) ValueError
     ''artifact byte limit must be positive and no greater than 1073741824'' (Inr v)"

text \<open>\<open>limit\<close> is \<open>EVIDENCE_MAX_ARTIFACT_BYTES\<close> of the environment.\<close>

definition retention_predicate :: "tools \<Rightarrow> bytes res \<Rightarrow> bytes res \<Rightarrow> string option \<Rightarrow> json res" where
  "retention_predicate T registration source limit =
     bindE registration (\<lambda>raw. bindE (loads_mapping T raw) (\<lambda>document.
     bindE (case limit of None \<Rightarrow> Inr max_artifact_bytes | Some s \<Rightarrow> parse_int s) (\<lambda>n. bindE (artifact_byte_limit n) (\<lambda>maximum_size.
     bindE (registration_descriptor T document maximum_size) (\<lambda>(d, run_id, _, _).
     bindE source (\<lambda>b.
     unlessE (file_facts T b \<noteq> (d_sha256 d, d_size d)) ValueError
       ''signing source does not match the upload registration''
    (Inr (JObj [(''artifact'', descriptor_json d), (''run_id'', JStr run_id),
       (''producer_implementation'', JStr ''robotics-runtime-infra/evidence-sink'')]))))))))"

section \<open>Processes\<close>

definition execute :: "tools \<Rightarrow> string list \<Rightarrow> completed_process res" where
  "execute T command = bindE (run_process T command) (\<lambda>r.
     unlessE (returncode r \<noteq> 0) ValueError
       (path_name (pure_parts (hd command)) @ '' failed ('' @ int_str (returncode r) @ ''): '' @ strip is_space (stderr_of r))
     (Inr r))"

text \<open>\<open>v(\d+)\.(\d+)\.(\d+)(?:\+[^\s]+)?\<close>, and the order of the three numbers.\<close>

definition version_numbers :: "string \<Rightarrow> (nat \<times> nat \<times> nat) option" where
  "version_numbers s = (case s of
     v # rest \<Rightarrow> (case partition_at (CHR ''+'') rest of (core, sep, build) \<Rightarrow>
       (case split_on (CHR ''.'') core of
          [a, b, c] \<Rightarrow>
            if v = CHR ''v'' \<and> list_all (\<lambda>x. x \<noteq> [] \<and> list_all is_digit x) [a, b, c] \<and>
               (sep = [] \<or> build \<noteq> [] \<and> list_all (\<lambda>x. \<not> is_space x) build)
            then Some (dec_val 0 a, dec_val 0 b, dec_val 0 c) else None
        | _ \<Rightarrow> None))
   | [] \<Rightarrow> None)"

definition at_least :: "nat \<times> nat \<times> nat \<Rightarrow> nat \<times> nat \<times> nat \<Rightarrow> bool" where
  "at_least v w = (case (v, w) of ((a, b, c), (a', b', c')) \<Rightarrow> a' < a \<or> a = a' \<and> (b' < b \<or> b = b' \<and> c' \<le> c))"

definition cosign_version :: "tools \<Rightarrow> string \<Rightarrow> string res" where
  "cosign_version T executable =
     bindE (execute T [executable, ''version'', ''--json'']) (\<lambda>r. bindE (loads_mapping T (stdout_of r)) (\<lambda>observed.
     case dget observed ''gitVersion'' of
       JStr version \<Rightarrow> (case version_numbers version of
          Some v \<Rightarrow> unlessE (\<not> at_least v (3, 1, 3)) ValueError
             ''retention verification requires a stable Cosign 3.1.3 or newer'' (Inr version)
        | None \<Rightarrow> raise ValueError ''retention verification requires a stable Cosign 3.1.3 or newer'')
     | _ \<Rightarrow> raise ValueError ''retention verification requires a stable Cosign 3.1.3 or newer''))"

definition require_object_version :: "dict \<Rightarrow> descriptor \<Rightarrow> unit res" where
  "require_object_version metadata d =
     unlessE (dget metadata ''VersionId'' \<noteq> JStr (d_revision d) \<or>
              \<not> py_eq (dget metadata ''ContentType'') (d_media_type d) \<or>
              dget metadata ''ContentLength'' \<noteq> JInt (d_size d) \<or>
              map_of metadata ''DeleteMarker'' \<notin> {None, Some (JBool False)})
       ValueError ''S3 response does not describe the complete requested object version'' (Inr ())"

definition object_arguments :: "descriptor \<Rightarrow> string \<Rightarrow> string \<Rightarrow> string list" where
  "object_arguments d bucket key = [''--bucket='' @ bucket, ''--key='' @ key, ''--version-id='' @ d_revision d,
     ''--output=json'', ''--no-cli-pager'']"

text \<open>The response and the bytes of the downloaded file.\<close>

definition download_version ::
  "tools \<Rightarrow> string \<Rightarrow> descriptor \<Rightarrow> string \<Rightarrow> string \<Rightarrow> string \<Rightarrow> (bytes \<times> bytes) res" where
  "download_version T executable d bucket key out =
     (let identity = object_arguments d bucket key; count = d_size d in
      bindE (if count = 0
             then bindE (execute T ([executable, ''s3api'', ''head-object''] @ identity)) (\<lambda>head.
                  bindE (loads_mapping T (stdout_of head)) (\<lambda>m. require_object_version m d))
             else Inr ()) (\<lambda>_.
      let range_arguments = (if count \<noteq> 0 then [''--range=bytes=0-'' @ int_str count] else []) in
      bindE (execute T ([executable, ''s3api'', ''get-object''] @ identity @ range_arguments @ [out])) (\<lambda>r.
      bindE (loads_mapping T (stdout_of r)) (\<lambda>metadata.
      bindE (require_object_version metadata d) (\<lambda>_.
      let expected_range = (if count \<noteq> 0 then JStr (''bytes 0-'' @ int_str (count - 1) @ ''/'' @ int_str count) else JNull) in
      unlessE (dget metadata ''ContentRange'' \<noteq> expected_range) ValueError
        ''S3 response does not describe the complete requested object version''
     (unlessE (file_facts T (written r) \<noteq> (d_sha256 d, count)) ValueError
        ''downloaded object bytes do not match the registration SHA-256 and size''
     (Inr (stdout_of r, written r))))))))"

definition statement_types :: "string list" where
  "statement_types = [''https://in-toto.io/Statement/v0.1'', ''https://in-toto.io/Statement/v1'']"

text \<open>A predicate with exactly the three keys.\<close>

definition predicate_keys :: "dict \<Rightarrow> bool" where
  "predicate_keys p = (set (map fst p) = {''artifact'', ''run_id'', ''producer_implementation''})"

definition authenticated_statement :: "tools \<Rightarrow> bytes \<Rightarrow> descriptor \<Rightarrow> string \<Rightarrow> (bytes \<times> string) res" where
  "authenticated_statement T bundle_raw d run_id =
     bindE (loads_mapping T bundle_raw) (\<lambda>bundle.
     case dget bundle ''dsseEnvelope'' of
       JObj envelope \<Rightarrow>
         unlessE (dget envelope ''payloadType'' \<noteq> JStr ''application/vnd.in-toto+json'') ValueError
           ''verified bundle must contain an in-toto DSSE envelope''
        (case dget envelope ''payload'' of
           JStr encoded \<Rightarrow>
             bindE (b64decode encoded) (\<lambda>raw. bindE (loads_mapping T raw) (\<lambda>statement.
             unlessE (dget statement ''_type'' \<notin> JStr ` set statement_types \<or>
                      dget statement ''predicateType'' \<noteq> JStr predicate_type) ValueError
               ''verified statement has another predicate type''
            (unlessE (\<not> (case dget statement ''subject'' of
                JList [JObj subject] \<Rightarrow> py_eq (dget subject ''digest'') (JObj [(''sha256'', JStr (d_sha256 d))])
              | _ \<Rightarrow> False)) ValueError ''verified statement must identify exactly the retained artifact''
            (case dget statement ''predicate'' of
               JObj p \<Rightarrow>
                 unlessE (\<not> predicate_keys p) ValueError ''verified statement has an unsupported retention predicate''
                (unlessE (\<not> is_dict (dget p ''artifact'') \<or>
                          dumps_canonical T (dget p ''artifact'') \<noteq> dumps_canonical T (descriptor_json d) \<or>
                          dget p ''run_id'' \<noteq> JStr run_id \<or> \<not> is_str (dget p ''producer_implementation'')) ValueError
                   ''signed retention predicate does not match the registered artifact and run''
                (case dget p ''producer_implementation'' of JStr producer \<Rightarrow> Inr (raw, producer) | _ \<Rightarrow> raise KeyError []))
             | _ \<Rightarrow> raise ValueError ''verified statement has an unsupported retention predicate''))))
         | _ \<Rightarrow> raise ValueError ''verified bundle payload is missing'')
     | _ \<Rightarrow> raise ValueError ''verified bundle must contain an in-toto DSSE envelope'')"

section \<open>Verification\<close>

text \<open>The temporary directory while it exists, and the output directory once it is renamed.\<close>

record workspace =
  temp :: "(string \<times> bytes) list option"
  published :: "(string \<times> bytes) list option"
  read_only :: bool

definition temp_files :: "workspace \<Rightarrow> (string \<times> bytes) list" where
  "temp_files w = (case temp w of None \<Rightarrow> [] | Some fs \<Rightarrow> fs)"

definition write_bytes :: "string \<Rightarrow> bytes \<Rightarrow> (workspace, unit) prog" where
  "write_bytes name b = modifyS (\<lambda>w. w\<lparr>temp := Some (dset name b (temp_files w))\<rparr>)"

definition unlink :: "string \<Rightarrow> (workspace, unit) prog" where
  "unlink name = modifyS (\<lambda>w. w\<lparr>temp := Some (filter (\<lambda>(n, _). n \<noteq> name) (temp_files w))\<rparr>)"

definition rename_to_output :: "(workspace, unit) prog" where
  "rename_to_output = modifyS (\<lambda>w. w\<lparr>published := temp w, temp := None\<rparr>)"

definition in_temporary_directory :: "(workspace, 'a) prog \<Rightarrow> (workspace, 'a) prog" where
  "in_temporary_directory m = seqS (modifyS (\<lambda>w. w\<lparr>temp := Some []\<rparr>)) (finallyS m (modifyS (\<lambda>w. w\<lparr>temp := None\<rparr>)))"

record verify_arguments =
  v_registration :: "bytes res"
  v_bundle :: "bytes res"
  v_key :: "bytes res"
  v_output_exists :: bool
  v_output :: string
  v_directory :: string
  v_cosign :: string
  v_aws :: string
  v_limit :: int
  v_now :: string

definition verification_result ::
  "tools \<Rightarrow> descriptor \<Rightarrow> bytes \<Rightarrow> bytes \<Rightarrow> bytes \<Rightarrow> string \<Rightarrow> string \<Rightarrow> string \<Rightarrow> json" where
  "verification_result T d statement_raw policy_raw bundle_raw producer version now = JObj [
     (''schema_version'', JStr ''artifact-verification.v1''),
     (''verification_id'', JStr (''retention-'' @ d_sha256 d)),
     (''statement_sha256'', JStr (sha256 T statement_raw)),
     (''artifact'', descriptor_json d),
     (''producer_identity'', JStr (''key-sha256:'' @ sha256 T policy_raw)),
     (''producer_implementation'', JStr producer),
     (''trust_policy_sha256'', JStr (sha256 T policy_raw)),
     (''verification_evidence_sha256'', JStr (sha256 T bundle_raw)),
     (''verifier'', JObj [(''identity'', JStr ''urn:robotics-runtime-infra:retained-artifact-verifier''),
        (''implementation'', JStr ''cosign-key-signature''), (''version'', JStr version)]),
     (''verified_at'', JStr now),
     (''status'', JStr ''passed'')]"

definition attestation_command :: "string \<Rightarrow> string \<Rightarrow> string list" where
  "attestation_command cosign work = [cosign, ''verify-blob-attestation'', ''--check-claims=true'', ''--type'', predicate_type,
     ''--bundle'', work @ ''/verification-evidence.sigstore.json'', ''--key'', work @ ''/trust-policy.pem'',
     ''--insecure-ignore-tlog'', work @ ''/downloaded.artifact'']"

definition verify_object ::
  "tools \<Rightarrow> verify_arguments \<Rightarrow> descriptor \<Rightarrow> string \<Rightarrow> string \<Rightarrow> string \<Rightarrow> bytes \<Rightarrow> bytes \<Rightarrow> string \<Rightarrow> (workspace, unit) prog" where
  "verify_object T a d run_id bucket key bundle_raw policy_raw version =
     seqS (write_bytes ''verification-evidence.sigstore.json'' bundle_raw)
    (seqS (write_bytes ''trust-policy.pem'' policy_raw)
    (bindS (liftS (download_version T (v_aws a) d bucket key (v_directory a @ ''/downloaded.artifact''))) (\<lambda>(response, content).
     seqS (write_bytes ''downloaded.artifact'' content)
    (seqS (liftS (execute T (attestation_command (v_cosign a) (v_directory a))))
    (bindS (liftS (authenticated_statement T bundle_raw d run_id)) (\<lambda>(statement_raw, producer).
     seqS (write_bytes ''statement.json'' statement_raw)
    (seqS (write_bytes ''s3-get-object.json'' response)
    (let result = verification_result T d statement_raw policy_raw bundle_raw producer version (v_now a) in
     seqS (liftS (validate_document T result))
    (seqS (write_bytes ''artifact-verification.json'' (dumps_canonical T result))
    (seqS (unlink ''downloaded.artifact'')
    (seqS (modifyS (\<lambda>w. w\<lparr>read_only := True\<rparr>))
     rename_to_output)))))))))))"

definition verify_artifact :: "tools \<Rightarrow> verify_arguments \<Rightarrow> (workspace, unit) prog" where
  "verify_artifact T a =
     (if v_output_exists a then raiseS ValueError ''verification output directory must not already exist''
      else bindS (liftS (artifact_byte_limit (v_limit a))) (\<lambda>maximum_size.
        bindS (liftS (v_registration a)) (\<lambda>raw. bindS (liftS (loads_mapping T raw)) (\<lambda>registration.
        bindS (liftS (registration_descriptor T registration maximum_size)) (\<lambda>(d, run_id, bucket, key).
        bindS (liftS (v_bundle a)) (\<lambda>bundle_raw. bindS (liftS (v_key a)) (\<lambda>policy_raw.
        bindS (liftS (cosign_version T (v_cosign a))) (\<lambda>version.
        in_temporary_directory (verify_object T a d run_id bucket key bundle_raw policy_raw version)))))))))"

text \<open>\<open>main\<close>: the exit code, with the printed document or the message of the error.\<close>

datatype artifact_command = Predicate "bytes res" "bytes res" "string option" | VerifyArtifact verify_arguments

definition artifact_main :: "tools \<Rightarrow> artifact_command \<Rightarrow> (workspace, int \<times> string) prog" where
  "artifact_main T command =
     catchS [OSError, ValueError, TimeoutExpired]
       (case command of
          Predicate registration source limit \<Rightarrow>
            bindS (liftS (retention_predicate T registration source limit)) (\<lambda>p. retS (0, dumps_canonical T p))
        | VerifyArtifact a \<Rightarrow> seqS (verify_artifact T a) (retS (0, v_output a)))
       (\<lambda>e. retS (1, ''retained-artifact: '' @ exc_msg e))"

section \<open>Facts\<close>

lemma require_location_ok:
  assumes "require_location v = Inr (uri, bucket, key)"
  shows "v = JStr uri \<and> uri = ''s3://'' @ bucket @ ''/'' @ quote key \<and> bucket_name bucket \<and> key \<noteq> [] \<and> utf8_valid key"
  using assms by (auto simp: require_location_def ok_iff decode_utf8_def)

lemma require_run_id_ok:
  assumes "require_run_id v = Inr run_id"
  shows "v = JStr run_id \<and> (\<exists>h. run_id = ''run-'' @ uuid_str h \<and> uuid_version4 h)"
  using assms by (auto simp: require_run_id_def ok_iff)

lemma bucket_name_no_slash: "bucket_name b \<Longrightarrow> CHR ''/'' \<notin> set b"
  by (auto simp: bucket_name_def list_all_iff is_lower_def is_digit_def in_range_def less_eq_char_def)

lemma registration_ok:
  assumes "registration_descriptor T document maximum_size = Inr (d, run_id, bucket, key)"
  shows "0 \<le> d_size d \<and> d_size d \<le> maximum_size \<and> sha256_text (d_sha256 d) \<and>
    media_type_ok T (d_media_type d) \<and> \<not> (d_media_type d = JStr ''application/mcap'' \<and> d_size d = 0) \<and>
    d_revision d \<notin> {[], ''null''} \<and>
    d_uri d = ''s3://'' @ bucket @ ''/'' @ quote key \<and> bucket_name bucket \<and> key \<noteq> [] \<and> utf8_valid key \<and>
    (\<exists>h. run_id = ''run-'' @ uuid_str h \<and> uuid_version4 h)"
  using assms
  by (auto simp: registration_descriptor_def ok_iff Let_def dest!: require_location_ok require_run_id_ok)

lemma object_version_ok:
  assumes "require_object_version m d = Inr u"
  shows "dget m ''VersionId'' = JStr (d_revision d) \<and> dget m ''ContentLength'' = JInt (d_size d) \<and>
    dget m ''DeleteMarker'' \<noteq> JBool True"
  using assms by (auto simp: require_object_version_def unlessE_ok dget_def [of _ "''DeleteMarker''"])

lemmas work_defs = verify_object_def bindS_def seqS_def write_bytes_def unlink_def rename_to_output_def
  temp_files_def Let_def

lemma verify_object_error:
  assumes "verify_object T a d run_id bucket key bundle_raw policy_raw version w = (Inl e, w')"
  shows "published w' = published w"
proof (cases "download_version T (v_aws a) d bucket key (v_directory a @ ''/downloaded.artifact'')")
  case (Inr got)
  obtain response content where got: "got = (response, content)" by fastforce
  show ?thesis
  proof (cases "execute T (attestation_command (v_cosign a) (v_directory a))")
    case (Inr proc)
    then show ?thesis
      using assms \<open>download_version _ _ _ _ _ _ = _\<close> got
      by (cases "authenticated_statement T bundle_raw d run_id") (auto simp: work_defs split: sum.splits)
  qed (use assms Inr got in \<open>auto simp: work_defs\<close>)
qed (use assms in \<open>auto simp: work_defs\<close>)

lemma verify_object_ok:
  assumes "verify_object T a d run_id bucket key bundle_raw policy_raw version w = (Inr u, w')" "temp w = Some []"
  shows "\<exists>response content proc statement_raw producer.
    download_version T (v_aws a) d bucket key (v_directory a @ ''/downloaded.artifact'') = Inr (response, content) \<and>
    execute T (attestation_command (v_cosign a) (v_directory a)) = Inr proc \<and>
    authenticated_statement T bundle_raw d run_id = Inr (statement_raw, producer) \<and> read_only w' \<and>
    published w' = Some [(''verification-evidence.sigstore.json'', bundle_raw), (''trust-policy.pem'', policy_raw),
      (''statement.json'', statement_raw), (''s3-get-object.json'', response),
      (''artifact-verification.json'',
         dumps_canonical T (verification_result T d statement_raw policy_raw bundle_raw producer version (v_now a)))]"
  using assms
  by (auto simp: verify_object_def Let_def ok_iff write_bytes_def unlink_def rename_to_output_def temp_files_def)

lemma in_temporary_directory_run:
  "in_temporary_directory m w = (r, w') \<longleftrightarrow> (\<exists>t. m (w\<lparr>temp := Some []\<rparr>) = (r, t) \<and> w' = t\<lparr>temp := None\<rparr>)"
  by (auto simp: in_temporary_directory_def finallyS_def split: prod.splits)

lemma verification_publishes:
  assumes "verify_artifact T a w = (r, w')" and "temp w = None"
  shows "temp w' = None \<and> (case r of
      Inl e \<Rightarrow> published w' = published w
    | Inr _ \<Rightarrow> \<exists>registration d run_id bucket key bundle_raw policy_raw version response content proc statement_raw producer.
        registration_descriptor T registration (v_limit a) = Inr (d, run_id, bucket, key) \<and>
        cosign_version T (v_cosign a) = Inr version \<and>
        download_version T (v_aws a) d bucket key (v_directory a @ ''/downloaded.artifact'') = Inr (response, content) \<and>
        execute T (attestation_command (v_cosign a) (v_directory a)) = Inr proc \<and>
        authenticated_statement T bundle_raw d run_id = Inr (statement_raw, producer) \<and> read_only w' \<and>
        published w' = Some [(''verification-evidence.sigstore.json'', bundle_raw), (''trust-policy.pem'', policy_raw),
          (''statement.json'', statement_raw), (''s3-get-object.json'', response),
          (''artifact-verification.json'',
             dumps_canonical T (verification_result T d statement_raw policy_raw bundle_raw producer version (v_now a)))])"
proof (cases r)
  case (Inr u)
  from assms(1) [unfolded Inr] obtain registration d run_id bucket key bundle_raw policy_raw version t where
      "registration_descriptor T registration (v_limit a) = Inr (d, run_id, bucket, key)"
      "cosign_version T (v_cosign a) = Inr version"
      "verify_object T a d run_id bucket key bundle_raw policy_raw version (w\<lparr>temp := Some []\<rparr>) = (Inr u, t)"
      "w' = t\<lparr>temp := None\<rparr>"
    by (auto simp: verify_artifact_def bindS_ok pure_ok in_temporary_directory_run artifact_byte_limit_def unlessE_ok
        split: if_splits)
  with verify_object_ok show ?thesis using Inr by fastforce
next
  case (Inl e)
  have "published w' = published w \<and> temp w' = None"
    using assms [unfolded Inl]
    by (auto simp: verify_artifact_def bindS_def in_temporary_directory_run dest!: verify_object_error
        split: if_splits sum.splits prod.splits)
  with Inl show ?thesis by simp
qed

section \<open>Properties\<close>


definition sample_registration :: dict where
  "sample_registration = [(''upload_status'', JStr ''confirmed''),
     (''run_id'', JStr ''run-0123abcd-4567-4abc-8def-0123456789ab''), (''size_bytes'', JInt 2),
     (''media_type'', JStr ''text/plain''), (''sha256'', JStr (replicate 64 (CHR ''a''))), (''version_id'', JStr ''v1''),
     (''uri'', JStr ''s3://bucket/a%20b/c'')]"

definition sample_tools :: tools where
  "sample_tools = \<lparr>loads_mapping = (\<lambda>b. if b = ''cosign'' then Inr [(''gitVersion'', JStr ''v3.2.0'')]
       else if b = ''s3'' then Inr [(''VersionId'', JStr ''v1''), (''ContentType'', JStr ''text/plain''), (''ContentLength'', JInt 2),
          (''ContentRange'', JStr ''bytes 0-1/2'')]
       else if b = ''bundle'' then Inr [(''dsseEnvelope'', JObj [(''payloadType'', JStr ''application/vnd.in-toto+json''),
          (''payload'', JStr ''c3Q='')])]
       else if b = ''st'' then Inr [(''_type'', JStr ''https://in-toto.io/Statement/v1''), (''predicateType'', JStr predicate_type),
          (''subject'', JList [JObj [(''digest'', JObj [(''sha256'', JStr (replicate 64 (CHR ''a'')))])]]),
          (''predicate'', JObj [(''artifact'', JObj []), (''run_id'', JStr ''run-0123abcd-4567-4abc-8def-0123456789ab''),
             (''producer_implementation'', JStr ''sink'')])]
       else Inr sample_registration),
     media_type_ok = (\<lambda>_. True), dumps_canonical = (\<lambda>_. []), validate_document = (\<lambda>_. Inr ()),
     sha256 = (\<lambda>b. replicate 64 (CHR ''a'')),
     run_process = (\<lambda>c. Inr \<lparr>returncode = 0, stdout_of = (if length c = 3 then ''cosign'' else ''s3''), stderr_of = [], written = ''ab''\<rparr>)\<rparr>"

definition sample_descriptor :: descriptor where
  "sample_descriptor = \<lparr>d_uri = ''s3://bucket/a%20b/c'', d_sha256 = replicate 64 (CHR ''a''), d_size = 2,
     d_media_type = JStr ''text/plain'', d_revision = ''v1''\<rparr>"

lemma sample_registered:
  "registration_descriptor sample_tools sample_registration 10 =
     Inr (sample_descriptor, ''run-0123abcd-4567-4abc-8def-0123456789ab'', ''bucket'', ''a b/c'')"
  by code_simp


text \<open>
  C16: a download that is accepted is the registered object: the response names its version, type
  and length, an earlier or a partial object is refused, and the bytes on disk have the registered
  digest and size.
\<close>

theorem downloaded_object_is_the_registered_one:
  assumes "download_version T executable d bucket key out = Inr (response, content)"
  shows "sha256 T content = d_sha256 d \<and> int (length content) = d_size d \<and>
    (\<exists>m. loads_mapping T response = Inr m \<and> dget m ''VersionId'' = JStr (d_revision d) \<and>
       dget m ''ContentLength'' = JInt (d_size d) \<and> dget m ''DeleteMarker'' \<noteq> JBool True \<and>
       dget m ''ContentRange'' = (if d_size d = 0 then JNull
         else JStr (''bytes 0-'' @ int_str (d_size d - 1) @ ''/'' @ int_str (d_size d))))"
  using assms
  by (cases "d_size d = 0")
     (auto simp: download_version_def Let_def bindE_ok unlessE_ok file_facts_def dest!: object_version_ok)

theorem downloaded_object_is_the_registered_one_witness:
  "\<exists>m. loads_mapping sample_tools ''s3'' = Inr m \<and> dget m ''VersionId'' = JStr ''v1''"
proof -
  have "download_version sample_tools ''aws'' sample_descriptor ''bucket'' ''a b/c'' ''/tmp/x'' = Inr (''s3'', ''ab'')"
    by code_simp
  from downloaded_object_is_the_registered_one [OF this] show ?thesis by (auto simp: sample_descriptor_def)
qed

text \<open>
  C5: the verification leaves either nothing or everything: when it fails, the output is what it
  was; when it returns, the object was downloaded and its signature and statement were accepted,
  and exactly the five evidence files are published, read-only, without the downloaded bytes. The
  temporary directory is gone in both cases.
\<close>

theorem verification_publishes_all_or_nothing:
  assumes "verify_artifact T a w = (r, w')" and "temp w = None"
  shows "temp w' = None \<and> (case r of
      Inl e \<Rightarrow> published w' = published w
    | Inr _ \<Rightarrow> \<exists>registration d run_id bucket key bundle_raw policy_raw version response content proc statement_raw producer.
        registration_descriptor T registration (v_limit a) = Inr (d, run_id, bucket, key) \<and>
        cosign_version T (v_cosign a) = Inr version \<and>
        download_version T (v_aws a) d bucket key (v_directory a @ ''/downloaded.artifact'') = Inr (response, content) \<and>
        execute T (attestation_command (v_cosign a) (v_directory a)) = Inr proc \<and>
        authenticated_statement T bundle_raw d run_id = Inr (statement_raw, producer) \<and> read_only w' \<and>
        published w' = Some [(''verification-evidence.sigstore.json'', bundle_raw), (''trust-policy.pem'', policy_raw),
          (''statement.json'', statement_raw), (''s3-get-object.json'', response),
          (''artifact-verification.json'',
             dumps_canonical T (verification_result T d statement_raw policy_raw bundle_raw producer version (v_now a)))])"
  using assms by (rule verification_publishes)

definition sample_verify :: verify_arguments where
  "sample_verify = \<lparr>v_registration = Inr ''reg'', v_bundle = Inr ''bundle'', v_key = Inr ''key'', v_output_exists = False,
     v_output = ''/out'', v_directory = ''/tmp/w'', v_cosign = ''cosign'', v_aws = ''aws'', v_limit = 10, v_now = ''now''\<rparr>"

definition empty_workspace :: workspace where
  "empty_workspace = \<lparr>temp = None, published = None, read_only = False\<rparr>"

theorem verification_publishes_all_or_nothing_witness:
  "\<exists>w. verify_artifact sample_tools sample_verify empty_workspace = (Inr (), w) \<and> temp w = None \<and>
    (\<exists>files. published w = Some files \<and> ''downloaded.artifact'' \<notin> fst ` set files)"
proof -
  have "fst (verify_artifact sample_tools sample_verify empty_workspace) = Inr ()" by code_simp
  then obtain w where run: "verify_artifact sample_tools sample_verify empty_workspace = (Inr (), w)"
    by (metis prod.collapse)
  have "temp empty_workspace = None" by (simp add: empty_workspace_def)
  from verification_publishes_all_or_nothing [OF run this] run show ?thesis by auto
qed

text \<open>
  C15: an accepted statement is the one signed payload of the bundle, it names the registered
  object as its only subject by the registered digest, and its predicate describes the same
  artifact and run.
\<close>

theorem accepted_statement_names_the_object:
  assumes "authenticated_statement T bundle_raw d run_id = Inr (raw, producer)"
  shows "\<exists>bundle envelope encoded statement subject p.
    loads_mapping T bundle_raw = Inr bundle \<and> dget bundle ''dsseEnvelope'' = JObj envelope \<and>
    dget envelope ''payload'' = JStr encoded \<and> b64decode encoded = Inr raw \<and> loads_mapping T raw = Inr statement \<and>
    dget statement ''predicateType'' = JStr predicate_type \<and>
    dget statement ''subject'' = JList [JObj subject] \<and>
    py_eq (dget subject ''digest'') (JObj [(''sha256'', JStr (d_sha256 d))]) \<and>
    dget statement ''predicate'' = JObj p \<and> predicate_keys p \<and> dget p ''run_id'' = JStr run_id \<and>
    dget p ''producer_implementation'' = JStr producer \<and>
    dumps_canonical T (dget p ''artifact'') = dumps_canonical T (descriptor_json d)"
proof -
  have subject: "\<exists>m. v = JList [JObj m] \<and> f m"
    if "case v of JList [JObj m] \<Rightarrow> f m | _ \<Rightarrow> False" for v f
  proof (cases v)
    case (JList xs)
    with that show ?thesis by (cases xs; cases "hd xs"; cases "tl xs") auto
  qed (use that in auto)
  from assms show ?thesis
    unfolding authenticated_statement_def
    by (auto simp: ok_iff dest!: subject)
qed

theorem accepted_statement_names_the_object_witness:
  "\<exists>statement subject. loads_mapping sample_tools ''st'' = Inr statement \<and>
    dget statement ''subject'' = JList [JObj subject] \<and>
    py_eq (dget subject ''digest'') (JObj [(''sha256'', JStr (replicate 64 (CHR ''a'')))])"
proof -
  have "authenticated_statement sample_tools ''bundle'' sample_descriptor ''run-0123abcd-4567-4abc-8def-0123456789ab''
      = Inr (''st'', ''sink'')" by code_simp
  from accepted_statement_names_the_object [OF this] show ?thesis
    by (auto simp: sample_descriptor_def)
qed

text \<open>
  The command turns every value, system and timeout error of its work into exit code 1 with a
  message, and then nothing new is published; it exits with 0 only after the work succeeded.
\<close>

theorem artifact_main_exit_codes:
  assumes "artifact_main T (VerifyArtifact a) w = (Inr (code, text), w')" and "temp w = None"
  shows "(code = 0 \<and> verify_artifact T a w = (Inr (), w')) \<or>
    (code = 1 \<and> published w' = published w \<and> (\<exists>e. verify_artifact T a w = (Inl e, w') \<and>
       caught_by [OSError, ValueError, TimeoutExpired] e \<and> text = ''retained-artifact: '' @ exc_msg e))"
proof -
  obtain r v where run: "verify_artifact T a w = (r, v)" by fastforce
  have all: "case r of Inl e \<Rightarrow> published v = published w | Inr _ \<Rightarrow> True"
    using verification_publishes [OF run assms(2)] by (auto split: sum.splits)
  with run assms show ?thesis
    by (cases r) (auto simp: artifact_main_def catchS_def seqS_def bindS_def split: if_splits)
qed

theorem artifact_main_exit_codes_witness:
  "\<exists>text w. artifact_main sample_tools (VerifyArtifact (sample_verify\<lparr>v_limit := 0\<rparr>)) empty_workspace = (Inr (1, text), w) \<and>
    published w = None"
proof -
  have "artifact_main sample_tools (VerifyArtifact (sample_verify\<lparr>v_limit := 0\<rparr>)) empty_workspace =
      (Inr (1, ''retained-artifact: artifact byte limit must be positive and no greater than 1073741824''), empty_workspace)"
    by (simp add: artifact_main_def verify_artifact_def sample_verify_def artifact_byte_limit_def catchS_def seqS_def bindS_def
        empty_workspace_def)
  from artifact_main_exit_codes [OF this] this show ?thesis
    by (simp add: empty_workspace_def)
qed

end
