(* ===== verification/Receipt_Inputs.thy ===== *)
theory Receipt_Inputs
  imports Py_Codec
begin

text \<open>
  \<open>docker/evidence-sink/receipt-inputs.py\<close>: the registry of receipt inputs beside an upload
  registration and the inventory rendered from it. The evidence directory is a tree; paths of the
  command line are absolute and expanded. The contract library is the record \<open>contracts\<close>.
\<close>

record contracts =
  loads :: "bytes \<Rightarrow> dict res"
  validate_role :: "dict \<Rightarrow> string \<Rightarrow> unit res"
  validate_artifact_receipt :: "dict \<Rightarrow> dict \<Rightarrow> (string \<times> string) list \<Rightarrow> string list res"
  canonical :: "json \<Rightarrow> bytes"
  sha_of :: "bytes \<Rightarrow> string"
  max_document_bytes :: int

definition groups :: "string list" where
  "groups = [''receipts'', ''verifications'', ''dependencies'']"

section \<open>Files\<close>

definition relative_file :: "tree \<Rightarrow> path \<Rightarrow> path \<Rightarrow> bool \<Rightarrow> string res" where
  "relative_file t p anchor must_exist =
     bindE (if must_exist then resolve t p else Inr (resolve_lax t p)) (\<lambda>resolved.
     unlessE (\<not> is_relative_to resolved anchor) ValueError ''path is not in the subpath''
    (let rel = path_str (drop (length anchor) resolved) in
     unlessE (rel = ''.'' \<or> CHR '':'' \<in> set rel \<or> char_of (92::nat) \<in> set rel) ValueError
       ''receipt inputs require portable paths beneath the evidence directory''
    (unlessE (must_exist \<and> \<not> is_file t resolved) ValueError ''receipt inputs must be regular files''
    (Inr rel))))"

definition read_document :: "contracts \<Rightarrow> tree \<Rightarrow> path \<Rightarrow> string option \<Rightarrow> (dict \<times> string) res" where
  "read_document C t p role = bindE (read_file t p) (\<lambda>raw. bindE (loads C raw) (\<lambda>document.
     bindE (case role of None \<Rightarrow> Inr () | Some r \<Rightarrow> validate_role C document r) (\<lambda>_.
     Inr (document, sha_of C raw))))"

text \<open>One receipt with its files, each group a dict from digest to path.\<close>

record receipt_files =
  receipts :: "(string \<times> string) list"
  verifications :: "(string \<times> string) list"
  dependencies :: "(string \<times> string) list"

definition by_digest :: "contracts \<Rightarrow> tree \<Rightarrow> path \<Rightarrow> string list \<Rightarrow> (string \<times> string) list res" where
  "by_digest C t anchor names =
     foldE (\<lambda>name d. bindE (read_file t (anchor @ pure_parts name)) (\<lambda>raw. Inr (dset (sha_of C raw) name d))) names []"

definition chain_files ::
  "contracts \<Rightarrow> tree \<Rightarrow> path \<Rightarrow> path \<Rightarrow> path list \<Rightarrow> path \<Rightarrow> (dict \<times> receipt_files) res" where
  "chain_files C t receipt_path verification_path dependency_paths anchor =
     bindE (relative_file t receipt_path anchor True) (\<lambda>receipt_name.
     bindE (relative_file t verification_path anchor True) (\<lambda>verification_name.
     bindE (mapE (\<lambda>p. relative_file t p anchor True) dependency_paths) (\<lambda>dependency_names.
     unlessE (''receipt-inventory.json'' \<in> set (receipt_name # verification_name # dependency_names)) ValueError
       ''inventory output must not replace a receipt input''
    (bindE (read_document C t (anchor @ pure_parts receipt_name) (Some ''artifact_receipt'')) (\<lambda>(receipt, receipt_digest).
     bindE (read_document C t (anchor @ pure_parts verification_name) (Some ''artifact_verification''))
       (\<lambda>(verification, verification_digest).
     bindE (dict_item receipt ''verification_sha256'') (\<lambda>claimed.
     unlessE (claimed \<noteq> JStr verification_digest) ValueError ''receipt verification bytes changed''
    (bindE (by_digest C t anchor dependency_names) (\<lambda>dependency_files.
     unlessE (length dependency_files \<noteq> length dependency_names) ValueError ''duplicate provenance dependency bytes''
    (bindE (validate_artifact_receipt C receipt verification dependency_files) (\<lambda>required.
     unlessE (set required \<noteq> fst ` set dependency_files) ValueError ''unreferenced provenance dependency''
    (Inr (receipt, \<lparr>receipts = [(receipt_digest, receipt_name)], verifications = [(verification_digest, verification_name)],
                     dependencies = dependency_files\<rparr>)))))))))))))"

section \<open>Registration of a receipt\<close>

record bind_arguments =
  b_root :: path
  b_registration :: path
  b_receipt :: path
  b_destination :: path
  b_verification :: path
  b_dependencies :: "path list"

definition names_json :: "(string \<times> string) list \<Rightarrow> json" where
  "names_json d = JList (map (JStr \<circ> snd) d)"

definition bind_receipt :: "contracts \<Rightarrow> tree \<Rightarrow> bind_arguments \<Rightarrow> dict res" where
  "bind_receipt C t a =
     bindE (resolve t (b_root a)) (\<lambda>anchor.
     bindE (relative_file t (b_registration a) anchor True) (\<lambda>registration_name.
     bindE (relative_file t (b_destination a) anchor False) (\<lambda>destination.
     unlessE (destination = ''receipt-inventory.json'') ValueError ''receipt output must not replace the receipt inventory''
    (bindE (read_document C t (anchor @ pure_parts registration_name) None) (\<lambda>(registration, _).
     bindE (chain_files C t (b_receipt a) (b_verification a) (b_dependencies a) anchor) (\<lambda>(receipt, files).
     unlessE (dget registration ''upload_status'' \<noteq> JStr ''confirmed'' \<or>
              \<not> py_eq (dget receipt ''run_id'') (dget registration ''run_id'')) ValueError
       ''receipt inputs require a confirmed registration for the same run''
    (let digest = fst (hd (receipts files));
         bound = files\<lparr>receipts := dset digest destination (receipts files)\<rparr> in
     Inr (dset ''receipt_inputs'' (JObj [(''receipts'', names_json (receipts bound)),
            (''verifications'', names_json (verifications bound)), (''dependencies'', names_json (dependencies bound))])
          (dset ''receipt_sha256'' (JStr digest) registration)))))))))"

section \<open>Inventory\<close>

definition registered_name :: "tree \<Rightarrow> path \<Rightarrow> json \<Rightarrow> path res" where
  "registered_name t anchor v = (case v of
     JStr name \<Rightarrow>
       unlessE (name = [] \<or> is_absolute name) ValueError ''receipt input registry requires relative paths''
      (bindE (relative_file t (anchor @ pure_parts name) anchor True) (\<lambda>found.
       unlessE (found \<noteq> name) ValueError ''receipt input registry requires canonical relative paths''
      (Inr (anchor @ pure_parts name))))
   | _ \<Rightarrow> raise ValueError ''receipt input registry requires relative paths'')"

definition registered_group :: "tree \<Rightarrow> path \<Rightarrow> dict \<Rightarrow> string \<Rightarrow> path list res" where
  "registered_group t anchor inputs grp = bindE (dict_item inputs grp) (\<lambda>v. case v of
     JList names \<Rightarrow>
       unlessE (4096 < length names) ValueError ''receipt input registry requires bounded file lists''
      (mapE (registered_name t anchor) names)
   | _ \<Rightarrow> raise ValueError ''receipt input registry requires bounded file lists'')"

text \<open>The receipt, the verification and the dependencies of a registration.\<close>

definition registered_paths :: "dict \<Rightarrow> tree \<Rightarrow> path \<Rightarrow> (path \<times> path \<times> path list) res" where
  "registered_paths registration t anchor = (case dget registration ''receipt_inputs'' of
     JObj inputs \<Rightarrow>
       unlessE (fst ` set inputs \<noteq> set groups) ValueError ''confirmed upload is missing its receipt input registry''
      (bindE (mapE (registered_group t anchor inputs) groups) (\<lambda>result. case result of
         [[r], [v], ds] \<Rightarrow> Inr (r, v, ds)
       | _ \<Rightarrow> raise ValueError ''registration requires exactly one receipt and verification''))
   | _ \<Rightarrow> raise ValueError ''confirmed upload is missing its receipt input registry'')"

text \<open>\<open>bytes.splitlines()\<close>.\<close>

fun byte_lines :: "bytes \<Rightarrow> bytes \<Rightarrow> bytes list" where
  "byte_lines cur [] = (if cur = [] then [] else [rev cur])"
| "byte_lines cur [c] = (if c = char_of (10::nat) \<or> c = char_of (13::nat) then [rev cur] else [rev (c # cur)])"
| "byte_lines cur (c # d # s) =
     (if c = char_of (13::nat) \<and> d = char_of (10::nat) then rev cur # byte_lines [] s
      else if c = char_of (10::nat) \<or> c = char_of (13::nat) then rev cur # byte_lines [] (d # s)
      else byte_lines (c # cur) (d # s))"

definition expected_receipts :: "dict \<Rightarrow> json list res" where
  "expected_receipts index = bindE (dict_item index ''artifacts'') (\<lambda>v. bindE (as_list v) (\<lambda>artifacts.
     bindE (mapE (\<lambda>artifact. bindE (item artifact ''storage_state'') (\<lambda>state.
         if state = JStr ''retained'' then bindE (item artifact ''receipt_sha256'') (\<lambda>d. Inr [d]) else Inr [])) artifacts)
       (\<lambda>ds. Inr (concat ds))))"

text \<open>\<open>collected[group].setdefault(sha256, path)\<close>.\<close>

definition setdefaults :: "(string \<times> string) list \<Rightarrow> (string \<times> string) list \<Rightarrow> (string \<times> string) list" where
  "setdefaults new d = fold (\<lambda>(k, v) d. if k \<in> fst ` set d then d else d @ [(k, v)]) new d"

definition collect_files :: "receipt_files \<Rightarrow> receipt_files \<Rightarrow> receipt_files" where
  "collect_files new c = \<lparr>receipts = setdefaults (receipts new) (receipts c),
     verifications = setdefaults (verifications new) (verifications c),
     dependencies = setdefaults (dependencies new) (dependencies c)\<rparr>"

definition collect_registration ::
  "contracts \<Rightarrow> tree \<Rightarrow> path \<Rightarrow> json list \<Rightarrow> dict \<Rightarrow> bytes \<Rightarrow> receipt_files \<Rightarrow> receipt_files res" where
  "collect_registration C t anchor expected index raw c =
     bindE (loads C raw) (\<lambda>registration.
     if dget registration ''upload_status'' \<noteq> JStr ''confirmed'' then Inr c
     else bindE (registered_paths registration t anchor) (\<lambda>(r, v, ds).
       bindE (chain_files C t r v ds anchor) (\<lambda>(receipt, files).
       let digest = fst (hd (receipts files)) in
       unlessE (JStr digest \<noteq> dget registration ''receipt_sha256'' \<or> JStr digest \<notin> set expected) ValueError
         ''registered receipt bytes differ from the finalized index''
      (bindE (dict_item index ''run_id'') (\<lambda>run_id.
       unlessE (\<not> py_eq (dget receipt ''run_id'') run_id \<or> \<not> py_eq (dget registration ''run_id'') run_id) ValueError
         ''receipt inputs belong to another run''
      (Inr (collect_files files c)))))))"

definition no_files :: receipt_files where
  "no_files = \<lparr>receipts = [], verifications = [], dependencies = []\<rparr>"

definition render_inventory :: "contracts \<Rightarrow> tree \<Rightarrow> path \<Rightarrow> bytes res \<Rightarrow> path \<Rightarrow> (receipt_files \<times> json) res" where
  "render_inventory C t root_path registrations index_path =
     bindE (resolve t root_path) (\<lambda>anchor.
     bindE (read_document C t index_path (Some ''evidence_index'')) (\<lambda>(index, _).
     bindE (expected_receipts index) (\<lambda>expected.
     bindE registrations (\<lambda>raw.
     bindE (foldE (collect_registration C t anchor expected index) (byte_lines [] raw) no_files) (\<lambda>c.
     unlessE ((JStr \<circ> fst) ` set (receipts c) \<noteq> set expected) ValueError
       ''finalized index has receipts without registered inputs''
    (unlessE (4096 < length (receipts c) + length (verifications c) + length (dependencies c)) ValueError
       ''receipt inventory exceeds 4096 files''
    (Inr (c, JObj [(''receipts'', JList (map JStr (sort (map snd (receipts c))))),
       (''verifications'', JList (map JStr (sort (map snd (verifications c))))),
       (''dependencies'', JList (map JStr (sort (map snd (dependencies c)))))]))))))))"

section \<open>Command line\<close>

datatype receipt_command = Bind bind_arguments | RenderInventory path "bytes res" path

text \<open>The exit code, with the canonical bytes or the message.\<close>

definition receipt_main :: "contracts \<Rightarrow> tree \<Rightarrow> receipt_command \<Rightarrow> (int \<times> bytes) res" where
  "receipt_main C t command =
     (case bindE (case command of
                    Bind a \<Rightarrow> bindE (bind_receipt C t a) (\<lambda>d. Inr (JObj d))
                  | RenderInventory r regs i \<Rightarrow> bindE (render_inventory C t r regs i) (\<lambda>(_, j). Inr j))
             (\<lambda>document. let encoded = canonical C document in
              unlessE (max_document_bytes C < int (length encoded)) ValueError
                ''receipt input metadata exceeds the document size limit'' (Inr encoded)) of
        Inr encoded \<Rightarrow> Inr (0, encoded)
      | Inl e \<Rightarrow> if caught_by [OSError, ValueError, KeyError] e
                 then Inr (1, ''receipt-inputs: '' @ exc_msg e) else Inl e)"

section \<open>Facts\<close>

lemma relative_file_ok:
  assumes "relative_file t p anchor True = Inr name"
  shows "\<exists>rel. resolve t p = Inr (anchor @ rel) \<and> name = path_str rel \<and> rel \<noteq> [] \<and>
    CHR '':'' \<notin> set name \<and> is_file t (anchor @ rel)"
proof -
  from assms obtain resolved where "resolve t p = Inr resolved" "is_relative_to resolved anchor"
      "name = path_str (drop (length anchor) resolved)" "name \<noteq> ''.''" "CHR '':'' \<notin> set name" "is_file t resolved"
    by (auto simp: relative_file_def Let_def bindE_ok unlessE_ok)
  moreover from this(2) obtain rel where "resolved = anchor @ rel"
    by (auto simp: is_relative_to_def starts_with_iff)
  ultimately show ?thesis by (auto simp: path_str_def)
qed

definition bytes_match :: "contracts \<Rightarrow> tree \<Rightarrow> path \<Rightarrow> string \<times> string \<Rightarrow> bool" where
  "bytes_match C t anchor x \<longleftrightarrow>
     (\<exists>raw. read_file t (anchor @ pure_parts (snd x)) = Inr raw \<and> sha_of C raw = fst x)"

lemma read_document_ok:
  "read_document C t p role = Inr (document, digest) \<Longrightarrow> \<exists>raw. read_file t p = Inr raw \<and> sha_of C raw = digest \<and>
     loads C raw = Inr document"
  by (auto simp: read_document_def bindE_ok)

lemma by_digest_ok:
  assumes "by_digest C t anchor names = Inr d"
  shows "distinct (map fst d) \<and> list_all (bytes_match C t anchor) d"
proof -
  have "\<forall>x \<in> set (dset k v s). x = (k, v) \<or> x \<in> set s" for k v and s :: "(string \<times> string) list"
    by (induction s) auto
  then show ?thesis
    using assms unfolding by_digest_def
    by - (erule foldE_invariant [where P = "\<lambda>d. distinct (map fst d) \<and> list_all (bytes_match C t anchor) d"];
      fastforce simp: bindE_ok bytes_match_def list_all_iff distinct_update)
qed

definition sealed_files :: "contracts \<Rightarrow> tree \<Rightarrow> path \<Rightarrow> receipt_files \<Rightarrow> bool" where
  "sealed_files C t anchor c \<longleftrightarrow>
     list_all (bytes_match C t anchor) (receipts c @ verifications c @ dependencies c) \<and>
     distinct (map fst (receipts c)) \<and> distinct (map fst (verifications c)) \<and> distinct (map fst (dependencies c))"

lemma chain_files_ok:
  assumes "chain_files C t r v ds anchor = Inr (receipt, files)"
  shows "sealed_files C t anchor files \<and> length (receipts files) = 1 \<and> length (verifications files) = 1 \<and>
    (\<exists>verification required. validate_artifact_receipt C receipt verification (dependencies files) = Inr required \<and>
       set required = fst ` set (dependencies files) \<and>
       dget receipt ''verification_sha256'' = JStr (fst (hd (verifications files))))"
  using assms
  by (auto simp: chain_files_def bindE_ok unlessE_ok sealed_files_def bytes_match_def dget_def dict_item_ok
      dest!: read_document_ok by_digest_ok) ((rule exI)+, rule conjI, assumption, assumption)

lemma setdefaults_Cons:
  "setdefaults ((k, v) # new) d = setdefaults new (if k \<in> fst ` set d then d else d @ [(k, v)])"
  by (simp add: setdefaults_def)

lemma setdefaults_sub: "set (setdefaults new d) \<subseteq> set d \<union> set new"
proof (induction new arbitrary: d)
  case (Cons x new)
  obtain k v where x: "x = (k, v)" by fastforce
  from Cons.IH [of "if k \<in> fst ` set d then d else d @ [(k, v)]"] show ?case
    unfolding x setdefaults_Cons by (auto split: if_splits)
qed (simp add: setdefaults_def)

lemma setdefaults_distinct: "distinct (map fst d) \<Longrightarrow> distinct (map fst (setdefaults new d))"
proof (induction new arbitrary: d)
  case (Cons x new)
  obtain k v where x: "x = (k, v)" by fastforce
  have "distinct (map fst (if k \<in> fst ` set d then d else d @ [(k, v)]))"
    using Cons.prems by simp
  from Cons.IH [OF this] show ?case unfolding x setdefaults_Cons .
qed (simp add: setdefaults_def)

lemma collect_files_sealed:
  assumes "sealed_files C t anchor new" "sealed_files C t anchor c"
  shows "sealed_files C t anchor (collect_files new c)"
  using assms setdefaults_sub [of "receipts new" "receipts c"]
    setdefaults_sub [of "verifications new" "verifications c"]
    setdefaults_sub [of "dependencies new" "dependencies c"]
  by (auto simp: sealed_files_def collect_files_def list_all_iff setdefaults_distinct)

lemma collect_registration_sealed:
  assumes "collect_registration C t anchor expected index raw c = Inr c'" "sealed_files C t anchor c"
  shows "sealed_files C t anchor c'"
  using assms
  by (auto simp: collect_registration_def Let_def bindE_ok unlessE_ok dest!: chain_files_ok
      intro: collect_files_sealed split: if_splits)

section \<open>Properties\<close>

text \<open>
  A receipt input is admitted under one portable name: the name is the place below the
  evidence directory at which its path really ends, after links, and a regular file is there.
\<close>

theorem receipt_names_are_real_places:
  assumes "relative_file t p anchor True = Inr name"
  shows "\<exists>rel. resolve t p = Inr (anchor @ rel) \<and> name = path_str rel \<and> rel \<noteq> [] \<and>
    CHR '':'' \<notin> set name \<and> is_file t (anchor @ rel)"
  using assms by (rule relative_file_ok)

definition evidence_meta :: file_meta where
  "evidence_meta = \<lparr>st_dev = 1, st_ino = 7, st_mtime_ns = 10, st_ctime_ns = 10\<rparr>"

definition evidence_tree :: tree where
  "evidence_tree = [([''e''], Dir), ([''e'', ''r''], Regular ''receipt'' evidence_meta),
     ([''e'', ''v''], Regular ''verification'' evidence_meta), ([''e'', ''d''], Regular ''dependency'' evidence_meta),
     ([''e'', ''l''], Link False [''d'']), ([''e'', ''i''], Regular ''index'' evidence_meta),
     ([''e'', ''g''], Regular ''registration'' evidence_meta)]"

theorem receipt_names_are_real_places_witness:
  "\<exists>rel. resolve evidence_tree [''e'', ''l''] = Inr ([''e''] @ rel) \<and> path_str rel = ''d''"
proof -
  have "relative_file evidence_tree [''e'', ''l''] [''e''] True = Inr ''d''" by code_simp
  from receipt_names_are_real_places [OF this] show ?thesis by metis
qed

definition evidence_contracts :: contracts where
  "evidence_contracts = \<lparr>loads = (\<lambda>b. Inr (
       if b = ''receipt'' then [(''verification_sha256'', JStr ''verification''), (''run_id'', JStr ''r1'')]
       else if b = ''index'' then [(''run_id'', JStr ''r1''), (''artifacts'', JList [JObj [(''storage_state'', JStr ''retained''),
          (''receipt_sha256'', JStr ''receipt'')]])]
       else if b = ''registration'' then [(''upload_status'', JStr ''confirmed''), (''run_id'', JStr ''r1''),
          (''receipt_sha256'', JStr ''receipt''), (''receipt_inputs'', JObj [(''receipts'', JList [JStr ''r'']),
             (''verifications'', JList [JStr ''v'']), (''dependencies'', JList [JStr ''d''])])]
       else [])),
     validate_role = (\<lambda>_ _. Inr ()), validate_artifact_receipt = (\<lambda>_ _ ds. Inr (map fst ds)), canonical = (\<lambda>_. []),
     sha_of = (\<lambda>b. b), max_document_bytes = 100\<rparr>"


definition evidence_bind :: bind_arguments where
  "evidence_bind = \<lparr>b_root = [''e''], b_registration = [''e'', ''g''], b_receipt = [''e'', ''r''],
     b_destination = [''e'', ''kept''], b_verification = [''e'', ''v''], b_dependencies = [[''e'', ''l'']]\<rparr>"


text \<open>
  C27: a rendered inventory is complete and exact: its receipts are the retained receipts of the
  finalized index, no more and no less, every file in it holds the bytes of its digest, no digest
  occurs twice in a group, and at most 4096 files are listed, in order.
\<close>

theorem inventory_is_exact:
  assumes "render_inventory C t root_path registrations index_path = Inr (c, document)"
  shows "\<exists>anchor index d expected. read_document C t index_path (Some ''evidence_index'') = Inr (index, d) \<and>
    expected_receipts index = Inr expected \<and> (JStr \<circ> fst) ` set (receipts c) = set expected \<and>
    sealed_files C t anchor c \<and> length (receipts c) + length (verifications c) + length (dependencies c) \<le> 4096 \<and>
    item document ''receipts'' = Inr (JList (map JStr (sort (map snd (receipts c)))))"
proof -
  from assms obtain anchor index d expected raw where
      index: "read_document C t index_path (Some ''evidence_index'') = Inr (index, d)" "expected_receipts index = Inr expected"
      and loop: "foldE (collect_registration C t anchor expected index) (byte_lines [] raw) no_files = Inr c"
      and rest: "(JStr \<circ> fst) ` set (receipts c) = set expected"
        "length (receipts c) + length (verifications c) + length (dependencies c) \<le> 4096"
        "item document ''receipts'' = Inr (JList (map JStr (sort (map snd (receipts c)))))"
    by (auto simp: render_inventory_def bindE_ok unlessE_ok dict_item_def)
  have "sealed_files C t anchor c"
    using loop by (rule foldE_invariant) (simp add: sealed_files_def no_files_def, rule collect_registration_sealed)
  with index rest show ?thesis by blast
qed

theorem inventory_is_exact_witness:
  "\<exists>c document anchor. render_inventory evidence_contracts evidence_tree [''e''] (Inr ''registration'') [''e'', ''i''] = Inr (c, document) \<and>
    sealed_files evidence_contracts evidence_tree anchor c"
proof -
  have "is_ok (render_inventory evidence_contracts evidence_tree [''e''] (Inr ''registration'') [''e'', ''i''])"
    by code_simp
  then obtain c document where run:
      "render_inventory evidence_contracts evidence_tree [''e''] (Inr ''registration'') [''e'', ''i''] = Inr (c, document)"
    by (auto simp: is_ok_iff)
  from inventory_is_exact [OF run] run show ?thesis by blast
qed

end
