(* ===== verification/Workspace_Pins.thy ===== *)
theory Workspace_Pins
  imports Py_Paths
begin

text \<open>
  \<open>scripts/ci/foundation/sync-workspace-pins.py\<close>: the build inputs of the foundation derived
  from one immutable workspace revision. The repository is the list of its files by path below
  \<open>ROOT\<close>; Git, uv, the JSON and TOML readers, the JSON printer, SHA-256, \<open>str\<close> on documents
  and the iteration order of a \<open>set\<close> are the record \<open>tools\<close>.
\<close>

type_synonym files = "(string \<times> bytes) list"

record tools =
  git :: "string list \<Rightarrow> bytes res"
  uv :: "string list \<Rightarrow> bytes \<Rightarrow> bytes res"
  json_loads :: "bytes \<Rightarrow> json res"
  toml_loads :: "string \<Rightarrow> json res"
  json_dumps :: "json \<Rightarrow> string"
  sha_hex :: "bytes \<Rightarrow> string"
  str_of :: "json \<Rightarrow> string"
  set_order :: "string list \<Rightarrow> string list"

definition contracts_name :: string where "contracts_name = ''robotics-runtime-contracts''"

definition harness_name :: string where "harness_name = ''robotics-acceptance-harness''"

definition packages_names :: "(string \<times> string) list" where
  "packages_names = [(''contracts'', contracts_name), (''harness'', harness_name)]"

section \<open>The pin\<close>

definition read_root :: "files \<Rightarrow> string \<Rightarrow> bytes res" where
  "read_root fs p = of_option FileNotFoundError p (map_of fs p)"

text \<open>\<open>harness-v(\d+\.\d+\.\d+)\<close>, with its group.\<close>

definition release_version :: "string \<Rightarrow> string option" where
  "release_version s = (if starts_with ''harness-v'' s then
     (let v = drop (length ''harness-v'') s; parts = split_on (CHR ''.'') v in
      if length parts = 3 \<and> list_all (\<lambda>x. x \<noteq> [] \<and> list_all is_digit x) parts then Some v else None)
   else None)"

definition full_commit :: "string \<Rightarrow> bool" where
  "full_commit s = (length s = 40 \<and> list_all is_hex s)"

record pin =
  pin_url :: string
  pin_version :: string
  pin_release :: "string option"

definition workspace_pin :: "tools \<Rightarrow> files \<Rightarrow> pin res" where
  "workspace_pin T fs =
     bindE (read_root fs ''foundation.repos'') (\<lambda>raw. bindE (decode_utf8 raw) (\<lambda>text. bindE (json_loads T text) (\<lambda>manifest.
     bindE (item manifest ''repositories'') (\<lambda>repositories. bindE (as_items repositories) (\<lambda>rs.
     unlessE (fst ` set rs \<noteq> {''robotics-runtime''}) ValueError
       ''foundation.repos must contain exactly the robotics-runtime workspace''
    (bindE (dict_item rs ''robotics-runtime'') (\<lambda>p. bindE (as_items p) (\<lambda>chosen.
     bindE (read_root fs ''config/trust/identities.json'') (\<lambda>raw'. bindE (decode_utf8 raw') (\<lambda>text'.
     bindE (json_loads T text') (\<lambda>identities. bindE (path_item identities [''core'', ''repository'']) (\<lambda>repository.
     let expected_url = ''https://github.com/'' @ str_of T repository @ ''.git'' in
     unlessE (dget chosen ''type'' \<noteq> JStr ''git'' \<or> dget chosen ''url'' \<noteq> JStr expected_url) ValueError
       ''foundation source must match the configured core repository''
    (case map_of chosen ''version'' of
       Some (JStr version) \<Rightarrow>
         unlessE (\<not> full_commit version) ValueError ''foundation version must be an immutable full Git commit''
        (case dget chosen ''release'' of
           JNull \<Rightarrow> Inr \<lparr>pin_url = expected_url, pin_version = version, pin_release = None\<rparr>
         | JStr release \<Rightarrow>
             unlessE (release_version release = None) ValueError ''foundation release must be a harness-vX.Y.Z tag''
               (Inr \<lparr>pin_url = expected_url, pin_version = version, pin_release = Some release\<rparr>)
         | _ \<Rightarrow> raise ValueError ''foundation release must be a harness-vX.Y.Z tag'')
     | Some _ \<Rightarrow> raise TypeError ''expected string or bytes-like object''
     | None \<Rightarrow> raise ValueError ''foundation version must be an immutable full Git commit'')))))))))))))"

section \<open>Packages\<close>

record package =
  distribution :: string
  p_version :: json
  p_path :: string
  p_revision :: string
  git_tree :: string
  source_date_epoch :: int
  uv_lock_sha256 :: string
  p_release :: "string option"

definition git_line :: "tools \<Rightarrow> string list \<Rightarrow> string res" where
  "git_line T args = bindE (git T args) (\<lambda>b. bindE (decode_utf8 b) (\<lambda>s. Inr (strip is_space s)))"

definition commit_epoch :: "tools \<Rightarrow> string \<Rightarrow> int res" where
  "commit_epoch T revision = bindE (git T [''show'', ''-s'', ''--format=%ct'', revision]) parse_int"

text \<open>The tags of the harness and of the contracts, and the packages with their releases.\<close>

definition release_pair ::
  "tools \<Rightarrow> string \<Rightarrow> string \<Rightarrow> package \<Rightarrow> package \<Rightarrow> (string \<times> package \<times> package) res" where
  "release_pair T revision release contracts harness =
     bindE (git_line T [''rev-parse'', ''refs/tags/'' @ release @ ''^{commit}'']) (\<lambda>tagged.
     unlessE (tagged \<noteq> revision) ValueError (release @ '' does not point to the pinned commit'')
    (unlessE (case release_version release of None \<Rightarrow> True | Some v \<Rightarrow> p_version harness \<noteq> JStr v) ValueError
       (''harness version does not match '' @ release)
    (let tag = ''contracts-v'' @ str_of T (p_version contracts); path = p_path contracts;
         source_path = path @ ''/src''; metadata_path = path @ ''/pyproject.toml'' in
     bindE (git_line T [''rev-parse'', ''refs/tags/'' @ tag @ ''^{commit}'']) (\<lambda>tag_revision.
     bindE (git T [''rev-parse'', tag_revision @ '':'' @ source_path]) (\<lambda>tagged_source.
     bindE (git T [''rev-parse'', revision @ '':'' @ source_path]) (\<lambda>selected_source.
     unlessE (tagged_source \<noteq> selected_source) ValueError (''contracts source differs from '' @ tag @ '' at '' @ source_path)
    (bindE (git T [''show'', tag_revision @ '':'' @ metadata_path]) (\<lambda>tagged_metadata.
     bindE (git T [''show'', revision @ '':'' @ metadata_path]) (\<lambda>selected_metadata.
     unlessE (tagged_metadata \<noteq> selected_metadata) ValueError (''contracts package metadata differs from '' @ tag)
    (bindE (git_line T [''rev-parse'', tag_revision @ '':'' @ path]) (\<lambda>tree_id.
     bindE (commit_epoch T tag_revision) (\<lambda>epoch.
     bindE (git T [''show'', tag_revision @ '':uv.lock'']) (\<lambda>lock.
     Inr (tag,
       contracts\<lparr>p_revision := tag_revision, git_tree := tree_id, source_date_epoch := epoch,
                 uv_lock_sha256 := sha_hex T lock, p_release := Some tag\<rparr>,
       harness\<lparr>p_release := Some release\<rparr>))))))))))))))"

section \<open>Requirements\<close>

definition strings :: "json \<Rightarrow> string list res" where
  "strings v = bindE (as_list v) (mapE (\<lambda>x. of_option TypeError ''expected string'' (as_str x)))"

definition name_char :: "char \<Rightarrow> bool" where
  "name_char c = (is_alnum c \<or> c \<in> {CHR ''.'', CHR ''_'', CHR ''-''})"

text \<open>\<open>re.sub(r"[-_.]+", "-", name)\<close>; the flag says that the previous character was replaced.\<close>

fun collapse :: "bool \<Rightarrow> string \<Rightarrow> string" where
  "collapse b [] = []"
| "collapse b (c # s) =
     (if c \<in> {CHR ''.'', CHR ''_'', CHR ''-''} then (if b then collapse True s else CHR ''-'' # collapse True s)
      else c # collapse False s)"

definition dependency_name :: "string \<Rightarrow> string res" where
  "dependency_name s = (let m = takeWhile name_char s in
     if m = [] \<or> \<not> is_alnum (hd m) then raise ValueError (''invalid dependency name: '' @ s)
     else Inr (lower (collapse False m)))"

definition requirements :: "json \<Rightarrow> string list res" where
  "requirements project = bindE (item project ''dependencies'') (\<lambda>v. bindE (strings v) (\<lambda>deps.
     bindE (mapE (\<lambda>d. bindE (dependency_name d) (\<lambda>n. Inr (if n \<in> {contracts_name, harness_name} then [] else [d]))) deps)
       (\<lambda>kept. Inr (concat kept))))"

definition line_end :: string where
  "line_end = [char_of (10::nat)]"

definition requirement_text :: "tools \<Rightarrow> string list \<Rightarrow> string" where
  "requirement_text T deps = ''# Generated by scripts/ci/foundation/sync-workspace-pins.py'' @ line_end @
     join_with line_end (sort_key lower (set_order T deps)) @ line_end"

section \<open>Locks\<close>

definition export_lock :: "tools \<Rightarrow> string \<Rightarrow> string \<Rightarrow> string \<Rightarrow> string option \<Rightarrow> string res" where
  "export_lock T workspace revision chosen_dist extra =
     bindE (git_line T [''rev-parse'', ''HEAD'']) (\<lambda>head.
     unlessE (head \<noteq> revision) ValueError ''uv export requires the imported workspace at the pinned revision''
    (bindE (git T [''diff'', ''--quiet'', ''HEAD'', ''--'', ''pyproject.toml'', ''uv.lock'', ''packages'']) (\<lambda>_.
     bindE (uv T ([''export'', ''--project'', workspace, ''--locked'', ''--no-default-groups'', ''--package'', chosen_dist,
         ''--no-emit-workspace'', ''--no-header'', ''--no-annotate'', ''--format'', ''requirements.txt''] @
         (case extra of None \<Rightarrow> [] | Some e \<Rightarrow> [''--extra'', e])) []) (\<lambda>out.
     bindE (decode_utf8 out) (\<lambda>text. Inr (crlf_to_lf text))))))"

definition build_lock_path :: string where
  "build_lock_path = ''docker/python/foundation-build.lock''"

definition export_build_lock :: "tools \<Rightarrow> files \<Rightarrow> string \<Rightarrow> string list \<Rightarrow> bool \<Rightarrow> string res" where
  "export_build_lock T fs anchor deps refresh =
     bindE (uv T ([''pip'', ''compile'', ''-'', ''--python-version'', ''3.12'', ''--universal'', ''--generate-hashes'',
         ''--no-header'', ''--no-annotate''] @
         (if build_lock_path \<in> fst ` set fs \<and> \<not> refresh then [''--constraint'', anchor @ ''/'' @ build_lock_path] else []))
       (requirement_text T deps)) (\<lambda>out.
     bindE (decode_utf8 out) (\<lambda>text. Inr (crlf_to_lf text)))"

section \<open>The generated block of the Bake file\<close>

text \<open>\<open>s.find(p)\<close> and \<open>s.count(p)\<close>.\<close>

fun find_sub :: "string \<Rightarrow> string \<Rightarrow> nat option" where
  "find_sub p [] = (if p = [] then Some 0 else None)"
| "find_sub p (c # s) = (if starts_with p (c # s) then Some 0 else map_option Suc (find_sub p s))"

function count_sub :: "string \<Rightarrow> string \<Rightarrow> nat" where
  "count_sub p s = (if p = [] then Suc (length s)
     else if starts_with p s then Suc (count_sub p (drop (length p) s))
     else case s of [] \<Rightarrow> 0 | _ # r \<Rightarrow> count_sub p r)"
  by pat_completeness auto

termination
  by (relation "measure (\<lambda>(p, s). length s)") (auto simp: starts_with_iff)

declare count_sub.simps [simp del]

definition block_begin :: string where
  "block_begin = ''# FOUNDATION_GENERATED_START''"

definition block_end :: string where
  "block_end = ''# FOUNDATION_GENERATED_END''"

definition block_body :: "string \<Rightarrow> string \<Rightarrow> string" where
  "block_body source contracts_source =
     (let dq = [char_of (34::nat)] in
      line_end @ ''variable '' @ dq @ ''FOUNDATION_SOURCE'' @ dq @ '' {'' @ line_end @
      ''  default = '' @ dq @ source @ dq @ line_end @ ''}'' @ line_end @
      ''variable '' @ dq @ ''CONTRACTS_SOURCE'' @ dq @ '' {'' @ line_end @
      ''  default = '' @ dq @ contracts_source @ dq @ line_end @ ''}'' @ line_end)"

definition generated_block :: "string \<Rightarrow> string \<Rightarrow> string" where
  "generated_block source contracts_source = block_begin @ block_body source contracts_source @ block_end"

definition replace_block :: "string \<Rightarrow> string \<Rightarrow> string res" where
  "replace_block bake replacement =
     unlessE (count_sub block_begin bake \<noteq> 1 \<or> count_sub block_end bake \<noteq> 1) ValueError
       ''Docker Bake must contain exactly one generated foundation block''
    (let start = the (find_sub block_begin bake); stop = the (find_sub block_end bake) + length block_end in
     Inr (take start bake @ replacement @ drop stop bake))"

section \<open>Outputs\<close>

definition package_json :: "package \<Rightarrow> json" where
  "package_json p = JObj ([(''distribution'', JStr (distribution p)), (''version'', p_version p), (''path'', JStr (p_path p)),
     (''revision'', JStr (p_revision p)), (''git_tree'', JStr (git_tree p)), (''source_date_epoch'', JInt (source_date_epoch p)),
     (''uv_lock_sha256'', JStr (uv_lock_sha256 p))] @
     (case p_release p of None \<Rightarrow> [] | Some r \<Rightarrow> [(''release'', JStr r)]))"

text \<open>One package of the workspace, with its \<open>pyproject.toml\<close>.\<close>

definition load_package :: "tools \<Rightarrow> string \<Rightarrow> bytes \<Rightarrow> json \<Rightarrow> string \<times> string \<Rightarrow> (package \<times> json) res" where
  "load_package T revision lock_bytes lock x = (case x of (directory, name) \<Rightarrow>
     let path = ''packages/'' @ directory in
     bindE (git T [''show'', revision @ '':'' @ path @ ''/pyproject.toml'']) (\<lambda>raw. bindE (decode_utf8 raw) (\<lambda>text.
     bindE (toml_loads T text) (\<lambda>metadata. bindE (item metadata ''project'') (\<lambda>project.
     bindE (item project ''name'') (\<lambda>found_name.
     unlessE (found_name \<noteq> JStr name) ValueError (''unexpected distribution in '' @ path)
    (bindE (item lock ''package'') (\<lambda>v. bindE (as_list v) (\<lambda>entries.
     bindE (mapE (\<lambda>e. bindE (item e ''name'') (\<lambda>n. Inr (n = JStr name, e))) entries) (\<lambda>named.
     case map snd (filter fst named) of
       [entry] \<Rightarrow>
         bindE (item entry ''version'') (\<lambda>locked. bindE (item project ''version'') (\<lambda>version.
         unlessE (\<not> py_eq locked version) ValueError (''workspace lock disagrees with '' @ name @ '' metadata'')
        (bindE (item entry ''source'') (\<lambda>src.
         unlessE (\<not> py_eq src (JObj [(''editable'', JStr path)])) ValueError
           (''workspace lock does not bind '' @ name @ '' to '' @ path)
        (bindE (git_line T [''rev-parse'', revision @ '':'' @ path]) (\<lambda>tree_id.
         bindE (commit_epoch T revision) (\<lambda>epoch.
         Inr (\<lparr>distribution = name, p_version = version, p_path = path, p_revision = revision, git_tree = tree_id,
               source_date_epoch = epoch, uv_lock_sha256 = sha_hex T lock_bytes, p_release = None\<rparr>, metadata))))))))
     | _ \<Rightarrow> raise ValueError (''workspace lock disagrees with '' @ name @ '' metadata'')))))))))))"

definition quoted :: "string \<Rightarrow> string" where
  "quoted s = [char_of (96::nat)] @ s @ [char_of (96::nat)]"

definition compatibility_rows :: "tools \<Rightarrow> package list \<Rightarrow> (string \<times> string) option \<Rightarrow> string list" where
  "compatibility_rows T packages pair =
     [''# Foundation Compatibility Lock'', [],
      ''Generated from the common workspace pin in '' @ quoted ''foundation.repos'' @ '' and each package release tag.'', [],
      ''| Component | Version | Build input commit |'', ''| --- | --- | --- |''] @
     map (\<lambda>p. ''| '' @ quoted (distribution p) @ '' | '' @ quoted (str_of T (p_version p)) @ '' | '' @
              quoted (p_revision p) @ '' |'') packages @ [[]] @
     (case pair of
        Some (release, contracts) \<Rightarrow>
          [''The pin is bound to the source tags '' @ quoted release @ '' and '' @ quoted contracts @ ''.'',
           ''Each complete build input is bound to its own tag and commit.'',
           ''The common workspace'' @ [char_of (39::nat)] @ ''s contracts '' @ quoted ''src'' @ '' tree and '' @ quoted ''pyproject.toml'',
           ''match the contracts tag; its documentation is not used to build contracts.'',
           ''Tag/source binding is separate from publication and image admission.'']
      | None \<Rightarrow> [''The current pin is a development source candidate without a release tag binding.'']) @
     [''The images build each package from its complete immutable Git context.'',
      ''The named Git context ref and checksum bind every supplied input byte.'',
      ''The build helper checks lock/project metadata; its uv.lock hash alone'',
      ''does not authenticate an arbitrary supplied source directory.'',
      ''Generated whole-wheel hashes identify each candidate build output.'',
      ''Compare them with authenticated published assets when asserting'',
      ''release-wheel equality.'',
      ''Build dependencies remain locked.'',
      ''CI checks the imported revision, workspace lock and installed image versions.'',
      ''Stable release adoption remains gated on completed publication and foundation qualification.'', []]"

definition git_source :: "string \<Rightarrow> string \<Rightarrow> string" where
  "git_source url revision = url @ ''?ref='' @ revision @ ''&checksum='' @ revision"

text \<open>The packages after the release tags were bound, with the pair of tags.\<close>

definition bind_release ::
  "tools \<Rightarrow> pin \<Rightarrow> package \<Rightarrow> package \<Rightarrow> ((string \<times> string) option \<times> package \<times> package) res" where
  "bind_release T p contracts harness = (case pin_release p of
     None \<Rightarrow> Inr (None, contracts, harness)
   | Some release \<Rightarrow> bindE (release_pair T (pin_version p) release contracts harness) (\<lambda>(tag, c, h).
       Inr (Some (release, tag), c, h)))"

definition outputs :: "tools \<Rightarrow> files \<Rightarrow> string \<Rightarrow> string \<Rightarrow> bool \<Rightarrow> (string \<times> string) list res" where
  "outputs T fs anchor workspace refresh =
     bindE (workspace_pin T fs) (\<lambda>p. let revision = pin_version p in
     bindE (git_line T [''rev-parse'', revision @ ''^{commit}'']) (\<lambda>actual.
     unlessE (actual \<noteq> revision) ValueError ''workspace revision did not resolve to the pinned commit''
    (bindE (git T [''show'', revision @ '':uv.lock'']) (\<lambda>lock_bytes. bindE (decode_utf8 lock_bytes) (\<lambda>lock_text.
     bindE (toml_loads T lock_text) (\<lambda>lock.
     bindE (load_package T revision lock_bytes lock (''contracts'', contracts_name)) (\<lambda>(contracts0, contracts_data).
     bindE (load_package T revision lock_bytes lock (''harness'', harness_name)) (\<lambda>(harness0, harness_data).
     bindE (bind_release T p contracts0 harness0) (\<lambda>(pair, contracts, harness).
     bindE (commit_epoch T revision) (\<lambda>epoch.
     let foundation = JObj [(''workspace'', JObj [(''url'', JStr (pin_url p)), (''revision'', JStr revision),
             (''source_date_epoch'', JInt epoch), (''uv_lock_sha256'', JStr (sha_hex T lock_bytes))]),
           (''packages'', JObj [(''contracts'', package_json contracts), (''harness'', package_json harness)])] in
     bindE (bindE (item contracts_data ''project'') requirements) (\<lambda>contracts_deps.
     bindE (bindE (item harness_data ''project'') requirements) (\<lambda>harness_deps.
     bindE (bindE (path_item contracts_data [''build-system'', ''requires'']) strings) (\<lambda>contracts_build.
     bindE (bindE (path_item harness_data [''build-system'', ''requires'']) strings) (\<lambda>harness_build.
     let build_deps = contracts_build @ harness_build in
     bindE (read_root fs ''docker-bake.hcl'') (\<lambda>bake_raw. bindE (decode_utf8 bake_raw) (\<lambda>bake.
     bindE (replace_block bake (generated_block (git_source (pin_url p) revision)
         (git_source (pin_url p) (p_revision contracts)))) (\<lambda>new_bake.
     bindE (export_lock T workspace revision harness_name None) (\<lambda>observer_lock.
     bindE (export_lock T workspace revision contracts_name None) (\<lambda>permit_lock.
     bindE (bindE (path_item contracts_data [''project'', ''optional-dependencies'', ''mcap'']) strings) (\<lambda>mcap.
     bindE (export_lock T workspace revision contracts_name (Some ''mcap'')) (\<lambda>sink_lock.
     bindE (export_build_lock T fs anchor build_deps refresh) (\<lambda>build_lock.
     Inr [(''config/foundation-lock.json'', json_dumps T foundation @ line_end),
       (''docker/python/acceptance-observer.in'', requirement_text T (contracts_deps @ harness_deps)),
       (''docker/python/permit-preflight.in'', requirement_text T contracts_deps),
       (''docker/python/acceptance-observer.lock'', observer_lock),
       (''docker/python/permit-preflight.lock'', permit_lock),
       (''docker/python/evidence-sink.in'', requirement_text T (contracts_deps @ mcap)),
       (''docker/python/evidence-sink.lock'', sink_lock),
       (''docker/python/foundation-build.in'', requirement_text T build_deps),
       (build_lock_path, build_lock),
       (''docs/foundation-compatibility.md'', join_with line_end (compatibility_rows T [contracts, harness] pair)),
       (''docker-bake.hcl'', new_bake)]))))))))))))))))))))))"

section \<open>Synchronisation\<close>

definition mismatches :: "files \<Rightarrow> (string \<times> string) list \<Rightarrow> (string \<times> string) list" where
  "mismatches fs expected = filter (\<lambda>(p, content). map_of fs p \<noteq> Some content) expected"

text \<open>Write the temporary file beside the target, then replace the target with it.\<close>

definition write_replace :: "string \<Rightarrow> string \<Rightarrow> (files, unit) prog" where
  "write_replace p content =
     seqS (modifyS (dset (p @ ''.tmp'') content))
          (modifyS (\<lambda>fs. AList.delete (p @ ''.tmp'') (dset p content fs)))"

definition synchronize ::
  "tools \<Rightarrow> string \<Rightarrow> string \<Rightarrow> bool \<Rightarrow> bool \<Rightarrow> (files, unit) prog" where
  "synchronize T anchor workspace check refresh = (\<lambda>fs.
     (bindS (liftS (outputs T fs anchor workspace refresh)) (\<lambda>expected.
      let stale = mismatches fs expected in
      if check \<and> stale \<noteq> [] then
        raiseS ValueError (''stale foundation inputs: '' @ join_with '', '' (map fst stale))
      else forS (\<lambda>(p, content). write_replace p content) stale)) fs)"

text \<open>\<open>main\<close>: the exit code and what is printed.\<close>

datatype pins_mode = Check | RefreshBuildLock | PrintRevision | Sync

definition pins_main :: "tools \<Rightarrow> string \<Rightarrow> string \<Rightarrow> pins_mode \<Rightarrow> (files, int \<times> string) prog" where
  "pins_main T anchor workspace mode =
     catchS [OSError, ValueError, KeyError, CalledProcessError]
       (case mode of
          PrintRevision \<Rightarrow> (\<lambda>fs. (bindS (liftS (workspace_pin T fs)) (\<lambda>p. retS (0, pin_version p @ line_end))) fs)
        | _ \<Rightarrow> seqS (synchronize T anchor workspace (mode = Check) (mode = RefreshBuildLock)) (retS (0, [])))
       (\<lambda>e. retS (1, ''foundation pins: '' @ exc_msg e @ line_end))"

section \<open>Facts\<close>

text \<open>Occurrences of a marker: a text whose first character does not occur in it again.\<close>

fun occ :: "string \<Rightarrow> string \<Rightarrow> nat" where
  "occ p [] = 0"
| "occ p (c # s) = (if starts_with p (c # s) then 1 else 0) + occ p s"

lemma starts_with_Cons [simp]: "starts_with (c # p) (d # s) \<longleftrightarrow> c = d \<and> starts_with p s"
  by (auto simp: starts_with_iff)

lemma starts_with_Nil [simp]: "starts_with (c # p) [] = False"
  by (simp add: starts_with_iff)

lemma occ_skip: "c \<notin> set z \<Longrightarrow> occ (c # p) (z @ r) = occ (c # p) r"
  by (induction z) auto

lemma count_sub_occ:
  assumes "c \<notin> set p"
  shows "count_sub (c # p) s = occ (c # p) s"
proof (induction s rule: length_induct)
  case (1 s)
  show ?case
  proof (cases "starts_with (c # p) s")
    case True
    then obtain r where s: "s = c # p @ r" by (auto simp: starts_with_iff)
    have "count_sub (c # p) s = Suc (count_sub (c # p) r)"
      using s by (subst count_sub.simps) simp
    also have "count_sub (c # p) r = occ (c # p) (p @ r)"
      using 1 s assms by (simp add: occ_skip)
    finally show ?thesis using s by simp
  next
    case False
    then show ?thesis
      using 1 by (subst count_sub.simps) (auto split: list.splits)
  qed
qed

definition marks :: "char \<Rightarrow> string \<Rightarrow> bool" where
  "marks c y \<longleftrightarrow> (case y of [] \<Rightarrow> True | d # _ \<Rightarrow> d = c)"

lemma starts_with_before:
  assumes "c \<notin> set p" "marks c y"
  shows "starts_with p (x @ y) \<longleftrightarrow> starts_with p x"
  using assms(1)
proof (induction x arbitrary: p)
  case Nil
  then show ?case
    using assms(2) by (cases p; cases y) (auto simp: marks_def starts_with_iff)
next
  case (Cons d x)
  then show ?case by (cases p) (auto simp: starts_with_iff [of "[]"])
qed

lemma occ_append:
  assumes "c \<notin> set p" "marks c y"
  shows "occ (c # p) (x @ y) = occ (c # p) x + occ (c # p) y"
  by (induction x) (simp_all add: starts_with_before [OF assms])

lemma find_sub_append:
  assumes "c \<notin> set p" "marks c y" "occ (c # p) x = 0"
  shows "find_sub (c # p) (x @ y) = map_option (\<lambda>k. length x + k) (find_sub (c # p) y)"
  using assms(3)
proof (induction x)
  case (Cons d x)
  then show ?case
    by (cases "find_sub (c # p) y") (simp_all add: starts_with_before [OF assms(1,2)] split: if_splits)
qed (cases "find_sub (c # p) y"; simp)

lemma find_sub_here: "find_sub (c # p) (c # p @ r) = Some 0"
  by simp

lemma find_sub_Some:
  "find_sub (c # p) s = Some n \<Longrightarrow> \<exists>r. s = take n s @ c # p @ r \<and> n < length s"
proof (induction s arbitrary: n)
  case (Cons d s)
  then show ?case by (auto simp: starts_with_iff split: if_splits)
qed simp

lemma find_sub_None: "find_sub (c # p) s = None \<longleftrightarrow> occ (c # p) s = 0"
  by (induction s) auto

text \<open>The two markers of the Bake file, by their tails.\<close>

abbreviation hash :: char where "hash \<equiv> CHR ''#''"

definition begin_tail :: string where "begin_tail = '' FOUNDATION_GENERATED_START''"

definition end_tail :: string where "end_tail = '' FOUNDATION_GENERATED_END''"

lemma marker_shapes:
  "block_begin = hash # begin_tail" "block_end = hash # end_tail"
  "hash \<notin> set begin_tail" "hash \<notin> set end_tail"
  "\<not> starts_with end_tail (begin_tail @ r)" "\<not> starts_with begin_tail (end_tail @ r)"
  by (simp_all add: block_begin_def block_end_def begin_tail_def end_tail_def)

text \<open>A replacement block: the begin marker, text without a \<open>#\<close>, the end marker.\<close>

definition well_formed_block :: "string \<Rightarrow> bool" where
  "well_formed_block blk \<longleftrightarrow> (\<exists>mid. hash \<notin> set mid \<and> blk = block_begin @ mid @ block_end)"

lemma generated_block_well_formed:
  assumes "hash \<notin> set source" "hash \<notin> set contracts_source"
  shows "well_formed_block (generated_block source contracts_source)"
proof -
  have "hash \<notin> set (block_body source contracts_source)"
    using assms by (simp add: block_body_def line_end_def char_of_def)
  then show ?thesis unfolding well_formed_block_def generated_block_def by blast
qed

lemma replace_block_split:
  assumes "replace_block bake blk = Inr bake'" "well_formed_block blk"
    and order: "the (find_sub block_begin bake) < the (find_sub block_end bake)"
  shows "\<exists>pre post. bake' = pre @ blk @ post \<and>
    (\<forall>other. replace_block bake other = Inr (pre @ other @ post)) \<and>
    (\<forall>other. replace_block (pre @ blk @ post) other = Inr (pre @ other @ post))"
proof -
  note shapes = marker_shapes
  let ?b = "hash # begin_tail" and ?e = "hash # end_tail"
  from assms(1) have one: "occ ?b bake = 1" "occ ?e bake = 1"
    by (auto simp: replace_block_def unlessE_ok Let_def shapes count_sub_occ)
  then obtain n m where n: "find_sub ?b bake = Some n" and m: "find_sub ?e bake = Some m"
    by (metis find_sub_None not_None_eq one_neq_zero)
  with order have nm: "n < m" by (simp add: shapes)
  from find_sub_Some [OF n] obtain r where r: "bake = take n bake @ ?b @ r" by auto
  from find_sub_Some [OF m] obtain post where post: "bake = take m bake @ ?e @ post" and mlen: "m < length bake" by auto
  define pre q where "pre = take n bake" and "q = drop n (take m bake)"
  have split: "bake = pre @ q @ ?e @ post"
  proof -
    have "take n (take m bake) = pre" using nm by (simp add: pre_def min_def)
    then have "take m bake = pre @ q" by (metis append_take_drop_id q_def)
    with post show ?thesis by simp
  qed
  then have q: "q @ ?e @ post = ?b @ r"
    using r unfolding pre_def by (metis append_eq_conv_conj append_take_drop_id same_append_eq)
  have "q \<noteq> []" using nm mlen by (simp add: q_def)
  with q have marks_q: "marks hash (q @ x)" for x by (cases q) (auto simp: marks_def)
  have marks_e: "marks hash (?e @ x)" "marks hash (?b @ x)" for x by (simp_all add: marks_def)
  have count: "occ (hash # p) bake = occ (hash # p) pre + (occ (hash # p) q + occ (hash # p) (?e @ post))"
    if "hash \<notin> set p" for p
    unfolding split occ_append [OF that marks_q] occ_append [OF that marks_e(1)] ..
  have "starts_with ?b q"
    using q starts_with_before [OF _ marks_e(1), of ?b q] \<open>q \<noteq> []\<close>
      starts_with_before [OF shapes(3) marks_e(1), of "tl q"]
    by (cases q) (auto simp: starts_with_iff)
  then have "1 \<le> occ ?b q" by (cases q) auto
  moreover have "1 \<le> occ ?e (?e @ post)" by simp
  ultimately have zero: "occ ?b pre = 0" "occ ?b (?e @ post) = 0" "occ ?e pre = 0" "occ ?e (?e @ post) = 1"
    using one count [OF shapes(3)] count [OF shapes(4)] by simp_all
  obtain mid where mid: "hash \<notin> set mid" "blk = ?b @ mid @ ?e"
    using assms(2) by (auto simp: well_formed_block_def shapes)
  have new: "pre @ blk @ post = pre @ (?b @ mid) @ (?e @ post)" using mid by simp
  have count': "occ (hash # p) (pre @ blk @ post) =
      occ (hash # p) pre + (occ (hash # p) (?b @ mid) + occ (hash # p) (?e @ post))" if "hash \<notin> set p" for p
  proof -
    have "marks hash ((?b @ mid) @ (?e @ post))" by (simp add: marks_def)
    from occ_append [OF that this] occ_append [OF that marks_e(1)] show ?thesis
      unfolding new by metis
  qed
  have none: "occ (hash # p) (begin_tail @ mid) = 0" for p
    using occ_skip [OF shapes(3), of p mid] occ_skip [OF mid(1), of p "[]"] by simp
  have tails: "occ ?b (?b @ mid) = 1" "occ ?e (?b @ mid) = 0"
    using none [of begin_tail] none [of end_tail] shapes(5) [of mid] by simp_all
  have ones: "occ ?b (pre @ blk @ post) = 1" "occ ?e (pre @ blk @ post) = 1"
    using count' [OF shapes(3)] count' [OF shapes(4)] zero tails by simp_all
  have fb: "find_sub ?b (pre @ blk @ post) = Some (length pre)"
    using find_sub_append [OF shapes(3) _ zero(1), of "blk @ post"] mid by (simp add: marks_def)
  have "occ ?e (pre @ ?b @ mid) = 0"
    using occ_append [OF shapes(4) marks_e(2), of pre mid] zero tails by simp
  from find_sub_append [OF shapes(4) marks_e(1) this, of post]
  have fe: "find_sub ?e (pre @ blk @ post) = Some (length (pre @ ?b @ mid))"
    unfolding new by simp
  have drop_old: "drop (m + length block_end) bake = post"
    using arg_cong [OF post, of "drop (m + length block_end)"] mlen by (simp add: shapes)
  have old: "replace_block bake other = Inr (pre @ other @ post)" for other
    using one n m drop_old by (simp add: replace_block_def shapes count_sub_occ pre_def)
  have "replace_block (pre @ blk @ post) other = Inr (pre @ other @ post)" for other
    using ones fb fe mid by (simp add: replace_block_def shapes count_sub_occ)
  moreover have "bake' = pre @ blk @ post" using old [of blk] assms(1) by simp
  ultimately show ?thesis using old by blast
qed

text \<open>Sorting by a key that tells all elements apart ignores the order of the input.\<close>

lemma sort_key_set_unique:
  assumes "set xs = set ys" "distinct xs" "distinct ys" "inj_on f (set xs)"
  shows "sort_key f xs = sort_key f ys"
proof (rule map_sorted_distinct_set_unique [where f = f])
  show "inj_on f (set (sort_key f xs) \<union> set (sort_key f ys))" using assms by simp
  show "distinct (map f (sort_key f xs))" "distinct (map f (sort_key f ys))"
    using assms by (simp_all add: distinct_map)
qed (use assms in simp_all)

lemma outputs_paths:
  assumes "outputs T fs anchor workspace refresh = Inr expected"
  shows "map fst expected = [''config/foundation-lock.json'', ''docker/python/acceptance-observer.in'',
    ''docker/python/permit-preflight.in'', ''docker/python/acceptance-observer.lock'', ''docker/python/permit-preflight.lock'',
    ''docker/python/evidence-sink.in'', ''docker/python/evidence-sink.lock'', ''docker/python/foundation-build.in'',
    build_lock_path, ''docs/foundation-compatibility.md'', ''docker-bake.hcl'']"
  using assms by (auto simp: outputs_def Let_def bindE_ok unlessE_ok)

text \<open>Targets and temporary files that do not meet.\<close>

definition apart :: "string list \<Rightarrow> bool" where
  "apart ps \<longleftrightarrow> distinct ps \<and> list_all (\<lambda>p. p @ ''.tmp'' \<notin> set ps) ps"

lemma apart_filter: "apart (map fst xs) \<Longrightarrow> apart (map fst (filter P xs))"
proof -
  assume apart: "apart (map fst xs)"
  have "set (map fst (filter P xs)) \<subseteq> set (map fst xs)" by auto
  with apart show ?thesis
    unfolding apart_def list_all_iff by (blast intro: distinct_map_filter)
qed

lemma outputs_apart: "outputs T fs anchor workspace refresh = Inr expected \<Longrightarrow> apart (map fst expected)"
  unfolding apart_def outputs_paths by (simp add: build_lock_path_def)

lemma write_replace_run:
  "write_replace p content fs = (Inr (), AList.delete (p @ ''.tmp'') (dset p content (dset (p @ ''.tmp'') content fs)))"
  by (simp add: write_replace_def)

lemma write_replace_lookup:
  assumes "write_replace p content fs = (r, fs')"
  shows "map_of fs' q = (if q = p @ ''.tmp'' then None else if q = p then Some content else map_of fs q)"
  using assms by (auto simp: write_replace_run delete_conv' simp flip: delete_conv)

lemma forS_write_replace:
  assumes "forS (\<lambda>(p, content). write_replace p content) xs fs = (r, fs')" "apart (map fst xs)"
  shows "r = Inr () \<and> (\<forall>(p, content) \<in> set xs. map_of fs' p = Some content) \<and>
    (\<forall>q. q \<notin> fst ` set xs \<union> (\<lambda>x. fst x @ ''.tmp'') ` set xs \<longrightarrow> map_of fs' q = map_of fs q)"
  using assms
proof (induction xs arbitrary: fs)
  case (Cons x xs)
  obtain p content where x: "x = (p, content)" by fastforce
  obtain fs1 where first: "write_replace p content fs = (Inr (), fs1)" by (simp add: write_replace_run)
  with Cons.prems(1) x have rest: "forS (\<lambda>(p, content). write_replace p content) xs fs1 = (r, fs')"
    by (simp add: seqS_def bindS_def)
  have apart: "apart (map fst xs)" and new: "p \<notin> fst ` set xs \<union> (\<lambda>x. fst x @ ''.tmp'') ` set xs" "p @ ''.tmp'' \<notin> fst ` set xs"
    using Cons.prems(2) x by (auto simp: apart_def list_all_iff)
  note one = write_replace_lookup [OF first]
  note IH = Cons.IH [OF rest apart]
  have "map_of fs' p = Some content" using IH new(1) one [of p] by auto
  moreover have "map_of fs' q = map_of fs q"
    if "q \<notin> fst ` set (x # xs) \<union> (\<lambda>x. fst x @ ''.tmp'') ` set (x # xs)" for q
    using IH that one [of q] x by auto
  ultimately show ?case using IH x by auto
qed simp

section \<open>Properties\<close>

text \<open>
  C28: regenerating the Bake file is idempotent, and more: after a block was put in, putting in
  another one gives what the original file would have given, so nothing outside the block ever
  changes. The sources must not contain a hash sign, and the markers must be in order.
\<close>

theorem bake_regeneration_is_stable:
  assumes "replace_block bake (generated_block source contracts_source) = Inr bake'"
    and "hash \<notin> set source" "hash \<notin> set contracts_source"
    and "the (find_sub block_begin bake) < the (find_sub block_end bake)"
  shows "(\<forall>other. replace_block bake' other = replace_block bake other) \<and>
    (\<exists>pre post. bake' = pre @ generated_block source contracts_source @ post)"
  using replace_block_split [OF assms(1) generated_block_well_formed [OF assms(2,3)] assms(4)] by metis

definition sample_bake :: string where
  "sample_bake = ''x # y '' @ block_begin @ '' old '' @ block_end @ '' z''"

theorem bake_regeneration_is_stable_witness:
  "replace_block (''x # y '' @ generated_block ''u'' ''c'' @ '' z'') (generated_block ''v'' ''d'') =
     replace_block sample_bake (generated_block ''v'' ''d'')"
proof -
  have "replace_block sample_bake (generated_block ''u'' ''c'') = Inr (''x # y '' @ generated_block ''u'' ''c'' @ '' z'')"
    "the (find_sub block_begin sample_bake) < the (find_sub block_end sample_bake)"
    by code_simp+
  from bake_regeneration_is_stable [OF this(1) _ _ this(2)] show ?thesis by simp
qed

text \<open>A finding: with the markers in the other order the file is not refused but duplicated.\<close>

definition reversed_bake :: string where
  "reversed_bake = ''x '' @ block_end @ '' y '' @ block_begin @ '' z''"

lemma reversed_markers_duplicate:
  "replace_block reversed_bake ''B'' = Inr (''x '' @ block_end @ '' y B y '' @ block_begin @ '' z'')"
  by code_simp

text \<open>
  The text of a requirements input does not depend on the order in which a set of requirements
  is enumerated, when no two of them differ only in case.
\<close>

theorem requirement_text_ignores_set_order:
  assumes "set (set_order T deps) = set deps" "distinct (set_order T deps)"
    and "set (set_order T' deps) = set deps" "distinct (set_order T' deps)"
    and "inj_on lower (set deps)"
  shows "requirement_text T deps = requirement_text T' deps"
  using sort_key_set_unique [of "set_order T deps" "set_order T' deps" lower] assms
  by (simp add: requirement_text_def)

definition sample_tools :: tools where
  "sample_tools = \<lparr>git = (\<lambda>_. Inr ''h''), uv = (\<lambda>_ _. Inr []), json_loads = (\<lambda>_. Inr JNull), toml_loads = (\<lambda>_. Inr JNull),
     json_dumps = (\<lambda>_. []), sha_hex = (\<lambda>b. b), str_of = (\<lambda>_. []), set_order = remdups\<rparr>"

theorem requirement_text_ignores_set_order_witness:
  "requirement_text sample_tools [''b'', ''A''] = requirement_text (sample_tools\<lparr>set_order := rev \<circ> remdups\<rparr>) [''b'', ''A'']"
proof -
  have "lower ''b'' \<noteq> lower ''A''" by code_simp
  then have "inj_on lower (set [''b'', ''A''])" by (simp add: inj_on_def)
  from requirement_text_ignores_set_order [OF _ _ _ _ this, of sample_tools "sample_tools\<lparr>set_order := rev \<circ> remdups\<rparr>"]
  show ?thesis by (simp add: sample_tools_def insert_commute)
qed

text \<open>A finding: requirements that differ only in case keep the order of the set.\<close>

lemma requirement_text_case_variants:
  "requirement_text sample_tools [''Foo'', ''foo''] \<noteq>
   requirement_text (sample_tools\<lparr>set_order := rev \<circ> remdups\<rparr>) [''Foo'', ''foo'']"
  by code_simp

text \<open>
  C29: a synchronisation that returns leaves every derived file with its expected content, so that
  nothing is stale any more, and no temporary file; files that are not derived are untouched. In
  check mode nothing is written at all, and it returns only when nothing was stale.
\<close>

theorem synchronized_files_are_current:
  assumes "synchronize T anchor workspace check refresh fs = (Inr (), fs')"
  shows "\<exists>expected. outputs T fs anchor workspace refresh = Inr expected \<and> mismatches fs' expected = [] \<and>
    (\<forall>q. q \<notin> fst ` set expected \<union> (\<lambda>x. fst x @ ''.tmp'') ` set expected \<longrightarrow> map_of fs' q = map_of fs q) \<and>
    (check \<longrightarrow> fs' = fs)"
proof -
  from assms obtain expected where expected: "outputs T fs anchor workspace refresh = Inr expected"
    by (auto simp: synchronize_def bindS_ok pure_ok)
  let ?stale = "mismatches fs expected"
  have sub: "set ?stale \<subseteq> set expected" by (auto simp: mismatches_def)
  have apart: "apart (map fst expected)" using outputs_apart [OF expected] .
  then have apart': "apart (map fst ?stale)"
    unfolding mismatches_def by (rule apart_filter)
  show ?thesis
  proof (cases "check \<and> ?stale \<noteq> []")
    case True
    with assms expected show ?thesis by (simp add: synchronize_def)
  next
    case False
    with assms expected have run: "forS (\<lambda>(p, content). write_replace p content) ?stale fs = (Inr (), fs')"
      by (simp add: synchronize_def)
    note done_all = forS_write_replace [OF run apart']
    have "map_of fs' p = Some content" if mem: "(p, content) \<in> set expected" for p content
    proof (cases "(p, content) \<in> set ?stale")
      case True
      with done_all show ?thesis by auto
    next
      case False
      with mem have now: "map_of fs p = Some content" by (auto simp: mismatches_def)
      have "p \<notin> fst ` set ?stale"
      proof
        assume "p \<in> fst ` set ?stale"
        then obtain c where "(p, c) \<in> set ?stale" by auto
        with sub mem apart have "c = content"
          by (metis apart_def eq_key_imp_eq_value subsetD)
        with \<open>(p, c) \<in> set ?stale\<close> False show False by simp
      qed
      moreover have "p \<notin> (\<lambda>x. fst x @ ''.tmp'') ` set ?stale"
      proof
        assume "p \<in> (\<lambda>x. fst x @ ''.tmp'') ` set ?stale"
        then obtain x where x: "x \<in> set expected" "p = fst x @ ''.tmp''" using sub by auto
        have "p \<in> set (map fst expected)" using mem by force
        with apart x show False unfolding apart_def list_all_iff by auto
      qed
      ultimately show ?thesis using done_all now by auto
    qed
    then have "mismatches fs' expected = []" by (auto simp: mismatches_def filter_empty_conv)
    moreover have "\<forall>q. q \<notin> fst ` set expected \<union> (\<lambda>x. fst x @ ''.tmp'') ` set expected \<longrightarrow> map_of fs' q = map_of fs q"
      using done_all sub by blast
    moreover have "check \<longrightarrow> fs' = fs" using False run by auto
    ultimately show ?thesis using expected by blast
  qed
qed

definition sample_revision :: string where
  "sample_revision = replicate 40 (CHR ''1'')"

definition sample_project :: "string \<Rightarrow> json" where
  "sample_project name = JObj [
     (''project'', JObj [(''name'', JStr name), (''version'', JStr ''1.2.3''),
        (''dependencies'', JList [JStr ''robotics_runtime.contracts>=1'', JStr ''jsonschema'']),
        (''optional-dependencies'', JObj [(''mcap'', JList [JStr ''mcap''])])]),
     (''build-system'', JObj [(''requires'', JList [JStr ''hatchling''])])]"

definition sample_lock :: json where
  "sample_lock = JObj [(''package'', JList (map (\<lambda>(d, n). JObj [(''name'', JStr n), (''version'', JStr ''1.2.3''),
     (''source'', JObj [(''editable'', JStr (''packages/'' @ d))])]) packages_names))]"

definition repository_tools :: tools where
  "repository_tools = sample_tools\<lparr>
     git := (\<lambda>args. Inr (if take 2 args = [''show'', ''-s''] then ''7''
                        else if ends_with ''contracts/pyproject.toml'' (last args) then ''C''
                        else if ends_with ''harness/pyproject.toml'' (last args) then ''H''
                        else if ends_with '':uv.lock'' (last args) then ''L'' else sample_revision)),
     toml_loads := (\<lambda>t. Inr (if t = ''C'' then sample_project contracts_name
                            else if t = ''H'' then sample_project harness_name else sample_lock)),
     json_loads := (\<lambda>_. Inr (JObj [
        (''repositories'', JObj [(''robotics-runtime'', JObj [(''type'', JStr ''git''), (''url'', JStr ''https://github.com/.git''),
           (''version'', JStr sample_revision), (''release'', JStr ''harness-v1.2.3'')])]),
        (''core'', JObj [(''repository'', JStr [])])]))\<rparr>"

definition sample_files :: files where
  "sample_files = [(''foundation.repos'', []), (''config/trust/identities.json'', []), (''docker-bake.hcl'', sample_bake)]"

theorem synchronized_files_are_current_witness:
  "\<exists>fs expected. synchronize repository_tools ''/r'' ''/w'' False False sample_files = (Inr (), fs) \<and>
    outputs repository_tools sample_files ''/r'' ''/w'' False = Inr expected \<and> mismatches fs expected = []"
proof -
  have "is_ok (outputs repository_tools sample_files ''/r'' ''/w'' False)" by code_simp
  then obtain expected where expected: "outputs repository_tools sample_files ''/r'' ''/w'' False = Inr expected"
    by (auto simp: is_ok_iff)
  have "apart (map fst (mismatches sample_files expected))"
    unfolding mismatches_def using outputs_apart [OF expected] by (rule apart_filter)
  obtain r fs where run: "forS (\<lambda>(p, content). write_replace p content) (mismatches sample_files expected) sample_files = (r, fs)"
    by fastforce
  from forS_write_replace [OF run \<open>apart _\<close>] run expected
  have "synchronize repository_tools ''/r'' ''/w'' False False sample_files = (Inr (), fs)"
    by (simp add: synchronize_def)
  from synchronized_files_are_current [OF this] this expected show ?thesis by auto
qed

text \<open>
  C39: when the outputs are derived for a release, its tags were checked: the release tag is the
  pinned commit and carries the harness version, and the contracts are built from their own tag,
  whose source tree and metadata are those of the pinned commit.
\<close>

theorem release_tags_bind_the_sources:
  assumes "release_pair T revision release contracts harness = Inr (tag, contracts', harness')"
  shows "git_line T [''rev-parse'', ''refs/tags/'' @ release @ ''^{commit}''] = Inr revision \<and>
    (\<exists>v. release_version release = Some v \<and> p_version harness = JStr v) \<and>
    tag = ''contracts-v'' @ str_of T (p_version contracts) \<and>
    git_line T [''rev-parse'', ''refs/tags/'' @ tag @ ''^{commit}''] = Inr (p_revision contracts') \<and>
    (\<exists>tree_id. git T [''rev-parse'', p_revision contracts' @ '':'' @ p_path contracts @ ''/src''] = Inr tree_id \<and>
       git T [''rev-parse'', revision @ '':'' @ p_path contracts @ ''/src''] = Inr tree_id) \<and>
    (\<exists>metadata. git T [''show'', p_revision contracts' @ '':'' @ p_path contracts @ ''/pyproject.toml''] = Inr metadata \<and>
       git T [''show'', revision @ '':'' @ p_path contracts @ ''/pyproject.toml''] = Inr metadata) \<and>
    p_release contracts' = Some tag \<and> p_release harness' = Some release"
  using assms by (auto simp: release_pair_def Let_def bindE_ok unlessE_ok split: option.splits)

definition sample_package :: "string \<Rightarrow> package" where
  "sample_package d = \<lparr>distribution = d, p_version = JStr ''1.2.3'', p_path = ''packages/'' @ d, p_revision = sample_revision,
     git_tree = [], source_date_epoch = 0, uv_lock_sha256 = [], p_release = None\<rparr>"

theorem release_tags_bind_the_sources_witness:
  "\<exists>tag c h v. release_pair repository_tools sample_revision ''harness-v1.2.3'' (sample_package ''contracts'') (sample_package ''harness'')
      = Inr (tag, c, h) \<and> release_version ''harness-v1.2.3'' = Some v \<and> p_release h = Some ''harness-v1.2.3''"
proof -
  have "is_ok (release_pair repository_tools sample_revision ''harness-v1.2.3'' (sample_package ''contracts'') (sample_package ''harness''))"
    by code_simp
  then obtain tag c h where run:
      "release_pair repository_tools sample_revision ''harness-v1.2.3'' (sample_package ''contracts'') (sample_package ''harness'')
        = Inr (tag, c, h)"
    by (auto simp: is_ok_iff)
  from release_tags_bind_the_sources [OF run] run show ?thesis by auto
qed

text \<open>
  The command ends with exit code 0 or 1 unless it meets an error it does not handle; with 1
  it reports the error, and in check mode or when it prints the revision it changes no file.
\<close>

theorem pins_main_keeps_files:
  assumes "pins_main T anchor workspace mode fs = (Inr (code, text), fs')" and "mode \<in> {Check, PrintRevision}"
  shows "fs' = fs \<and> (code = 0 \<or> code = 1)"
proof -
  have check: "synchronize T anchor workspace True refresh fs = (r, fs1) \<Longrightarrow> fs1 = fs" for refresh r fs1
    by (cases "outputs T fs anchor workspace refresh") (auto simp: synchronize_def bindS_def Let_def split: if_splits)
  obtain r fs1 where run: "synchronize T anchor workspace True False fs = (r, fs1)" by fastforce
  from assms check [OF run] run show ?thesis
    by (cases "workspace_pin T fs"; cases r)
       (auto simp: pins_main_def catchS_def bindS_def seqS_def split: if_splits)
qed

theorem pins_main_keeps_files_witness:
  "pins_main sample_tools ''/r'' ''/w'' Check [] = (Inr (1, ''foundation pins: foundation.repos'' @ line_end), [])"
proof -
  have "fst (pins_main sample_tools ''/r'' ''/w'' Check []) = Inr (1, ''foundation pins: foundation.repos'' @ line_end)"
    by code_simp
  then obtain fs where run: "pins_main sample_tools ''/r'' ''/w'' Check [] = (Inr (1, ''foundation pins: foundation.repos'' @ line_end), fs)"
    by (metis prod.collapse)
  from pins_main_keeps_files [OF this] run show ?thesis by simp
qed

end
