(* ===== verification/Py_Host.thy ===== *)
theory Py_Host
  imports Py_Paths
begin

text \<open>
  Programs that work through other software: a \<open>host\<close> answers the calls of a component (the
  operating system, the contract library, a native reader), each with a value or an exception, and
  moves the outer world on. The component's state is that world and the list of the calls made so
  far with their answers; the properties read that list, so they say in which order the component
  did what, and on which answers it relied.
\<close>

type_synonym ('c, 'w) host = "'c \<Rightarrow> 'w \<Rightarrow> json res \<times> 'w"

record ('c, 'w) desk =
  outside :: 'w
  asked :: "('c \<times> json res) list"

definition new_desk :: "'w \<Rightarrow> ('c, 'w) desk" where
  "new_desk w = \<lparr>outside = w, asked = []\<rparr>"

definition call :: "('c, 'w) host \<Rightarrow> 'c \<Rightarrow> (('c, 'w, 'z) desk_scheme, json) prog" where
  "call host c = (\<lambda>s. case host c (outside s) of (r, w) \<Rightarrow> (r, s\<lparr>outside := w, asked := asked s @ [(c, r)]\<rparr>))"

definition perform :: "('c, 'w) host \<Rightarrow> 'c \<Rightarrow> (('c, 'w, 'z) desk_scheme, unit) prog" where
  "perform host c = seqS (call host c) (retS ())"

definition call_text :: "('c, 'w) host \<Rightarrow> 'c \<Rightarrow> (('c, 'w, 'z) desk_scheme, string) prog" where
  "call_text host c = bindS (call host c) (\<lambda>v. liftS (of_option TypeError ''text expected'' (as_str v)))"

definition call_bool :: "('c, 'w) host \<Rightarrow> 'c \<Rightarrow> (('c, 'w, 'z) desk_scheme, bool) prog" where
  "call_bool host c = bindS (call host c) (\<lambda>v. retS (truthy v))"

definition call_int :: "('c, 'w) host \<Rightarrow> 'c \<Rightarrow> (('c, 'w, 'z) desk_scheme, int) prog" where
  "call_int host c = bindS (call host c) (\<lambda>v. liftS (of_option TypeError ''integer expected'' (as_int v)))"

text \<open>The call was made and answered \<open>v\<close>.\<close>

definition answered :: "('c, 'w, 'z) desk_scheme \<Rightarrow> 'c \<Rightarrow> json \<Rightarrow> bool" where
  "answered s c v \<longleftrightarrow> (c, Inr v) \<in> set (asked s)"

lemma call_run:
  "call host c s = (Inr v, t) \<longleftrightarrow>
   (\<exists>w. host c (outside s) = (Inr v, w) \<and> t = s\<lparr>outside := w, asked := asked s @ [(c, Inr v)]\<rparr>)"
  by (auto simp: call_def split: prod.splits)

lemma call_ok [ok_iff]:
  fixes s t :: "('c, 'w) desk"
  shows "call host c s = (Inr v, t) \<longleftrightarrow>
    host c (outside s) = (Inr v, outside t) \<and> asked t = asked s @ [(c, Inr v)]"
  by (cases s; cases t) (auto simp: call_run)

lemma perform_ok [ok_iff]: "perform host c s = (Inr u, t) \<longleftrightarrow> (\<exists>v. call host c s = (Inr v, t))"
  by (auto simp: perform_def ok_iff)

lemma call_typed_ok [ok_iff]:
  "call_text host c s = (Inr x, t) \<longleftrightarrow> call host c s = (Inr (JStr x), t)"
  "call_int host c s = (Inr i, t) \<longleftrightarrow> call host c s = (Inr (JInt i), t)"
  "call_bool host c s = (Inr b, t) \<longleftrightarrow> (\<exists>v. call host c s = (Inr v, t) \<and> b = truthy v)"
  by (auto simp: call_text_def call_int_def call_bool_def ok_iff)

text \<open>Nothing is taken back: a part of the program only adds calls, of the kinds \<open>C\<close>.\<close>

definition adds :: "('c \<Rightarrow> bool) \<Rightarrow> (('c, 'w, 'z) desk_scheme, 'a) prog \<Rightarrow> bool" where
  "adds C m \<longleftrightarrow> (\<forall>s. \<exists>new. asked (snd (m s)) = asked s @ new \<and> list_all (C \<circ> fst) new)"

lemma addsD: "adds C m \<Longrightarrow> m s = (r, t) \<Longrightarrow> \<exists>new. asked t = asked s @ new \<and> list_all (C \<circ> fst) new"
  by (metis adds_def snd_conv)

lemma adds_call [keeps]: "C c \<Longrightarrow> adds C (call host c)"
  by (auto simp: adds_def call_def split: prod.splits)

lemma adds_pure [keeps]:
  "adds C (retS a)" "adds C (liftS r)" "adds C (raiseS k msg)" "adds C (getS g)"
  by (simp_all add: adds_def getS_def)

lemma adds_bindS [keeps]:
  assumes m: "adds C m" and f: "\<And>a. adds C (f a)"
  shows "adds C (bindS m f)"
  unfolding adds_def
proof
  fix s
  obtain r u where run: "m s = (r, u)" by fastforce
  from addsD [OF m run] obtain new where new: "asked u = asked s @ new" "list_all (C \<circ> fst) new" by blast
  show "\<exists>new. asked (snd (bindS m f s)) = asked s @ new \<and> list_all (C \<circ> fst) new"
  proof (cases r)
    case (Inr a)
    obtain r' t where run': "f a u = (r', t)" by fastforce
    from addsD [OF f run'] obtain new' where "asked t = asked u @ new'" "list_all (C \<circ> fst) new'" by blast
    with new Inr run run' show ?thesis by (intro exI [of _ "new @ new'"]) (simp add: bindS_def)
  qed (use new run in \<open>simp add: bindS_def\<close>)
qed

lemma adds_seqS [keeps]: "adds C m \<Longrightarrow> adds C n \<Longrightarrow> adds C (seqS m n)"
  unfolding seqS_def by (rule adds_bindS)

lemma adds_calls [keeps]:
  assumes "C c"
  shows "adds C (perform host c)" "adds C (call_text host c)" "adds C (call_bool host c)" "adds C (call_int host c)"
  using assms by (auto simp: perform_def call_text_def call_bool_def call_int_def intro!: keeps)

lemma adds_if [keeps]: "adds C m \<Longrightarrow> adds C n \<Longrightarrow> adds C (if c then m else n)"
  by simp

lemma adds_mapS [keeps]: "(\<And>x. x \<in> set xs \<Longrightarrow> adds C (f x)) \<Longrightarrow> adds C (mapS f xs)"
  by (induction xs) (auto intro!: keeps)

lemma adds_forS [keeps]: "(\<And>x. x \<in> set xs \<Longrightarrow> adds C (f x)) \<Longrightarrow> adds C (forS f xs)"
  by (induction xs) (auto intro: keeps)

fun foldS :: "('a \<Rightarrow> 'b \<Rightarrow> ('s, 'b) prog) \<Rightarrow> 'a list \<Rightarrow> 'b \<Rightarrow> ('s, 'b) prog" where
  "foldS f [] acc = retS acc"
| "foldS f (x # xs) acc = bindS (f x acc) (foldS f xs)"

lemma adds_foldS [keeps]: "(\<And>x acc. x \<in> set xs \<Longrightarrow> adds C (f x acc)) \<Longrightarrow> adds C (foldS f xs acc)"
  by (induction xs arbitrary: acc) (auto intro!: keeps)

lemma adds_finallyS [keeps]:
  assumes m: "adds C m" and f: "adds C f"
  shows "adds C (finallyS m f)"
  unfolding adds_def
proof
  fix s
  obtain r u where run: "m s = (r, u)" by fastforce
  obtain r' t where final: "f u = (r', t)" by fastforce
  from addsD [OF m run] addsD [OF f final] show "\<exists>new. asked (snd (finallyS m f s)) = asked s @ new \<and> list_all (C \<circ> fst) new"
    by (auto simp: finallyS_def run final split: sum.splits)
qed

lemma adds_catchS [keeps]:
  assumes m: "adds C m" and h: "\<And>e. adds C (h e)"
  shows "adds C (catchS ks m h)"
  unfolding adds_def
proof
  fix s
  obtain r u where run: "m s = (r, u)" by fastforce
  show "\<exists>new. asked (snd (catchS ks m h s)) = asked s @ new \<and> list_all (C \<circ> fst) new"
  proof (cases "\<exists>e. r = Inl e \<and> caught_by ks e")
    case True
    then obtain e where e: "r = Inl e" "caught_by ks e" by blast
    obtain r' t where "h e u = (r', t)" by fastforce
    with addsD [OF m run] addsD [OF h this] run e show ?thesis by (auto simp: catchS_def)
  next
    case False
    with addsD [OF m run] run show ?thesis by (cases r) (auto simp: catchS_def)
  qed
qed

lemma adds_modifyS [keeps]: "(\<And>s. asked (f s) = asked s) \<Longrightarrow> adds C (modifyS f)"
  by (simp add: adds_def)

lemma answered_later: "adds C m \<Longrightarrow> m s = (r, t) \<Longrightarrow> answered s c v \<Longrightarrow> answered t c v"
  using addsD by (fastforce simp: answered_def)

text \<open>A later state has made all the calls of an earlier one.\<close>

definition later :: "('c, 'w, 'z) desk_scheme \<Rightarrow> ('c, 'w, 'z) desk_scheme \<Rightarrow> bool" where
  "later s t \<longleftrightarrow> (\<exists>new. asked t = asked s @ new)"

lemma later_run: "adds C m \<Longrightarrow> m s = (r, t) \<Longrightarrow> later s t"
  using addsD unfolding later_def by blast

lemma later_trans: "later s t \<Longrightarrow> later t u \<Longrightarrow> later s u"
  unfolding later_def by force

lemma later_answered: "later s t \<Longrightarrow> answered s c v \<Longrightarrow> answered t c v"
  by (auto simp: later_def answered_def)

text \<open>Python's \<open>or\<close>, and \<open>any\<close> over a list, on tests that may raise.\<close>

definition orE :: "bool res \<Rightarrow> bool res \<Rightarrow> bool res" where
  "orE m n = bindE m (\<lambda>b. if b then Inr True else n)"

fun anyE :: "('a \<Rightarrow> bool res) \<Rightarrow> 'a list \<Rightarrow> bool res" where
  "anyE f [] = Inr False"
| "anyE f (x # xs) = orE (f x) (anyE f xs)"

text \<open>\<open>if test: raise\<close> in front of the rest of a function body.\<close>

definition refuseE :: "bool res \<Rightarrow> exc_kind \<Rightarrow> string \<Rightarrow> 'a res \<Rightarrow> 'a res" where
  "refuseE test k msg rest = bindE test (\<lambda>bad. unlessE bad k msg rest)"

lemma orE_False [ok_iff]: "orE m n = Inr False \<longleftrightarrow> m = Inr False \<and> n = Inr False"
  by (auto simp: orE_def bindE_def split: sum.splits)

lemma anyE_False [ok_iff]: "anyE f xs = Inr False \<longleftrightarrow> (\<forall>x \<in> set xs. f x = Inr False)"
  by (induction xs) (auto simp: ok_iff)

lemma refuseE_ok [ok_iff]: "refuseE test k msg rest = Inr r \<longleftrightarrow> test = Inr False \<and> rest = Inr r"
  by (auto simp: refuseE_def ok_iff)

section \<open>Runs on fixed answers\<close>

text \<open>A host without a state, and the value a program returns with it from every state.\<close>

definition steady :: "('c \<Rightarrow> json) \<Rightarrow> ('c, unit) host" where
  "steady answer = (\<lambda>c w. (Inr (answer c), w))"

definition yields :: "(('c, unit) desk, 'a) prog \<Rightarrow> 'a \<Rightarrow> bool" where
  "yields m a \<longleftrightarrow> (\<forall>s. fst (m s) = Inr a)"

lemma yieldsD: "yields m a \<Longrightarrow> \<exists>t. m s = (Inr a, t)"
  by (metis yields_def surjective_pairing)

lemma yields_pure: "yields (retS a) a" "r = Inr a \<Longrightarrow> yields (liftS r) a" "yields (getS (\<lambda>s. g (outside s))) (g ())"
  by (simp_all add: yields_def getS_def)

lemma yields_bind: "yields m a \<Longrightarrow> yields (f a) b \<Longrightarrow> yields (bindS m f) b"
  unfolding yields_def bindS_def by (metis (no_types, lifting) case_prod_beta old.sum.simps(6))

lemma yields_seq: "yields m a \<Longrightarrow> yields n b \<Longrightarrow> yields (seqS m n) b"
  unfolding seqS_def by (rule yields_bind)

lemma yields_call: "answer c = v \<Longrightarrow> yields (call (steady answer) c) v"
  by (simp add: yields_def call_def steady_def)

lemma yields_perform: "yields (perform (steady answer) c) ()"
  by (simp add: yields_def perform_def seqS_def bindS_def call_def steady_def)

lemma yields_typed:
  "answer c = JStr x \<Longrightarrow> yields (call_text (steady answer) c) x"
  "answer c = v \<Longrightarrow> yields (call_bool (steady answer) c) (truthy v)"
  "answer c = JInt i \<Longrightarrow> yields (call_int (steady answer) c) i"
  by (simp_all add: yields_def call_text_def call_bool_def call_int_def bindS_def call_def steady_def)

lemma yields_finally: "yields m a \<Longrightarrow> yields f () \<Longrightarrow> yields (finallyS m f) a"
  unfolding yields_def finallyS_def by (auto split: prod.splits sum.splits) (metis fst_conv sum.distinct(1))+

lemma yields_mapS_Nil: "yields (mapS f []) []"
  by (simp add: yields_def)

lemma yields_mapS_Cons: "yields (f x) y \<Longrightarrow> yields (mapS f xs) ys \<Longrightarrow> yields (mapS f (x # xs)) (y # ys)"
  unfolding mapS.simps by (erule yields_bind, erule yields_bind, rule yields_pure)

lemma yields_forS_Nil: "yields (forS f []) ()"
  by (simp add: yields_def)

lemma yields_forS_Cons: "yields (f x) () \<Longrightarrow> yields (forS f xs) () \<Longrightarrow> yields (forS f (x # xs)) ()"
  unfolding forS.simps by (rule yields_seq)

lemma yields_foldS_Nil: "yields (foldS f [] acc) acc"
  by (simp add: yields_def)

lemma yields_foldS_Cons: "yields (f x acc) acc' \<Longrightarrow> yields (foldS f xs acc') b \<Longrightarrow> yields (foldS f (x # xs) acc) b"
  unfolding foldS.simps by (rule yields_bind)

lemmas yields_rules = yields_pure yields_bind yields_seq yields_perform yields_finally
  yields_mapS_Nil yields_mapS_Cons yields_forS_Nil yields_forS_Cons yields_foldS_Nil yields_foldS_Cons

end
