(* ===== verification/Playback_Sources.thy ===== *)
theory Playback_Sources
  imports Py_Host Py_Codec
begin

text \<open>
  The first half of \<open>scripts/ci/integration/prepare-playback-inputs.py\<close>: what is read from a
  completed source run (\<open>source_capture\<close> and \<open>finalized_recording\<close>), the retention of one
  file (\<open>copy_input\<close>) and the scan of the recorded messages (\<open>scan_recording\<close>). The file
  system, the contract library and the recording readers are the calls \<open>playcall\<close> of a host; a
  recording is the sequence of its messages, decoded by the functions of \<open>player\<close>.
\<close>

section \<open>The host\<close>

datatype playcall =
    ReadDocument path | LoadsMapping bytes | ValidateDocument json "string option" json
  | ReadFile path | Stat path | IsLink path | IsFile path | Resolve path | RGlob path string | Glob path string
  | MakeParents path | MakeDir path | CopyFile path path | WriteText path string | Chmod path
  | WriteDocument json path "string option" json
  | LoadSchemas "string list" | MetadataRecords path json
  | ValidateBagSummaries json "json list" | ValidateBagMetadata json json "json list" json
  | OpenReader path | SetReadOrder | CloseReader

type_synonym message = "string \<times> bytes \<times> int"

record 'w player =
  host :: "(playcall, 'w) host"
  recorded :: "'w \<Rightarrow> message list"
  clock_of :: "bytes \<Rightarrow> (int \<times> int) res"
  uint64_of :: "bytes \<Rightarrow> int res"
  sha :: "bytes \<Rightarrow> string"
  dumps :: "json \<Rightarrow> string"
  cwd :: path

type_synonym ('w, 'a) io = "((playcall, 'w) desk, 'a) prog"

definition message_type :: string where
  "message_type = ''std_msgs/msg/UInt64''"

text \<open>Paths the host answers with.\<close>

fun json_path :: "json \<Rightarrow> path res" where
  "json_path (JStr s) = Inr (pure_parts s)"
| "json_path _ = raise TypeError ''path expected''"

definition call_paths :: "'w player \<Rightarrow> playcall \<Rightarrow> ('w, path list) io" where
  "call_paths R c = bindS (call (host R) c) (\<lambda>v. liftS (bindE (as_list v) (mapE json_path)))"

definition call_path :: "'w player \<Rightarrow> playcall \<Rightarrow> ('w, path) io" where
  "call_path R c = bindS (call (host R) c) (\<lambda>v. liftS (json_path v))"

definition captured_document :: "'w player \<Rightarrow> path \<Rightarrow> ('w, json \<times> bytes) io" where
  "captured_document R p =
     bindS (call_text (host R) (ReadDocument p)) (\<lambda>raw.
     bindS (call (host R) (LoadsMapping raw)) (\<lambda>document.
     retS (document, raw)))"

definition sha256 :: "'w player \<Rightarrow> path \<Rightarrow> ('w, string) io" where
  "sha256 R p = bindS (call_text (host R) (ReadFile p)) (\<lambda>content. retS (sha R content))"

text \<open>\<open>stat().st_size\<close>; a \<open>Stat\<close> answers size, modification and change time.\<close>

definition stat_size :: "'w player \<Rightarrow> path \<Rightarrow> ('w, json) io" where
  "stat_size R p = bindS (call (host R) (Stat p)) (\<lambda>v. liftS (case v of JList (n # _) \<Rightarrow> Inr n | _ \<Rightarrow> raise TypeError ''stat''))"

definition refuse :: "bool \<Rightarrow> string \<Rightarrow> ('s, unit) prog" where
  "refuse bad msg = liftS (unlessE bad ValueError msg (Inr ()))"

definition copy_input :: "'w player \<Rightarrow> path \<Rightarrow> path \<Rightarrow> ('w, unit) io" where
  "copy_input R src dst =
     bindS (call_bool (host R) (IsLink src)) (\<lambda>link.
     bindS (if link then retS True else bindS (call_bool (host R) (IsFile src)) (\<lambda>b. retS (\<not> b))) (\<lambda>irregular.
     seqS (refuse irregular ''capture inputs must be regular files'')
    (seqS (perform (host R) (MakeParents (path_parent dst)))
    (bindS (call (host R) (Stat src)) (\<lambda>before.
     bindS (sha256 R src) (\<lambda>digest.
     seqS (perform (host R) (CopyFile src dst))
    (bindS (call (host R) (Stat src)) (\<lambda>after.
     if \<not> py_eq before after then raiseS ValueError ''capture input changed during retention''
     else bindS (sha256 R dst) (\<lambda>copied.
       refuse (copied \<noteq> digest) ''capture input changed during retention'')))))))))"

section \<open>The scan\<close>

record scan_state =
  first_ns :: "int option"
  last_ns :: "int option"
  first_clock :: "int option"
  previous_clock :: "int option"
  message_count :: nat
  clock_samples :: nat
  total_count :: nat

definition empty_scan :: scan_state where
  "empty_scan = \<lparr>first_ns = None, last_ns = None, first_clock = None, previous_clock = None,
     message_count = 0, clock_samples = 0, total_count = 0\<rparr>"

definition or_else :: "'a option \<Rightarrow> 'a \<Rightarrow> 'a option" where
  "or_else x d = (case x of None \<Rightarrow> Some d | Some _ \<Rightarrow> x)"

definition clock_value :: "int \<times> int \<Rightarrow> int" where
  "clock_value c = fst c * 1000000000 + snd c"

definition before_last :: "int \<Rightarrow> int option \<Rightarrow> bool" where
  "before_last x limit = (case limit of None \<Rightarrow> False | Some l \<Rightarrow> x < l)"

definition scan_message ::
  "(bytes \<Rightarrow> (int \<times> int) res) \<Rightarrow> (bytes \<Rightarrow> int res) \<Rightarrow> string \<Rightarrow> message \<Rightarrow> scan_state \<Rightarrow> scan_state res" where
  "scan_message clock uint64 topic = (\<lambda>(name, raw, timestamp) s0.
     let s = s0\<lparr>total_count := total_count s0 + 1\<rparr> in
     if name = ''/clock'' then
       bindE (clock raw) (\<lambda>stamp.
       let value = clock_value stamp in
       unlessE (before_last value (previous_clock s)) ValueError ''stock capture contains a reset or backward ROS clock''
      (Inr (s\<lparr>first_clock := or_else (first_clock s) value, previous_clock := Some value,
              clock_samples := clock_samples s + 1\<rparr>)))
     else if name = topic then
       bindE (uint64 raw) (\<lambda>_.
       unlessE (before_last timestamp (last_ns s)) ValueError ''stock UInt64 recording time is not monotonic''
      (Inr (s\<lparr>first_ns := or_else (first_ns s) timestamp, last_ns := Some timestamp,
              message_count := message_count s + 1\<rparr>)))
     else Inr s)"

definition advancing :: "int option \<Rightarrow> int option \<Rightarrow> bool" where
  "advancing began ended = (case (began, ended) of (Some a, Some b) \<Rightarrow> a < b | _ \<Rightarrow> False)"

record scan =
  sc_first :: int
  sc_last :: int
  sc_messages :: nat
  sc_clocks :: nat
  sc_total :: nat

definition finish_scan :: "scan_state \<Rightarrow> scan res" where
  "finish_scan s =
     unlessE (\<not> advancing (first_ns s) (last_ns s) \<or> message_count s < 2 \<or> clock_samples s < 2 \<or>
              \<not> advancing (first_clock s) (previous_clock s))
       ValueError ''stock capture needs advancing Clock and UInt64 samples''
    (Inr \<lparr>sc_first = the (first_ns s), sc_last = the (last_ns s), sc_messages = message_count s,
          sc_clocks = clock_samples s, sc_total = total_count s\<rparr>)"

definition scan_messages ::
  "(bytes \<Rightarrow> (int \<times> int) res) \<Rightarrow> (bytes \<Rightarrow> int res) \<Rightarrow> string \<Rightarrow> message list \<Rightarrow> scan_state res" where
  "scan_messages clock uint64 topic messages = foldE (scan_message clock uint64 topic) messages empty_scan"

definition scan_recording :: "'w player \<Rightarrow> path \<Rightarrow> string \<Rightarrow> ('w, scan) io" where
  "scan_recording R p topic =
     seqS (perform (host R) (OpenReader p))
    (bindS (call_bool (host R) SetReadOrder) (\<lambda>ordered.
     if \<not> ordered then
       seqS (perform (host R) CloseReader)
         (raiseS ValueError ''MCAP reader must support native file order for the no-reset scan'')
     else bindS (finallyS
         (bindS (getS (\<lambda>s. recorded R (outside s))) (\<lambda>messages.
          liftS (scan_messages (clock_of R) (uint64_of R) topic messages)))
         (perform (host R) CloseReader)) (\<lambda>s.
       liftS (finish_scan s))))"

section \<open>Members and summaries\<close>

text \<open>The checks of \<open>member_path\<close> on the name; \<open>as_posix\<close> spells an empty path \<open>.\<close>.\<close>

definition member_name :: "string \<Rightarrow> path res" where
  "member_name name =
     unlessE (is_absolute name \<or> path_str (pure_parts name) \<noteq> name \<or>
              list_ex (\<lambda>p. p \<in> {[], ''.'', ''..''}) (split_on (CHR ''/'') name) \<or>
              CHR 0x5C \<in> set name \<or> list_ex (\<lambda>c. (of_char c :: nat) < 32) name \<or> \<not> ends_with ''.mcap'' name)
       ValueError ''bag member path must be a confined relative MCAP path''
    (Inr (pure_parts name))"

definition relative_to :: "path \<Rightarrow> path \<Rightarrow> path res" where
  "relative_to p base = (if starts_with base p then Inr (drop (length base) p)
     else raise ValueError ''path is not in the subpath'')"

definition member_path :: "'w player \<Rightarrow> path \<Rightarrow> json \<Rightarrow> ('w, path) io" where
  "member_path R bag name =
     bindS (liftS (of_option TypeError ''argument should be a str'' (as_str name))) (\<lambda>n.
     bindS (liftS (member_name n)) (\<lambda>relative.
     let p = bag @ relative in
     bindS (call_path R (Resolve p)) (\<lambda>found.
     bindS (call_path R (Resolve bag)) (\<lambda>place.
     bindS (liftS (relative_to found place)) (\<lambda>_.
     bindS (call_bool (host R) (IsLink p)) (\<lambda>link.
     bindS (if link then retS True else bindS (call_bool (host R) (IsFile p)) (\<lambda>b. retS (\<not> b))) (\<lambda>irregular.
     seqS (refuse irregular ''bag members must be regular files'')
    (retS p))))))))"

text \<open>The summaries by the digest of their recording: path, document and digest of the bytes.\<close>

type_synonym summaries = "(json \<times> (path \<times> json \<times> string)) list"

definition no_schemas :: json where
  "no_schemas = JNull"

definition add_summary :: "'w player \<Rightarrow> path \<Rightarrow> summaries \<Rightarrow> ('w, summaries) io" where
  "add_summary R p acc =
     bindS (captured_document R p) (\<lambda>(document, raw).
     seqS (perform (host R) (ValidateDocument document None no_schemas))
    (bindS (liftS (item document ''source_sha256'')) (\<lambda>digest.
     seqS (refuse (digest \<in> set (map fst acc)) ''capture has duplicate summaries for one recording'')
    (retS (acc @ [(digest, (p, document, sha R raw))])))))"

definition summary_sources :: "'w player \<Rightarrow> path \<Rightarrow> ('w, summaries) io" where
  "summary_sources R directory =
     bindS (call_paths R (Glob directory ''*.recording-summary.json'')) (\<lambda>found.
     foldS (add_summary R) (sort found) [])"

definition identity_fields :: "string list" where
  "identity_fields = [''run_id'', ''captured_at'', ''record_timestamp_basis'', ''capture_clock_policy'',
     ''retention_class'', ''dataset_license'', ''data_classification'']"

definition other_identity :: "json \<Rightarrow> json \<Rightarrow> json \<Rightarrow> bool res" where
  "other_identity custom distro document =
     orE (bindE (item document ''ros_distro'') (\<lambda>d. Inr (\<not> py_eq d distro)))
         (anyE (\<lambda>field. bindE (item document ''custom_data'') (\<lambda>held. bindE (get held field) (\<lambda>x.
            bindE (get custom field) (\<lambda>y. Inr (\<not> py_eq x y))))) identity_fields)"

definition recording_identity :: "'w player \<Rightarrow> path \<Rightarrow> json \<Rightarrow> json \<Rightarrow> json \<Rightarrow> ('w, unit) io" where
  "recording_identity R p custom distro limit =
     bindS (stat_size R p) (\<lambda>n.
     bindS (liftS (num_lt limit n)) (\<lambda>large.
     seqS (refuse large ''source recording exceeds its declared segment byte limit'')
    (bindS (call (host R) (MetadataRecords p limit)) (\<lambda>answer.
     bindS (liftS (as_list answer)) (\<lambda>entries.
     bindS (liftS (mapE (\<lambda>e. bindE (item e ''name'') (\<lambda>n. Inr (e, py_eq n (JStr ''rosbag2'')))) entries)) (\<lambda>named.
     bindS (mapS (\<lambda>(e, _). bindS (liftS (path_item e [''metadata'', ''serialized_metadata''])) (\<lambda>m.
        bindS (liftS (of_option TypeError ''text expected'' (as_str m))) (\<lambda>text. call (host R) (LoadsMapping text))))
        (filter snd named)) (\<lambda>identities.
     seqS (refuse (identities = []) ''source recording lacks native rosbag2 capture identity'')
    (forS (\<lambda>document. bindS (liftS (other_identity custom distro document)) (\<lambda>other.
       refuse other ''MCAP capture run/governance/time identity differs from bag metadata''))
       identities))))))))"

section \<open>The finalized recording\<close>

text \<open>The values \<open>f item\<close> of the rows of \<open>rows\<close> that pass a test.\<close>

definition select :: "(json \<Rightarrow> bool res) \<Rightarrow> (json \<Rightarrow> 'a res) \<Rightarrow> json list \<Rightarrow> 'a list res" where
  "select test f rows = bindE (mapE (\<lambda>row. bindE (test row) (\<lambda>b. if b then bindE (f row) (\<lambda>x. Inr [x]) else Inr [])) rows)
     (\<lambda>found. Inr (concat found))"

definition kind_is :: "string \<Rightarrow> json \<Rightarrow> bool res" where
  "kind_is kind row = bindE (item row ''kind'') (\<lambda>k. Inr (py_eq k (JStr kind)))"

definition list_at :: "json \<Rightarrow> string list \<Rightarrow> json list res" where
  "list_at x keys = bindE (path_item x keys) as_list"

definition signed_digests :: "json \<Rightarrow> dict \<Rightarrow> string \<Rightarrow> json list res" where
  "signed_digests statement subjects kind =
     bindE (list_at statement [''predicate'', ''artifacts'']) (select (kind_is kind) (\<lambda>row.
       bindE (item row ''subject_name'') (\<lambda>n. bindE (of_option KeyError ''subject'' (as_str n)) (dict_item subjects))))"

definition int_item :: "json \<Rightarrow> string \<Rightarrow> int res" where
  "int_item x k = bindE (item x k) (\<lambda>v. of_option TypeError k (as_int v))"

text \<open>\<open>policy["max_segment_duration_sec"] * 1e9\<close> as a float.\<close>

definition duration_ns :: "json \<Rightarrow> pyfloat res" where
  "duration_ns v = (case v of
      JInt i \<Rightarrow> bindE (float_of_int i) (\<lambda>f. Inr (fmul f (Fin 1000000000)))
    | JFloat f \<Rightarrow> Inr (fmul f (Fin 1000000000))
    | _ \<Rightarrow> raise TypeError ''unsupported operand'')"

definition summary_of :: "summaries \<Rightarrow> json \<Rightarrow> (path \<times> json \<times> string) res" where
  "summary_of summaries digest = of_option KeyError ''digest'' (map_of summaries digest)"

definition expected_member ::
  "'w player \<Rightarrow> summaries \<Rightarrow> json \<Rightarrow> json \<Rightarrow> nat \<times> path \<times> path \<Rightarrow> ('w, json) io" where
  "expected_member R summaries custom policy = (\<lambda>(ordinal, recording, summary).
     bindS (sha256 R recording) (\<lambda>digest.
     bindS (liftS (summary_of summaries (JStr digest))) (\<lambda>(_, document, _).
     bindS (liftS (item document ''statistics'')) (\<lambda>stats.
     bindS (liftS (int_item stats ''message_end_time_ns'')) (\<lambda>ended.
     bindS (liftS (int_item stats ''message_start_time_ns'')) (\<lambda>began.
     bindS (liftS (bindE (item policy ''max_segment_duration_sec'') duration_ns)) (\<lambda>limit.
     seqS (refuse (flt limit (Fin (of_int (ended - began)))) ''source recording exceeds its declared segment duration'')
    (bindS (stat_size R recording) (\<lambda>n.
     bindS (sha256 R summary) (\<lambda>summary_digest.
     bindS (stat_size R summary) (\<lambda>m.
     bindS (liftS (item custom ''retention_class'')) (\<lambda>class.
     retS (JList [JInt (int ordinal), JStr digest, n, JStr summary_digest, m, class])))))))))))))"

definition indexed_member :: "json \<Rightarrow> json res" where
  "indexed_member row =
     bindE (item row ''segment_index'') (\<lambda>i. bindE (item row ''sha256'') (\<lambda>d. bindE (item row ''size_bytes'') (\<lambda>n.
     bindE (path_item row [''recording_summary'', ''sha256'']) (\<lambda>sd.
     bindE (path_item row [''recording_summary'', ''size_bytes'']) (\<lambda>sn.
     bindE (item row ''retention_class'') (\<lambda>class. Inr (JList [i, d, n, sd, sn, class])))))))"

text \<open>\<open>sorted(..., key=segment_index)\<close>.\<close>

definition by_segment :: "json list \<Rightarrow> json list res" where
  "by_segment rows = bindE (mapE (\<lambda>row. bindE (int_item row ''segment_index'') (\<lambda>i. Inr (i, row))) rows)
     (\<lambda>keyed. Inr (map snd (sort_key fst keyed)))"

definition checked_member_index ::
  "'w player \<Rightarrow> json \<Rightarrow> (path \<times> path) list \<Rightarrow> summaries \<Rightarrow> json \<Rightarrow> json \<Rightarrow> ('w, unit) io" where
  "checked_member_index R index members summaries custom policy =
     bindS (liftS (bindE (list_at index [''artifacts'']) (\<lambda>rows. bindE (select (kind_is ''recording'') Inr rows) by_segment)))
       (\<lambda>recorded.
     bindS (mapS (expected_member R summaries custom policy) (enum_from 0 members)) (\<lambda>expected.
     bindS (liftS (mapE indexed_member recorded)) (\<lambda>actual.
     bindS (liftS (orE (Inr (\<not> py_eqs actual expected))
                  (orE (bindE (item index ''run_id'') (\<lambda>a. bindE (item custom ''run_id'') (\<lambda>b. Inr (\<not> py_eq a b))))
                       (bindE (item index ''finalized'') (\<lambda>v. Inr (\<not> truthy v)))))) (\<lambda>bad.
     refuse bad ''source evidence index differs from the complete finalized bag''))))"

definition digest_file :: "'w player \<Rightarrow> path \<Rightarrow> ('w, path \<times> json) io" where
  "digest_file R p = bindS (sha256 R p) (\<lambda>d. retS (p, JStr d))"

definition document_digest :: "'w player \<Rightarrow> bytes \<Rightarrow> json" where
  "document_digest R raw = JStr (sha R raw)"

definition differs_from :: "json res \<Rightarrow> json \<Rightarrow> bool res" where
  "differs_from m v = bindE m (\<lambda>x. Inr (\<not> py_eq x v))"

definition finalized_recording ::
  "'w player \<Rightarrow> path \<Rightarrow> dict \<Rightarrow> json \<Rightarrow> json \<Rightarrow> json \<Rightarrow>
   ('w, (path \<times> path) list \<times> path \<times> (path \<times> json) list) io" where
  "finalized_recording R root_dir subjects statement scenario runtime =
     bindS (call_paths R (RGlob (root_dir @ [''bags'']) ''metadata.yaml'')) (\<lambda>metadata_files.
     seqS (refuse (length metadata_files \<noteq> 1) ''stock playback requires one complete native bag metadata file'')
    (let metadata = hd metadata_files in
     bindS (call_path R (Resolve metadata)) (\<lambda>found.
     bindS (call_path R (Resolve root_dir)) (\<lambda>place.
     bindS (liftS (relative_to found place)) (\<lambda>_.
     bindS (captured_document R metadata) (\<lambda>(document, metadata_raw).
     bindS (liftS (item document ''rosbag2_bagfile_information'')) (\<lambda>info.
     bindS (liftS (list_at info [''relative_file_paths''])) (\<lambda>names.
     bindS (liftS (differs_from (item info ''storage_identifier'') (JStr ''mcap''))) (\<lambda>foreign.
     seqS (refuse (foreign \<or> names = [] \<or> \<not> distinct names)
             ''selected bag metadata must bind ordered unique MCAP members'')
    (bindS (mapS (member_path R (path_parent metadata)) names) (\<lambda>listed.
     bindS (call_paths R (RGlob (root_dir @ [''bags'']) ''*.mcap'')) (\<lambda>present.
     seqS (refuse (set listed \<noteq> set present) ''capture contains missing or surplus MCAP members'')
    (bindS (summary_sources R (root_dir @ [''evidence'', ''summaries''])) (\<lambda>summaries.
     bindS (mapS (\<lambda>p. bindS (sha256 R p) (\<lambda>d. retS (JStr d))) listed) (\<lambda>digests.
     seqS (refuse (length (remdups digests) \<noteq> length listed \<or> set digests \<noteq> set (map fst summaries))
             ''capture recordings and summaries must be a complete bijection'')
    (bindS (liftS (mapE (\<lambda>(p, d). bindE (summary_of summaries d) (\<lambda>(s, _, _). Inr (p, s))) (zip listed digests))) (\<lambda>members.
     bindS (liftS (orE (bindE (signed_digests statement subjects ''recording'') (\<lambda>ds. Inr (set ds \<noteq> set digests)))
       (orE (bindE (signed_digests statement subjects ''recording_summary'') (\<lambda>ds.
               Inr (set ds \<noteq> set (map (\<lambda>(_, _, _, d). JStr d) summaries))))
       (orE (bindE (relative_to metadata (root_dir @ [''bags''])) (\<lambda>rel.
               differs_from (dict_item subjects (''capture/bags/'' @ path_str rel)) (document_digest R metadata_raw)))
            (bindE (path_item info [''custom_data'', ''run_id'']) (\<lambda>a.
             bindE (path_item statement [''predicate'', ''run_id'']) (\<lambda>b. Inr (\<not> py_eq a b)))))))) (\<lambda>unsigned.
     seqS (refuse unsigned ''complete bag differs from the completed source statement'')
    (bindS (captured_document R (root_dir @ [''evidence'', ''evidence-index.json''])) (\<lambda>(index, index_raw).
     seqS (perform (host R) (ValidateDocument index None no_schemas))
    (bindS (liftS (differs_from (dict_item subjects ''evidence-indexes/primary.json'') (document_digest R index_raw))) (\<lambda>other.
     seqS (refuse other ''capture evidence index differs from the source statement'')
    (bindS (liftS (item scenario ''evidence_policy'')) (\<lambda>policy.
     bindS (liftS (item info ''custom_data'')) (\<lambda>custom.
     seqS (checked_member_index R index members summaries custom policy)
    (seqS (forS (\<lambda>recording.
        bindS (liftS (path_item runtime [''ros'', ''distribution''])) (\<lambda>distro.
        bindS (liftS (item policy ''max_segment_size_bytes'')) (\<lambda>limit.
        recording_identity R recording custom distro limit))) listed)
    (bindS (mapS (digest_file R) (concat (map (\<lambda>(p, s). [p, s]) members))) (\<lambda>expected.
     retS (members, metadata, dmerge (dmerge [] expected)
       [(metadata, document_digest R metadata_raw),
        (root_dir @ [''evidence'', ''evidence-index.json''], document_digest R index_raw)])))))))))))))))))))))))))))))"

section \<open>The source capture\<close>

definition subject_digests :: "json \<Rightarrow> dict res" where
  "subject_digests statement =
     bindE (list_at statement [''subject'']) (\<lambda>rows.
     bindE (mapE (\<lambda>row. bindE (item row ''name'') (\<lambda>n. bindE (of_option TypeError ''name'' (as_str n)) (\<lambda>name.
              bindE (path_item row [''digest'', ''sha256'']) (\<lambda>d. Inr (name, d))))) rows) (\<lambda>entries.
     Inr (dmerge [] entries)))"

definition stock_topics :: "json \<Rightarrow> json list res" where
  "stock_topics scenario = bindE (list_at scenario [''expected_ros_graph'', ''topics''])
     (select (\<lambda>row. bindE (item row ''type'') (\<lambda>t. Inr (py_eq t (JStr message_type)))) (\<lambda>row. item row ''name''))"

definition source_capture ::
  "'w player \<Rightarrow> path \<Rightarrow> json \<Rightarrow> string option \<Rightarrow>
   ('w, json \<times> (path \<times> path) list \<times> path \<times> json \<times> (path \<times> json) list) io" where
  "source_capture R root_dir extensions statement_sha256 =
     bindS (captured_document R (root_dir @ [''results'', ''qualification-statement.json''])) (\<lambda>(statement, statement_raw).
     seqS (refuse (statement_sha256 \<noteq> None \<and> Some (sha R statement_raw) \<noteq> statement_sha256)
             ''capture statement differs from the authenticated source package'')
    (bindS (captured_document R (root_dir @ [''scenario.yaml''])) (\<lambda>(scenario, scenario_raw).
     bindS (captured_document R (root_dir @ [''runtime-manifest.json''])) (\<lambda>(runtime, runtime_raw).
     seqS (perform (host R) (ValidateDocument statement (Some ''qualification-bundle.v1'') extensions))
    (bindS (liftS (subject_digests statement)) (\<lambda>subjects.
     bindS (liftS (orE (differs_from (dict_item subjects ''scenario.json'') (document_digest R scenario_raw))
       (differs_from (dict_item subjects ''runtime-manifests/primary.json'') (document_digest R runtime_raw)))) (\<lambda>other.
     seqS (refuse other ''capture scenario/runtime differs from the completed source statement'')
    (bindS (liftS (dict_item subjects ''capture/qos-overrides.yaml'')) (\<lambda>qos.
     bindS (liftS (dict_item subjects ''capture/mcap-writer.yaml'')) (\<lambda>writer.
     seqS (perform (host R) (ValidateDocument scenario (Some ''acceptance-scenario.v1'') extensions))
    (seqS (perform (host R) (ValidateDocument runtime None extensions))
    (bindS (liftS (orE (differs_from (path_item scenario [''execution'', ''data_source'']) (JStr ''simulator''))
       (differs_from (path_item runtime [''execution'', ''data_source'']) (JStr ''simulator'')))) (\<lambda>foreign.
     seqS (refuse foreign ''playback origin must be the completed stock simulator capture'')
    (bindS (liftS (stock_topics scenario)) (\<lambda>topics.
     seqS (refuse (length topics \<noteq> 1) ''stock capture must declare exactly one UInt64 topic'')
    (bindS (finalized_recording R root_dir subjects statement scenario runtime) (\<lambda>(members, metadata, raw_expected).
     bindS (captured_document R (root_dir @ [''acceptance-run.json''])) (\<lambda>(context_doc, context_raw).
     seqS (perform (host R) (ValidateDocument context_doc None extensions))
    (bindS (liftS (orE (differs_from (dict_item subjects ''acceptance-run.json'') (document_digest R context_raw))
       (orE (bindE (item context_doc ''run_id'') (\<lambda>a.
             bindE (path_item statement [''predicate'', ''run_id'']) (\<lambda>b. Inr (\<not> py_eq a b))))
            (differs_from (item context_doc ''scenario_sha256'') (document_digest R scenario_raw))))) (\<lambda>stray.
     seqS (refuse stray ''capture run context differs from its signed source identity'')
    (retS (scenario, members, metadata, hd topics, dmerge (dmerge
       [(root_dir @ [''scenario.yaml''], document_digest R scenario_raw),
        (root_dir @ [''runtime-manifest.json''], document_digest R runtime_raw),
        (root_dir @ [''results'', ''qualification-statement.json''], document_digest R statement_raw),
        (root_dir @ [''configuration'', ''capture'', ''qos-overrides.yaml''], qos),
        (root_dir @ [''configuration'', ''capture'', ''mcap-writer.yaml''], writer)]
       raw_expected) [(root_dir @ [''acceptance-run.json''], document_digest R context_raw)]))))))))))))))))))))))"

section \<open>Confined members\<close>

lemma member_name_safe: "member_name v = Inr ps \<Longrightarrow> list_all safe_part ps"
  by (auto simp: member_name_def unlessE_ok pure_parts_def list_all_iff safe_part_def list_ex_iff dest: split_on_fields)

interpretation member_guard: path_guard member_name
  by unfold_locales (rule member_name_safe)

section \<open>What a scan accepts\<close>

text \<open>The streams a recording holds: the clock readings, and the times of the messages of a topic.\<close>

definition is_clock :: "message \<Rightarrow> bool" where
  "is_clock = (\<lambda>(name, _, _). name = ''/clock'')"

definition on_topic :: "string \<Rightarrow> message \<Rightarrow> bool" where
  "on_topic topic = (\<lambda>(name, _, _). name \<noteq> ''/clock'' \<and> name = topic)"

definition clock_values :: "(bytes \<Rightarrow> (int \<times> int) res) \<Rightarrow> message list \<Rightarrow> int list res" where
  "clock_values clock ms = mapE (\<lambda>(_, raw, _). bindE (clock raw) (\<lambda>c. Inr (clock_value c))) (filter is_clock ms)"

definition topic_times :: "string \<Rightarrow> message list \<Rightarrow> int list" where
  "topic_times topic ms = map (\<lambda>(_, _, timestamp). timestamp) (filter (on_topic topic) ms)"

definition decodable :: "(bytes \<Rightarrow> int res) \<Rightarrow> string \<Rightarrow> message list \<Rightarrow> bool" where
  "decodable uint64 topic ms = list_all (\<lambda>(_, raw, _). is_ok (uint64 raw)) (filter (on_topic topic) ms)"

definition head_of :: "'a list \<Rightarrow> 'a option" where
  "head_of xs = (if xs = [] then None else Some (hd xs))"

definition last_of :: "'a list \<Rightarrow> 'a option" where
  "last_of xs = (if xs = [] then None else Some (last xs))"

definition scan_summary :: "int list \<Rightarrow> int list \<Rightarrow> nat \<Rightarrow> scan_state" where
  "scan_summary cs ts n = \<lparr>first_ns = head_of ts, last_ns = last_of ts, first_clock = head_of cs,
     previous_clock = last_of cs, message_count = length ts, clock_samples = length cs, total_count = n\<rparr>"

lemma head_last_snoc [simp]: "or_else (head_of xs) x = head_of (xs @ [x])" "last_of (xs @ [x]) = Some x"
  by (simp_all add: or_else_def head_of_def last_of_def split: list.splits)

lemma sorted_snoc_iff: "sorted (xs @ [x :: int]) \<longleftrightarrow> sorted xs \<and> \<not> before_last x (last_of xs)"
proof (cases xs rule: rev_cases)
  case (snoc ys y)
  then show ?thesis by (auto simp: sorted_append before_last_def last_of_def)
qed (simp add: before_last_def last_of_def)

lemma foldE_snoc: "foldE f (xs @ [x]) s = bindE (foldE f xs s) (f x)"
  by (simp add: foldE_append bindE_def split: sum.splits)

lemma mapE_append: "mapE f (xs @ ys) = bindE (mapE f xs) (\<lambda>us. bindE (mapE f ys) (\<lambda>vs. Inr (us @ vs)))"
  by (induction xs) (auto simp: bindE_def split: sum.splits)

lemma scan_message_summary:
  "scan_message clock uint64 topic (name, raw, time) (scan_summary cs ts n) =
   (if name = ''/clock'' then bindE (clock raw) (\<lambda>c.
      unlessE (before_last (clock_value c) (last_of cs)) ValueError ''stock capture contains a reset or backward ROS clock''
        (Inr (scan_summary (cs @ [clock_value c]) ts (Suc n))))
    else if name = topic then bindE (uint64 raw) (\<lambda>_.
      unlessE (before_last time (last_of ts)) ValueError ''stock UInt64 recording time is not monotonic''
        (Inr (scan_summary cs (ts @ [time]) (Suc n))))
    else Inr (scan_summary cs ts (Suc n)))"
  by (simp add: scan_message_def scan_summary_def Let_def)

lemma stream_snoc:
  "clock_values clock (ms @ [(name, raw, time)]) = bindE (clock_values clock ms) (\<lambda>cs.
     if name = ''/clock'' then bindE (clock raw) (\<lambda>c. Inr (cs @ [clock_value c])) else Inr cs)"
  "topic_times topic (ms @ [(name, raw, time)]) =
     (if name \<noteq> ''/clock'' \<and> name = topic then topic_times topic ms @ [time] else topic_times topic ms)"
  "decodable uint64 topic (ms @ [(name, raw, time)]) \<longleftrightarrow> decodable uint64 topic ms \<and>
     (name \<noteq> ''/clock'' \<and> name = topic \<longrightarrow> is_ok (uint64 raw))"
  by (auto simp: clock_values_def topic_times_def decodable_def is_clock_def on_topic_def mapE_append bindE_def
      split: sum.splits)

lemma scan_messages_iff:
  "scan_messages clock uint64 topic ms = Inr s \<longleftrightarrow>
   (\<exists>cs. clock_values clock ms = Inr cs \<and> sorted cs \<and> decodable uint64 topic ms \<and>
         sorted (topic_times topic ms) \<and> s = scan_summary cs (topic_times topic ms) (length ms))"
proof (induction ms arbitrary: s rule: rev_induct)
  case Nil
  then show ?case
    by (auto simp: scan_messages_def clock_values_def decodable_def topic_times_def scan_summary_def
        empty_scan_def head_of_def last_of_def)
next
  case (snoc m ms)
  obtain name raw time where m: "m = (name, raw, time)" by (cases m) auto
  have "scan_messages clock uint64 topic (ms @ [m]) = Inr s \<longleftrightarrow>
      (\<exists>t. scan_messages clock uint64 topic ms = Inr t \<and> scan_message clock uint64 topic m t = Inr s)"
    by (simp add: scan_messages_def foldE_snoc bindE_ok)
  also have "\<dots> \<longleftrightarrow> (\<exists>cs. clock_values clock ms = Inr cs \<and> sorted cs \<and> decodable uint64 topic ms \<and>
      sorted (topic_times topic ms) \<and>
      scan_message clock uint64 topic m (scan_summary cs (topic_times topic ms) (length ms)) = Inr s)"
    by (auto simp: snoc.IH)
  also have "\<dots> \<longleftrightarrow> (\<exists>cs. clock_values clock (ms @ [m]) = Inr cs \<and> sorted cs \<and> decodable uint64 topic (ms @ [m]) \<and>
      sorted (topic_times topic (ms @ [m])) \<and> s = scan_summary cs (topic_times topic (ms @ [m])) (length (ms @ [m])))"
    unfolding m scan_message_summary stream_snoc
    by (cases "name = ''/clock''"; cases "name = topic") (auto simp: ok_iff is_ok_iff sorted_snoc_iff)
  finally show ?case .
qed

lemma advancing_ends: "advancing (head_of xs) (last_of xs) \<longleftrightarrow> xs \<noteq> [] \<and> hd xs < last xs"
  by (simp add: advancing_def head_of_def last_of_def)

lemma finish_scan_summary:
  "finish_scan (scan_summary cs ts n) = Inr r \<longleftrightarrow>
   2 \<le> length cs \<and> 2 \<le> length ts \<and> hd cs < last cs \<and> hd ts < last ts \<and>
   r = \<lparr>sc_first = hd ts, sc_last = last ts, sc_messages = length ts, sc_clocks = length cs, sc_total = n\<rparr>"
proof -
  have "finish_scan (scan_summary cs ts n) = Inr r \<longleftrightarrow>
      cs \<noteq> [] \<and> ts \<noteq> [] \<and> 2 \<le> length cs \<and> 2 \<le> length ts \<and> hd cs < last cs \<and> hd ts < last ts \<and>
      r = \<lparr>sc_first = the (head_of ts), sc_last = the (last_of ts), sc_messages = length ts,
           sc_clocks = length cs, sc_total = n\<rparr>"
    by (auto simp: finish_scan_def unlessE_ok scan_summary_def advancing_ends)
  then show ?thesis by (auto simp: head_of_def last_of_def)
qed

text \<open>
  C13: A recording is accepted exactly when every clock and stock message decodes, the clock and the
  recording times never go back, and both advance over at least two samples; the scan reports the
  first and last recording time of the topic and the numbers of its messages, of clock samples and
  of all messages.
\<close>

theorem scan_accepts_advancing_streams:
  "bindE (scan_messages clock uint64 topic ms) finish_scan = Inr r \<longleftrightarrow>
   (\<exists>cs ts. clock_values clock ms = Inr cs \<and> ts = topic_times topic ms \<and> decodable uint64 topic ms \<and>
      sorted cs \<and> sorted ts \<and> 2 \<le> length cs \<and> 2 \<le> length ts \<and> hd cs < last cs \<and> hd ts < last ts \<and>
      r = \<lparr>sc_first = hd ts, sc_last = last ts, sc_messages = length ts, sc_clocks = length cs,
           sc_total = length ms\<rparr>)"
proof -
  have "bindE (scan_messages clock uint64 topic ms) finish_scan = Inr r \<longleftrightarrow>
      (\<exists>cs. clock_values clock ms = Inr cs \<and> sorted cs \<and> decodable uint64 topic ms \<and> sorted (topic_times topic ms) \<and>
            finish_scan (scan_summary cs (topic_times topic ms) (length ms)) = Inr r)"
    by (auto simp: bindE_ok scan_messages_iff)
  then show ?thesis by (simp add: finish_scan_summary) blast
qed

end
