(* ===== verification/Prepare_Playback.thy ===== *)
theory Prepare_Playback
  imports Playback_Sources
begin

text \<open>
  The second half of \<open>scripts/ci/integration/prepare-playback-inputs.py\<close>: the dataset manifest
  of the retained capture (\<open>dataset_document\<close>), the retention and publication of the playback
  inputs (\<open>prepare\<close>) and the exit codes of \<open>main\<close>. The properties read the calls made:
  which bytes were retained, on which digests the run relied, and what was published when.
\<close>

section \<open>The dataset manifest\<close>

text \<open>\<open>capture_time_basis\<close>: the recorded time basis has to be the one the clock policy asks for.\<close>

definition capture_time_basis :: "json \<Rightarrow> string res" where
  "capture_time_basis custom =
     bindE (get custom ''capture_clock_policy'') (\<lambda>policy.
     bindE (get custom ''record_timestamp_basis'') (\<lambda>actual.
     if py_eq policy (JStr ''ros-time-no-reset'') \<and> py_eq actual (JStr ''ros_time'') then Inr ''ros_time''
     else if py_eq policy (JStr ''system-time'') \<and> py_eq actual (JStr ''system_time'') then Inr ''system_time''
     else raise ValueError ''qualified capture clock policy does not match its recorded mode''))"

text \<open>The output directory as the host names it: whether it is absolute, and its parts.\<close>

type_synonym place = "bool \<times> path"

definition below :: "place \<Rightarrow> path \<Rightarrow> place" where
  "below h p = (fst h, snd h @ p)"

definition place_str :: "place \<Rightarrow> string" where
  "place_str h = (if fst h then abs_str (snd h) else path_str (snd h))"

definition as_uri :: "place \<Rightarrow> string res" where
  "as_uri h = unlessE (\<not> fst h) ValueError ''relative path can't be expressed as a file URI''
     (Inr (''file://'' @ quote (abs_str (snd h))))"

definition artifact_reference :: "'w player \<Rightarrow> path \<Rightarrow> place \<Rightarrow> string \<Rightarrow> ('w, json) io" where
  "artifact_reference R p host_path media_type =
     bindS (sha256 R p) (\<lambda>digest.
     bindS (liftS (as_uri host_path)) (\<lambda>uri.
     bindS (stat_size R p) (\<lambda>n.
     retS (JObj [(''uri'', JStr uri), (''immutable_revision'', JStr digest), (''sha256'', JStr digest),
       (''size_bytes'', n), (''media_type'', JStr media_type)]))))"

definition dataset_member ::
  "'w player \<Rightarrow> path \<Rightarrow> place \<Rightarrow> summaries \<Rightarrow> nat \<times> json \<Rightarrow> ('w, json \<times> json) io" where
  "dataset_member R output_dir h summaries = (\<lambda>(ordinal, filename).
     bindS (member_path R (output_dir @ [''source'', ''bag'']) filename) (\<lambda>recording.
     bindS (sha256 R recording) (\<lambda>digest.
     bindS (liftS (summary_of summaries (JStr digest))) (\<lambda>(summary, document, _).
     bindS (liftS (of_option TypeError ''argument should be a str'' (as_str filename))) (\<lambda>name.
     bindS (artifact_reference R recording (below h ([''source'', ''bag''] @ pure_parts name)) ''application/x-mcap'') (\<lambda>held.
     bindS (liftS (relative_to summary output_dir)) (\<lambda>rel.
     bindS (artifact_reference R summary (below h rel) ''application/json'') (\<lambda>described.
     retS (JObj [(''segment_index'', JInt (int ordinal)), (''relative_path'', filename), (''recording'', held),
       (''recording_summary'', described)], document)))))))))"

definition dataset_channel :: "'w player \<Rightarrow> path \<Rightarrow> json \<Rightarrow> ('w, json) io" where
  "dataset_channel R metadata_path row =
     bindS (liftS (item row ''topic_metadata'')) (\<lambda>topic.
     bindS (liftS (item topic ''offered_qos_profiles'')) (\<lambda>qos.
     seqS (refuse (\<not> truthy qos) ''capture must retain actual offered QoS'')
    (bindS (liftS (item topic ''name'')) (\<lambda>name.
     bindS (liftS (item topic ''type'')) (\<lambda>kind.
     bindS (liftS (item topic ''type_description_hash'')) (\<lambda>hash.
     bindS (liftS (item row ''message_count'')) (\<lambda>n.
     bindS (sha256 R metadata_path) (\<lambda>digest.
     retS (JObj [(''topic'', name), (''type'', kind), (''type_hash'', hash), (''message_count'', n),
       (''qos_profile'', JStr ''custom''), (''qos_profile_sha256'', JStr digest)])))))))))"

text \<open>The statistics of the summaries that hold messages, and the span of their times.\<close>

definition nonempty_statistics :: "json list \<Rightarrow> json list res" where
  "nonempty_statistics documents = select
     (\<lambda>document. bindE (path_item document [''statistics'', ''message_count'']) (\<lambda>n. Inr (truthy n)))
     (\<lambda>document. item document ''statistics'') documents"

definition extreme :: "(int \<Rightarrow> int \<Rightarrow> int) \<Rightarrow> string \<Rightarrow> json list \<Rightarrow> int res" where
  "extreme pick key rows = bindE (mapE (\<lambda>row. int_item row key) rows)
     (\<lambda>found. case found of [] \<Rightarrow> raise ValueError ''iterable argument is empty'' | x # xs \<Rightarrow> Inr (fold pick xs x))"

definition dataset_document :: "'w player \<Rightarrow> path \<Rightarrow> place \<Rightarrow> ('w, json) io" where
  "dataset_document R output_dir h =
    (let metadata_path = output_dir @ [''source'', ''bag'', ''metadata.yaml''];
         capture = output_dir @ [''source'', ''capture''] in
     bindS (captured_document R metadata_path) (\<lambda>(metadata, _).
     bindS (liftS (item metadata ''rosbag2_bagfile_information'')) (\<lambda>info.
     bindS (liftS (item info ''custom_data'')) (\<lambda>custom.
     bindS (captured_document R (capture @ [''runtime-manifest.json''])) (\<lambda>(runtime, _).
     bindS (summary_sources R (capture @ [''summaries''])) (\<lambda>summaries.
     bindS (liftS (list_at info [''relative_file_paths''])) (\<lambda>filenames.
     bindS (mapS (dataset_member R output_dir h summaries) (enum_from 0 filenames)) (\<lambda>members.
     bindS (liftS (list_at info [''topics_with_message_count''])) (\<lambda>rows.
     bindS (mapS (dataset_channel R metadata_path) rows) (\<lambda>channels.
     bindS (liftS (nonempty_statistics (map snd members))) (\<lambda>nonempty.
     bindS (sha256 R metadata_path) (\<lambda>version.
     bindS (artifact_reference R metadata_path (below h [''source'', ''bag'', ''metadata.yaml'']) ''application/yaml'') (\<lambda>described.
     bindS (liftS (item info ''message_count'')) (\<lambda>message_count.
     bindS (liftS (capture_time_basis custom)) (\<lambda>basis.
     bindS (liftS (extreme min ''message_start_time_ns'' nonempty)) (\<lambda>start_ns.
     bindS (liftS (extreme max ''message_end_time_ns'' nonempty)) (\<lambda>end_ns.
     bindS (sha256 R (capture @ [''qos-overrides.yaml''])) (\<lambda>qos.
     bindS (liftS (item custom ''captured_at'')) (\<lambda>captured_at.
     bindS (liftS (item custom ''run_id'')) (\<lambda>run_id.
     bindS (sha256 R (capture @ [''scenario.yaml''])) (\<lambda>scenario.
     bindS (sha256 R (capture @ [''runtime-manifest.json''])) (\<lambda>manifest.
     bindS (liftS (item runtime ''components'')) (\<lambda>revisions.
     bindS (liftS (item custom ''dataset_license'')) (\<lambda>license.
     bindS (liftS (item custom ''data_classification'')) (\<lambda>classification.
     bindS (liftS (item custom ''retention_class'')) (\<lambda>retention.
     let dataset = JObj [
       (''schema_version'', JStr ''dataset-manifest.v2''),
       (''dataset_id'', JStr ''org.example.foundation.stock-capture''),
       (''version'', JStr (''0.0.0+'' @ take 16 version)),
       (''bag'', JObj [(''storage_id'', JStr ''mcap''), (''metadata'', described),
          (''members'', JList (map fst members)), (''message_count'', message_count)]),
       (''channels'', JList channels),
       (''time'', JObj [(''basis'', JStr basis), (''start_ns'', JInt start_ns), (''end_ns'', JInt end_ns),
          (''clock_jumps'', JList []), (''qos_overrides_sha256'', JStr qos)]),
       (''source'', JStr ''simulation''),
       (''provenance'', JObj [(''producer'', JStr ''rosbag2_recorder''), (''captured_at'', captured_at),
          (''capture_run_id'', run_id), (''scenario_sha256'', JStr scenario),
          (''runtime_manifest_sha256'', JStr manifest), (''source_revisions'', revisions)]),
       (''governance'', JObj [(''license'', license), (''data_classification'', classification),
          (''retention_class'', retention)]),
       (''topic_remaps'', JList [])] in
     seqS (perform (host R) (ValidateDocument dataset None no_schemas))
    (seqS (perform (host R) (ValidateBagSummaries dataset (map snd members)))
    (seqS (perform (host R) (ValidateBagMetadata dataset metadata (map snd members) run_id))
    (retS dataset)))))))))))))))))))))))))))))"

section \<open>Retention\<close>

definition schema_sources :: "path \<Rightarrow> string list \<Rightarrow> (string \<times> path) list" where
  "schema_sources here options = dmerge [] (map (\<lambda>value. case partition_at (CHR ''='') value of (uri, _, file_name) \<Rightarrow>
     (uri, to_path here file_name)) options)"

text \<open>Where each selected file of the source run is retained, by its path in the run.\<close>

definition capture_dir :: path where
  "capture_dir = [''source'', ''capture'']"

definition fixed_selection :: "path \<Rightarrow> path \<Rightarrow> (path \<times> path) list" where
  "fixed_selection root_dir metadata = dmerge [] [
     (metadata, [''source'', ''bag'', ''metadata.yaml'']),
     (root_dir @ [''acceptance-run.json''], capture_dir @ [''acceptance-run.json'']),
     (root_dir @ [''scenario.yaml''], capture_dir @ [''scenario.yaml'']),
     (root_dir @ [''runtime-manifest.json''], capture_dir @ [''runtime-manifest.json'']),
     (root_dir @ [''evidence'', ''evidence-index.json''], capture_dir @ [''evidence-index.json'']),
     (root_dir @ [''results'', ''qualification-statement.json''], capture_dir @ [''qualification-statement.json'']),
     (root_dir @ [''configuration'', ''capture'', ''qos-overrides.yaml''], capture_dir @ [''qos-overrides.yaml'']),
     (root_dir @ [''configuration'', ''capture'', ''mcap-writer.yaml''], capture_dir @ [''mcap-writer.yaml''])]"

definition select_member :: "path \<Rightarrow> path \<times> path \<Rightarrow> (path \<times> path) list \<Rightarrow> (path \<times> path) list res" where
  "select_member metadata = (\<lambda>(recording, summary) acc.
     bindE (relative_to recording (path_parent metadata)) (\<lambda>rel.
     Inr (dset summary (capture_dir @ [''summaries'', path_name summary])
         (dset recording ([''source'', ''bag''] @ rel) acc))))"

definition selection :: "path \<Rightarrow> path \<Rightarrow> (path \<times> path) list \<Rightarrow> (path \<times> path) list res" where
  "selection root_dir metadata members = foldE (select_member metadata) members (fixed_selection root_dir metadata)"

definition retained_schema_path :: "'w player \<Rightarrow> bytes \<Rightarrow> path" where
  "retained_schema_path R raw = capture_dir @ [''extension-schemas'', sha R raw @ ''.json'']"

definition retain_schema ::
  "'w player \<Rightarrow> path \<Rightarrow> (string \<times> path) list \<Rightarrow> string \<times> json \<Rightarrow> ('w, string \<times> path) io" where
  "retain_schema R output_dir sources = (\<lambda>(uri, content).
     bindS (liftS (of_option TypeError ''bytes expected'' (as_str content))) (\<lambda>raw.
     let relative = retained_schema_path R raw in
     bindS (liftS (of_option KeyError uri (map_of sources uri))) (\<lambda>source.
     bindS (call_text (host R) (ReadDocument source)) (\<lambda>now.
     seqS (refuse (now \<noteq> raw) ''selected schema changed after admission'')
    (seqS (copy_input R source (output_dir @ relative))
    (bindS (call_text (host R) (ReadDocument (output_dir @ relative))) (\<lambda>kept.
     seqS (refuse (kept \<noteq> raw) ''retained schema differs from admitted original bytes'')
    (retS (uri, relative)))))))))"

definition retain_selected :: "'w player \<Rightarrow> path \<Rightarrow> (path \<times> json) list \<Rightarrow> path \<times> path \<Rightarrow> ('w, unit) io" where
  "retain_selected R output_dir expected = (\<lambda>(source, relative).
     seqS (copy_input R source (output_dir @ relative))
       (case map_of expected source of
          None \<Rightarrow> retS ()
        | Some digest \<Rightarrow> bindS (sha256 R (output_dir @ relative)) (\<lambda>d.
            refuse (JStr d \<noteq> digest) ''retained capture differs from the validated source bytes'')))"

text \<open>\<open>before\<close>: the digests of the retained files, and their check after the native decoding.\<close>

definition retained_digests :: "'w player \<Rightarrow> path \<Rightarrow> path list \<Rightarrow> ('w, (path \<times> string) list) io" where
  "retained_digests R output_dir files =
     bindS (mapS (\<lambda>relative. bindS (sha256 R (output_dir @ relative)) (\<lambda>d. retS (relative, d))) files)
       (\<lambda>entries. retS (dmerge [] entries))"

definition unchanged :: "'w player \<Rightarrow> path \<Rightarrow> (path \<times> string) list \<Rightarrow> ('w, unit) io" where
  "unchanged R output_dir before = forS (\<lambda>(relative, digest).
     bindS (sha256 R (output_dir @ relative)) (\<lambda>d.
     refuse (d \<noteq> digest) ''selected capture bytes changed during native decoding'')) before"

section \<open>Playback parameters\<close>

definition channel_counts :: "json \<Rightarrow> (json \<times> json) list res" where
  "channel_counts dataset = bindE (list_at dataset [''channels'']) (\<lambda>rows.
     bindE (mapE (\<lambda>row. bindE (item row ''topic'') (\<lambda>t. bindE (item row ''message_count'') (\<lambda>n. Inr (t, n)))) rows) (\<lambda>entries.
     Inr (dmerge [] entries)))"

definition count_of :: "(json \<times> json) list \<Rightarrow> json \<Rightarrow> json res" where
  "count_of counts topic = of_option KeyError ''topic'' (map_of counts topic)"

definition counts_differ :: "scan \<Rightarrow> json \<Rightarrow> json \<Rightarrow> bool res" where
  "counts_differ found dataset topic = bindE (channel_counts dataset) (\<lambda>counts.
     orE (differs_from (path_item dataset [''bag'', ''message_count'']) (JInt (int (sc_total found))))
    (orE (differs_from (count_of counts topic) (JInt (int (sc_messages found))))
         (differs_from (count_of counts (JStr ''/clock'')) (JInt (int (sc_clocks found))))))"

text \<open>\<open>3 * x\<close>, and division by a number read from a document.\<close>

fun threefold :: "json \<Rightarrow> json res" where
  "threefold (JInt i) = Inr (JInt (3 * i))"
| "threefold (JBool b) = Inr (JInt (if b then 3 else 0))"
| "threefold (JFloat f) = Inr (JFloat (fmul (Fin 3) f))"
| "threefold _ = raise TypeError ''number expected''"

fun div_by :: "pyfloat \<Rightarrow> json \<Rightarrow> pyfloat res" where
  "div_by a (JInt i) = bindE (float_of_int i) (fdiv a)"
| "div_by a (JFloat f) = fdiv a f"
| "div_by a _ = raise TypeError ''number expected''"

definition seconds :: "int \<Rightarrow> pyfloat res" where
  "seconds ns = bindE (float_of_int ns) (\<lambda>f. fdiv f (Fin 1000000000))"

text \<open>\<open>min(1.0, x)\<close> returns its first argument unless the second is smaller.\<close>

definition playback_rate :: "scan \<Rightarrow> json \<Rightarrow> pyfloat res" where
  "playback_rate found desired =
     bindE (seconds (sc_last found - sc_first found)) (\<lambda>span.
     bindE (div_by span desired) (\<lambda>x.
     Inr (if flt x (Fin 1) then x else Fin 1)))"

definition start_offset :: "scan \<Rightarrow> json \<Rightarrow> pyfloat res" where
  "start_offset found dataset =
     bindE (bindE (path_item dataset [''time'', ''start_ns'']) (\<lambda>v. of_option TypeError ''start_ns'' (as_int v))) (\<lambda>start_ns.
     bindE (seconds (sc_first found - start_ns)) (\<lambda>offset.
     unlessE (flt offset (Fin 0)) ValueError ''selected UInt64 begins before the finalized capture interval''
       (Inr offset)))"

definition qos_entry :: "string \<Rightarrow> json" where
  "qos_entry reliability = JObj [(''reliability'', JStr reliability), (''durability'', JStr ''volatile''),
     (''history'', JStr ''keep_last''), (''depth'', JInt 100)]"

definition replay_overrides :: "string \<Rightarrow> json" where
  "replay_overrides topic = JObj (dset ''/clock'' (qos_entry ''best_effort'') [(topic, qos_entry ''reliable'')])"

section \<open>The replay scenario\<close>

fun set_item :: "string \<Rightarrow> json \<Rightarrow> json \<Rightarrow> json res" where
  "set_item k v (JObj d) = Inr (JObj (dset k v d))"
| "set_item k v _ = raise TypeError k"

fun update_all :: "dict \<Rightarrow> json \<Rightarrow> json res" where
  "update_all entries (JObj d) = Inr (JObj (dmerge d entries))"
| "update_all entries _ = raise AttributeError ''update''"

definition at_item :: "string \<Rightarrow> (json \<Rightarrow> json res) \<Rightarrow> json \<Rightarrow> json res" where
  "at_item k f x = bindE (item x k) (\<lambda>v. bindE (f v) (\<lambda>w. set_item k w x))"

definition clock_profile :: "json \<Rightarrow> json res" where
  "clock_profile declared = bindE (item declared ''name'') (\<lambda>n.
     if py_eq n (JStr ''/clock'') then set_item ''qos_profile'' (JStr ''sensor_data'') declared else Inr declared)"

definition replay_base :: "json \<Rightarrow> json res" where
  "replay_base retained =
     bindE (at_item ''expected_ros_graph'' (at_item ''topics'' (\<lambda>v. bindE (as_list v) (\<lambda>rows.
       bindE (mapE clock_profile rows) (\<lambda>rows'. Inr (JList rows'))))) retained) (\<lambda>graph.
     bindE (set_item ''scenario_id'' (JStr ''org.example.foundation.recorded-playback'') graph) (\<lambda>named.
     bindE (at_item ''execution'' (update_all [(''data_source'', JStr ''recording_playback''),
       (''plant_backend'', JStr ''recorded_data''), (''time_mode'', JStr ''playback_clocked'')]) named) (\<lambda>executed.
     bindE (set_item ''provider_requirements'' (JObj [(''capabilities'', JList [JStr ''playback_probe_delivery''])]) executed) (\<lambda>required.
     at_item ''time_policy'' (\<lambda>v. bindE (as_items v) (\<lambda>d.
       Inr (JObj (filter (\<lambda>(k, _). k \<notin> {''step_size_sec'', ''max_skipped_steps''}) d)))) required))))"

definition replay_policy :: "pyfloat \<Rightarrow> string \<Rightarrow> json \<Rightarrow> json res" where
  "replay_policy rate qos_digest = at_item ''time_policy'' (update_all [(''playback_rate'', JFloat rate),
     (''min_clock_hz'', JInt 100), (''message_order'', JStr ''received''), (''qos_overrides_sha256'', JStr qos_digest)])"

section \<open>The run\<close>

definition qos_file :: path where
  "qos_file = [''source'', ''qos'', ''qos-overrides.yaml'']"

definition write_json :: "'w player \<Rightarrow> path \<Rightarrow> json \<Rightarrow> ('w, unit) io" where
  "write_json R p document = perform (host R) (WriteText p (dumps R document @ [CHR 0x0A]))"

text \<open>The replay scenario is written after the dataset manifest it names.\<close>

definition write_scenario :: "'w player \<Rightarrow> path \<Rightarrow> json \<Rightarrow> json \<Rightarrow> json \<Rightarrow> pyfloat \<Rightarrow> ('w, unit) io" where
  "write_scenario R output_dir extensions dataset retained rate =
     seqS (perform (host R) (WriteDocument dataset (output_dir @ [''dataset-manifest.json'']) None no_schemas))
    (bindS (liftS (replay_base retained)) (\<lambda>replay.
     bindS (sha256 R (output_dir @ qos_file)) (\<lambda>qos.
     bindS (liftS (replay_policy rate qos replay)) (\<lambda>timed.
     bindS (sha256 R (output_dir @ [''dataset-manifest.json''])) (\<lambda>manifest.
     bindS (liftS (set_item ''dataset_manifest_sha256'' (JStr manifest) timed)) (\<lambda>bound.
     perform (host R) (WriteDocument bound (output_dir @ [''scenario.json''])
       (Some ''acceptance-scenario.v1'') extensions)))))))"

definition schema_arguments :: "place \<Rightarrow> (string \<times> path) list \<Rightarrow> string list" where
  "schema_arguments h retained = concat (map (\<lambda>(uri, relative).
     [''--extension-schema'', uri @ ''='' @ place_str (below h relative)]) retained)"

definition write_schemas :: "'w player \<Rightarrow> path \<Rightarrow> place \<Rightarrow> (string \<times> path) list \<Rightarrow> ('w, unit) io" where
  "write_schemas R output_dir h retained = (if retained = [] then retS () else
     seqS (perform (host R) (WriteText (output_dir @ [''extension-schema-arguments.txt''])
            (join_with [CHR 0x0A] (schema_arguments h retained) @ [CHR 0x0A])))
       (forS (\<lambda>(_, relative). perform (host R) (Chmod (output_dir @ relative))) retained))"

definition scan_document :: "scan \<Rightarrow> json" where
  "scan_document found = JObj [(''first_ns'', JInt (sc_first found)), (''last_ns'', JInt (sc_last found)),
     (''message_count'', JInt (int (sc_messages found))), (''clock_samples'', JInt (int (sc_clocks found))),
     (''total_message_count'', JInt (int (sc_total found)))]"

definition playback_inputs :: "json \<Rightarrow> pyfloat \<Rightarrow> json \<Rightarrow> pyfloat \<Rightarrow> path list \<Rightarrow> scan \<Rightarrow> json" where
  "playback_inputs topic rate desired offset recordings found = JObj [
     (''topic'', topic), (''message_type'', JStr message_type), (''rate'', JFloat rate), (''clock_hz'', JInt 200),
     (''desired_playback_duration_sec'', desired), (''start_offset_sec'', JFloat offset),
     (''selected_recordings'', JList (map (JStr \<circ> path_str) recordings)), (''native_scan'', scan_document found)]"

definition inputs_file :: path where
  "inputs_file = [''playback-inputs.json'']"

text \<open>From the retained capture to the document of the playback inputs.\<close>

definition staged_inputs ::
  "'w player \<Rightarrow> path \<Rightarrow> place \<Rightarrow> json \<Rightarrow> (path \<times> path) list \<Rightarrow> path \<Rightarrow> json \<Rightarrow>
   (string \<times> path) list \<Rightarrow> json \<Rightarrow> scan \<Rightarrow> ('w, json) io" where
  "staged_inputs R output_dir h extensions members metadata topic retained_schemas dataset found =
     bindS (captured_document R (output_dir @ capture_dir @ [''scenario.yaml''])) (\<lambda>(retained, _).
     bindS (liftS (bindE (path_item retained [''timeouts'', ''execution_sec'']) threefold)) (\<lambda>desired.
     bindS (liftS (playback_rate found desired)) (\<lambda>rate.
     seqS (perform (host R) (MakeDir (path_parent (output_dir @ qos_file))))
    (bindS (liftS (of_option TypeError ''topic'' (as_str topic))) (\<lambda>name.
     seqS (write_json R (output_dir @ qos_file) (replay_overrides name))
    (seqS (write_scenario R output_dir extensions dataset retained rate)
    (seqS (write_schemas R output_dir h retained_schemas)
    (bindS (liftS (start_offset found dataset)) (\<lambda>offset.
     bindS (liftS (mapE (\<lambda>(recording, _). relative_to recording (path_parent metadata)) members)) (\<lambda>recordings.
     retS (playback_inputs topic rate desired offset recordings found)))))))))))"

definition prepared_inputs ::
  "'w player \<Rightarrow> path \<Rightarrow> path \<Rightarrow> place \<Rightarrow> string list \<Rightarrow> string option \<Rightarrow> ('w, json) io" where
  "prepared_inputs R root_dir output_dir h options statement_sha256 =
     bindS (call (host R) (LoadSchemas options)) (\<lambda>extensions.
     bindS (liftS (as_items extensions)) (\<lambda>schemas.
     bindS (source_capture R root_dir extensions statement_sha256) (\<lambda>(_, members, metadata, topic, expected).
     seqS (perform (host R) (MakeDir output_dir))
    (bindS (liftS (selection root_dir metadata members)) (\<lambda>selected.
     bindS (mapS (retain_schema R output_dir (schema_sources (cwd R) options)) schemas) (\<lambda>retained_schemas.
     seqS (forS (retain_selected R output_dir expected) selected)
    (bindS (retained_digests R output_dir (map snd selected @ map snd retained_schemas)) (\<lambda>before.
     bindS (dataset_document R output_dir h) (\<lambda>dataset.
     bindS (liftS (of_option TypeError ''topic'' (as_str topic))) (\<lambda>name.
     bindS (scan_recording R (output_dir @ [''source'', ''bag'']) name) (\<lambda>found.
     seqS (unchanged R output_dir before)
    (bindS (liftS (counts_differ found dataset topic)) (\<lambda>other.
     seqS (refuse other ''native directory scan differs from the complete bag counts'')
       (staged_inputs R output_dir h extensions members metadata topic retained_schemas dataset found))))))))))))))"

definition prepare :: "'w player \<Rightarrow> path \<Rightarrow> path \<Rightarrow> place \<Rightarrow> string list \<Rightarrow> string option \<Rightarrow> ('w, unit) io" where
  "prepare R root_dir output_dir h options statement_sha256 =
     bindS (prepared_inputs R root_dir output_dir h options statement_sha256) (write_json R (output_dir @ inputs_file))"

record prepare_args =
  source_run_dir :: string
  output_arg :: string
  host_output :: string
  extension_schema :: "string list"
  source_statement_sha256 :: string

definition hex_digits :: string where
  "hex_digits = ''0123456789abcdef''"

definition statement_digest_ok :: "string \<Rightarrow> bool" where
  "statement_digest_ok digest \<longleftrightarrow> length digest = 64 \<and> list_all (\<lambda>c. c \<in> set hex_digits) digest"

definition main :: "'w player \<Rightarrow> prepare_args \<Rightarrow> ('w, int) io" where
  "main R a = catchS [OSError, ValueError, KeyError, TypeError, HarnessInputError]
     (seqS (refuse (\<not> statement_digest_ok (source_statement_sha256 a)) ''authenticated source statement SHA256 is required'')
     (seqS (prepare R (to_path (cwd R) (source_run_dir a)) (to_path (cwd R) (output_arg a))
              (is_absolute (host_output a), pure_parts (host_output a)) (extension_schema a)
              (Some (source_statement_sha256 a)))
     (retS 0)))
     (\<lambda>_. retS 1)"

section \<open>Order of the calls\<close>

text \<open>A call that leaves the published inputs alone.\<close>

fun writes_text :: "path \<Rightarrow> playcall \<Rightarrow> bool" where
  "writes_text p (WriteText q content) = (q = p)"
| "writes_text p _ = False"

abbreviation quiet :: "path \<Rightarrow> playcall \<Rightarrow> bool" where
  "quiet p c \<equiv> \<not> writes_text p c"

lemma adds_refuse [keeps]: "adds C (refuse bad msg)"
  by (simp add: refuse_def keeps)

lemmas quiet_defs = call_paths_def call_path_def captured_document_def sha256_def stat_size_def copy_input_def
  scan_recording_def member_path_def add_summary_def summary_sources_def recording_identity_def expected_member_def
  checked_member_index_def digest_file_def

lemma adds_reads [keeps]:
  "adds (quiet q) (captured_document R p)" "adds (quiet q) (sha256 R p)" "adds (quiet q) (stat_size R p)"
  "adds (quiet q) (member_path R p name)" "adds (quiet q) (summary_sources R p)"
  "adds (quiet q) (copy_input R p p')" "adds (quiet q) (scan_recording R p topic)"
  "adds (quiet q) (checked_member_index R index members summaries custom policy)"
  "adds (quiet q) (recording_identity R p custom distro limit)" "adds (quiet q) (digest_file R p)"
  "quiet q c \<Longrightarrow> adds (quiet q) (call_paths R c)"
  by (auto simp: quiet_defs Let_def intro!: keeps split: prod.split)

lemma adds_capture [keeps]:
  "adds (quiet q) (finalized_recording R root_dir subjects statement scenario runtime)"
  by (auto simp: finalized_recording_def call_path_def Let_def intro!: keeps split: prod.split)

lemma adds_source_capture [keeps]: "adds (quiet q) (source_capture R root_dir extensions statement_sha)"
  by (auto simp: source_capture_def intro!: keeps split: prod.split)

lemma adds_dataset [keeps]: "adds (quiet q) (dataset_document R output_dir h)"
  by (auto simp: dataset_document_def dataset_member_def dataset_channel_def artifact_reference_def Let_def
      intro!: keeps split: prod.split)

lemma adds_retention [keeps]:
  "adds (quiet q) (retain_schema R output_dir sources x)" "adds (quiet q) (retain_selected R output_dir expected y)"
  "adds (quiet q) (retained_digests R output_dir files)" "adds (quiet q) (unchanged R output_dir before)"
  by (auto simp: retain_schema_def retain_selected_def retained_digests_def unchanged_def Let_def
      intro!: keeps split: prod.split option.split)

lemma adds_writes [keeps]:
  "adds (quiet q) (write_scenario R output_dir extensions dataset scenario rate)"
  "q \<noteq> p \<Longrightarrow> adds (quiet q) (write_json R p document)"
  "q \<noteq> output_dir @ [''extension-schema-arguments.txt''] \<Longrightarrow> adds (quiet q) (write_schemas R output_dir h retained)"
  by (auto simp: write_scenario_def write_json_def write_schemas_def intro!: keeps split: prod.split)

lemma other_files [simp]:
  "inputs_file \<noteq> qos_file" "inputs_file \<noteq> [''extension-schema-arguments.txt'']"
  by (simp_all add: inputs_file_def qos_file_def)

lemma adds_staged_inputs [keeps]:
  "adds (quiet (output_dir @ inputs_file))
     (staged_inputs R output_dir h extensions members metadata topic retained_schemas dataset found)"
  by (auto simp: staged_inputs_def intro!: keeps split: prod.split)

lemma adds_prepared_inputs [keeps]:
  "adds (quiet (output_dir @ inputs_file)) (prepared_inputs R root_dir output_dir h options statement_sha)"
  by (auto simp: prepared_inputs_def intro!: keeps split: prod.split)

section \<open>What a finished run relied on\<close>

lemma sha256_ok [ok_iff]:
  "sha256 R p s = (Inr d, t) \<longleftrightarrow> (\<exists>content. call (host R) (ReadFile p) s = (Inr (JStr content), t) \<and> d = sha R content)"
  by (auto simp: sha256_def ok_iff)

lemma refuse_ok [ok_iff]: "refuse bad msg s = (Inr u, t) \<longleftrightarrow> \<not> bad \<and> t = s"
  by (auto simp: refuse_def ok_iff)

text \<open>The retained file was read back with the expected digest.\<close>

definition kept_as :: "'w player \<Rightarrow> (playcall, 'w) desk \<Rightarrow> path \<Rightarrow> json \<Rightarrow> bool" where
  "kept_as R s p digest \<longleftrightarrow> (\<exists>content. answered s (ReadFile p) (JStr content) \<and> digest = JStr (sha R content))"

lemma kept_as_later: "later s t \<Longrightarrow> kept_as R s p digest \<Longrightarrow> kept_as R t p digest"
  unfolding kept_as_def using later_answered by metis

lemma retain_selected_keeps:
  assumes "retain_selected R output_dir expected (source, relative) s = (Inr u, t)" "map_of expected source = Some digest"
  shows "kept_as R t (output_dir @ relative) digest"
  using assms by (auto simp: retain_selected_def ok_iff kept_as_def answered_def)

lemma retain_all_keeps:
  assumes "forS (retain_selected R output_dir expected) selected s = (Inr u, t)"
    and "(source, relative) \<in> set selected" "map_of expected source = Some digest"
  shows "kept_as R t (output_dir @ relative) digest"
  using assms
proof (induction selected arbitrary: s)
  case (Cons x xs)
  then obtain v where run: "retain_selected R output_dir expected x s = (Inr (), v)"
      "forS (retain_selected R output_dir expected) xs v = (Inr u, t)"
    by (auto simp: ok_iff)
  have adds: "adds (quiet []) (forS (retain_selected R output_dir expected) xs)" by (intro keeps)
  show ?case
  proof (cases "x = (source, relative)")
    case True
    with run(1) Cons.prems(3) have "kept_as R v (output_dir @ relative) digest" by (simp add: retain_selected_keeps)
    with kept_as_later [OF later_run [OF adds run(2)]] show ?thesis .
  qed (use Cons run(2) in auto)
qed simp

text \<open>Every selected file has an expected digest.\<close>

lemma select_member_keys:
  "select_member metadata x acc = Inr acc' \<Longrightarrow> fst ` set acc' = insert (snd x) (insert (fst x) (fst ` set acc))"
  by (cases x) (clarsimp simp: select_member_def ok_iff dom_update insert_commute)

lemma foldE_select_keys:
  "foldE (select_member metadata) members acc = Inr selected \<Longrightarrow>
   fst ` set selected = fst ` set acc \<union> fst ` set members \<union> snd ` set members"
proof (induction members arbitrary: acc)
  case (Cons x xs)
  then obtain acc' where "select_member metadata x acc = Inr acc'" "foldE (select_member metadata) xs acc' = Inr selected"
    by (auto simp: ok_iff)
  with Cons.IH select_member_keys [of metadata x acc acc'] show ?case by (simp add: insert_commute)
qed simp

lemma digest_files_names:
  assumes "mapS (digest_file R) ps s = (Inr entries, t)"
  shows "fst ` set entries = set ps"
proof -
  from assms have "map fst entries = ps"
    by (induction ps arbitrary: s entries) (auto simp: digest_file_def ok_iff)
  then show ?thesis by (metis list.set_map)
qed

lemma pair_members: "set (concat (map (\<lambda>(p, s). [p, s]) members)) = fst ` set members \<union> snd ` set members"
  by (induction members) auto

lemma finalized_recording_expected:
  assumes "finalized_recording R root_dir subjects statement scenario runtime s = (Inr (members, metadata, expected), t)"
  shows "fst ` set expected = fst ` set members \<union> snd ` set members \<union>
    {metadata, root_dir @ [''evidence'', ''evidence-index.json'']}"
  using assms
  by (clarsimp simp: finalized_recording_def ok_iff Let_def simp del: mapE_ok)
     (drule digest_files_names, simp only: dmerge_keys pair_members, simp)

definition statement_file :: "path \<Rightarrow> path" where
  "statement_file root_dir = root_dir @ [''results'', ''qualification-statement.json'']"

lemma source_capture_expected:
  assumes "source_capture R root_dir extensions (Some digest) s = (Inr (scenario, members, metadata, topic, expected), t)"
  shows "fst ` set (fixed_selection root_dir metadata) \<union> fst ` set members \<union> snd ` set members \<subseteq> fst ` set expected"
  using assms
  by (clarsimp simp: source_capture_def ok_iff simp del: mapE_ok)
     (drule finalized_recording_expected, simp add: dmerge_keys fixed_selection_def, blast)

lemma captured_document_ok [ok_iff]:
  "captured_document R p s = (Inr x, t) \<longleftrightarrow> (\<exists>document raw u. x = (document, raw) \<and>
     call (host R) (ReadDocument p) s = (Inr (JStr raw), u) \<and> call (host R) (LoadsMapping raw) u = (Inr document, t))"
  by (auto simp: captured_document_def ok_iff)

lemma source_capture_parts:
  assumes "source_capture R root_dir extensions (Some digest) s = (Inr (scenario, members, metadata, topic, expected), t)"
  obtains raw u v subjects statement runtime exp rest where
    "finalized_recording R root_dir subjects statement scenario runtime u = (Inr (members, metadata, exp), v)"
    "sha R raw = digest" "answered u (ReadDocument (statement_file root_dir)) (JStr raw)" "asked t = asked v @ rest"
  using assms
  by (clarsimp simp: source_capture_def ok_iff answered_def statement_file_def simp del: mapE_ok)

lemma source_capture_statement:
  assumes "source_capture R root_dir extensions (Some digest) s = (Inr (scenario, members, metadata, topic, expected), t)"
  obtains raw where "answered t (ReadDocument (statement_file root_dir)) (JStr raw)" "sha R raw = digest"
proof -
  from assms obtain raw u v subjects statement runtime exp rest where parts:
    "finalized_recording R root_dir subjects statement scenario runtime u = (Inr (members, metadata, exp), v)"
    "sha R raw = digest" "answered u (ReadDocument (statement_file root_dir)) (JStr raw)" "asked t = asked v @ rest"
    by (rule source_capture_parts)
  from answered_later [OF adds_capture parts(1) parts(3)] parts(4)
  have "answered t (ReadDocument (statement_file root_dir)) (JStr raw)" by (simp add: answered_def)
  with parts(2) that show ?thesis by blast
qed

lemma scan_recording_accepted:
  assumes "scan_recording R p topic s = (Inr found, t)"
  obtains ms where "bindE (scan_messages (clock_of R) (uint64_of R) topic ms) finish_scan = Inr found"
  using assms by (auto simp: scan_recording_def ok_iff split: if_splits)

lemma staged_inputs_parts:
  assumes "staged_inputs R output_dir h extensions members metadata topic retained_schemas dataset found s = (Inr document, t)"
  obtains rate desired offset recordings where
    "document = playback_inputs topic rate desired offset recordings found"
    "playback_rate found desired = Inr rate" "start_offset found dataset = Inr offset"
    "mapE (\<lambda>(recording, _). relative_to recording (path_parent metadata)) members = Inr recordings"
  using assms by (clarsimp simp: staged_inputs_def ok_iff simp del: mapE_ok)

lemma prepared_inputs_parts:
  assumes "prepared_inputs R root_dir output_dir h options st s = (Inr document, t)"
  obtains extensions scenario members metadata topic expected selected u v w w' dataset name ms found y retained where
    "source_capture R root_dir extensions st u = (Inr (scenario, members, metadata, topic, expected), v)"
    "selection root_dir metadata members = Inr selected"
    "forS (retain_selected R output_dir expected) selected w = (Inr (), w')"
    "topic = JStr name" "bindE (scan_messages (clock_of R) (uint64_of R) name ms) finish_scan = Inr found"
    "counts_differ found dataset topic = Inr False"
    "staged_inputs R output_dir h extensions members metadata topic retained dataset found y = (Inr document, t)"
    "later v t" "later w' t"
proof -
  from assms obtain extensions u schemas scenario members metadata name expected v v1 selected retained w w'
      before w1 dataset w2 found w3 y where runs:
      "source_capture R root_dir extensions st u = (Inr (scenario, members, metadata, JStr name, expected), v)"
      "perform (host R) (MakeDir output_dir) v = (Inr (), v1)"
      "selection root_dir metadata members = Inr selected"
      "mapS (retain_schema R output_dir (schema_sources (cwd R) options)) schemas v1 = (Inr retained, w)"
      "forS (retain_selected R output_dir expected) selected w = (Inr (), w')"
      "retained_digests R output_dir (map snd selected @ map snd retained) w' = (Inr before, w1)"
      "dataset_document R output_dir h w1 = (Inr dataset, w2)"
      "scan_recording R (output_dir @ [''source'', ''bag'']) name w2 = (Inr found, w3)"
      "unchanged R output_dir before w3 = (Inr (), y)"
      "counts_differ found dataset (JStr name) = Inr False"
      "staged_inputs R output_dir h extensions members metadata (JStr name) retained dataset found y = (Inr document, t)"
    by (simp only: prepared_inputs_def bindS_ok seqS_ok pure_ok)
       (clarsimp simp: bindS_ok seqS_ok pure_ok of_option_ok refuse_ok)
  obtain ms where "bindE (scan_messages (clock_of R) (uint64_of R) name ms) finish_scan = Inr found"
    using scan_recording_accepted [OF runs(8)] by blast
  note accepted = this
  note step = later_run [where C = "quiet (output_dir @ inputs_file)", rotated]
  have "later v v1" by (rule step, rule runs(2), simp add: keeps)
  moreover have "later v1 w" by (rule step, rule runs(4), intro keeps)
  moreover have "later w w'" by (rule step, rule runs(5), intro keeps)
  moreover have "later w' w1" by (rule step, rule runs(6), intro keeps)
  moreover have "later w1 w2" by (rule step, rule runs(7), intro keeps)
  moreover have "later w2 w3" by (rule step, rule runs(8), intro keeps)
  moreover have "later w3 y" by (rule step, rule runs(9), intro keeps)
  moreover have "later y t" by (rule step, rule runs(11), intro keeps)
  ultimately have "later w' t" "later v t" by (meson later_trans)+
  with that [OF runs(1) runs(3) runs(5) refl accepted runs(10) runs(11)] show ?thesis by blast
qed

section \<open>Properties\<close>

definition run_dir :: "'w player \<Rightarrow> prepare_args \<Rightarrow> path" where
  "run_dir R a = to_path (cwd R) (source_run_dir a)"

definition out_dir :: "'w player \<Rightarrow> prepare_args \<Rightarrow> path" where
  "out_dir R a = to_path (cwd R) (output_arg a)"

lemma main_ok:
  assumes "main R a s = (Inr 0, t)"
  obtains h where "statement_digest_ok (source_statement_sha256 a)"
    "prepare R (run_dir R a) (out_dir R a) h (extension_schema a) (Some (source_statement_sha256 a)) s = (Inr (), t)"
proof (rule that)
  from assms have "statement_digest_ok (source_statement_sha256 a) \<and>
    prepare R (run_dir R a) (out_dir R a) (is_absolute (host_output a), pure_parts (host_output a))
      (extension_schema a) (Some (source_statement_sha256 a)) s = (Inr (), t)"
    by (auto simp: main_def catchS_def run_dir_def out_dir_def refuse_def bindS_def seqS_def retS_def liftS_def unlessE_def
        split: prod.splits sum.splits if_splits)
  then show "statement_digest_ok (source_statement_sha256 a)"
    "prepare R (run_dir R a) (out_dir R a) (is_absolute (host_output a), pure_parts (host_output a))
      (extension_schema a) (Some (source_statement_sha256 a)) s = (Inr (), t)" by simp_all
qed


text \<open>
  C26: The published inputs are the last call of a run and are written at most once; the command
  exits with 0 exactly when that write succeeded, and otherwise with 1 or, for an exception it does
  not expect, with that exception; without an authenticated statement digest it does nothing.
\<close>

theorem playback_inputs_are_published_last:
  "\<exists>calls. asked (snd (main R a s)) = asked s @ calls \<and>
     list_all (\<lambda>(c, _). quiet (out_dir R a @ inputs_file) c) (butlast calls) \<and>
     (fst (main R a s) = Inr 0 \<longleftrightarrow> (\<exists>before content v. calls = before @ [(WriteText (out_dir R a @ inputs_file) content, Inr v)])) \<and>
     (fst (main R a s) \<in> {Inr 0, Inr 1} \<or>
      (\<exists>e. fst (main R a s) = Inl e \<and> \<not> caught_by [OSError, ValueError, KeyError, TypeError, HarnessInputError] e)) \<and>
     (statement_digest_ok (source_statement_sha256 a) \<or> calls = [] \<and> fst (main R a s) = Inr 1)"
proof (cases "statement_digest_ok (source_statement_sha256 a)")
  case False
  then have "main R a s = (Inr 1, s)"
    by (simp add: main_def catchS_def seqS_def refuse_def bindS_def is_subclass_def)
  with False show ?thesis by simp
next
  case True
  let ?h = "(is_absolute (host_output a), pure_parts (host_output a))"
  let ?p = "prepared_inputs R (run_dir R a) (out_dir R a) ?h (extension_schema a) (Some (source_statement_sha256 a))"
  let ?exit = "\<lambda>e :: exc. if caught_by [OSError, ValueError, KeyError, TypeError, HarnessInputError] e then Inr 1 else Inl e :: int res"
  obtain r u where run: "?p s = (r, u)" by fastforce
  from addsD [OF adds_prepared_inputs run] obtain before where before: "asked u = asked s @ before"
      "list_all (\<lambda>(c, _). quiet (out_dir R a @ inputs_file) c) before"
    by (auto simp: comp_def case_prod_unfold)
  show ?thesis
  proof (cases r)
    case (Inl e)
    with run True have "main R a s = (?exit e, u)"
      by (simp add: main_def prepare_def catchS_def seqS_def refuse_def bindS_def run_dir_def out_dir_def retS_def)
    moreover from before(2) have "\<nexists>before' content v. before = before' @ [(WriteText (out_dir R a @ inputs_file) content, Inr v)]"
      by auto
    ultimately show ?thesis using before True
      by (intro exI [of _ before]) (auto simp: list_all_iff dest: in_set_butlastD)
  next
    case (Inr document)
    let ?c = "WriteText (out_dir R a @ inputs_file) (dumps R document @ [CHR 0x0A])"
    obtain v w where answer: "host R ?c (outside u) = (v, w)" by fastforce
    with run True Inr have "fst (main R a s) = (case v of Inl e \<Rightarrow> ?exit e | Inr _ \<Rightarrow> Inr 0)"
        "asked (snd (main R a s)) = asked u @ [(?c, v)]"
      by (auto simp: main_def prepare_def catchS_def seqS_def refuse_def bindS_def run_dir_def out_dir_def retS_def
          write_json_def perform_def call_def split: sum.splits)
    with before True show ?thesis
      by (intro exI [of _ "before @ [(?c, v)]"]) (cases v; auto)
  qed
qed

section \<open>Applied\<close>

text \<open>A small capture: one recording of two clock and two stock messages. Every digest is the same,
  and a document is read by the name of its file.\<close>

definition same_digest :: string where
  "same_digest = replicate 64 (CHR ''0'')"

definition capture_custom :: json where
  "capture_custom = JObj [(''run_id'', JStr ''run''), (''captured_at'', JStr ''now''),
     (''record_timestamp_basis'', JStr ''ros_time''), (''capture_clock_policy'', JStr ''ros-time-no-reset''),
     (''retention_class'', JStr ''keep''), (''dataset_license'', JStr ''CC0''), (''data_classification'', JStr ''open'')]"

definition capture_subject :: "string \<Rightarrow> json" where
  "capture_subject name = JObj [(''name'', JStr name), (''digest'', JObj [(''sha256'', JStr same_digest)])]"

definition capture_row :: "string \<Rightarrow> json" where
  "capture_row name = JObj [(''topic_metadata'', JObj [(''name'', JStr name), (''type'', JStr message_type),
     (''type_description_hash'', JStr ''hash''), (''offered_qos_profiles'', JStr ''qos'')]), (''message_count'', JInt 2)]"

definition capture_info :: json where
  "capture_info = JObj [(''relative_file_paths'', JList [JStr ''a.mcap'']),
     (''storage_identifier'', JStr ''mcap''), (''custom_data'', capture_custom), (''message_count'', JInt 4),
     (''topics_with_message_count'', JList [capture_row ''/count'', capture_row ''/clock''])]"

definition capture_subjects :: "string list" where
  "capture_subjects = [''scenario.json'', ''runtime-manifests/primary.json'', ''capture/qos-overrides.yaml'',
     ''capture/mcap-writer.yaml'', ''capture/bags/metadata.yaml'', ''evidence-indexes/primary.json'',
     ''acceptance-run.json'', ''r'', ''s'']"

definition capture_document :: "string \<Rightarrow> json" where
  "capture_document name = (case map_of [
     (''qualification-statement.json'', JObj [(''subject'', JList (map capture_subject capture_subjects)),
        (''predicate'', JObj [(''run_id'', JStr ''run''), (''artifacts'', JList [
           JObj [(''kind'', JStr ''recording''), (''subject_name'', JStr ''r'')],
           JObj [(''kind'', JStr ''recording_summary''), (''subject_name'', JStr ''s'')]])])]),
     (''scenario.yaml'', JObj [(''execution'', JObj [(''data_source'', JStr ''simulator'')]),
        (''expected_ros_graph'', JObj [(''topics'', JList [JObj [(''name'', JStr ''/count''), (''type'', JStr message_type)]])]),
        (''evidence_policy'', JObj [(''max_segment_duration_sec'', JInt 10), (''max_segment_size_bytes'', JInt 1000)]),
        (''timeouts'', JObj [(''execution_sec'', JInt 1)]), (''time_policy'', JObj [])]),
     (''runtime-manifest.json'', JObj [(''execution'', JObj [(''data_source'', JStr ''simulator'')]),
        (''ros'', JObj [(''distribution'', JStr ''jazzy'')]), (''components'', JList [])]),
     (''metadata.yaml'', JObj [(''rosbag2_bagfile_information'', capture_info)]),
     (''a.recording-summary.json'', JObj [(''source_sha256'', JStr same_digest), (''statistics'', JObj [
        (''message_start_time_ns'', JInt 0), (''message_end_time_ns'', JInt 5), (''message_count'', JInt 4)])]),
     (''evidence-index.json'', JObj [(''run_id'', JStr ''run''), (''finalized'', JBool True), (''artifacts'', JList [
        JObj [(''kind'', JStr ''recording''), (''segment_index'', JInt 0), (''sha256'', JStr same_digest),
          (''size_bytes'', JInt 1), (''retention_class'', JStr ''keep''),
          (''recording_summary'', JObj [(''sha256'', JStr same_digest), (''size_bytes'', JInt 1)])]])]),
     (''acceptance-run.json'', JObj [(''run_id'', JStr ''run''), (''scenario_sha256'', JStr same_digest)]),
     (''identity'', JObj [(''ros_distro'', JStr ''jazzy''), (''custom_data'', capture_custom)])] name of
       None \<Rightarrow> JNull | Some document \<Rightarrow> document)"

fun capture_answer :: "playcall \<Rightarrow> json" where
  "capture_answer (LoadSchemas options) = JObj []"
| "capture_answer (ReadDocument p) = JStr (path_name p)"
| "capture_answer (LoadsMapping raw) = capture_document raw"
| "capture_answer (ReadFile p) = JStr []"
| "capture_answer (Stat p) = JList [JInt 1, JInt 0, JInt 0]"
| "capture_answer (IsLink p) = JBool False"
| "capture_answer (IsFile p) = JBool True"
| "capture_answer (Resolve p) = JStr (path_str p)"
| "capture_answer (RGlob p pattern) = JList [JStr (path_str (p @ [if pattern = ''*.mcap'' then ''a.mcap'' else pattern]))]"
| "capture_answer (Glob p pattern) = JList [JStr (path_str (p @ [''a.recording-summary.json'']))]"
| "capture_answer (MetadataRecords p limit) =
     JList [JObj [(''name'', JStr ''rosbag2''), (''metadata'', JObj [(''serialized_metadata'', JStr ''identity'')])]]"
| "capture_answer SetReadOrder = JBool True"
| "capture_answer _ = JNull"

definition capture_player :: "unit player" where
  "capture_player = \<lparr>host = steady capture_answer,
     recorded = (\<lambda>_. [(''/clock'', [], 0), (''/count'', [], 0), (''/clock'', ''x'', 4), (''/count'', [], 5)]),
     clock_of = (\<lambda>raw. Inr (int (length raw), 0)), uint64_of = (\<lambda>raw. Inr 7), sha = (\<lambda>_. same_digest),
     dumps = (\<lambda>_. []), cwd = []\<rparr>"

definition capture_args :: prepare_args where
  "capture_args = \<lparr>source_run_dir = ''run'', output_arg = ''out'', host_output = ''/host'', extension_schema = [],
     source_statement_sha256 = same_digest\<rparr>"

lemma player_fields [simp]:
  "host capture_player = steady capture_answer" "sha capture_player raw = same_digest" "cwd capture_player = []"
  by (simp_all add: capture_player_def)

definition subject_map :: dict where
  "subject_map = map (\<lambda>n. (n, JStr same_digest)) capture_subjects"

lemma subject_items [simp]:
  "n \<in> set capture_subjects \<Longrightarrow> dict_item subject_map n = Inr (JStr same_digest)"
  "n \<in> set capture_subjects \<Longrightarrow> map_of subject_map n = Some (JStr same_digest)"
  by (simp_all add: subject_map_def dict_item_def map_of_map_restrict o_def)

lemma capture_items [simp]:
  "item (capture_document ''metadata.yaml'') ''rosbag2_bagfile_information'' = Inr capture_info"
  "item capture_info ''relative_file_paths'' = Inr (JList [JStr ''a.mcap''])"
  "item capture_info ''storage_identifier'' = Inr (JStr ''mcap'')"
  "item capture_info ''custom_data'' = Inr capture_custom"
  "item capture_info ''message_count'' = Inr (JInt 4)"
  "item capture_info ''topics_with_message_count'' = Inr (JList [capture_row ''/count'', capture_row ''/clock''])"
  "item capture_custom ''run_id'' = Inr (JStr ''run'')"
  "item capture_custom ''captured_at'' = Inr (JStr ''now'')"
  "item capture_custom ''retention_class'' = Inr (JStr ''keep'')"
  "item capture_custom ''dataset_license'' = Inr (JStr ''CC0'')"
  "item capture_custom ''data_classification'' = Inr (JStr ''open'')"
  "item (capture_document ''qualification-statement.json'') ''predicate'' = Inr (JObj [(''run_id'', JStr ''run''),
     (''artifacts'', JList [JObj [(''kind'', JStr ''recording''), (''subject_name'', JStr ''r'')],
        JObj [(''kind'', JStr ''recording_summary''), (''subject_name'', JStr ''s'')]])])"
  "item (capture_document ''qualification-statement.json'') ''subject'' = Inr (JList (map capture_subject capture_subjects))"
  "item (capture_document ''scenario.yaml'') ''execution'' = Inr (JObj [(''data_source'', JStr ''simulator'')])"
  "item (capture_document ''scenario.yaml'') ''evidence_policy'' =
     Inr (JObj [(''max_segment_duration_sec'', JInt 10), (''max_segment_size_bytes'', JInt 1000)])"
  "item (capture_document ''scenario.yaml'') ''expected_ros_graph'' =
     Inr (JObj [(''topics'', JList [JObj [(''name'', JStr ''/count''), (''type'', JStr message_type)]])])"
  "item (capture_document ''scenario.yaml'') ''timeouts'' = Inr (JObj [(''execution_sec'', JInt 1)])"
  "item (capture_document ''runtime-manifest.json'') ''execution'' = Inr (JObj [(''data_source'', JStr ''simulator'')])"
  "item (capture_document ''runtime-manifest.json'') ''ros'' = Inr (JObj [(''distribution'', JStr ''jazzy'')])"
  "item (capture_document ''runtime-manifest.json'') ''components'' = Inr (JList [])"
  "item (capture_document ''acceptance-run.json'') ''run_id'' = Inr (JStr ''run'')"
  "item (capture_document ''acceptance-run.json'') ''scenario_sha256'' = Inr (JStr same_digest)"
  by (simp_all add: capture_document_def capture_info_def capture_custom_def dict_item_def)

text \<open>The parts of the run, one program at a time.\<close>

lemma yields_document [intro]:
  "path_name p = n \<Longrightarrow> capture_document n = d \<Longrightarrow> yields (captured_document capture_player p) (d, n)"
  unfolding captured_document_def player_fields
  by (rule yields_bind, rule yields_typed, simp, rule yields_bind, rule yields_call, simp, rule yields_pure)

lemma yields_sha: "yields (sha256 capture_player p) same_digest"
  unfolding sha256_def player_fields
  by (rule yields_bind, rule yields_typed, simp, rule yields_pure)

lemma yields_size: "yields (stat_size capture_player p) (JInt 1)"
  unfolding stat_size_def player_fields
  by (rule yields_bind, rule yields_call, simp, rule yields_pure, simp)

lemma yields_refuse: "\<not> bad \<Longrightarrow> yields (refuse bad msg) ()"
  by (simp add: yields_def refuse_def)

lemma yields_resolve: "list_all safe_part p \<Longrightarrow> yields (call_path capture_player (Resolve p)) p"
  unfolding call_path_def player_fields
  by (rule yields_bind, rule yields_call, simp, rule yields_pure, simp add: pure_parts_path_str)

lemma yields_paths:
  "list_all safe_part p \<Longrightarrow> yields (call_paths capture_player (Glob p pattern)) [p @ [''a.recording-summary.json'']]"
  "list_all safe_part p \<Longrightarrow> yields (call_paths capture_player (RGlob p ''*.mcap'')) [p @ [''a.mcap'']]"
  "list_all safe_part p \<Longrightarrow> yields (call_paths capture_player (RGlob p ''metadata.yaml'')) [p @ [''metadata.yaml'']]"
  unfolding call_paths_def player_fields
  by (rule yields_bind, rule yields_call, simp, rule yields_pure, simp add: pure_parts_path_str safe_part_def)+

lemma yields_false: "r = Inr False \<Longrightarrow> yields (liftS r) False"
  by (rule yields_pure)

lemma yields_Pair: "yields (Pair (Inr a)) a"
  by (simp add: yields_def)

lemmas playback_yields = yields_Pair yields_false yields_sha yields_size yields_refuse yields_resolve yields_paths yields_document
  yields_rules yields_typed yields_call

lemma yields_copy: "yields (copy_input capture_player p q) ()"
  unfolding copy_input_def player_fields by (rule playback_yields | simp add: py_eq.simps num_eq_def feq_def)+

lemma yields_member:
  "list_all safe_part bag \<Longrightarrow> yields (member_path capture_player bag (JStr ''a.mcap'')) (bag @ [''a.mcap''])"
  unfolding member_path_def player_fields Let_def
  by (rule playback_yields | simp add: member_name_def safe_part_def pure_parts_def is_absolute_def path_str_def
      starts_with_def ends_with_def relative_to_def)+

lemma yields_summaries:
  "list_all safe_part p \<Longrightarrow> yields (summary_sources capture_player p)
     [(JStr same_digest, p @ [''a.recording-summary.json''], capture_document ''a.recording-summary.json'', same_digest)]"
  unfolding summary_sources_def add_summary_def player_fields
  by (rule playback_yields | simp add: path_name_def capture_document_def dict_item_def)+

lemma yields_identity:
  "yields (recording_identity capture_player p capture_custom (JStr ''jazzy'') (JInt 1000)) ()"
  unfolding recording_identity_def player_fields
  by (rule playback_yields | simp add: num_lt_def dict_item_def py_eq.simps other_identity_def orE_def identity_fields_def
      capture_document_def capture_custom_def dget_def)+

lemma ten_seconds: "duration_ns (JInt 10) = Inr (Fin 10000000000)"
  using to_float_of_int [of 10] to_float_of_int [of 10000000000]
  by (simp add: duration_ns_def float_of_int_def checked_float_def)

lemma yields_index:
  "yields (checked_member_index capture_player (capture_document ''evidence-index.json'') [(p, q)]
     [(JStr same_digest, q, capture_document ''a.recording-summary.json'', same_digest)] capture_custom
     (JObj [(''max_segment_duration_sec'', JInt 10), (''max_segment_size_bytes'', JInt 1000)])) ()"
  unfolding checked_member_index_def expected_member_def player_fields
  by (rule playback_yields | simp add: dict_item_def capture_document_def capture_custom_def list_at_def select_def kind_is_def
      py_eq.simps num_eq_def feq_def by_segment_def int_item_def summary_of_def ten_seconds
      indexed_member_def orE_def)+

lemma capture_subjects_set: "set capture_subjects = {''scenario.json'', ''runtime-manifests/primary.json'',
   ''capture/qos-overrides.yaml'', ''capture/mcap-writer.yaml'', ''capture/bags/metadata.yaml'',
   ''evidence-indexes/primary.json'', ''acceptance-run.json'', ''r'', ''s''}"
  by (simp add: capture_subjects_def)

lemma yields_recording:
  "yields (finalized_recording capture_player [''run''] subject_map (capture_document ''qualification-statement.json'')
     (capture_document ''scenario.yaml'') (capture_document ''runtime-manifest.json''))
   ([([''run'', ''bags'', ''a.mcap''], [''run'', ''evidence'', ''summaries'', ''a.recording-summary.json''])],
    [''run'', ''bags'', ''metadata.yaml''], map (\<lambda>p. (p, JStr same_digest)) [[''run'', ''bags'', ''a.mcap''],
       [''run'', ''evidence'', ''summaries'', ''a.recording-summary.json''], [''run'', ''bags'', ''metadata.yaml''],
       [''run'', ''evidence'', ''evidence-index.json'']])"
  unfolding finalized_recording_def player_fields Let_def
  by (rule playback_yields yields_summaries yields_index yields_identity yields_member
    | simp add: list_at_def path_name_def path_parent_def safe_part_def relative_to_def starts_with_def path_str_def differs_from_def
      py_eq.simps summary_of_def orE_def signed_digests_def select_def kind_is_def dict_item_def document_digest_def
      capture_subjects_set dmerge_def digest_file_def)+

lemma subject_digests_capture: "subject_digests (capture_document ''qualification-statement.json'') = Inr subject_map"
  by (simp add: subject_digests_def list_at_def capture_subject_def capture_subjects_def subject_map_def dict_item_def dmerge_def)

definition capture_expected :: "(path \<times> json) list" where
  "capture_expected = map (\<lambda>p. (p, JStr same_digest)) [[''run'', ''scenario.yaml''], [''run'', ''runtime-manifest.json''],
     [''run'', ''results'', ''qualification-statement.json''], [''run'', ''configuration'', ''capture'', ''qos-overrides.yaml''],
     [''run'', ''configuration'', ''capture'', ''mcap-writer.yaml''], [''run'', ''bags'', ''a.mcap''],
     [''run'', ''evidence'', ''summaries'', ''a.recording-summary.json''], [''run'', ''bags'', ''metadata.yaml''],
     [''run'', ''evidence'', ''evidence-index.json''], [''run'', ''acceptance-run.json'']]"

lemma yields_source:
  "yields (source_capture capture_player [''run''] (JObj []) (Some same_digest))
   (capture_document ''scenario.yaml'',
    [([''run'', ''bags'', ''a.mcap''], [''run'', ''evidence'', ''summaries'', ''a.recording-summary.json''])],
    [''run'', ''bags'', ''metadata.yaml''], JStr ''/count'', capture_expected)"
  unfolding source_capture_def player_fields
  by (rule playback_yields yields_recording
    | simp add: list_at_def path_name_def differs_from_def subject_digests_capture document_digest_def capture_subjects_set
      py_eq.simps orE_def stock_topics_def select_def dict_item_def dmerge_def capture_expected_def)+

lemma yields_reference: "yields (artifact_reference capture_player p (True, q) kind) (JObj [
    (''uri'', JStr (''file://'' @ quote (abs_str q))), (''immutable_revision'', JStr same_digest), (''sha256'', JStr same_digest),
    (''size_bytes'', JInt 1), (''media_type'', JStr kind)])"
  unfolding artifact_reference_def
  by (rule playback_yields | simp add: as_uri_def)+

lemma yields_channel: "yields (dataset_channel capture_player p (capture_row name)) (JObj [(''topic'', JStr name),
    (''type'', JStr message_type), (''type_hash'', JStr ''hash''), (''message_count'', JInt 2), (''qos_profile'', JStr ''custom''),
    (''qos_profile_sha256'', JStr same_digest)])"
  unfolding dataset_channel_def capture_row_def
  by (rule playback_yields | simp add: dict_item_def)+

lemma yields_dataset_member:
  "\<exists>row. yields (dataset_member capture_player [''out''] (True, [''host''])
     [(JStr same_digest, [''out'', ''source'', ''capture'', ''summaries'', ''a.recording-summary.json''],
       capture_document ''a.recording-summary.json'', same_digest)] (0, JStr ''a.mcap''))
     (row, capture_document ''a.recording-summary.json'')"
  unfolding dataset_member_def prod.case below_def fst_conv snd_conv
  by (rule exI)
     (rule playback_yields yields_member yields_reference
      | simp add: safe_part_def summary_of_def relative_to_def starts_with_def)+

definition capture_accepted :: "json \<Rightarrow> bool" where
  "capture_accepted dataset \<longleftrightarrow>
     channel_counts dataset = Inr [(JStr ''/count'', JInt 2), (JStr ''/clock'', JInt 2)] \<and>
     path_item dataset [''bag'', ''message_count''] = Inr (JInt 4) \<and> path_item dataset [''time'', ''start_ns''] = Inr (JInt 0)"

lemma capture_statistics:
  "nonempty_statistics [capture_document ''a.recording-summary.json''] = Inr [JObj [(''message_start_time_ns'', JInt 0),
     (''message_end_time_ns'', JInt 5), (''message_count'', JInt 4)]]"
  "capture_time_basis capture_custom = Inr ''ros_time''"
  by (simp_all add: nonempty_statistics_def select_def capture_document_def dict_item_def capture_time_basis_def
      capture_custom_def dget_def py_eq.simps)

lemma yields_dataset:
  "\<exists>dataset. yields (dataset_document capture_player [''out''] (True, [''host''])) dataset \<and> capture_accepted dataset"
proof -
  obtain row where row: "yields (dataset_member capture_player [''out''] (True, [''host''])
     [(JStr same_digest, [''out'', ''source'', ''capture'', ''summaries'', ''a.recording-summary.json''],
       capture_document ''a.recording-summary.json'', same_digest)] (0, JStr ''a.mcap''))
     (row, capture_document ''a.recording-summary.json'')"
    using yields_dataset_member by blast
  show ?thesis
    unfolding dataset_document_def Let_def player_fields below_def fst_conv snd_conv
    by (rule exI, rule conjI)
       (rule playback_yields yields_summaries yields_channel yields_reference row
      | simp add: safe_part_def path_name_def list_at_def capture_statistics extreme_def int_item_def dict_item_def
         capture_accepted_def channel_counts_def dmerge_def)+
qed

definition capture_scan :: scan where
  "capture_scan = \<lparr>sc_first = 0, sc_last = 5, sc_messages = 2, sc_clocks = 2, sc_total = 4\<rparr>"

lemma yields_scan: "yields (scan_recording capture_player p ''/count'') capture_scan"
  unfolding scan_recording_def player_fields
  by (rule playback_yields | simp add: capture_player_def scan_messages_def scan_message_def Let_def empty_scan_def or_else_def
      clock_value_def before_last_def finish_scan_def advancing_def capture_scan_def)+

lemma capture_counts: "capture_accepted dataset \<Longrightarrow> counts_differ capture_scan dataset (JStr ''/count'') = Inr False"
  by (simp add: counts_differ_def capture_accepted_def orE_def differs_from_def count_of_def capture_scan_def py_eq.simps
      num_eq_def feq_def)

lemma capture_rate: "\<exists>rate. playback_rate capture_scan (JInt 3) = Inr rate"
  using to_float_of_int [of 5] to_float_of_int [of 3]
  by (simp add: playback_rate_def seconds_def capture_scan_def float_of_int_def checked_float_def)

lemma capture_offset: "capture_accepted dataset \<Longrightarrow> start_offset capture_scan dataset = Inr (Fin 0)"
  using to_float_of_int [of 0]
  by (simp add: start_offset_def capture_accepted_def seconds_def capture_scan_def float_of_int_def checked_float_def)

lemma capture_replay:
  "\<exists>replay. replay_base (capture_document ''scenario.yaml'') = Inr replay \<and>
     (\<forall>rate. \<exists>d. replay_policy rate same_digest replay = Inr (JObj d))"
  by (simp add: capture_document_def replay_base_def at_item_def clock_profile_def dict_item_def py_eq.simps replay_policy_def)

lemma yields_staged:
  assumes "capture_accepted dataset"
  shows "\<exists>document. yields (staged_inputs capture_player [''out''] h (JObj [])
     [([''run'', ''bags'', ''a.mcap''], q)] [''run'', ''bags'', ''metadata.yaml''] (JStr ''/count'') [] dataset capture_scan) document"
proof -
  obtain rate where rate: "playback_rate capture_scan (JInt 3) = Inr rate" using capture_rate by blast
  from capture_replay obtain replay d where replay: "replay_base (capture_document ''scenario.yaml'') = Inr replay"
      "replay_policy rate same_digest replay = Inr (JObj d)" by blast
  show ?thesis
    unfolding staged_inputs_def write_scenario_def write_schemas_def write_json_def player_fields
    by (rule exI)
       (rule playback_yields | simp add: capture_dir_def path_name_def rate replay capture_offset [OF assms] dict_item_def
          relative_to_def starts_with_def path_parent_def qos_file_def)+
qed

lemma yields_retain:
  "map_of capture_expected p = Some (JStr same_digest) \<Longrightarrow> yields (retain_selected capture_player out capture_expected (p, q)) ()"
  unfolding retain_selected_def prod.case
  by (rule playback_yields yields_copy | simp)+

lemma capture_lookup: "p \<in> fst ` set capture_expected \<Longrightarrow> map_of capture_expected p = Some (JStr same_digest)"
  by (auto simp: capture_expected_def)

lemma capture_paths: "fst ` set capture_expected = {[''run'', ''scenario.yaml''], [''run'', ''runtime-manifest.json''],
     [''run'', ''results'', ''qualification-statement.json''], [''run'', ''configuration'', ''capture'', ''qos-overrides.yaml''],
     [''run'', ''configuration'', ''capture'', ''mcap-writer.yaml''], [''run'', ''bags'', ''a.mcap''],
     [''run'', ''evidence'', ''summaries'', ''a.recording-summary.json''], [''run'', ''bags'', ''metadata.yaml''],
     [''run'', ''evidence'', ''evidence-index.json''], [''run'', ''acceptance-run.json'']}"
  by (simp add: capture_expected_def)

lemma capture_runs: "\<exists>t. main capture_player capture_args s = (Inr 0, t)"
proof -
  obtain dataset where dataset: "yields (dataset_document capture_player [''out''] (True, [''host''])) dataset"
      "capture_accepted dataset" using yields_dataset by blast
  obtain document where staged: "yields (staged_inputs capture_player [''out''] (True, [''host'']) (JObj [])
     [([''run'', ''bags'', ''a.mcap''], [''run'', ''evidence'', ''summaries'', ''a.recording-summary.json''])]
     [''run'', ''bags'', ''metadata.yaml''] (JStr ''/count'') [] dataset capture_scan) document"
    using yields_staged [OF dataset(2)] by blast
  have "yields (prepare capture_player [''run''] [''out''] (True, [''host'']) [] (Some same_digest)) ()"
    unfolding prepare_def prepared_inputs_def player_fields write_json_def retained_digests_def unchanged_def
    by (rule playback_yields yields_source yields_retain yields_scan dataset staged
      | simp add: selection_def select_member_def relative_to_def starts_with_def path_parent_def path_name_def
          fixed_selection_def dmerge_def capture_lookup capture_paths capture_counts [OF dataset(2)])+
  then obtain t where "prepare capture_player [''run''] [''out''] (True, [''host'']) [] (Some same_digest) s = (Inr (), t)"
    using yieldsD by metis
  moreover have "statement_digest_ok same_digest"
    by (simp add: statement_digest_ok_def same_digest_def hex_digits_def list_all_iff)
  ultimately show ?thesis
    by (simp add: main_def catchS_def seqS_def refuse_def bindS_def capture_args_def to_path_def is_absolute_def
        starts_with_def pure_parts_def)
qed


end
