(* ===== verification/Isaac_Worker.thy ===== *)
theory Isaac_Worker
  imports Py_Paths "HOL-Library.Sublist"
begin

text \<open>
  The Isaac Sim worker: \<open>workers/isaac/admission.py\<close>, the two admissions of a host, and
  \<open>workers/isaac/native-observe.py\<close>, which runs one bounded episode in the simulator. Isaac
  Sim, Replicator, the streaming extension and the files of the episode are called through
  \<open>kit\<close>: a \<open>call\<close> answers or raises and moves the outer world on. The worker's own state is
  what its \<open>finally\<close> clause reads, and the \<open>trace\<close> of everything it did, in order. A file of
  the phase directory is written to a temporary name and then takes its final name in one step,
  the event \<open>Published\<close>. The waits run on fuel; \<open>None\<close> is a worker still waiting.
\<close>

section \<open>Admission of the host\<close>

definition refuse_unsupported_environment :: "dict \<Rightarrow> unit res" where
  "refuse_unsupported_environment facts =
     unlessE (\<not> py_eq (dget facts ''os'') (JStr ''linux'') \<or> \<not> py_eq (dget facts ''distribution'') (JStr ''ubuntu''))
       ValueError ''Isaac OCI profile requires native Ubuntu''
    (unlessE (\<not> py_eq (dget facts ''release'') (JStr ''24.04''))
       ValueError ''Isaac OCI profile selects Ubuntu 24.04''
    (unlessE (case dget facts ''kernel'' of
         JStr name \<Rightarrow> contains ''microsoft'' (lower name) \<or> contains ''wsl'' (lower name)
       | _ \<Rightarrow> True)
       ValueError ''this Isaac profile does not qualify WSL''
    (unlessE (dget facts ''nvidia_container_runtime'' \<noteq> JBool True)
       ValueError ''native NVIDIA container runtime admission is incomplete''
    (unlessE (dget facts ''compatibility_checker_passed'' \<noteq> JBool True)
       ValueError ''Isaac Compatibility Checker evidence is required''
    (Inr ())))))"

definition refuse_unsupported_windows_environment :: "dict \<Rightarrow> unit res" where
  "refuse_unsupported_windows_environment facts =
     unlessE (\<not> py_eq (dget facts ''os'') (JStr ''windows'') \<or> \<not> py_eq (dget facts ''release'') (JStr ''11''))
       ValueError ''Isaac standalone profile selects Windows 11''
    (unlessE (\<not> py_eq (dget facts ''architecture'') (JStr ''amd64''))
       ValueError ''Isaac standalone profile selects Windows amd64''
    (unlessE (\<not> py_eq (dget facts ''artifact_sha256'')
         (JStr ''dc7cfc966cd0aea105e97bb1b9b30a8e91306a3254f231bca9caa5c97ae74ae9''))
       ValueError ''Isaac standalone artifact identity is incomplete or mismatched''
    (unlessE (dget facts ''compatibility_checker_passed'' \<noteq> JBool True)
       ValueError ''Isaac Compatibility Checker evidence is required''
    (Inr ()))))"

section \<open>Arguments\<close>

text \<open>The namespace \<open>parse_args\<close> returns; paths are absolute, the working directory applied.\<close>

record options =
  scene :: path
  expected_scene_sha256 :: string
  steps :: int
  dt :: pyfloat
  render_frames :: int
  capture_directory :: "path option"
  rtsp_port :: "int option"
  stream_seconds :: pyfloat
  width :: int
  height :: int
  phase_directory :: "path option"
  owner_id :: "string option"
  phase_token :: "string option"
  phase_timeout_seconds :: pyfloat

text \<open>The required arguments and the defaults of the others.\<close>

definition default_options :: "path \<Rightarrow> string \<Rightarrow> options" where
  "default_options scene_path digest = \<lparr>scene = scene_path, expected_scene_sha256 = digest, steps = 60,
     dt = to_float (1/60), render_frames = 0, capture_directory = None, rtsp_port = None,
     stream_seconds = Fin 10, width = 640, height = 480, phase_directory = None, owner_id = None,
     phase_token = None, phase_timeout_seconds = Fin 120\<rparr>"

definition owner_char :: "char \<Rightarrow> bool" where
  "owner_char c = (is_alnum c \<or> c \<in> set ''_.:-'')"

definition token_char :: "char \<Rightarrow> bool" where
  "token_char c = (is_digit c \<or> in_range (CHR ''a'') (CHR ''f'') c \<or> c = CHR ''-'')"

definition valid_owner :: "string \<Rightarrow> bool" where
  "valid_owner s \<longleftrightarrow> 1 \<le> length s \<and> length s \<le> 128 \<and> list_all owner_char s"

definition valid_token :: "string \<Rightarrow> bool" where
  "valid_token s \<longleftrightarrow> length s = 36 \<and> list_all token_char s"

definition private_names :: "string list" where
  "private_names = [''ready.json'', ''paused-state.json'', ''episode-result.json'',
     ''start.json'', ''release.json'', ''cancel.json'']"

definition in_bounds :: "rat \<Rightarrow> pyfloat \<Rightarrow> rat \<Rightarrow> bool" where
  "in_bounds low x high = (fle (Fin low) x \<and> fle x (Fin high))"

definition phase_options :: "tree \<Rightarrow> options \<Rightarrow> options res" where
  "phase_options t a =
     (if phase_directory a = None \<and> owner_id a \<in> {None, Some []} \<and> phase_token a \<in> {None, Some []} then Inr a
      else case (phase_directory a, owner_id a, phase_token a) of
        (Some directory, Some (o1 # os), Some (t1 # ts)) \<Rightarrow>
          unlessE (\<not> valid_owner (o1 # os)) SystemExit ''invalid episode owner''
         (unlessE (\<not> valid_token (t1 # ts)) SystemExit ''invalid private phase token''
         (unlessE (\<not> isfinite (phase_timeout_seconds a) \<or> \<not> in_bounds 1 (phase_timeout_seconds a) 300)
            SystemExit ''private phase waits must be bounded''
         (bindE (resolve t directory) (\<lambda>dir.
          unlessE (node_at t dir \<noteq> Some Dir) SystemExit ''phase directory must already exist''
         (unlessE (list_ex (\<lambda>n. is_ok (resolve t (dir @ [n]))) private_names)
            SystemExit ''private episode output/marker already exists''
         (Inr (a\<lparr>phase_directory := Some dir,
                 capture_directory := (if render_frames a \<noteq> 0 \<and> capture_directory a = None
                   then Some (dir @ [''capture'']) else capture_directory a)\<rparr>)))))))
      | _ \<Rightarrow> raise SystemExit ''phase directory, owner and token must be supplied together'')"

definition arguments :: "(bytes \<Rightarrow> string) \<Rightarrow> tree \<Rightarrow> options \<Rightarrow> options res" where
  "arguments sha t parsed = bindE (phase_options t parsed) (\<lambda>a.
     unlessE (\<not> (1 \<le> steps a \<and> steps a \<le> 10000) \<or> \<not> (0 \<le> render_frames a \<and> render_frames a \<le> 10000))
       SystemExit ''step and render counts must be bounded''
    (unlessE (\<not> isfinite (dt a) \<or> \<not> (flt (Fin 0) (dt a) \<and> fle (dt a) (Fin 1)))
       SystemExit ''dt must be finite and within (0, 1]''
    (unlessE (\<not> (1 \<le> width a \<and> width a \<le> 4096) \<or> \<not> (1 \<le> height a \<and> height a \<le> 4096))
       SystemExit ''capture dimensions must be bounded''
    (unlessE (capture_directory a \<noteq> None \<and> render_frames a < 1)
       SystemExit ''capture requires rendered frames''
    (unlessE (\<exists>port \<in> set_option (rtsp_port a). \<not> (1024 \<le> port \<and> port \<le> 65535) \<or> render_frames a < 1)
       SystemExit ''RTSP requires an unprivileged port and rendered frames''
    (unlessE (rtsp_port a \<noteq> None \<and>
         (\<not> isfinite (stream_seconds a) \<or> \<not> (flt (Fin 0) (stream_seconds a) \<and> fle (stream_seconds a) (Fin 60))))
       SystemExit ''RTSP duration must be finite and within (0, 60]''
    (bindE (resolve t (scene a)) (\<lambda>found.
     case node_at t found of
       Some (Regular d m) \<Rightarrow>
         unlessE (sha d \<noteq> expected_scene_sha256 a) SystemExit ''scene digest differs from the admitted fixture''
        (Inr (a\<lparr>scene := found\<rparr>))
     | _ \<Rightarrow> raise SystemExit ''scene must be a regular file''))))))))"

section \<open>The simulator and the worker\<close>

datatype call =
    StartApp | CloseApp int | AppRunning | AppUpdate
  | GetVersion | OpenStage path | SetupSimulation pyfloat | InitializePhysics | MakeBody | BodyPose
  | SimTime | PhysicsStep int | PhysicsDevice | DefaultPrim | TimelinePause | TimelinePlaying
  | CameraValid | CreateProduct int int | GetAnnotator | AttachAnnotator | EnableExtension string
  | OpenRtspServer | CloseRtspServer | EnsureRenderVar | MakeRtspWriter int int int | AttachRtsp
  | Render | OrchestratorStep int | RgbaData | MakeCaptureDir path | WritePixels | SaveImage
  | ReadPixels | ReadImage | PixelSize | DetachAnnotator | DetachRtsp | DestroyProduct
  | ReadBootstrap | ReadScene
  | NewUuid | OpenNew string | WriteSync string dict | Replace string string | Unlink string
  | MarkerExists string | MarkerIsLink string | MarkerIsFile string | MarkerSize string | MarkerText string

datatype event =
    Called call "json res"
  | Published string dict
  | Stdout json
  | Stderr json

record 'w worker =
  world :: 'w
  trace :: "event list"
  render_product :: bool
  annotator :: bool
  rtsp_writer :: bool
  exit_code :: int

text \<open>\<open>physics_step\<close> is \<open>SimulationManager.step\<close>: it is given the callback it runs between
  the steps. \<open>loads\<close> is \<open>json.loads\<close>, \<open>sha\<close> the hexadecimal SHA-256.\<close>

record 'w kit =
  native :: "call \<Rightarrow> 'w \<Rightarrow> json res \<times> 'w"
  physics_step :: "int \<Rightarrow> ('w worker, unit) prog \<Rightarrow> ('w worker, unit) prog"
  monotonic :: "'w \<Rightarrow> rat \<times> 'w"
  sleep :: "rat \<Rightarrow> 'w \<Rightarrow> 'w"
  loads :: "string \<Rightarrow> json res"
  sha :: "bytes \<Rightarrow> string"

definition new_worker :: "'w \<Rightarrow> 'w worker" where
  "new_worker w = \<lparr>world = w, trace = [], render_product = False, annotator = False,
     rtsp_writer = False, exit_code = 1\<rparr>"

definition emit :: "event \<Rightarrow> ('w worker, unit) prog" where
  "emit e = modifyS (\<lambda>s. s\<lparr>trace := trace s @ [e]\<rparr>)"

definition ask :: "'w kit \<Rightarrow> call \<Rightarrow> ('w worker, json) prog" where
  "ask kit c = (\<lambda>s. case native kit c (world s) of (r, w) \<Rightarrow>
     (r, s\<lparr>world := w, trace := trace s @ [Called c r]\<rparr>))"

definition run :: "'w kit \<Rightarrow> call \<Rightarrow> ('w worker, unit) prog" where
  "run kit c = seqS (ask kit c) (retS ())"

text \<open>\<open>float(...)\<close> of a native number, a native boolean and a native text.\<close>

definition ask_float :: "'w kit \<Rightarrow> call \<Rightarrow> ('w worker, pyfloat) prog" where
  "ask_float kit c = bindS (ask kit c) (\<lambda>v. liftS (of_option TypeError ''float() argument'' (num_of v)))"

definition ask_bool :: "'w kit \<Rightarrow> call \<Rightarrow> ('w worker, bool) prog" where
  "ask_bool kit c = bindS (ask kit c) (\<lambda>v. retS (truthy v))"

definition ask_text :: "'w kit \<Rightarrow> call \<Rightarrow> ('w worker, string) prog" where
  "ask_text kit c = bindS (ask kit c) (\<lambda>v. liftS (of_option TypeError ''text expected'' (as_str v)))"

definition ask_int :: "'w kit \<Rightarrow> call \<Rightarrow> ('w worker, int) prog" where
  "ask_int kit c = bindS (ask kit c) (\<lambda>v. liftS (of_option TypeError ''integer expected'' (as_int v)))"

definition read_clock :: "'w kit \<Rightarrow> ('w worker, rat) prog" where
  "read_clock kit = (\<lambda>s. case monotonic kit (world s) of (t, w) \<Rightarrow> (Inr t, s\<lparr>world := w\<rparr>))"

definition rest_for :: "'w kit \<Rightarrow> rat \<Rightarrow> ('w worker, unit) prog" where
  "rest_for kit seconds = modifyS (\<lambda>s. s\<lparr>world := sleep kit seconds (world s)\<rparr>)"

text \<open>Python's \<open>or\<close> and \<open>not\<close> on conditions that call out.\<close>

definition orS :: "('s, bool) prog \<Rightarrow> ('s, bool) prog \<Rightarrow> ('s, bool) prog" where
  "orS m n = bindS m (\<lambda>b. if b then retS True else n)"

definition notS :: "('s, bool) prog \<Rightarrow> ('s, bool) prog" where
  "notS m = bindS m (\<lambda>b. retS (\<not> b))"

definition refuseS :: "('s, bool) prog \<Rightarrow> exc_kind \<Rightarrow> string \<Rightarrow> ('s, unit) prog" where
  "refuseS m k msg = bindS m (\<lambda>b. if b then raiseS k msg else retS ())"

section \<open>The private phase\<close>

fun opt_str :: "string option \<Rightarrow> json" where
  "opt_str None = JNull"
| "opt_str (Some s) = JStr s"

definition phase_header :: "options \<Rightarrow> dict" where
  "phase_header a = [(''owner_id'', opt_str (owner_id a)), (''phase_token'', opt_str (phase_token a))]"

definition phase_write :: "'w kit \<Rightarrow> options \<Rightarrow> string \<Rightarrow> dict \<Rightarrow> ('w worker, unit) prog" where
  "phase_write kit a name facts = (case phase_directory a of
      None \<Rightarrow> retS ()
    | Some directory \<Rightarrow>
        bindS (ask_text kit NewUuid) (\<lambda>uuid.
        let temporary = ''.'' @ name @ ''-'' @ uuid; payload = dmerge (phase_header a) facts in
        finallyS
          (seqS (run kit (OpenNew temporary))
          (seqS (if finite_dict payload then run kit (WriteSync temporary payload)
                 else raiseS ValueError ''Out of range float values are not JSON compliant'')
          (seqS (run kit (Replace temporary name))
                (emit (Published name payload)))))
          (run kit (Unlink temporary))))"

definition marker_facts :: "options \<Rightarrow> string \<Rightarrow> json" where
  "marker_facts a action = JObj (phase_header a @ [(''action'', JStr action)])"

definition phase_marker :: "'w kit \<Rightarrow> options \<Rightarrow> string \<Rightarrow> ('w worker, bool) prog" where
  "phase_marker kit a action = (let name = action @ ''.json'' in
     bindS (ask_bool kit (MarkerExists name)) (\<lambda>present.
     if \<not> present then retS False
     else seqS (refuseS
            (orS (ask_bool kit (MarkerIsLink name))
            (orS (notS (ask_bool kit (MarkerIsFile name)))
                 (bindS (ask_int kit (MarkerSize name)) (\<lambda>n. retS (4096 < n)))))
            RuntimeError ''private phase marker is not a bounded regular file'')
         (bindS (ask_text kit (MarkerText name)) (\<lambda>text.
          bindS (liftS (loads kit text)) (\<lambda>facts.
          if \<not> py_eq facts (marker_facts a action)
          then raiseS RuntimeError ''private phase marker belongs to another episode''
          else retS True)))))"

definition close_enough :: "pyfloat \<Rightarrow> pyfloat \<Rightarrow> bool" where
  "close_enough x y = isclose (1 / 10 ^ 9) x y"

definition paused_state :: "string \<Rightarrow> nat \<Rightarrow> bool \<Rightarrow> bool \<Rightarrow> pyfloat \<Rightarrow> dict" where
  "paused_state phase n running playing current =
     [(''phase'', JStr phase), (''observation'', JInt (int n)), (''application_running'', JBool running),
      (''timeline_playing'', JBool playing), (''simulation_time_seconds'', JFloat current)]"

text \<open>One pass of \<open>wait_paused_phase\<close>, whose variable is \<open>observation\<close>: the world is
  observed, and then the markers are read.\<close>

definition observe_pause ::
  "'w kit \<Rightarrow> options \<Rightarrow> string \<Rightarrow> pyfloat \<Rightarrow> nat \<Rightarrow> ('w worker, unit) prog" where
  "observe_pause kit a phase baseline observation =
     seqS (refuseS (notS (ask_bool kit AppRunning)) RuntimeError
             ''native application closed during its private phase'')
    (seqS (run kit AppUpdate)
    (bindS (ask_float kit SimTime) (\<lambda>current.
     seqS (refuseS (orS (ask_bool kit TimelinePlaying)
                        (retS (\<not> isfinite current \<or> \<not> close_enough current baseline)))
             RuntimeError ''native timeline advanced during its PAUSED phase'')
    (bindS (ask_bool kit AppRunning) (\<lambda>running.
     bindS (ask_bool kit TimelinePlaying) (\<lambda>playing.
     phase_write kit a ''paused-state.json'' (paused_state phase (Suc observation) running playing current)))))))"

definition await_marker ::
  "'w kit \<Rightarrow> options \<Rightarrow> string \<Rightarrow> pyfloat \<Rightarrow> nat \<Rightarrow> ('w worker, unit + nat) prog" where
  "await_marker kit a action deadline observation =
     seqS (refuseS (phase_marker kit a ''cancel'') RuntimeError ''private episode cancelled'')
    (bindS (phase_marker kit a action) (\<lambda>marked.
     if marked then retS (Inl ())
     else seqS (if action = ''start''
                then refuseS (phase_marker kit a ''release'') RuntimeError
                       ''private episode released before measurement''
                else retS ())
         (bindS (read_clock kit) (\<lambda>t.
          if fle deadline (Fin t) then raiseS TimeoutError ''private native phase deadline exceeded''
          else seqS (rest_for kit (rnd64 (1/40))) (retS (Inr observation))))))"

definition paused_pass ::
  "'w kit \<Rightarrow> options \<Rightarrow> string \<Rightarrow> string \<Rightarrow> pyfloat \<Rightarrow> pyfloat \<Rightarrow> nat \<Rightarrow> ('w worker, unit + nat) prog" where
  "paused_pass kit a action phase deadline baseline observation =
     seqS (observe_pause kit a phase baseline observation)
          (await_marker kit a action deadline (Suc observation))"

definition wait_paused_phase ::
  "'w kit \<Rightarrow> nat \<Rightarrow> options \<Rightarrow> string \<Rightarrow> string \<Rightarrow> ('w worker, unit) fprog" where
  "wait_paused_phase kit fuel a action phase =
     (if phase_directory a = None then liftF (retS ())
      else bindF (liftF (read_clock kit)) (\<lambda>t.
           let deadline = fadd (Fin t) (phase_timeout_seconds a) in
           bindF (liftF (ask_float kit SimTime)) (\<lambda>baseline s.
             repeat_until fuel (pass_of (paused_pass kit a action phase deadline baseline)) (0, s))))"

section \<open>The episode\<close>

definition body_of :: "json \<Rightarrow> json \<Rightarrow> json" where
  "body_of first final = JObj [(''prim'', JStr ''/World/Body''), (''world_frame'', JStr ''Z up; metres''),
     (''begin_position'', first), (''end_position'', final),
     (''native_api'', JStr ''experimental RigidPrim.get_world_poses'')]"

text \<open>Up to the loaded scene with its body: the observed version, the pose and the time.\<close>

definition load_scene :: "'w kit \<Rightarrow> options \<Rightarrow> ('w worker, string \<times> json \<times> pyfloat) prog" where
  "load_scene kit a =
     bindS (ask_text kit GetVersion) (\<lambda>version.
     seqS (refuseS (retS (version \<noteq> ''6.1.0'')) RuntimeError (''Isaac 6.1.0 required, observed '' @ version))
    (bindS (ask kit (OpenStage (scene a))) (\<lambda>opened.
     seqS (case opened of
         JList [loaded, stage] \<Rightarrow> refuseS (retS (\<not> truthy loaded \<or> stage = JNull)) RuntimeError
           ''native USD stage loading failed''
       | _ \<Rightarrow> raiseS TypeError ''cannot unpack'')
    (seqS (run kit (SetupSimulation (dt a)))
    (seqS (run kit InitializePhysics)
    (seqS (run kit MakeBody)
    (bindS (ask kit BodyPose) (\<lambda>body_begin.
     bindS (ask_float kit SimTime) (\<lambda>began.
     retS (version, body_begin, began))))))))))"

definition ready_facts ::
  "options \<Rightarrow> string \<Rightarrow> json \<Rightarrow> json \<Rightarrow> string \<Rightarrow> string \<Rightarrow> pyfloat \<Rightarrow> bool \<Rightarrow> bool \<Rightarrow> dict" where
  "ready_facts a version pose prim bootstrap device current running playing =
     [(''phase'', JStr ''ready''), (''runtime_version'', JStr version),
      (''scene_sha256'', JStr (expected_scene_sha256 a)), (''body_prim'', JStr ''/World/Body''),
      (''body_position'', pose), (''scene_default_prim'', prim), (''bootstrap_sha256'', JStr bootstrap),
      (''physics_device'', JStr device), (''simulation_time_seconds'', JFloat current),
      (''application_running'', JBool running), (''timeline_playing'', JBool playing)]"

text \<open>The \<open>ready\<close> phase: the world is paused and its facts are published.\<close>

definition enter_ready :: "'w kit \<Rightarrow> options \<Rightarrow> string \<Rightarrow> pyfloat \<Rightarrow> ('w worker, json) prog" where
  "enter_ready kit a version began =
     seqS (run kit TimelinePause)
    (seqS (run kit AppUpdate)
    (bindS (ask_float kit SimTime) (\<lambda>current.
     seqS (refuseS
         (orS (notS (ask_bool kit AppRunning))
         (orS (ask_bool kit TimelinePlaying)
              (retS (\<not> close_enough current began))))
         RuntimeError ''native world did not enter its live PAUSED ready phase'')
    (bindS (ask kit BodyPose) (\<lambda>body_begin.
     bindS (ask kit DefaultPrim) (\<lambda>prim.
     bindS (ask_text kit ReadBootstrap) (\<lambda>bootstrap.
     bindS (ask_text kit PhysicsDevice) (\<lambda>device.
     bindS (ask_bool kit AppRunning) (\<lambda>running.
     bindS (ask_bool kit TimelinePlaying) (\<lambda>playing.
     seqS (phase_write kit a ''ready.json''
             (ready_facts a version body_begin prim (sha kit bootstrap) device current running playing))
     (retS body_begin)))))))))))"

definition check_episode_cancel :: "'w kit \<Rightarrow> options \<Rightarrow> pyfloat \<Rightarrow> ('w worker, unit) prog" where
  "check_episode_cancel kit a episode_deadline =
     (if phase_directory a = None then retS ()
      else seqS (refuseS (phase_marker kit a ''cancel'') RuntimeError ''private episode cancelled'')
          (bindS (read_clock kit) (\<lambda>t.
           if fle episode_deadline (Fin t) then raiseS TimeoutError ''private native episode deadline exceeded''
           else retS ())))"

text \<open>The stepping, and the time and pose after it.\<close>

definition step_world :: "'w kit \<Rightarrow> options \<Rightarrow> pyfloat \<Rightarrow> pyfloat \<Rightarrow> ('w worker, pyfloat \<times> json) prog" where
  "step_world kit a episode_deadline began =
     seqS (emit (Called (PhysicsStep (steps a)) (Inr JNull)))
    (seqS (physics_step kit (steps a) (check_episode_cancel kit a episode_deadline))
    (seqS (if phase_directory a = None then retS ()
           else refuseS (phase_marker kit a ''cancel'') RuntimeError ''private episode cancelled during native stepping'')
    (bindS (ask_float kit SimTime) (\<lambda>ended.
     bindS (ask kit BodyPose) (\<lambda>body_end.
     if \<not> isfinite began \<or> \<not> isfinite ended \<or> fle ended began
     then raiseS RuntimeError ''native physics time did not advance''
     else retS (ended, body_end))))))"

definition open_stream :: "'w kit \<Rightarrow> options \<Rightarrow> int \<Rightarrow> ('w worker, unit) prog" where
  "open_stream kit a port =
     seqS (run kit (EnableExtension ''isaacsim.core.nodes''))
    (seqS (run kit (EnableExtension ''isaacsim.streaming.rtsp''))
    (seqS (run kit OpenRtspServer)
    (seqS (run kit CloseRtspServer)
    (seqS (refuseS (notS (ask_bool kit EnsureRenderVar)) RuntimeError ''native H.264 render variable is unavailable'')
    (seqS (run kit (MakeRtspWriter port (width a) (height a)))
    (seqS (modifyS (\<lambda>s. s\<lparr>rtsp_writer := True\<rparr>))
    (run kit AttachRtsp)))))))"

definition open_capture :: "'w kit \<Rightarrow> options \<Rightarrow> ('w worker, unit) prog" where
  "open_capture kit a =
     (if capture_directory a = None \<and> rtsp_port a = None then retS ()
      else seqS (refuseS (notS (ask_bool kit CameraValid)) RuntimeError ''native fixture camera is absent'')
          (seqS (run kit (CreateProduct (width a) (height a)))
          (seqS (modifyS (\<lambda>s. s\<lparr>render_product := True\<rparr>))
          (seqS (if capture_directory a = None then retS ()
                 else seqS (run kit GetAnnotator)
                     (seqS (modifyS (\<lambda>s. s\<lparr>annotator := True\<rparr>))
                     (run kit AttachAnnotator)))
          (case rtsp_port a of None \<Rightarrow> retS () | Some port \<Rightarrow> open_stream kit a port)))))"

definition render_frame :: "'w kit \<Rightarrow> options \<Rightarrow> pyfloat \<Rightarrow> nat \<Rightarrow> ('w worker, unit) prog" where
  "render_frame kit a episode_deadline _ =
     seqS (check_episode_cancel kit a episode_deadline)
    (bindS (getS render_product) (\<lambda>product.
     if product then run kit (OrchestratorStep 4) else run kit Render))"

definition stream_pass :: "'w kit \<Rightarrow> options \<Rightarrow> pyfloat \<Rightarrow> pyfloat \<Rightarrow> unit \<Rightarrow> ('w worker, unit + unit) prog" where
  "stream_pass kit a episode_deadline deadline _ =
     bindS (read_clock kit) (\<lambda>t.
     if \<not> flt (Fin t) deadline then retS (Inl ())
     else seqS (check_episode_cancel kit a episode_deadline)
         (seqS (run kit (OrchestratorStep 1))
         (retS (Inr ()))))"

definition stream :: "'w kit \<Rightarrow> nat \<Rightarrow> options \<Rightarrow> pyfloat \<Rightarrow> ('w worker, unit) fprog" where
  "stream kit fuel a episode_deadline =
     bindF (liftF (getS rtsp_writer)) (\<lambda>streaming.
     if \<not> streaming then liftF (retS ())
     else bindF (liftF (read_clock kit)) (\<lambda>t s.
            repeat_until fuel (pass_of (stream_pass kit a episode_deadline (fadd (Fin t) (stream_seconds a)))) ((), s)))"

definition retain_capture :: "'w kit \<Rightarrow> options \<Rightarrow> ('w worker, json) prog" where
  "retain_capture kit a =
     bindS (getS annotator) (\<lambda>annotating.
     case (annotating, capture_directory a) of
       (True, Some directory) \<Rightarrow>
         bindS (ask kit RgbaData) (\<lambda>shape.
         seqS (refuseS (retS (\<not> py_eq shape (JList [JInt (height a), JInt (width a), JInt 4])))
                 RuntimeError ''native RGBA dimensions differ'')
        (seqS (run kit (MakeCaptureDir directory))
        (seqS (run kit WritePixels)
        (seqS (run kit SaveImage)
        (bindS (ask_text kit ReadPixels) (\<lambda>pixels.
         bindS (ask_text kit ReadImage) (\<lambda>image.
         bindS (ask kit PixelSize) (\<lambda>pixel_bytes.
         bindS (ask_float kit SimTime) (\<lambda>now.
         retS (JObj [(''camera'', JStr ''/World/Camera''), (''width'', JInt (width a)), (''height'', JInt (height a)),
           (''format'', JStr ''RGBA''), (''rgba_sha256'', JStr (sha kit pixels)),
           (''png_sha256'', JStr (sha kit image)), (''size_bytes'', pixel_bytes),
           (''native_capture_api'', JStr ''Replicator rgb annotator''),
           (''controller_observed_physics_seconds'', JFloat now)]))))))))))
     | _ \<Rightarrow> retS JNull)"

text \<open>The world is paused again and has to stand where the stepping left it.\<close>

definition pause_world :: "'w kit \<Rightarrow> pyfloat \<Rightarrow> ('w worker, pyfloat) prog" where
  "pause_world kit ended =
     seqS (run kit TimelinePause)
    (seqS (run kit AppUpdate)
    (bindS (ask_float kit SimTime) (\<lambda>paused_time.
     seqS (refuseS (orS (ask_bool kit TimelinePlaying) (retS (\<not> close_enough paused_time ended)))
             RuntimeError ''native timeline did not remain quiescent after capture'')
     (retS paused_time))))"

definition episode_facts ::
  "'w kit \<Rightarrow> options \<Rightarrow> string \<Rightarrow> pyfloat \<Rightarrow> pyfloat \<Rightarrow> json \<Rightarrow> json \<Rightarrow> json \<Rightarrow> pyfloat \<Rightarrow> ('w worker, dict) prog" where
  "episode_facts kit a version began ended body_begin body_end capture paused_time =
     bindS (ask_text kit ReadScene) (\<lambda>scene_bytes.
     bindS (ask kit DefaultPrim) (\<lambda>prim.
     bindS (ask_bool kit TimelinePlaying) (\<lambda>playing.
     bindS (getS rtsp_writer) (\<lambda>streaming.
     retS [(''runtime'', JStr ''Isaac Sim''), (''runtime_version'', JStr version),
       (''expected_source_commit'', JStr ''7c206f75bdadd9e05fc457f19863ca4c3f0cb693''),
       (''scene_sha256'', JStr (sha kit scene_bytes)), (''scene_default_prim'', prim),
       (''requested_physics_steps'', JInt (steps a)), (''requested_dt_seconds'', JFloat (dt a)),
       (''physics_begin_seconds'', JFloat began), (''physics_end_seconds'', JFloat ended),
       (''physics_advance_seconds'', JFloat (fsub ended began)), (''body'', body_of body_begin body_end),
       (''paused_time_seconds'', JFloat paused_time), (''timeline_playing_after_pause'', JBool playing),
       (''native_time_representation'', JStr ''float seconds; no exact ns claim''),
       (''requested_render_frames'', JInt (render_frames a)), (''native_capture'', capture),
       (''rtsp_requested'', JBool (rtsp_port a \<noteq> None)),
       (''rtsp_port'', case rtsp_port a of None \<Rightarrow> JNull | Some p \<Rightarrow> JInt p),
       (''stream_wall_seconds_requested'', if streaming then JFloat (stream_seconds a) else JNull),
       (''frame_capture_qualified'', JBool False), (''rtsp_qualified'', JBool False)]))))"

definition say_facts :: "dict \<Rightarrow> ('w worker, unit) prog" where
  "say_facts facts =
     (if finite_dict facts then emit (Stdout (JObj facts))
      else raiseS ValueError ''Out of range float values are not JSON compliant'')"

definition report_result :: "'w kit \<Rightarrow> options \<Rightarrow> dict \<Rightarrow> ('w worker, unit) prog" where
  "report_result kit a facts =
     (if phase_directory a = None then retS ()
      else bindS (ask_bool kit AppRunning) (\<lambda>running.
           phase_write kit a ''episode-result.json''
             (facts @ [(''status'', JStr ''completed''), (''application_running'', JBool running)])))"

text \<open>The body of \<open>try\<close>.\<close>

definition episode :: "'w kit \<Rightarrow> nat \<Rightarrow> options \<Rightarrow> ('w worker, int) fprog" where
  "episode kit fuel a =
     bindF (liftF (load_scene kit a)) (\<lambda>(version, loaded_pose, began).
     bindF (if phase_directory a = None then liftF (retS loaded_pose)
            else bindF (liftF (enter_ready kit a version began)) (\<lambda>pose.
                 seqF (wait_paused_phase kit fuel a ''start'' ''ready'') (liftF (retS pose)))) (\<lambda>body_begin.
     bindF (liftF (read_clock kit)) (\<lambda>t.
     let episode_deadline = fadd (Fin t) (phase_timeout_seconds a) in
     bindF (liftF (step_world kit a episode_deadline began)) (\<lambda>(ended, body_end).
     seqF (liftF (open_capture kit a))
    (seqF (liftF (forS (render_frame kit a episode_deadline) [0..<nat (render_frames a)]))
    (seqF (stream kit fuel a episode_deadline)
    (bindF (liftF (retain_capture kit a)) (\<lambda>capture.
     bindF (liftF (pause_world kit ended)) (\<lambda>paused_time.
     bindF (liftF (episode_facts kit a version began ended body_begin body_end capture paused_time)) (\<lambda>facts.
     seqF (liftF (say_facts facts))
    (seqF (liftF (report_result kit a facts))
    (seqF (wait_paused_phase kit fuel a ''release'' ''measured'')
    (seqF (liftF (modifyS (\<lambda>s. s\<lparr>exit_code := 0\<rparr>)))
    (liftF (retS 0)))))))))))))))"

definition report_error :: "'w kit \<Rightarrow> options \<Rightarrow> exc \<Rightarrow> ('w worker, int) prog" where
  "report_error kit a e =
     (let facts = [(''status'', JStr ''error''), (''diagnostic'', JStr (exc_msg e))] in
      seqS (phase_write kit a ''worker-error.json'' facts)
     (seqS (emit (Stderr (JObj facts)))
     (retS 1)))"

text \<open>The \<open>finally\<close> clause.\<close>

definition release_renderer :: "'w kit \<Rightarrow> ('w worker, unit) prog" where
  "release_renderer kit = bindS (getS (\<lambda>s. (annotator s, rtsp_writer s, render_product s))) (\<lambda>(ann, rtsp, product).
     finallyS (whenS (ann \<and> product) (run kit DetachAnnotator))
       (finallyS (whenS rtsp (run kit DetachRtsp))
          (whenS product (run kit DestroyProduct))))"

definition clean_up :: "'w kit \<Rightarrow> ('w worker, unit) prog" where
  "clean_up kit =
     finallyS
       (catch_exception (release_renderer kit) (\<lambda>e. modifyS (\<lambda>s. s\<lparr>exit_code := 1\<rparr>)))
       (bindS (getS exit_code) (\<lambda>code. run kit (CloseApp code)))"

definition isaac_run :: "'w kit \<Rightarrow> nat \<Rightarrow> options \<Rightarrow> ('w worker, int) fprog" where
  "isaac_run kit fuel a =
     seqF (liftF (run kit StartApp))
       (finallyF (catchF (episode kit fuel a) (\<lambda>e. liftF (report_error kit a e))) (clean_up kit))"

definition isaac_main :: "'w kit \<Rightarrow> nat \<Rightarrow> tree \<Rightarrow> options \<Rightarrow> ('w worker, int) fprog" where
  "isaac_main kit fuel t parsed = bindF (liftF (liftS (arguments (sha kit) t parsed))) (isaac_run kit fuel)"

section \<open>The protocol of an episode\<close>

text \<open>
  What the other side of the phase directory may rely on. The world stands still in
  \<open>Waiting k\<close>, where \<open>k\<close> observations are published, until the owner's start marker
  admits the stepping; the result is published once, and the worker goes on observing until the
  owner's release marker.
\<close>

datatype phase =
    Booting | Waiting nat | Admitted | Measuring | Reported nat | Released | Failed | Closed int

definition signed :: "options \<Rightarrow> dict \<Rightarrow> bool" where
  "signed a d \<longleftrightarrow> map_of d ''owner_id'' = Some (opt_str (owner_id a)) \<and>
     map_of d ''phase_token'' = Some (opt_str (phase_token a))"

definition marker_read :: "'w kit \<Rightarrow> options \<Rightarrow> string \<Rightarrow> event \<Rightarrow> bool" where
  "marker_read kit a action e \<longleftrightarrow> (\<exists>text facts. e = Called (MarkerText (action @ ''.json'')) (Inr (JStr text)) \<and>
     loads kit text = Inr facts \<and> py_eq facts (marker_facts a action))"

fun renders :: "call \<Rightarrow> bool" where
  "renders (CreateProduct _ _) = True"
| "renders AttachAnnotator = True"
| "renders (MakeRtspWriter _ _ _) = True"
| "renders AttachRtsp = True"
| "renders Render = True"
| "renders (OrchestratorStep _) = True"
| "renders (MakeCaptureDir _) = True"
| "renders WritePixels = True"
| "renders SaveImage = True"
| "renders _ = False"

text \<open>Events that leave the phase as it is: rendering, capture and the printed result belong to
  the measurement.\<close>

fun silent :: "phase \<Rightarrow> event \<Rightarrow> bool" where
  "silent p (Called (CloseApp _) _) = False"
| "silent p (Called (PhysicsStep _) _) = False"
| "silent p (Called c _) = (renders c \<longrightarrow> p = Measuring)"
| "silent p (Published _ _) = False"
| "silent p (Stdout _) = (p = Measuring)"
| "silent p (Stderr _) = True"

fun live :: "phase \<Rightarrow> bool" where
  "live (Closed _) = False"
| "live _ = True"

inductive phase_step :: "'w kit \<Rightarrow> options \<Rightarrow> phase \<Rightarrow> event \<Rightarrow> phase \<Rightarrow> bool" for kit a where
  ready: "signed a d \<Longrightarrow> map_of d ''phase'' = Some (JStr ''ready'') \<Longrightarrow>
    phase_step kit a Booting (Published ''ready.json'' d) (Waiting 0)"
| observe_ready: "signed a d \<Longrightarrow> map_of d ''phase'' = Some (JStr ''ready'') \<Longrightarrow>
    map_of d ''observation'' = Some (JInt (int (Suc k))) \<Longrightarrow>
    phase_step kit a (Waiting k) (Published ''paused-state.json'' d) (Waiting (Suc k))"
| admit: "0 < k \<Longrightarrow> marker_read kit a ''start'' e \<Longrightarrow> phase_step kit a (Waiting k) e Admitted"
| measure: "phase_step kit a Admitted (Called (PhysicsStep (steps a)) r) Measuring"
| result: "signed a d \<Longrightarrow> map_of d ''status'' = Some (JStr ''completed'') \<Longrightarrow>
    phase_step kit a Measuring (Published ''episode-result.json'' d) (Reported 0)"
| observe_measured: "signed a d \<Longrightarrow> map_of d ''phase'' = Some (JStr ''measured'') \<Longrightarrow>
    map_of d ''observation'' = Some (JInt (int (Suc k))) \<Longrightarrow>
    phase_step kit a (Reported k) (Published ''paused-state.json'' d) (Reported (Suc k))"
| release: "0 < k \<Longrightarrow> marker_read kit a ''release'' e \<Longrightarrow> phase_step kit a (Reported k) e Released"
| fail: "live p \<Longrightarrow> signed a d \<Longrightarrow> map_of d ''status'' = Some (JStr ''error'') \<Longrightarrow>
    phase_step kit a p (Published ''worker-error.json'' d) Failed"
| close: "live p \<Longrightarrow> c = 0 \<longrightarrow> p = Released \<Longrightarrow> phase_step kit a p (Called (CloseApp c) r) (Closed c)"
| stay: "live p \<Longrightarrow> silent p e \<Longrightarrow> phase_step kit a p e p"

inductive phases :: "'w kit \<Rightarrow> options \<Rightarrow> phase \<Rightarrow> event list \<Rightarrow> phase \<Rightarrow> bool" for kit a where
  none: "phases kit a p [] p"
| more: "phases kit a p es q \<Longrightarrow> phase_step kit a q e r \<Longrightarrow> phases kit a p (es @ [e]) r"

inductive_cases to_released: "phase_step kit a p e Released"
inductive_cases to_reported: "phase_step kit a p e (Reported k)"
inductive_cases to_measuring: "phase_step kit a p e Measuring"
inductive_cases to_admitted: "phase_step kit a p e Admitted"
inductive_cases to_waiting: "phase_step kit a p e (Waiting k)"
inductive_cases to_closed: "phase_step kit a p e (Closed c)"
inductive_simps from_closed: "phase_step kit a (Closed c) e p"

text \<open>The worker is in a phase, and has not decided on success.\<close>

definition at_phase :: "'w kit \<Rightarrow> options \<Rightarrow> phase \<Rightarrow> 'w worker \<Rightarrow> bool" where
  "at_phase kit a p s \<longleftrightarrow> phases kit a Booting (trace s) p \<and> exit_code s \<noteq> 0"

definition running :: "'w kit \<Rightarrow> options \<Rightarrow> 'w worker \<Rightarrow> bool" where
  "running kit a s \<longleftrightarrow> (\<exists>p. live p \<and> at_phase kit a p s)"

text \<open>\<open>SimulationManager.step\<close> touches the worker only through the callback it is given.\<close>

definition steps_through_callback :: "'w kit \<Rightarrow> bool" where
  "steps_through_callback kit \<longleftrightarrow> (\<forall>P n callback. (\<forall>s w. P s \<longrightarrow> P (s\<lparr>world := w\<rparr>)) \<longrightarrow>
     preserves P callback \<longrightarrow> preserves P (physics_step kit n callback))"

lemma at_phase_step:
  "at_phase kit a p s \<Longrightarrow> phase_step kit a p e q \<Longrightarrow> at_phase kit a q (s\<lparr>trace := trace s @ [e]\<rparr>)"
  by (auto simp: at_phase_def intro: phases.more)

lemma at_phase_world [simp]: "at_phase kit a p (s\<lparr>world := w\<rparr>) = at_phase kit a p s"
  by (simp add: at_phase_def)

lemma at_phase_locals [simp]:
  "at_phase kit a p (s\<lparr>render_product := b\<rparr>) = at_phase kit a p s"
  "at_phase kit a p (s\<lparr>annotator := b\<rparr>) = at_phase kit a p s"
  "at_phase kit a p (s\<lparr>rtsp_writer := b\<rparr>) = at_phase kit a p s"
  by (simp_all add: at_phase_def)

lemma keeps_emit [keeps]: "live p \<Longrightarrow> silent p e \<Longrightarrow> preserves (at_phase kit a p) (emit e)"
  by (auto simp: emit_def intro!: preserves_modifyS at_phase_step phase_step.stay)

lemma keeps_ask [keeps]:
  assumes "live p" "\<And>r. silent p (Called c r)"
  shows "preserves (at_phase kit a p) (ask kit c)"
  unfolding preserves_def
proof (intro allI impI)
  fix s assume "at_phase kit a p s"
  with at_phase_step [of kit a p s _ p] assms show "at_phase kit a p (snd (ask kit c s))"
    by (auto simp: ask_def at_phase_def intro: phases.more phase_step.stay split: prod.splits)
qed

lemma keeps_clock [keeps]: "preserves (at_phase kit a p) (read_clock kit)"
  by (auto simp: preserves_def read_clock_def split: prod.splits)

lemma keeps_rest [keeps]: "preserves (at_phase kit a p) (rest_for kit t)"
  by (auto simp: rest_for_def intro: keeps)

lemma keeps_conditions [keeps]:
  "preserves P m \<Longrightarrow> preserves P n \<Longrightarrow> preserves P (orS m n)"
  "preserves P m \<Longrightarrow> preserves P (notS m)"
  "preserves P m \<Longrightarrow> preserves P (refuseS m k msg)"
  by (auto simp: orS_def notS_def refuseS_def intro!: keeps)

lemmas asks = ask_float_def ask_bool_def ask_text_def ask_int_def run_def

lemma keeps_asks [keeps]:
  assumes "live p" "\<And>r. silent p (Called c r)"
  shows "preserves (at_phase kit a p) (ask_float kit c)" "preserves (at_phase kit a p) (ask_bool kit c)"
    "preserves (at_phase kit a p) (ask_text kit c)" "preserves (at_phase kit a p) (ask_int kit c)"
    "preserves (at_phase kit a p) (run kit c)"
  using assms by (auto simp: asks intro!: keeps)

lemma keeps_marker [keeps]: "live p \<Longrightarrow> preserves (at_phase kit a p) (phase_marker kit a action)"
  by (auto simp: phase_marker_def Let_def intro!: keeps)

lemma keeps_cancel [keeps]: "live p \<Longrightarrow> preserves (at_phase kit a p) (check_episode_cancel kit a d)"
  by (auto simp: check_episode_cancel_def intro!: keeps)

lemma keeps_load [keeps]: "preserves (at_phase kit a Booting) (load_scene kit a)"
  by (auto simp: load_scene_def intro!: keeps split: json.splits list.splits)

lemma keeps_open_capture [keeps]: "preserves (at_phase kit a Measuring) (open_capture kit a)"
  by (auto simp: open_capture_def open_stream_def intro!: keeps split: option.splits)

lemma keeps_render [keeps]: "preserves (at_phase kit a Measuring) (render_frame kit a d i)"
  by (auto simp: render_frame_def intro!: keeps)

lemma keeps_retain [keeps]: "preserves (at_phase kit a Measuring) (retain_capture kit a)"
  by (auto simp: retain_capture_def intro!: keeps split: option.splits bool.splits prod.splits)

lemma keeps_pause [keeps]: "live p \<Longrightarrow> preserves (at_phase kit a p) (pause_world kit e)"
  by (auto simp: pause_world_def intro!: keeps)

lemma keeps_facts [keeps]: "live p \<Longrightarrow> preserves (at_phase kit a p) (episode_facts kit a v b e x y z w)"
  by (auto simp: episode_facts_def intro!: keeps)

lemma keeps_say [keeps]: "preserves (at_phase kit a Measuring) (say_facts facts)"
  by (auto simp: say_facts_def intro!: keeps)

lemma runningI: "at_phase kit a p s \<Longrightarrow> live p \<Longrightarrow> running kit a s"
  by (auto simp: running_def)

lemma keeps_running: "(\<And>p. live p \<Longrightarrow> preserves (at_phase kit a p) m) \<Longrightarrow> preserves (running kit a) m"
  by (auto simp: preserves_def running_def)

text \<open>A part of the episode that stays in its phase, whatever it raises.\<close>

lemma stays: "live p \<Longrightarrow> preserves (at_phase kit a p) m \<Longrightarrow>
    holds (at_phase kit a p) (liftF m) (\<lambda>_. at_phase kit a p) (running kit a)"
  by (rule holds_keeps) (auto intro: runningI)

lemma stays_bind: "live p \<Longrightarrow> preserves (at_phase kit a p) m \<Longrightarrow>
    (\<And>x. holds (at_phase kit a p) (f x) Q (running kit a)) \<Longrightarrow>
    holds (at_phase kit a p) (bindF (liftF m) f) Q (running kit a)"
  by (rule holds_bindF [OF stays])

lemma stays_seq: "live p \<Longrightarrow> preserves (at_phase kit a p) m \<Longrightarrow>
    holds (at_phase kit a p) n Q (running kit a) \<Longrightarrow>
    holds (at_phase kit a p) (seqF (liftF m) n) Q (running kit a)"
  by (rule holds_seqF [OF stays])

lemma stays_seqS: "live p \<Longrightarrow> preserves (at_phase kit a p) m \<Longrightarrow>
    holds (at_phase kit a p) (liftF n) Q (running kit a) \<Longrightarrow>
    holds (at_phase kit a p) (liftF (seqS m n)) Q (running kit a)"
  unfolding liftF_seqS by (rule stays_seq)

lemma stays_bindS: "live p \<Longrightarrow> preserves (at_phase kit a p) m \<Longrightarrow>
    (\<And>x. holds (at_phase kit a p) (liftF (f x)) Q (running kit a)) \<Longrightarrow>
    holds (at_phase kit a p) (liftF (bindS m f)) Q (running kit a)"
  unfolding liftF_bindS by (rule stays_bind)

lemma emit_moves: "phase_step kit a p e q \<Longrightarrow> holds (at_phase kit a p) (liftF (emit e)) (\<lambda>_. at_phase kit a q) E"
  unfolding emit_def by (rule holds_modifyS) (rule at_phase_step)

lemma write_moves:
  assumes directory: "phase_directory a = Some d" and live: "live p" "live q"
    and step: "phase_step kit a p (Published name (dmerge (phase_header a) facts)) q"
  shows "holds (at_phase kit a p) (liftF (phase_write kit a name facts)) (\<lambda>_. at_phase kit a q) (running kit a)"
proof -
  let ?payload = "dmerge (phase_header a) facts"
  have "holds (at_phase kit a p) (liftF (seqS (run kit (OpenNew temporary))
          (seqS (if finite_dict ?payload then run kit (WriteSync temporary ?payload)
                 else raiseS ValueError ''Out of range float values are not JSON compliant'')
          (seqS (run kit (Replace temporary name)) (emit (Published name ?payload))))))
        (\<lambda>_. at_phase kit a q) (running kit a)" for temporary
    unfolding liftF_seqS using live
    by (intro stays_seq emit_moves step keeps) auto
  then show ?thesis
    unfolding phase_write_def Let_def directory option.case liftF_bindS
    using live
    by (intro stays_bind holds_finallyS [where E = "running kit a"] stays keeps)
       (auto intro!: holds_keeps keeps_running keeps intro: stays)
qed

lemma marker_text_moves:
  assumes "live p" and "\<And>e. marker_read kit a action e \<Longrightarrow> phase_step kit a p e q"
  shows "holds (at_phase kit a p) (liftF (ask_text kit (MarkerText (action @ ''.json''))))
    (\<lambda>text s. at_phase kit a p s \<and>
       (\<forall>facts. loads kit text = Inr facts \<and> py_eq facts (marker_facts a action) \<longrightarrow> at_phase kit a q s))
    (running kit a)"
proof (rule holdsI)
  fix s assume here: "at_phase kit a p s"
  let ?c = "MarkerText (action @ ''.json'')"
  obtain r w where answer: "native kit ?c (world s) = (r, w)" by fastforce
  let ?t = "s\<lparr>world := w, trace := trace s @ [Called ?c r]\<rparr>"
  from here assms(1) have stay: "at_phase kit a p ?t"
    by (auto simp: at_phase_def intro!: phases.more phase_step.stay)
  have move: "at_phase kit a q ?t" if "r = Inr (JStr u)" "loads kit u = Inr facts"
      "py_eq facts (marker_facts a action)" for u facts
  proof -
    from that have "marker_read kit a action (Called ?c r)" by (auto simp: marker_read_def)
    with assms(2) here show ?thesis by (auto simp: at_phase_def intro: phases.more)
  qed
  from stay move assms(1) show "ends (\<lambda>text s. at_phase kit a p s \<and>
       (\<forall>facts. loads kit text = Inr facts \<and> py_eq facts (marker_facts a action) \<longrightarrow> at_phase kit a q s))
      (running kit a) (liftF (ask_text kit ?c) s)"
    by (cases r) (auto simp: liftF_def ask_text_def ask_def answer bindS_def of_option_def
        intro: runningI split: option.splits)
qed

lemma marker_moves:
  assumes live: "live p" "live q" and mark: "\<And>e. marker_read kit a action e \<Longrightarrow> phase_step kit a p e q"
  shows "holds (at_phase kit a p) (liftF (phase_marker kit a action))
    (\<lambda>b. if b then at_phase kit a q else at_phase kit a p) (running kit a)"
proof -
  have loaded: "holds (\<lambda>s. at_phase kit a p s \<and>
        (\<forall>facts. loads kit u = Inr facts \<and> py_eq facts (marker_facts a action) \<longrightarrow> at_phase kit a q s))
      (liftF (bindS (liftS (loads kit u)) (\<lambda>facts.
         if \<not> py_eq facts (marker_facts a action)
         then raiseS RuntimeError ''private phase marker belongs to another episode''
         else retS True)))
      (\<lambda>b. if b then at_phase kit a q else at_phase kit a p) (running kit a)" for u
    using live by (intro holdsI, cases "loads kit u") (auto simp: liftF_def intro: runningI)
  have checks: "preserves (at_phase kit a p) (ask_bool kit (MarkerExists (action @ ''.json'')))"
    "preserves (at_phase kit a p) (refuseS
            (orS (ask_bool kit (MarkerIsLink (action @ ''.json'')))
            (orS (notS (ask_bool kit (MarkerIsFile (action @ ''.json''))))
                 (bindS (ask_int kit (MarkerSize (action @ ''.json''))) (\<lambda>n. retS (4096 < n)))))
            RuntimeError ''private phase marker is not a bounded regular file'')"
    using live by (auto intro!: keeps)
  show ?thesis
    unfolding phase_marker_def Let_def
    apply (subst liftF_bindS)
    apply (rule stays_bind [OF live(1) checks(1)])
    apply (subst liftF_if)
    apply (rule holds_if)
     apply (rule holds_retS, simp)
    apply (subst liftF_seqS)
    apply (rule stays_seq [OF live(1) checks(2)])
    apply (subst liftF_bindS)
    apply (rule holds_bindF [OF marker_text_moves [OF live(1) mark] loaded])
    apply assumption
    done
qed

text \<open>One wait: from \<open>K 0\<close> through the observations \<open>K k\<close> to \<open>q\<close>, once the owner's
  marker for \<open>action\<close> is read.\<close>

definition wait_moves :: "'w kit \<Rightarrow> options \<Rightarrow> string \<Rightarrow> string \<Rightarrow> (nat \<Rightarrow> phase) \<Rightarrow> phase \<Rightarrow> bool" where
  "wait_moves kit a action phase K q \<longleftrightarrow> live q \<and> (\<forall>k. live (K k)) \<and>
     (\<forall>k facts. map_of facts ''phase'' = Some (JStr phase) \<and> map_of facts ''observation'' = Some (JInt (int (Suc k))) \<and>
        signed a facts \<longrightarrow> phase_step kit a (K k) (Published ''paused-state.json'' facts) (K (Suc k))) \<and>
     (\<forall>k e. 0 < k \<and> marker_read kit a action e \<longrightarrow> phase_step kit a (K k) e q)"

lemma merged_header:
  assumes "distinct (map fst facts)" "map_of facts ''owner_id'' = None" "map_of facts ''phase_token'' = None"
  shows "signed a (dmerge (phase_header a) facts)"
    and "map_of facts k = Some v \<Longrightarrow> map_of (dmerge (phase_header a) facts) k = Some v"
  using assms by (auto simp: signed_def dmerge_lookup phase_header_def map_add_def)

lemma observe_pause_moves:
  assumes directory: "phase_directory a = Some d" and moves: "wait_moves kit a action phase K q"
  shows "holds (at_phase kit a (K n)) (liftF (observe_pause kit a phase baseline n))
    (\<lambda>_. at_phase kit a (K (Suc n))) (running kit a)"
proof -
  from moves have live: "live (K k)" for k by (simp add: wait_moves_def)
  have observe: "phase_step kit a (K n) (Published ''paused-state.json''
      (dmerge (phase_header a) (paused_state phase (Suc n) r p c))) (K (Suc n))" for r p c
    using moves merged_header [where facts = "paused_state phase (Suc n) r p c" and a = a]
    by (simp add: wait_moves_def paused_state_def)
  show ?thesis
    unfolding observe_pause_def
    by (intro stays_seqS stays_bindS write_moves [OF directory live live observe]) (auto intro!: keeps live)
qed

lemma await_marker_moves:
  assumes moves: "wait_moves kit a action phase K q"
  shows "holds (at_phase kit a (K (Suc n))) (liftF (await_marker kit a action deadline (Suc n)))
    (\<lambda>x. case x of Inl _ \<Rightarrow> at_phase kit a q | Inr m \<Rightarrow> at_phase kit a (K m)) (running kit a)"
proof -
  from moves have live: "live (K (Suc n))" "live q" by (auto simp: wait_moves_def)
  have mark: "marker_read kit a action e \<Longrightarrow> phase_step kit a (K (Suc n)) e q" for e
    using moves by (simp add: wait_moves_def)
  show ?thesis
    unfolding await_marker_def
  proof (rule stays_seqS [OF live(1) keeps_conditions(3) [OF keeps_marker [OF live(1)]]],
         subst liftF_bindS, rule holds_bindF [OF marker_moves [OF live mark]], assumption)
    fix marked
    show "holds (if marked then at_phase kit a q else at_phase kit a (K (Suc n)))
       (liftF (if marked then retS (Inl ())
         else seqS (if action = ''start'' then refuseS (phase_marker kit a ''release'') RuntimeError
                       ''private episode released before measurement'' else retS ())
             (bindS (read_clock kit) (\<lambda>t.
              if fle deadline (Fin t) then raiseS TimeoutError ''private native phase deadline exceeded''
              else seqS (rest_for kit (rnd64 (1/40))) (retS (Inr (Suc n)))))))
       (\<lambda>x. case x of Inl _ \<Rightarrow> at_phase kit a q | Inr m \<Rightarrow> at_phase kit a (K m)) (running kit a)"
    proof (cases marked)
      case False
      with live show ?thesis
        by (simp only: if_False, intro stays_seqS stays_bindS holds_if_liftF holds_raiseS holds_retS)
           (auto intro: runningI intro!: keeps)
    qed (simp add: holds_retS)
  qed
qed

lemma paused_pass_moves:
  assumes "phase_directory a = Some d" and "wait_moves kit a action phase K q"
  shows "holds (at_phase kit a (K n)) (liftF (paused_pass kit a action phase deadline baseline n))
    (\<lambda>x. case x of Inl _ \<Rightarrow> at_phase kit a q | Inr m \<Rightarrow> at_phase kit a (K m)) (running kit a)"
  unfolding paused_pass_def liftF_seqS
  by (rule holds_seqF [OF observe_pause_moves [OF assms] await_marker_moves [OF assms(2)]])

lemma ready_wait: "wait_moves kit a ''start'' ''ready'' Waiting Admitted"
  and measured_wait: "wait_moves kit a ''release'' ''measured'' Reported Released"
  by (auto simp: wait_moves_def intro: phase_step.intros)

lemma wait_paused_moves:
  assumes "phase_directory a = Some d" and moves: "wait_moves kit a action phase K q"
  shows "holds (at_phase kit a (K 0)) (wait_paused_phase kit fuel a action phase) (\<lambda>_. at_phase kit a q) (running kit a)"
proof -
  from moves have live: "live (K 0)" by (simp add: wait_moves_def)
  have poll: "holds (at_phase kit a (K 0))
      (\<lambda>s. repeat_until fuel (pass_of (paused_pass kit a action phase deadline baseline)) (0, s))
      (\<lambda>_. at_phase kit a q) (running kit a)" for deadline baseline
    by (rule holds_poll [where I = "\<lambda>n. at_phase kit a (K n)", OF paused_pass_moves [OF assms]])
  show ?thesis
    using live by (simp add: wait_paused_phase_def assms(1) Let_def) (intro stays_bind poll; auto intro!: keeps)
qed

lemma enter_ready_moves:
  assumes "phase_directory a = Some d"
  shows "holds (at_phase kit a Booting) (liftF (enter_ready kit a version began))
    (\<lambda>_. at_phase kit a (Waiting 0)) (running kit a)"
proof -
  have ready: "phase_step kit a Booting (Published ''ready.json''
      (dmerge (phase_header a) (ready_facts a version pose prim digest device current r playing))) (Waiting 0)"
    for pose prim digest device current r playing
    by (rule phase_step.ready) (simp_all add: signed_def dmerge_lookup phase_header_def ready_facts_def)
  have publish: "holds (at_phase kit a Booting) (liftF (seqS
      (phase_write kit a ''ready.json'' (ready_facts a version pose prim digest device current r playing)) (retS pose)))
      (\<lambda>_. at_phase kit a (Waiting 0)) (running kit a)" for pose prim digest device current r playing
    unfolding liftF_seqS
    by (rule holds_seqF [OF write_moves [OF assms _ _ ready] holds_retS]) simp_all
  show ?thesis
    unfolding enter_ready_def
    by (intro stays_seqS [where p = Booting] stays_bindS [where p = Booting] publish) (auto intro!: keeps)
qed

lemma step_world_moves:
  assumes "steps_through_callback kit"
  shows "holds (at_phase kit a Admitted) (liftF (step_world kit a deadline began)) (\<lambda>_. at_phase kit a Measuring) (running kit a)"
proof -
  have callback: "preserves (at_phase kit a Measuring)
      (physics_step kit (steps a) (check_episode_cancel kit a deadline))"
    using assms keeps_cancel [of Measuring kit a deadline] by (simp add: steps_through_callback_def)
  show ?thesis
    unfolding step_world_def
    by (subst liftF_seqS, rule holds_seqF [OF emit_moves [OF phase_step.measure]])
       (auto intro!: stays keeps callback)
qed

lemma report_result_moves:
  assumes "phase_directory a = Some d" "map_of facts ''owner_id'' = None" "map_of facts ''phase_token'' = None"
    "map_of facts ''status'' = None" "map_of facts ''application_running'' = None" "distinct (map fst facts)"
  shows "holds (at_phase kit a Measuring) (liftF (report_result kit a facts)) (\<lambda>_. at_phase kit a (Reported 0)) (running kit a)"
proof -
  let ?d = "\<lambda>r. facts @ [(''status'', JStr ''completed''), (''application_running'', JBool r)]"
  have "distinct (map fst (?d r))" for r
    using assms(4-6) by (auto simp: map_of_eq_None_iff)
  then have "phase_step kit a Measuring (Published ''episode-result.json'' (dmerge (phase_header a) (?d r))) (Reported 0)" for r
    using assms(2-4) merged_header(1) [of "?d r" a] merged_header(2) [of "?d r" "''status''" _ a]
    by (intro phase_step.result) (auto simp: map_add_def)
  then show ?thesis
    unfolding report_result_def using assms(1)
    by (simp, intro stays_bindS write_moves [OF assms(1)]) (auto intro!: keeps)
qed

definition fresh_facts :: "dict \<Rightarrow> bool" where
  "fresh_facts facts \<longleftrightarrow> distinct (map fst facts) \<and>
     (\<forall>k \<in> {''owner_id'', ''phase_token'', ''status'', ''application_running''}. map_of facts k = None)"

lemma episode_facts_fresh:
  "episode_facts kit a v b e x y z w s = (Inr facts, t) \<Longrightarrow> fresh_facts facts"
  by (clarsimp simp: episode_facts_def ok_iff fresh_facts_def)

lemma holds_result:
  assumes m: "holds P (liftF m) Q E" and "\<And>s a t. m s = (Inr a, t) \<Longrightarrow> R a"
  shows "holds P (liftF m) (\<lambda>a s. Q a s \<and> R a) E"
proof (rule holdsI)
  fix s assume "P s"
  from holdsD [OF m this] assms(2) show "ends (\<lambda>a s. Q a s \<and> R a) E (liftF m s)"
    by (cases rule: ends_cases) (auto simp: liftF_def)
qed

lemma stream_stays: "holds (at_phase kit a Measuring) (stream kit fuel a d) (\<lambda>_. at_phase kit a Measuring) (running kit a)"
proof -
  have passes: "holds (at_phase kit a Measuring) (liftF (stream_pass kit a d e l))
      (\<lambda>x. case x of Inl _ \<Rightarrow> at_phase kit a Measuring | Inr _ \<Rightarrow> at_phase kit a Measuring) (running kit a)" for e l
    by (rule holds_weaken [OF stays [where p = Measuring]])
       (auto simp: stream_pass_def intro!: keeps split: sum.splits)
  then have poll: "holds (at_phase kit a Measuring)
      (\<lambda>s. repeat_until fuel (pass_of (stream_pass kit a d e)) ((), s)) (\<lambda>_. at_phase kit a Measuring) (running kit a)" for e
    by (rule holds_poll [where I = "\<lambda>_. at_phase kit a Measuring"])
  show ?thesis
    unfolding stream_def
    by (intro stays_bind [where p = Measuring] holds_if poll stays [where p = Measuring]) (auto intro!: keeps)
qed

definition succeeded :: "'w kit \<Rightarrow> options \<Rightarrow> int \<Rightarrow> 'w worker \<Rightarrow> bool" where
  "succeeded kit a code s \<longleftrightarrow> code = 0 \<and> phases kit a Booting (trace s) Released"

lemma holds_pair: "(\<And>x y. holds P (f x y) Q E) \<Longrightarrow> holds P (case p of (x, y) \<Rightarrow> f x y) Q E"
  by (cases p) simp

lemma episode_moves:
  assumes directory: "phase_directory a = Some d" and callback: "steps_through_callback kit"
  shows "holds (at_phase kit a Booting) (episode kit fuel a) (succeeded kit a) (running kit a)"
proof -
  have report: "holds (\<lambda>s. at_phase kit a Measuring s \<and> fresh_facts facts)
      (seqF (liftF (say_facts facts)) (seqF (liftF (report_result kit a facts))
        (seqF (wait_paused_phase kit fuel a ''release'' ''measured'')
        (seqF (liftF (modifyS (\<lambda>s. s\<lparr>exit_code := 0\<rparr>))) (liftF (retS 0))))))
      (succeeded kit a) (running kit a)" for facts
  proof (cases "fresh_facts facts")
    case True
    have finish: "holds (at_phase kit a Released)
        (seqF (liftF (modifyS (\<lambda>s. s\<lparr>exit_code := 0\<rparr>))) (liftF (retS 0))) (succeeded kit a) (running kit a)"
      by (rule holdsI) (simp add: liftF_def seqF_def bindF_def succeeded_def at_phase_def)
    have "holds (at_phase kit a Measuring)
      (seqF (liftF (say_facts facts)) (seqF (liftF (report_result kit a facts))
        (seqF (wait_paused_phase kit fuel a ''release'' ''measured'')
        (seqF (liftF (modifyS (\<lambda>s. s\<lparr>exit_code := 0\<rparr>))) (liftF (retS 0))))))
      (succeeded kit a) (running kit a)"
      using True
      by (intro stays_seq keeps_say holds_seqF [OF report_result_moves [OF directory]]
          holds_seqF [OF wait_paused_moves [OF directory measured_wait]] finish)
         (simp_all add: fresh_facts_def)
    with True show ?thesis by simp
  qed (simp add: holds_def)
  have measured: "holds (at_phase kit a Measuring)
     (seqF (liftF (open_capture kit a))
     (seqF (liftF (forS (render_frame kit a dl) frames))
     (seqF (stream kit fuel a dl)
     (bindF (liftF (retain_capture kit a)) (\<lambda>capture.
      bindF (liftF (pause_world kit ended)) (\<lambda>paused_time.
      bindF (liftF (episode_facts kit a version began ended pose0 pose1 capture paused_time)) (\<lambda>facts.
      seqF (liftF (say_facts facts)) (seqF (liftF (report_result kit a facts))
        (seqF (wait_paused_phase kit fuel a ''release'' ''measured'')
        (seqF (liftF (modifyS (\<lambda>s. s\<lparr>exit_code := 0\<rparr>))) (liftF (retS 0)))))))))))) (succeeded kit a) (running kit a)"
    for dl frames ended version began pose0 pose1
    by (intro stays_seq [where p = Measuring] stays_bind [where p = Measuring] holds_seqF [OF stream_stays]
        holds_bindF [OF holds_result [OF stays [where p = Measuring] episode_facts_fresh] report])
       (auto intro!: keeps)
  have admitted: "holds (at_phase kit a Booting) (bindF (liftF (enter_ready kit a version began))
      (\<lambda>pose. seqF (wait_paused_phase kit fuel a ''start'' ''ready'') (liftF (retS pose))))
      (\<lambda>_. at_phase kit a Admitted) (running kit a)" for version began
    by (intro holds_bindF [OF enter_ready_moves [OF directory]]
        holds_seqF [OF wait_paused_moves [OF directory ready_wait]] holds_retS)
  from directory have has_dir: "(phase_directory a = None) = False" by simp
  show ?thesis
    unfolding episode_def has_dir if_False Let_def
    by (intro holds_pair stays_bind [where p = Booting] keeps_load holds_bindF [OF admitted]
        stays_bind [where p = Admitted] holds_bindF [OF step_world_moves [OF callback]] measured)
       (auto intro!: keeps)
qed

text \<open>The end: the clean-up leaves the phase as it is and closes the application last, with code 0
  only after the release.\<close>

definition closing :: "'w kit \<Rightarrow> options \<Rightarrow> phase \<Rightarrow> 'w worker \<Rightarrow> bool" where
  "closing kit a p s \<longleftrightarrow> phases kit a Booting (trace s) p \<and> (exit_code s = 0 \<longrightarrow> p = Released)"

lemma keeps_closing:
  assumes "live p" "c \<in> {DetachAnnotator, DetachRtsp, DestroyProduct}"
  shows "preserves (closing kit a p) (run kit c)"
  using assms
  by (auto simp: preserves_def closing_def run_def ask_def seqS_def bindS_def
      intro!: phases.more phase_step.stay split: prod.splits sum.splits)

lemma release_keeps_closing: "live p \<Longrightarrow> preserves (closing kit a p) (release_renderer kit)"
  by (auto simp: release_renderer_def intro!: keeps keeps_closing)

lemma clean_up_closes:
  assumes p: "live p" "closing kit a p s" and run: "clean_up kit s = (r, t)"
  shows "\<exists>es c y. trace t = es @ [Called (CloseApp c) y] \<and> phases kit a Booting es p \<and> (c = 0 \<longrightarrow> p = Released)"
proof -
  let ?cleanup = "catch_exception (release_renderer kit) (\<lambda>e. modifyS (\<lambda>s. s\<lparr>exit_code := 1\<rparr>))"
  obtain r' u where first: "?cleanup s = (r', u)" by fastforce
  obtain x v where inner: "release_renderer kit s = (x, v)" by fastforce
  with preservesD [OF release_keeps_closing [OF p(1)] p(2)] have "closing kit a p v" by simp
  with first inner have "closing kit a p u"
    by (auto simp: catch_exception_def closing_def split: sum.splits if_splits)
  with run first show ?thesis
    by (auto simp: clean_up_def finallyS_def run_def ask_def seqS_def bindS_def getS_def retS_def closing_def
        split: prod.splits sum.splits)
qed

lemma report_error_stays:
  assumes "phase_directory a = Some d"
  shows "holds (running kit a) (liftF (report_error kit a e)) (\<lambda>code s. running kit a s \<and> code \<noteq> 0) (running kit a)"
proof -
  let ?facts = "[(''status'', JStr ''error''), (''diagnostic'', JStr (exc_msg e))]"
  have failing: "live p \<Longrightarrow> phase_step kit a p (Published ''worker-error.json'' (dmerge (phase_header a) ?facts)) Failed" for p
    by (rule phase_step.fail) (simp_all add: signed_def dmerge_lookup phase_header_def)
  have "holds (at_phase kit a p) (liftF (report_error kit a e)) (\<lambda>code s. at_phase kit a Failed s \<and> code \<noteq> 0) (running kit a)"
    if "live p" for p
    unfolding report_error_def Let_def liftF_seqS
    by (intro holds_seqF [OF write_moves [OF assms that _ failing [OF that]]] holds_seqF [OF stays [where p = Failed]]
        holds_retS keeps) simp_all
  note reported = this
  show ?thesis
  proof (rule holdsI)
    fix s assume "running kit a s"
    then obtain p where p: "live p" "at_phase kit a p s" by (auto simp: running_def)
    show "ends (\<lambda>code s. running kit a s \<and> code \<noteq> 0) (running kit a) (liftF (report_error kit a e) s)"
      by (rule ends_weaken [OF holdsD [OF reported [OF p(1)] p(2)]]) (auto intro: runningI)
  qed
qed

text \<open>Where a trace has come from: the event that entered a phase, and what came before it.\<close>

lemma split_trace:
  assumes "phases kit a Booting es p" and "P p" "\<not> P Booting"
  shows "\<exists>es1 e es2 q r. es = es1 @ e # es2 \<and> phases kit a Booting es1 q \<and> \<not> P q \<and>
    phase_step kit a q e r \<and> P r"
  using assms
proof (induction Booting es p rule: phases.induct)
  case (more es q e r)
  show ?case
  proof (cases "P q")
    case True
    with more obtain es1 e1 es2 q' r' where "es @ [e] = es1 @ e1 # (es2 @ [e])" "phases kit a Booting es1 q'"
        "\<not> P q'" "phase_step kit a q' e1 r'" "P r'"
      by auto
    then show ?thesis by blast
  next
    case False
    with more have "phases kit a Booting es q \<and> \<not> P q \<and> phase_step kit a q e r \<and> P r" by blast
    then show ?thesis by blast
  qed
qed simp

text \<open>The milestones of an episode, in their order.\<close>

fun progress :: "phase \<Rightarrow> nat" where
  "progress Booting = 0"
| "progress (Waiting _) = 1"
| "progress Admitted = 2"
| "progress Measuring = 3"
| "progress (Reported _) = 4"
| "progress Released = 5"
| "progress Failed = 0"
| "progress (Closed c) = (if c = 0 then 6 else 0)"

definition milestone :: "'w kit \<Rightarrow> options \<Rightarrow> nat \<Rightarrow> event \<Rightarrow> bool" where
  "milestone kit a n e \<longleftrightarrow>
     (n = 1 \<and> (\<exists>d. signed a d \<and> e = Published ''ready.json'' d) \<or>
      n = 2 \<and> marker_read kit a ''start'' e \<or>
      n = 3 \<and> (\<exists>r. e = Called (PhysicsStep (steps a)) r) \<or>
      n = 4 \<and> (\<exists>d. signed a d \<and> e = Published ''episode-result.json'' d) \<or>
      n = 5 \<and> marker_read kit a ''release'' e \<or>
      n = 6 \<and> (\<exists>r. e = Called (CloseApp 0) r))"

lemma step_progress:
  assumes "phase_step kit a q e r" and "progress q < progress r"
  shows "progress r = Suc (progress q) \<and> milestone kit a (progress r) e"
  using assms by (cases rule: phase_step.cases) (auto simp: milestone_def split: if_splits)

lemma milestones_passed:
  assumes "phases kit a Booting es p" and "n \<le> progress p"
  shows "\<exists>passed. length passed = n \<and> subseq passed es \<and> (\<forall>i < n. milestone kit a (Suc i) (passed ! i))"
  using assms
proof (induction n arbitrary: es p)
  case (Suc n)
  from split_trace [OF Suc.prems(1), of "\<lambda>p. Suc n \<le> progress p"] Suc.prems(2)
  obtain es1 e es2 q r where es: "es = es1 @ e # es2" "phases kit a Booting es1 q" "progress q \<le> n"
      and step: "phase_step kit a q e r" "Suc n \<le> progress r"
    by auto
  from step_progress [OF step(1)] step(2) es(3) have mark: "progress q = n" "milestone kit a (Suc n) e" by auto
  from Suc.IH [OF es(2)] mark(1) obtain passed where passed: "length passed = n" "subseq passed es1"
      "\<forall>i < n. milestone kit a (Suc i) (passed ! i)"
    by auto
  have "subseq (passed @ [e]) (es1 @ [e] @ es2)"
    using passed(2) by (intro list_emb_append_mono) auto
  with passed mark(2) es(1) show ?case
    by (intro exI [of _ "passed @ [e]"]) (auto simp: nth_append less_Suc_eq)
qed simp

definition reached :: "'w kit \<Rightarrow> options \<Rightarrow> nat \<Rightarrow> event list \<Rightarrow> bool" where
  "reached kit a n es \<longleftrightarrow>
     (\<exists>passed. length passed = n \<and> subseq passed es \<and> (\<forall>i < n. milestone kit a (Suc i) (passed ! i)))"

lemma reached_append: "reached kit a n es \<Longrightarrow> reached kit a n (es @ fs)"
  using list_emb_append_mono [of "(=)" _ es "[]" fs] by (auto simp: reached_def)

lemma body_outcome:
  assumes "phase_directory a = Some d" and "steps_through_callback kit"
  shows "holds (at_phase kit a Booting) (catchF (episode kit fuel a) (\<lambda>e. liftF (report_error kit a e)))
    (\<lambda>code s. \<exists>p. live p \<and> closing kit a p s \<and> (code = 0 \<longrightarrow> p = Released))
    (\<lambda>s. \<exists>p. live p \<and> closing kit a p s)"
proof (rule holds_catchF)
  show "holds (at_phase kit a Booting) (episode kit fuel a)
    (\<lambda>code s. \<exists>p. live p \<and> closing kit a p s \<and> (code = 0 \<longrightarrow> p = Released)) (running kit a)"
    by (rule holds_weaken [OF episode_moves [OF assms]]) (auto simp: succeeded_def closing_def)
  show "holds (running kit a) (liftF (report_error kit a e))
    (\<lambda>code s. \<exists>p. live p \<and> closing kit a p s \<and> (code = 0 \<longrightarrow> p = Released))
    (\<lambda>s. \<exists>p. live p \<and> closing kit a p s)" for e
    by (rule holds_weaken [OF report_error_stays [OF assms(1)]])
       (auto simp: running_def at_phase_def closing_def)
qed (auto simp: running_def at_phase_def closing_def)

lemma run_starts:
  "run kit c s = (r, t) \<Longrightarrow> \<exists>y. trace t = trace s @ [Called c y] \<and> exit_code t = exit_code s \<and>
     (case r of Inl e \<Rightarrow> y = Inl e | Inr _ \<Rightarrow> is_ok y)"
  by (auto simp: run_def ask_def seqS_def bindS_def split: prod.splits sum.splits)

text \<open>
  C4: with a phase directory, everything the worker does follows the protocol of the episode: the
  ready facts, the observations of the still world numbered from 1, the owner's start marker, the
  requested steps, the result, and the owner's release marker come in this order, every file
  carries the owner and the token, nothing is rendered outside the measurement, and closing the
  application is the last thing done. The worker returns 0 only when it has passed all of them, and
  it closes the application with code 0 only then.
\<close>

theorem isaac_episode_follows_protocol:
  assumes directory: "phase_directory a = Some d" and callback: "steps_through_callback kit"
    and run: "isaac_run kit fuel a (new_worker w) = Some (r, s)"
  shows "(\<exists>e. r = Inl e \<and> trace s = [Called StartApp (Inl e)]) \<or>
    (\<exists>c. phases kit a Booting (trace s) (Closed c) \<and>
      (r = Inr 0 \<longrightarrow> reached kit a 5 (trace s)) \<and> (c = 0 \<longrightarrow> reached kit a 6 (trace s)))"
proof -
  obtain r0 s0 where start: "Isaac_Worker.run kit StartApp (new_worker w) = (r0, s0)" by fastforce
  from run_starts [OF start] obtain y where y: "trace s0 = [Called StartApp y]" "exit_code s0 = 1"
      "case r0 of Inl e \<Rightarrow> y = Inl e | Inr _ \<Rightarrow> is_ok y"
    by (auto simp: new_worker_def)
  show ?thesis
  proof (cases r0)
    case (Inl e)
    with run start y show ?thesis by (simp add: isaac_run_def seqF_def bindF_def liftF_def)
  next
    case (Inr _)
    have begun: "at_phase kit a Booting s0"
      using y phases.more [OF phases.none phase_step.stay, of Booting "Called StartApp y" kit a]
      by (simp add: at_phase_def)
    obtain r1 s1 where body: "catchF (episode kit fuel a) (\<lambda>e. liftF (report_error kit a e)) s0 = Some (r1, s1)"
        and final: "finallyS (\<lambda>_. (r1, s1)) (clean_up kit) s0 = (r, s)"
      using run start Inr by (auto simp: isaac_run_def seqF_def bindF_def liftF_def finallyF_def)
    from holdsD [OF body_outcome [OF directory callback, where fuel = fuel] begun] body
    obtain p where p: "live p" "closing kit a p s1" "r1 = Inr 0 \<longrightarrow> p = Released"
      by (cases r1) auto
    obtain r2 where clean: "clean_up kit s1 = (r2, s)" and same: "r = Inr 0 \<longrightarrow> r1 = Inr 0"
      using final by (auto simp: finallyS_def split: prod.splits sum.splits)
    from clean_up_closes [OF p(1,2) clean] obtain es c z where es: "trace s = es @ [Called (CloseApp c) z]"
        "phases kit a Booting es p" "c = 0 \<longrightarrow> p = Released"
      by blast
    have closed: "phases kit a Booting (trace s) (Closed c)"
      unfolding es(1) using p(1) es(2,3) by (intro phases.more phase_step.close)
    have "reached kit a 5 (trace s)" if "r = Inr 0"
      using that same p(3) milestones_passed [OF es(2), of 5] es(1) reached_append
      by (simp add: reached_def [symmetric])
    moreover have "reached kit a 6 (trace s)" if "c = 0"
      using that milestones_passed [OF closed, of 6] by (simp add: reached_def [symmetric])
    ultimately show ?thesis using closed by blast
  qed
qed

definition model_options :: options where
  "model_options = (default_options [''scene.usd''] ''scene'')\<lparr>phase_directory := Some [''phase''],
     owner_id := Some ''owner'', phase_token := Some ''token''\<rparr>"

text \<open>A simulator whose world is whether it was stepped, with both markers already present.\<close>

fun model_native :: "call \<Rightarrow> bool \<Rightarrow> json res \<times> bool" where
  "model_native GetVersion w = (Inr (JStr ''6.1.0''), w)"
| "model_native (OpenStage p) w = (Inr (JList [JBool True, JStr ''stage'']), w)"
| "model_native SimTime w = (Inr (JFloat (Fin (if w then 1 else 0))), w)"
| "model_native AppRunning w = (Inr (JBool True), w)"
| "model_native TimelinePlaying w = (Inr (JBool False), w)"
| "model_native (MarkerExists n) w = (Inr (JBool (n \<noteq> ''cancel.json'')), w)"
| "model_native (MarkerIsLink n) w = (Inr (JBool False), w)"
| "model_native (MarkerIsFile n) w = (Inr (JBool True), w)"
| "model_native (MarkerSize n) w = (Inr (JInt 80), w)"
| "model_native (MarkerText n) w = (Inr (JStr (remove_suffix ''.json'' n)), w)"
| "model_native c w = (Inr (JStr ''text''), w)"

definition model_kit :: "bool kit" where
  "model_kit = \<lparr>native = model_native,
     physics_step = (\<lambda>n callback. seqS (modifyS (\<lambda>s. s\<lparr>world := True\<rparr>)) callback),
     monotonic = (\<lambda>w. (0, w)), sleep = (\<lambda>t w. w), loads = (\<lambda>text. Inr (marker_facts model_options text)),
     sha = (\<lambda>b. b)\<rparr>"

lemma model_callback: "steps_through_callback model_kit"
  by (auto simp: steps_through_callback_def model_kit_def intro!: preserves_seqS preserves_modifyS)

lemma model_fields [simp]:
  "steps model_options = 60" "phase_directory model_options = Some [''phase'']" "rtsp_port model_options = None"
  "capture_directory model_options = None" "render_frames model_options = 0"
  "phase_timeout_seconds model_options = Fin 120" "scene model_options = [''scene.usd'']"
  "native model_kit = model_native" "sha model_kit = id" "monotonic model_kit = (\<lambda>w. (0, w))"
  "physics_step model_kit n callback = seqS (modifyS (\<lambda>s. s\<lparr>world := True\<rparr>)) callback"
  "loads model_kit text = Inr (marker_facts model_options text)"
  by (simp_all add: model_options_def default_options_def model_kit_def id_def)

lemma model_marker [simp]: "py_eq (marker_facts model_options x) (marker_facts model_options x)"
  by (simp add: marker_facts_def phase_header_def model_options_def default_options_def py_eq.simps)

lemma model_names [simp]:
  "remove_suffix ''.json'' ''start.json'' = ''start''" "remove_suffix ''.json'' ''release.json'' = ''release''"
  by (simp_all add: remove_suffix_def ends_with_def starts_with_def)

definition calm :: "bool \<Rightarrow> bool worker \<Rightarrow> bool" where
  "calm w s \<longleftrightarrow> world s = w \<and> \<not> render_product s \<and> \<not> annotator s \<and> \<not> rtsp_writer s"

lemmas run_eqs = bindS_def seqS_def retS_def raiseS_def liftS_def modifyS_def getS_def
  finallyS_def ask_def run_def ask_float_def ask_bool_def ask_text_def ask_int_def emit_def
  refuseS_def orS_def notS_def read_clock_def whenS_def phase_write_def phase_marker_def Let_def
  dmerge_def phase_header_def paused_state_def ready_facts_def close_enough_def
  observe_pause_def await_marker_def paused_pass_def

lemma model_header [simp]: "opt_str (owner_id model_options) = JStr ''owner''" "opt_str (phase_token model_options) = JStr ''token''"
  "finite_json (JStr (expected_scene_sha256 model_options))"
  by (simp_all add: model_options_def default_options_def)

lemma model_loads: "calm False s \<Longrightarrow> \<exists>t. load_scene model_kit model_options s = (Inr (''6.1.0'', JStr ''text'', Fin 0), t) \<and> calm False t"
  by (simp add: load_scene_def run_eqs calm_def)

lemma model_ready: "calm False s \<Longrightarrow> \<exists>t. enter_ready model_kit model_options ''6.1.0'' (Fin 0) s = (Inr (JStr ''text''), t) \<and> calm False t"
  by (simp add: enter_ready_def run_eqs calm_def)

lemma model_pass: "calm w s \<Longrightarrow> action \<in> {''start'', ''release''} \<Longrightarrow> \<exists>t. paused_pass model_kit model_options action ph d (Fin (if w then 1 else 0)) n s = (Inr (Inl ()), t) \<and> calm w t"
  by (cases w; auto simp: run_eqs calm_def)

lemma model_deadline: "to_float 120 = Fin 120"
  using to_float_of_int [of 120] by simp

lemma model_advance: "fsub (Fin 1) (Fin 0) = Fin 1"
  using to_float_of_int [of 1] by (simp add: fsub_def)

lemma model_dt: "finite_json (JFloat (dt model_options))"
  using to_float_moderate [of "1/60"] by (auto simp: model_options_def default_options_def)

lemma model_waits:
  assumes calm: "calm w s" and action: "action \<in> {''start'', ''release''}"
  shows "\<exists>t. wait_paused_phase model_kit 1 model_options action ph s = Some (Inr (), t) \<and> calm w t"
proof -
  let ?now = "Fin (if w then 1 else 0)"
  let ?s = "s\<lparr>trace := trace s @ [Called SimTime (Inr (JFloat ?now))]\<rparr>"
  from calm have "calm w ?s" by (simp add: calm_def)
  from model_pass [OF this action] obtain t where
    "paused_pass model_kit model_options action ph (Fin 120) ?now 0 ?s = (Inr (Inl ()), t)" "calm w t" by blast
  with calm show ?thesis
    by (cases w) (simp_all add: wait_paused_phase_def bindF_def liftF_def ask_float_def ask_def bindS_def
        read_clock_def calm_def model_deadline pass_of_run liftS_def Let_def)
qed

lemma model_steps_world: "calm False s \<Longrightarrow> \<exists>t. step_world model_kit model_options (Fin 120) (Fin 0) s = (Inr (Fin 1, JStr ''text''), t) \<and> calm True t"
  by (simp add: step_world_def check_episode_cancel_def run_eqs calm_def)

lemma model_skips: "calm w s \<Longrightarrow> open_capture model_kit model_options s = (Inr (), s)"
   "calm w s \<Longrightarrow> retain_capture model_kit model_options s = (Inr JNull, s)"
   "calm w s \<Longrightarrow> stream model_kit f model_options d s = Some (Inr (), s)"
  by (auto simp: open_capture_def retain_capture_def stream_def calm_def bindF_def liftF_def getS_def bindS_def)

lemma model_pauses: "calm True s \<Longrightarrow> \<exists>t. pause_world model_kit (Fin 1) s = (Inr (Fin 1), t) \<and> calm True t"
  by (simp add: pause_world_def run_eqs calm_def)

lemma model_facts: "calm True s \<Longrightarrow> \<exists>facts t. episode_facts model_kit model_options ''6.1.0'' (Fin 0) (Fin 1) (JStr ''text'') (JStr ''text'') JNull (Fin 1) s = (Inr facts, t) \<and> calm True t \<and> finite_dict facts"
  using model_dt by (simp add: episode_facts_def run_eqs calm_def model_advance body_of_def)

lemma model_reports: "calm True s \<Longrightarrow> finite_dict facts \<Longrightarrow> \<exists>t. report_result model_kit model_options facts s = (Inr (), t) \<and> calm True t"
  using finite_dmerge [of "phase_header model_options" "facts @ [(''status'', JStr ''completed''), (''application_running'', JBool True)]"] 
  by (simp add: report_result_def bindS_def seqS_def retS_def finallyS_def ask_def run_def ask_bool_def ask_text_def emit_def liftS_def phase_write_def Let_def finite_append calm_def modifyS_def phase_header_def)

lemma model_says: "calm True s \<Longrightarrow> finite_dict facts \<Longrightarrow> \<exists>t. say_facts facts s = (Inr (), t) \<and> calm True t"
  by (simp add: say_facts_def emit_def calm_def)

lemma model_cleans: "calm True s \<Longrightarrow> \<exists>t. clean_up model_kit s = (Inr (), t)"
  by (simp add: clean_up_def release_renderer_def catch_exception_def run_eqs calm_def)

lemma model_episode: "calm False s \<Longrightarrow> \<exists>t. episode model_kit 1 model_options s = Some (Inr 0, t) \<and> calm True t"
proof -
  assume "calm False s"
  from model_loads [OF this] obtain s1 where 1: "load_scene model_kit model_options s = (Inr (''6.1.0'', JStr ''text'', Fin 0), s1)" "calm False s1" by blast
  from model_ready [OF 1(2)] obtain s2 where 2: "enter_ready model_kit model_options ''6.1.0'' (Fin 0) s1 = (Inr (JStr ''text''), s2)" "calm False s2" by blast
  from model_waits [OF 2(2), of "''start''" "''ready''"] obtain s3 where 3: "wait_paused_phase model_kit 1 model_options ''start'' ''ready'' s2 = Some (Inr (), s3)" "calm False s3" by blast
  from model_steps_world [OF 3(2)] obtain s4 where 4: "step_world model_kit model_options (Fin 120) (Fin 0) s3 = (Inr (Fin 1, JStr ''text''), s4)" "calm True s4" by blast
  from model_pauses [OF 4(2)] obtain s5 where 5: "pause_world model_kit (Fin 1) s4 = (Inr (Fin 1), s5)" "calm True s5" by blast
  from model_facts [OF 5(2)] obtain facts s6 where 6: "episode_facts model_kit model_options ''6.1.0'' (Fin 0) (Fin 1) (JStr ''text'') (JStr ''text'') JNull (Fin 1) s5 = (Inr facts, s6)" "calm True s6" "finite_dict facts" by blast
  from model_says [OF 6(2,3)] obtain s7 where 7: "say_facts facts s6 = (Inr (), s7)" "calm True s7" by blast
  from model_reports [OF 7(2) 6(3)] obtain s8 where 8: "report_result model_kit model_options facts s7 = (Inr (), s8)" "calm True s8" by blast
  from model_waits [OF 8(2), of "''release''" "''measured''"] obtain s9 where 9: "wait_paused_phase model_kit 1 model_options ''release'' ''measured'' s8 = Some (Inr (), s9)" "calm True s9" by blast
  from 9(2) have "calm True (s9\<lparr>exit_code := 0\<rparr>)" by (simp add: calm_def)
  then show ?thesis
    by (simp add: episode_def bindF_def seqF_def liftF_def 1(1) 2(1) 3(1) 4(1) model_skips [OF 4(2)] 5(1) 6(1) 7(1) 8(1) 9(1) read_clock_def model_deadline Let_def del: One_nat_def)
qed

lemma model_run: "\<exists>s. isaac_run model_kit 1 model_options (new_worker False) = Some (Inr 0, s)"
proof -
  obtain s0 where start: "Isaac_Worker.run model_kit StartApp (new_worker False) = (Inr (), s0)" "calm False s0"
    by (simp add: run_eqs new_worker_def calm_def)
  from model_episode [OF start(2)] obtain s1 where "episode model_kit 1 model_options s0 = Some (Inr 0, s1)" "calm True s1" by blast
  moreover from model_cleans [OF this(2)] obtain s2 where "clean_up model_kit s1 = (Inr (), s2)" by blast
  ultimately show ?thesis using start by (simp add: isaac_run_def seqF_def bindF_def liftF_def finallyF_def catchF_def finallyS_def del: One_nat_def)
qed
theorem isaac_episode_follows_protocol_witness:
  "\<exists>s c. isaac_run model_kit 1 model_options (new_worker False) = Some (Inr 0, s) \<and>
     phases model_kit model_options Booting (trace s) (Closed c) \<and> reached model_kit model_options 5 (trace s)"
proof -
  obtain s where run: "isaac_run model_kit 1 model_options (new_worker False) = Some (Inr 0, s)"
    using model_run by blast
  have "phase_directory model_options = Some [''phase'']" by (simp add: model_options_def)
  from isaac_episode_follows_protocol [OF this model_callback run] run show ?thesis by auto
qed

definition private_episode :: "tree \<Rightarrow> options \<Rightarrow> bool" where
  "private_episode t a \<longleftrightarrow> (\<forall>directory. phase_directory a = Some directory \<longrightarrow> node_at t directory = Some Dir \<and>
      (\<exists>owner token. owner_id a = Some owner \<and> valid_owner owner \<and> phase_token a = Some token \<and> valid_token token) \<and>
      (\<exists>q. phase_timeout_seconds a = Fin q \<and> 1 \<le> q \<and> q \<le> 300) \<and>
      (\<forall>n \<in> set private_names. \<not> is_ok (resolve t (directory @ [n]))))"

lemma finite_bounds:
  "isfinite x \<Longrightarrow> flt (Fin 0) x \<Longrightarrow> fle x (Fin b) \<Longrightarrow> \<exists>q. x = Fin q \<and> 0 < q \<and> q \<le> b"
  "isfinite x \<Longrightarrow> in_bounds l x b \<Longrightarrow> \<exists>q. x = Fin q \<and> l \<le> q \<and> q \<le> b"
  by (cases x; simp add: in_bounds_def)+

lemma phase_options_private: "phase_options t parsed = Inr a \<Longrightarrow> private_episode t a"
  unfolding phase_options_def private_episode_def
  by (auto simp: ok_iff list_ex_iff dest: finite_bounds(2) split: if_splits option.splits list.splits)

lemma private_episode_scene [simp]: "private_episode t (a\<lparr>scene := p\<rparr>) = private_episode t a"
  by (simp add: private_episode_def)

text \<open>
  C40: the arguments the worker accepts are bounded, name a scene with the admitted digest, and in a
  private episode name an owner, a token and an existing directory without files of an earlier
  episode.
\<close>

theorem accepted_arguments_are_bounded:
  assumes "arguments hash t parsed = Inr a"
  shows "1 \<le> steps a \<and> steps a \<le> 10000 \<and> 0 \<le> render_frames a \<and> render_frames a \<le> 10000 \<and>
    (\<exists>q. dt a = Fin q \<and> 0 < q \<and> q \<le> 1) \<and>
    1 \<le> width a \<and> width a \<le> 4096 \<and> 1 \<le> height a \<and> height a \<le> 4096 \<and>
    (capture_directory a \<noteq> None \<longrightarrow> 1 \<le> render_frames a) \<and>
    (\<forall>port. rtsp_port a = Some port \<longrightarrow> 1024 \<le> port \<and> port \<le> 65535 \<and> 1 \<le> render_frames a \<and>
      (\<exists>q. stream_seconds a = Fin q \<and> 0 < q \<and> q \<le> 60)) \<and>
    (\<exists>data m. node_at t (scene a) = Some (Regular data m) \<and> hash data = expected_scene_sha256 a) \<and>
    private_episode t a"
proof -
  from assms obtain b found data m where b: "phase_options t parsed = Inr b" and a: "a = b\<lparr>scene := found\<rparr>"
      and found: "node_at t found = Some (Regular data m)" "hash data = expected_scene_sha256 a"
    by (auto simp: arguments_def ok_iff)
  have "\<exists>data m. node_at t (scene a) = Some (Regular data m) \<and> hash data = expected_scene_sha256 a"
    using found by (simp add: a)
  then show ?thesis
    using assms a phase_options_private [OF b] finite_bounds(1) [of "dt b" 1] finite_bounds(1) [of "stream_seconds b" 60]
    by (cases "rtsp_port b") (auto simp: arguments_def ok_iff b)
qed

section \<open>The waits end\<close>

text \<open>The monotonic clock: a reading shows the time of the world and takes at least \<open>d\<close>;
  nothing turns it back. This is the documented behaviour of \<open>time.monotonic\<close>.\<close>

definition advancing :: "'w kit \<Rightarrow> ('w \<Rightarrow> rat) \<Rightarrow> rat \<Rightarrow> bool" where
  "advancing kit time d \<longleftrightarrow> 0 < d \<and>
     (\<forall>w. fst (monotonic kit w) = time w \<and> time w + d \<le> time (snd (monotonic kit w))) \<and>
     (\<forall>c w. time w \<le> time (snd (native kit c w))) \<and> (\<forall>x w. time w \<le> time (sleep kit x w))"

abbreviation worker_clock :: "('w \<Rightarrow> rat) \<Rightarrow> 'w worker \<Rightarrow> rat" where
  "worker_clock time \<equiv> \<lambda>s. time (world s)"

lemma read_clock_run:
  assumes "advancing kit time d" "read_clock kit s = (r, t)"
  shows "r = Inr (time (world s)) \<and> time (world s) + d \<le> time (world t)"
  using assms by (auto simp: read_clock_def advancing_def split: prod.splits dest: spec [of _ "world s"])

lemma forward_ask [keeps]: "advancing kit time d \<Longrightarrow> forward (worker_clock time) (ask kit c)"
  by (auto simp: forward_def ask_def advancing_def split: prod.splits) (metis snd_conv)

lemma forward_asks [keeps]:
  assumes "advancing kit time d"
  shows "forward (worker_clock time) (ask_float kit c)" "forward (worker_clock time) (ask_bool kit c)"
    "forward (worker_clock time) (ask_text kit c)" "forward (worker_clock time) (ask_int kit c)"
    "forward (worker_clock time) (run kit c)"
  using assms by (auto simp: asks intro!: keeps)

lemma forward_conditions [keeps]:
  "forward clock m \<Longrightarrow> forward clock n \<Longrightarrow> forward clock (orS m n)"
  "forward clock m \<Longrightarrow> forward clock (notS m)"
  "forward clock m \<Longrightarrow> forward clock (refuseS m k msg)"
  by (auto simp: orS_def notS_def refuseS_def intro!: keeps)

lemma forward_emit [keeps]: "forward (worker_clock time) (emit e)"
  by (simp add: forward_def emit_def)

lemma forward_rest [keeps]: "advancing kit time d \<Longrightarrow> forward (worker_clock time) (rest_for kit x)"
  by (simp add: forward_def rest_for_def advancing_def)

lemma forward_marker [keeps]: "advancing kit time d \<Longrightarrow> forward (worker_clock time) (phase_marker kit a action)"
  by (auto simp: phase_marker_def Let_def intro!: keeps)

lemma forward_write [keeps]: "advancing kit time d \<Longrightarrow> forward (worker_clock time) (phase_write kit a name facts)"
  by (auto simp: phase_write_def Let_def intro!: keeps split: option.splits)

lemma forward_observe [keeps]: "advancing kit time d \<Longrightarrow> forward (worker_clock time) (observe_pause kit a phase b n)"
  by (auto simp: observe_pause_def intro!: keeps)

lemma await_marker_goes_on:
  assumes clock: "advancing kit time d"
    and pass: "await_marker kit a action (Fin deadline) n s = (Inr (Inr m), t)"
  shows "time (world s) < deadline \<and> time (world s) + d \<le> time (world t)"
proof -
  let ?cancel = "refuseS (phase_marker kit a ''cancel'') RuntimeError ''private episode cancelled''"
  let ?early = "if action = ''start'' then refuseS (phase_marker kit a ''release'') RuntimeError
     ''private episode released before measurement'' else retS ()"
  from pass obtain u v w now y x z where run: "?cancel s = (Inr z, u)" "phase_marker kit a action u = (Inr False, v)"
      "?early v = (Inr y, w)" "read_clock kit w = (Inr now, x)" "\<not> fle (Fin deadline) (Fin now)"
      "rest_for kit (rnd64 (1/40)) x = (Inr (), t)"
    by (auto simp: await_marker_def ok_iff ok_cases split: if_splits)
  have "time (world s) \<le> time (world u)" "time (world u) \<le> time (world v)" "time (world v) \<le> time (world w)"
      "time (world x) \<le> time (world t)"
    using forwardD [where clock = "worker_clock time" and m = ?cancel, OF _ run(1)]
      forwardD [where clock = "worker_clock time" and m = "phase_marker kit a action", OF _ run(2)]
      forwardD [where clock = "worker_clock time" and m = ?early, OF _ run(3)]
      forwardD [where clock = "worker_clock time" and m = "rest_for kit (rnd64 (1/40))", OF _ run(6)] clock
    by (simp_all only: keeps)
  with read_clock_run [OF clock run(4)] run(5) show ?thesis by auto
qed

interpretation paused_poll: bounded_poll "pass_of (paused_pass kit a action phase (Fin deadline) baseline)"
    "passes_left (worker_clock time) d deadline" "\<lambda>_. advancing kit time d"
  for kit :: "'w kit" and a action phase deadline baseline time d
proof (rule bounded_pass)
  fix n m and s t :: "'w worker"
  assume clock: "advancing kit time d"
    and "paused_pass kit a action phase (Fin deadline) baseline n s = (Inr (Inr m), t)"
  then obtain u where run: "observe_pause kit a phase baseline n s = (Inr (), u)"
      "await_marker kit a action (Fin deadline) (Suc n) u = (Inr (Inr m), t)"
    by (auto simp: paused_pass_def ok_iff)
  have "time (world s) \<le> time (world u)"
    using forwardD [OF forward_observe [OF clock] run(1)] by simp
  with await_marker_goes_on [OF clock run(2)]
  show "time (world s) < deadline \<and> time (world s) + d \<le> time (world t)" by simp
qed (simp add: advancing_def)


text \<open>A simulator whose every call answers nothing, under a clock that counts its readings.\<close>

definition idle_kit :: "rat kit" where
  "idle_kit = \<lparr>native = (\<lambda>c w. (Inr JNull, w)), physics_step = (\<lambda>n callback. callback),
     monotonic = (\<lambda>w. (w, w + 1)), sleep = (\<lambda>x w. w), loads = (\<lambda>text. Inr JNull), sha = (\<lambda>b. b)\<rparr>"


definition model_disk :: tree where
  "model_disk = [([''phase''], Dir), ([''scene.usd''], Regular ''scene'' \<lparr>st_dev = 1, st_ino = 2, st_mtime_ns = 3, st_ctime_ns = 4\<rparr>)]"

theorem accepted_arguments_are_bounded_witness:
  "\<exists>a. arguments id model_disk (model_options\<lparr>phase_token := Some (replicate 36 (CHR ''0''))\<rparr>) = Inr a \<and> steps a \<le> 10000"
proof -
  have "is_ok (arguments id model_disk (model_options\<lparr>phase_token := Some (replicate 36 (CHR ''0''))\<rparr>))"
    by code_simp
  then have "\<exists>a. arguments id model_disk (model_options\<lparr>phase_token := Some (replicate 36 (CHR ''0''))\<rparr>) = Inr a"
    by (simp add: is_ok_iff)
  with accepted_arguments_are_bounded show ?thesis by blast
qed

end
