(* ===== verification/Webots_Common.thy ===== *)
theory Webots_Common
  imports Py_Host Py_Codec
begin

text \<open>
  What the two Webots programs share: \<open>workers/webots/common.py\<close>, the calls they make, and
  their state: the desk of the host and the report that each of them fills and finally writes.
  Files, processes, the clock and the simulator are the calls \<open>webcall\<close>; the signal handler sets
  a flag whose value is the answer to \<open>Stopping\<close>.
\<close>

datatype webcall =
    WriteSync path json | Replace path path | WriteBytes path bytes | WriteText path string
  | ReadFile path | ReadDocument path | ResolvePath path | StatSize path | Exists path
  | Entries path | MakeDir path | ChangeMode path | CopyFile path path | ReadLink path | ReadText path
  | Stopping | Monotonic | Sleep | SetSignals | Environment string
  | BasicTimeStep | WorldPath | RobotName | RobotModel | RobotId | Synchronization
  | MakeSupervisor | FromDef string | GetSelf | GetDevice string | WorldField string
  | EnableCamera int | DisableCamera | SamplingPeriod | SimTime | BodyPosition | SimStep int
  | CameraImage | CameraWidth | CameraHeight | SaveImage path | SimulationReset | SimulationQuit int
  | OpenLog path | CloseLog path | Spawn string "json list" | Poll json | WaitFor json | KillGroup json string
  | RunGlxinfo | UserId | GroupId

record ('c, 'w) keeper = "('c, 'w) desk" +
  report :: dict

type_synonym ('w, 'z, 'a) site = "((webcall, 'w, 'z) keeper_scheme, 'a) prog"

text \<open>The hexadecimal SHA-256 is \<open>sha\<close>; \<open>install_dir\<close> is the directory of the programs.\<close>

record 'w station =
  site_host :: "(webcall, 'w) host"
  sha :: "bytes \<Rightarrow> string"
  install_dir :: path

text \<open>The arguments that the launcher takes and hands to the controller.\<close>

record run_args =
  out_dir :: path
  owner_id :: string
  mode :: string
  step_ms :: int
  steps :: int
  deadline_seconds :: pyfloat
  probe_reset :: bool
  auto_start :: bool

definition with_camera :: "('z run_args_scheme) \<Rightarrow> bool" where
  "with_camera a = (mode a = ''offscreen-camera'')"

text \<open>Both programs admit the same finite limits.\<close>

definition limits_ok :: "'z run_args_scheme \<Rightarrow> bool" where
  "limits_ok a \<longleftrightarrow> 1 \<le> steps a \<and> steps a \<le> 64 \<and> flt (Fin 0) (deadline_seconds a) \<and> fle (deadline_seconds a) (Fin 300)"

definition call_float :: "('c, 'w) host \<Rightarrow> 'c \<Rightarrow> (('c, 'w, 'z) desk_scheme, pyfloat) prog" where
  "call_float host c = bindS (call host c) (\<lambda>v. liftS (case v of JFloat f \<Rightarrow> Inr f | _ \<Rightarrow> raise TypeError ''float expected''))"

text \<open>A list of floats, such as a position.\<close>

definition float_list :: "json \<Rightarrow> json res" where
  "float_list v = bindE (as_list v) (\<lambda>xs. bindE (mapE (\<lambda>x. case x of JFloat f \<Rightarrow> Inr (JFloat f)
     | _ \<Rightarrow> raise TypeError ''float expected'') xs) (\<lambda>ys. Inr (JList ys)))"

definition call_path :: "('c, 'w) host \<Rightarrow> 'c \<Rightarrow> (('c, 'w, 'z) desk_scheme, path) prog" where
  "call_path host c = bindS (call_text host c) (\<lambda>v. retS (pure_parts v))"

text \<open>\<open>report[key] = value\<close> and \<open>report[key].update(...)\<close>.\<close>

definition note_fact :: "string \<Rightarrow> json \<Rightarrow> ('w, 'z, unit) site" where
  "note_fact k v = modifyS (\<lambda>s. s\<lparr>report := dset k v (report s)\<rparr>)"

definition amend_fact :: "string \<Rightarrow> dict \<Rightarrow> ('w, 'z, unit) site" where
  "amend_fact k entries = modifyS (\<lambda>s. s\<lparr>report := dset k
     (case dget (report s) k of JObj d \<Rightarrow> JObj (dmerge d entries) | x \<Rightarrow> x) (report s)\<rparr>)"

definition refuse :: "bool \<Rightarrow> exc_kind \<Rightarrow> string \<Rightarrow> ('s, unit) prog" where
  "refuse bad k msg = (if bad then raiseS k msg else retS ())"

text \<open>\<open>write_json\<close>: a document with a float that JSON does not have is refused before the file is opened.\<close>

definition temporary :: "path \<Rightarrow> path" where
  "temporary p = path_parent p @ [path_name p @ ''.tmp'']"

definition write_json :: "'w station \<Rightarrow> path \<Rightarrow> json \<Rightarrow> ('w, 'z, unit) site" where
  "write_json H p v =
     seqS (refuse (\<not> finite_json v) ValueError ''Out of range float values are not JSON compliant'')
    (seqS (perform (site_host H) (WriteSync (temporary p) v))
          (perform (site_host H) (Replace (temporary p) p)))"

definition reference :: "'w station \<Rightarrow> path \<Rightarrow> ('w, 'z, json) site" where
  "reference H p =
     bindS (call_text (site_host H) (ReadFile p)) (\<lambda>content.
     bindS (call_path (site_host H) (ResolvePath p)) (\<lambda>found.
     bindS (call_int (site_host H) (StatSize p)) (\<lambda>n.
     retS (JObj [(''uri'', JStr (''file://'' @ quote (abs_str found))), (''sha256'', JStr (sha H content)),
       (''size_bytes'', JInt n)]))))"

text \<open>\<open>f"{type(error).__name__}: {error}"\<close>.\<close>

fun kind_name :: "exc_kind \<Rightarrow> string" where
  "kind_name ValueError = ''ValueError''"
| "kind_name UnicodeDecodeError = ''UnicodeDecodeError''"
| "kind_name ArgumentTypeError = ''ArgumentTypeError''"
| "kind_name KeyError = ''KeyError''"
| "kind_name IndexError = ''IndexError''"
| "kind_name TypeError = ''TypeError''"
| "kind_name AttributeError = ''AttributeError''"
| "kind_name StopIteration = ''StopIteration''"
| "kind_name OverflowError = ''OverflowError''"
| "kind_name ZeroDivisionError = ''ZeroDivisionError''"
| "kind_name OSError = ''OSError''"
| "kind_name FileNotFoundError = ''FileNotFoundError''"
| "kind_name FileExistsError = ''FileExistsError''"
| "kind_name TimeoutError = ''TimeoutError''"
| "kind_name InterruptedError = ''InterruptedError''"
| "kind_name ProcessLookupError = ''ProcessLookupError''"
| "kind_name RuntimeError = ''RuntimeError''"
| "kind_name ConformanceError = ''ConformanceError''"
| "kind_name CalledProcessError = ''CalledProcessError''"
| "kind_name TimeoutExpired = ''TimeoutExpired''"
| "kind_name HarnessInputError = ''HarnessInputError''"
| "kind_name SystemExit = ''SystemExit''"

definition describe :: "exc \<Rightarrow> string" where
  "describe e = kind_name (exc_kind e) @ '': '' @ exc_msg e"

definition outcome_of :: "exc \<Rightarrow> string" where
  "outcome_of e = (if exc_kind e = InterruptedError then ''canceled'' else ''error'')"

section \<open>The calls\<close>

lemma adds_facts [keeps]: "adds C (note_fact k v)" "adds C (amend_fact k d)" "adds C (refuse bad kind msg)"
  by (auto simp: note_fact_def amend_fact_def refuse_def intro!: keeps)

lemma adds_float [keeps]: "C c \<Longrightarrow> adds C (call_float host c)" "C c \<Longrightarrow> adds C (call_path host c)"
  by (auto simp: call_float_def call_path_def intro!: keeps)

text \<open>Calls other than the one that ends the simulation.\<close>

fun quits :: "webcall \<Rightarrow> bool" where
  "quits (SimulationQuit code) = True"
| "quits _ = False"

abbreviation stays :: "webcall \<Rightarrow> bool" where
  "stays c \<equiv> \<not> quits c"

lemma adds_documents [keeps]: "adds stays (write_json H p v)" "adds stays (reference H p)"
  by (auto simp: write_json_def reference_def intro!: keeps)

abbreviation anything :: "webcall \<Rightarrow> bool" where
  "anything \<equiv> \<lambda>c. True"

lemma adds_any [keeps]: "adds anything (write_json H p v)" "adds anything (reference H p)"
  by (auto simp: write_json_def reference_def intro!: keeps)

lemma note_fact_ok [ok_iff]: "note_fact k v s = (r, t) \<longleftrightarrow> r = Inr () \<and> t = s\<lparr>report := dset k v (report s)\<rparr>"
  by (auto simp: note_fact_def modifyS_ok)

lemma refused_ok [ok_iff]: "refuse bad k msg s = (Inr u, t) \<longleftrightarrow> \<not> bad \<and> t = s"
  by (auto simp: refuse_def ok_iff)

lemma finallyF_ok [ok_iff]: "finallyF m f s = Some (Inr x, t) \<longleftrightarrow> (\<exists>u. m s = Some (Inr x, u) \<and> f u = (Inr (), t))"
  by (cases "m s") (auto simp: finallyF_def finallyS_def split: prod.splits sum.splits)

lemma catch_onF_ok:
  "catch_onF ks m h s = Some (Inr x, t) \<longleftrightarrow> m s = Some (Inr x, t) \<or>
     (\<exists>e u. m s = Some (Inl e, u) \<and> caught_by ks e \<and> h e u = (Inr x, t))"
proof (cases "m s")
  case (Some run)
  then show ?thesis by (cases run; cases "fst run") (auto simp: catch_onF_def catchS_def)
qed (simp add: catch_onF_def)

section \<open>The calls of a program that waits\<close>

text \<open>\<open>adds\<close> for a program on fuel: every run that ends only adds calls of the kinds \<open>C\<close>.\<close>

definition addsF :: "('c \<Rightarrow> bool) \<Rightarrow> (('c, 'w, 'z) desk_scheme, 'a) fprog \<Rightarrow> bool" where
  "addsF C m \<longleftrightarrow> (\<forall>s r t. m s = Some (r, t) \<longrightarrow> (\<exists>new. asked t = asked s @ new \<and> list_all (C \<circ> fst) new))"

lemma addsFI: "(\<And>s r t. m s = Some (r, t) \<Longrightarrow> \<exists>new. asked t = asked s @ new \<and> list_all (C \<circ> fst) new) \<Longrightarrow> addsF C m"
  by (simp add: addsF_def)

lemma addsFD: "addsF C m \<Longrightarrow> m s = Some (r, t) \<Longrightarrow> \<exists>new. asked t = asked s @ new \<and> list_all (C \<circ> fst) new"
  by (simp add: addsF_def)

lemma addsF_lift [keeps]: "adds C m \<Longrightarrow> addsF C (liftF m)"
  unfolding addsF_def liftF_def using addsD by blast

text \<open>Two runs in a row.\<close>

lemma more_calls:
  "\<exists>new. asked u = asked s @ new \<and> list_all (C \<circ> fst) new \<Longrightarrow> \<exists>new. asked t = asked u @ new \<and> list_all (C \<circ> fst) new \<Longrightarrow>
   \<exists>new. asked t = asked s @ new \<and> list_all (C \<circ> fst) new"
  by (metis append.assoc list_all_append)

lemma addsF_bind [keeps]:
  assumes m: "addsF C m" and f: "\<And>a. addsF C (f a)"
  shows "addsF C (bindF m f)"
proof (rule addsFI)
  fix s r t assume run: "bindF m f s = Some (r, t)"
  then obtain r0 u where first: "m s = Some (r0, u)" by (auto simp: bindF_def split: option.splits)
  from addsFD [OF m first] show "\<exists>new. asked t = asked s @ new \<and> list_all (C \<circ> fst) new"
  proof (cases r0)
    case (Inr a)
    with run first have "f a u = Some (r, t)" by (simp add: bindF_def)
    from more_calls [OF addsFD [OF m first] addsFD [OF f this]] show ?thesis .
  qed (use run first in \<open>simp add: bindF_def\<close>)
qed

lemma addsF_seq [keeps]: "addsF C m \<Longrightarrow> addsF C n \<Longrightarrow> addsF C (seqF m n)"
  unfolding seqF_def by (rule addsF_bind)

lemma addsF_if [keeps]: "addsF C m \<Longrightarrow> addsF C n \<Longrightarrow> addsF C (if c then m else n)"
  by simp

lemma addsF_poll [keeps]:
  assumes body: "\<And>l. adds C (body l)"
  shows "addsF C (\<lambda>s. repeat_until fuel (pass_of body) (l, s))"
proof (rule addsFI)
  fix s r t assume "repeat_until fuel (pass_of body) (l, s) = Some (r, t)"
  then show "\<exists>new. asked t = asked s @ new \<and> list_all (C \<circ> fst) new"
  proof (induction fuel arbitrary: l s)
    case (Suc n)
    obtain x u where run: "body l s = (x, u)" by fastforce
    note first = addsD [OF body run]
    show ?case
    proof (cases "pass_of body (l, s)")
      case (Inl ended)
      with Suc.prems have "ended = (r, t)" by simp
      with Inl have "t = u" by (auto simp: pass_of_def run split: sum.splits)
      with first show ?thesis by blast
    next
      case (Inr next_pass)
      then obtain l' where "next_pass = (l', u)" by (auto simp: pass_of_def run split: sum.splits)
      with Suc.prems Inr have "repeat_until n (pass_of body) (l', u) = Some (r, t)" by simp
      from more_calls [OF first Suc.IH [OF this]] show ?thesis .
    qed
  qed simp
qed

lemma addsF_catch [keeps]:
  assumes m: "addsF C m" and h: "\<And>e. adds C (h e)"
  shows "addsF C (catch_onF ks m h)"
proof (rule addsFI)
  fix s r t assume run: "catch_onF ks m h s = Some (r, t)"
  then obtain r0 u where first: "m s = Some (r0, u)" by (auto simp: catch_onF_def)
  from addsFD [OF m first] show "\<exists>new. asked t = asked s @ new \<and> list_all (C \<circ> fst) new"
  proof (cases "\<exists>e. r0 = Inl e \<and> caught_by ks e")
    case True
    then obtain e where e: "r0 = Inl e" "caught_by ks e" by blast
    with run first have "h e u = (r, t)" by (simp add: catch_onF_def catchS_def)
    from more_calls [OF addsFD [OF m first] addsD [OF h this]] show ?thesis .
  next
    case False
    with run first have "t = u" by (cases r0) (auto simp: catch_onF_def catchS_def)
    with addsFD [OF m first] show ?thesis by blast
  qed
qed

text \<open>A \<open>finally\<close> clause that waits itself.\<close>

definition finally_onF :: "('s, 'a) fprog \<Rightarrow> ('s, unit) fprog \<Rightarrow> ('s, 'a) fprog" where
  "finally_onF m f = (\<lambda>s. case m s of None \<Rightarrow> None
     | Some (r, t) \<Rightarrow> (case f t of None \<Rightarrow> None
         | Some (r', u) \<Rightarrow> (case r' of Inl e \<Rightarrow> Some (Inl e, u) | Inr _ \<Rightarrow> Some (r, u))))"

lemma finally_onF_run:
  assumes "finally_onF m f s = Some (r, u)"
  obtains r1 t r2 where "m s = Some (r1, t)" "f t = Some (r2, u)" "is_ok r2 \<longrightarrow> r = r1" "is_ok r \<longrightarrow> is_ok r2"
proof -
  from assms obtain r1 t r2 where run: "m s = Some (r1, t)" "f t = Some (r2, u)"
    by (auto simp: finally_onF_def split: option.splits sum.splits)
  with assms that [OF run] show ?thesis by (cases r2) (auto simp: finally_onF_def)
qed

lemma addsF_finally [keeps]:
  assumes m: "addsF C m" and f: "addsF C f"
  shows "addsF C (finally_onF m f)"
proof (rule addsFI)
  fix s r u assume "finally_onF m f s = Some (r, u)"
  then obtain r1 t r2 where "m s = Some (r1, t)" "f t = Some (r2, u)" by (rule finally_onF_run)
  from more_calls [OF addsFD [OF m this(1)] addsFD [OF f this(2)]]
  show "\<exists>new. asked u = asked s @ new \<and> list_all (C \<circ> fst) new" .
qed

lemma later_runF: "addsF C m \<Longrightarrow> m s = Some (r, t) \<Longrightarrow> later s t"
  using addsFD unfolding later_def by blast

section \<open>Programs that always end\<close>

text \<open>
  \<open>settles m\<close>: from every state there is an amount of fuel from which on \<open>m\<close> ends, always with
  the same outcome. There is one rule for each way to put programs together.
\<close>

definition settles :: "(nat \<Rightarrow> ('s, 'a) fprog) \<Rightarrow> bool" where
  "settles m \<longleftrightarrow> (\<forall>s. \<exists>n x. \<forall>k \<ge> n. m k s = Some x)"

named_theorems ending

lemma settlesI: "(\<And>s. \<exists>n x. \<forall>k \<ge> n. m k s = Some x) \<Longrightarrow> settles m"
  by (simp add: settles_def)

lemma settlesD: "settles m \<Longrightarrow> \<exists>n x. \<forall>k \<ge> n. m k s = Some x"
  by (simp add: settles_def)

lemma settles_lift [ending]: "settles (\<lambda>k. liftF m)"
  by (simp add: settles_def liftF_def)

lemma settles_bind:
  assumes m: "settles m" and f: "\<And>k s a t. m k s = Some (Inr a, t) \<Longrightarrow> settles (\<lambda>k. f k a)"
  shows "settles (\<lambda>k. bindF (m k) (f k))"
proof (rule settlesI)
  fix s
  from settlesD [OF m] obtain n r t where run: "\<forall>k \<ge> n. m k s = Some (r, t)" by (metis surjective_pairing)
  show "\<exists>n x. \<forall>k \<ge> n. bindF (m k) (f k) s = Some x"
  proof (cases r)
    case (Inl e)
    with run show ?thesis by (intro exI [of _ n]) (simp add: bindF_def)
  next
    case (Inr a)
    with run have "m n s = Some (Inr a, t)" by simp
    from settlesD [OF f [OF this]] obtain n' x where "\<forall>k \<ge> n'. f k a t = Some x" by blast
    with run Inr show ?thesis by (intro exI [of _ "max n n'"] exI [of _ x]) (simp add: bindF_def)
  qed
qed

lemma settles_bind_any [ending]: "settles m \<Longrightarrow> (\<And>a. settles (\<lambda>k. f k a)) \<Longrightarrow> settles (\<lambda>k. bindF (m k) (f k))"
  by (rule settles_bind)

lemma settles_seq [ending]: "settles m \<Longrightarrow> settles p \<Longrightarrow> settles (\<lambda>k. seqF (m k) (p k))"
  unfolding seqF_def by (rule settles_bind_any)

lemma settles_if [ending]: "settles m \<Longrightarrow> settles p \<Longrightarrow> settles (\<lambda>k. if c then m k else p k)"
  by (cases c) simp_all

lemma settles_catch [ending]: "settles m \<Longrightarrow> settles (\<lambda>k. catch_onF ks (m k) h)"
  unfolding settles_def catch_onF_def by (metis option.map(2))

lemma settles_finallyF [ending]: "settles m \<Longrightarrow> settles (\<lambda>k. finallyF (m k) f)"
  unfolding settles_def finallyF_def by (metis option.map(2))

lemma settles_finally [ending]:
  assumes m: "settles m" and f: "settles f"
  shows "settles (\<lambda>k. finally_onF (m k) (f k))"
proof (rule settlesI)
  fix s
  from settlesD [OF m] obtain n r t where run: "\<forall>k \<ge> n. m k s = Some (r, t)" by (metis surjective_pairing)
  from settlesD [OF f] obtain n' r' u where final: "\<forall>k \<ge> n'. f k t = Some (r', u)" by (metis surjective_pairing)
  with run show "\<exists>n x. \<forall>k \<ge> n. finally_onF (m k) (f k) s = Some x"
    by (intro exI [of _ "max n n'"] exI [of _ "case r' of Inl e \<Rightarrow> (Inl e, u) | Inr _ \<Rightarrow> (r, u)"])
       (simp add: finally_onF_def split: sum.split)
qed

text \<open>
  The contract of a wait until a deadline: a pass goes on only before the time \<open>b\<close> of the clock, and
  the clock has moved on by \<open>d\<close> then. Such a wait is a bounded poll, and it settles.
\<close>

locale deadline_wait =
  fixes body :: "'l \<Rightarrow> ('s, 'a + 'l) prog"
    and clock :: "'s \<Rightarrow> rat"
    and b :: rat
    and d :: rat
    and ok :: bool
  assumes goes_on: "ok \<Longrightarrow> body l s = (Inr (Inr l'), s') \<Longrightarrow> clock s < b \<and> clock s + d \<le> clock s'"
    and moves: "ok \<Longrightarrow> 0 < d"

sublocale deadline_wait \<subseteq> bounded_poll "pass_of body" "passes_left clock d b" "\<lambda>_. ok"
  by (rule bounded_pass [OF goes_on moves])

context deadline_wait
begin

lemma settled: "ok \<Longrightarrow> settles (\<lambda>k s. repeat_until k (pass_of body) (l, s))"
proof (rule settlesI)
  fix s
  assume "ok"
  from enough_fuel [OF this lessI] obtain x
    where "repeat_until (Suc (passes_left clock d b (l, s))) (pass_of body) (l, s) = Some x" by blast
  from repeat_until_more [OF this] show "\<exists>n x. \<forall>k \<ge> n. repeat_until k (pass_of body) (l, s) = Some x" by blast
qed

end

text \<open>A host whose clock never runs back, shows the time and moves on by \<open>d\<close> in every sleep.\<close>

definition reading :: "rat \<Rightarrow> pyfloat" where
  "reading t = (if t < float_bound then Fin t else PInf)"

definition ticking :: "(webcall, 'w) host \<Rightarrow> ('w \<Rightarrow> rat) \<Rightarrow> rat \<Rightarrow> bool" where
  "ticking host time d \<longleftrightarrow> 0 < d \<and> (\<forall>c w. time w \<le> time (snd (host c w))) \<and>
     (\<forall>w. fst (host Monotonic w) = Inr (JFloat (reading (time w)))) \<and> (\<forall>w. time w + d \<le> time (snd (host Sleep w)))"

text \<open>From the time \<open>b\<close> on that clock shows the deadline as passed.\<close>

definition passing :: "(webcall, 'w) host \<Rightarrow> ('w \<Rightarrow> rat) \<Rightarrow> rat \<Rightarrow> pyfloat \<Rightarrow> rat \<Rightarrow> bool" where
  "passing host time d deadline b \<longleftrightarrow> ticking host time d \<and> (\<forall>t. b \<le> t \<longrightarrow> fle deadline (reading t))"

lemma forward_catchS [keeps]:
  assumes m: "forward clock m" and h: "\<And>e. forward clock (h e)"
  shows "forward clock (catchS ks m h)"
  unfolding forward_def
proof
  fix s
  obtain r t where run: "m s = (r, t)" by fastforce
  note first = forwardD [OF m run]
  show "clock s \<le> clock (snd (catchS ks m h s))"
  proof (cases r)
    case (Inl e)
    obtain r' u where "h e t = (r', u)" by fastforce
    with forwardD [OF h this] first run Inl show ?thesis by (auto simp: catchS_def)
  qed (use first run in \<open>simp add: catchS_def\<close>)
qed

lemma deadline_passes: "deadline \<noteq> NaN \<Longrightarrow> \<exists>b. \<forall>t \<ge> b. fle deadline (reading t)"
proof (cases deadline)
  case (Fin r)
  then show ?thesis by (intro exI [of _ r]) (auto simp: reading_def fle_def feq_def)
next
  case PInf
  then show ?thesis by (intro exI [of _ float_bound]) (simp add: reading_def fle_def feq_def)
qed (auto simp: reading_def fle_def feq_def)

lemma passing_exists: "ticking host time d \<Longrightarrow> deadline \<noteq> NaN \<Longrightarrow> \<exists>b. passing host time d deadline b"
  using deadline_passes unfolding passing_def by blast

lemma passingD:
  assumes "passing host time d deadline b"
  shows "ticking host time d" "b \<le> t \<Longrightarrow> fle deadline (reading t)" "0 < d"
  using assms by (auto simp: passing_def ticking_def)

lemma deadline_set: "fadd (reading t) (Fin q) \<noteq> NaN"
  by (simp add: reading_def to_float_def Let_def)

abbreviation desk_clock :: "('w \<Rightarrow> rat) \<Rightarrow> ('c, 'w, 'z) desk_scheme \<Rightarrow> rat" where
  "desk_clock time \<equiv> (\<lambda>s. time (outside s))"

lemma forward_desk_call [keeps]:
  assumes "ticking host time d"
  shows "forward (desk_clock time) (call host c)"
proof -
  have "time (outside s) \<le> time (snd (host c (outside s)))" for s :: "(webcall, 'a, 'b) desk_scheme"
    using assms by (simp add: ticking_def)
  then show ?thesis by (simp add: forward_def call_def split: prod.split) (metis snd_conv)
qed

lemma forward_calls [keeps]:
  assumes "ticking host time d"
  shows "forward (desk_clock time) (perform host c)" "forward (desk_clock time) (call_text host c)"
    "forward (desk_clock time) (call_bool host c)" "forward (desk_clock time) (call_int host c)"
    "forward (desk_clock time) (call_float host c)" "forward (desk_clock time) (call_path host c)"
    "forward (desk_clock time) (refuse bad k msg)"
  using assms
  by (auto simp: perform_def call_text_def call_bool_def call_int_def call_float_def call_path_def refuse_def intro!: keeps)

lemma read_clock:
  fixes host :: "(webcall, 'w) host"
  assumes "ticking host time d" "call_float host Monotonic s = (Inr t, s')"
  shows "t = reading (desk_clock time s)"
proof -
  from assms(1) have "fst (host Monotonic (outside s)) = Inr (JFloat (reading (time (outside s))))"
    by (simp add: ticking_def)
  with assms(2) show ?thesis by (auto simp: call_float_def ok_iff call_run)
qed

lemma sleep_moves:
  fixes host :: "(webcall, 'w) host"
  assumes "ticking host time d" "perform host Sleep s = (Inr u, s')"
  shows "desk_clock time s + d \<le> desk_clock time s'"
proof -
  from assms(1) have "time (outside s) + d \<le> time (snd (host Sleep (outside s)))"
    by (simp add: ticking_def)
  with assms(2) show ?thesis by (auto simp: ok_iff call_run)
qed

section \<open>What a program leaves alone\<close>

text \<open>The report changes at the keys \<open>K\<close> only, and the program's own fields not at all.\<close>

definition touches :: "string set \<Rightarrow> ('w, 'z, 'a) site \<Rightarrow> bool" where
  "touches K m \<longleftrightarrow>
     (\<forall>d c. preserves (\<lambda>s. (\<forall>k. k \<notin> K \<longrightarrow> map_of (report s) k = d k) \<and> keeper.more s = c) m)"

lemma touchesD:
  assumes "touches K m" "m s = (r, t)"
  shows "k \<notin> K \<Longrightarrow> map_of (report t) k = map_of (report s) k" and "keeper.more t = keeper.more s"
  using assms(1) [unfolded touches_def, THEN spec, THEN spec, THEN preservesD, OF _ assms(2), of "map_of (report s)"]
  by auto

lemma touches_pure [keeps]:
  "touches K (retS a)" "touches K (liftS r)" "touches K (raiseS k msg)" "touches K (getS g)"
  by (simp_all add: touches_def keeps)

lemma touches_bindS [keeps]: "touches K m \<Longrightarrow> (\<And>a. touches K (f a)) \<Longrightarrow> touches K (bindS m f)"
  by (simp add: touches_def preserves_bindS)

lemma touches_seqS [keeps]: "touches K m \<Longrightarrow> touches K n \<Longrightarrow> touches K (seqS m n)"
  by (simp add: touches_def preserves_seqS)

lemma touches_if [keeps]: "touches K m \<Longrightarrow> touches K n \<Longrightarrow> touches K (if c then m else n)"
  by simp

lemma touches_catchS [keeps]: "touches K m \<Longrightarrow> (\<And>e. touches K (h e)) \<Longrightarrow> touches K (catchS ks m h)"
  by (simp add: touches_def preserves_catchS)

lemma touches_finallyS [keeps]: "touches K m \<Longrightarrow> touches K f \<Longrightarrow> touches K (finallyS m f)"
  by (simp add: touches_def preserves_finallyS)

lemma touches_mapS [keeps]: "(\<And>x. x \<in> set xs \<Longrightarrow> touches K (f x)) \<Longrightarrow> touches K (mapS f xs)"
  by (simp add: touches_def preserves_mapS)

lemma touches_forS [keeps]: "(\<And>x. x \<in> set xs \<Longrightarrow> touches K (f x)) \<Longrightarrow> touches K (forS f xs)"
  by (simp add: touches_def preserves_forS)

lemma touches_call [keeps]: "touches K (call host c)"
  by (simp add: touches_def preserves_def call_def split: prod.split)

lemma touches_calls [keeps]:
  "touches K (perform host c)" "touches K (call_text host c)" "touches K (call_bool host c)"
  "touches K (call_int host c)" "touches K (call_float host c)" "touches K (call_path host c)"
  by (auto simp: perform_def call_text_def call_bool_def call_int_def call_float_def call_path_def intro!: keeps)

lemma touches_note [keeps]: "k \<in> K \<Longrightarrow> touches K (note_fact k v)" "k \<in> K \<Longrightarrow> touches K (amend_fact k d)"
  by (auto simp: touches_def preserves_def note_fact_def amend_fact_def update_conv')

lemma touches_shared [keeps]: "touches K (refuse bad k msg)" "touches K (write_json H p v)" "touches K (reference H p)"
  by (auto simp: refuse_def write_json_def reference_def intro!: keeps)

text \<open>A part of a waiting program that leaves the report alone.\<close>

lemma touches_poll:
  fixes body :: "'l \<Rightarrow> ('w, 'z, 'a + 'l) site"
  assumes body: "\<And>l. touches K (body l)" and "repeat_until fuel (pass_of body) (l, s) = Some (r, t)"
  shows "k \<notin> K \<Longrightarrow> map_of (report t) k = map_of (report s) k" and "keeper.more t = keeper.more s"
proof -
  let ?I = "\<lambda>u. (\<forall>k. k \<notin> K \<longrightarrow> map_of (report u) k = map_of (report s) k) \<and> keeper.more u = keeper.more s"
  have "preserves ?I (body l)" for l
    using body [of l] unfolding touches_def by blast
  then have pass: "holds ?I (liftF (body l)) (\<lambda>_. ?I) ?I" for l by (rule holds_keeps)
  have same: "(\<lambda>x :: 'a + 'l. case x of Inl a \<Rightarrow> ?I | Inr l' \<Rightarrow> ?I) = (\<lambda>_. ?I)"
    by (rule ext) (simp split: sum.split)
  have "holds ?I (\<lambda>s. repeat_until fuel (pass_of body) (l, s)) (\<lambda>_. ?I) ?I"
    by (rule holds_poll [where I = "\<lambda>_. ?I" and Q = "\<lambda>_. ?I"], unfold same, rule pass)
  from holdsD [OF this, of s] assms(2) have "?I t" by (cases r) simp_all
  then show "k \<notin> K \<Longrightarrow> map_of (report t) k = map_of (report s) k" "keeper.more t = keeper.more s" by blast+
qed

text \<open>The same for a whole program on fuel.\<close>

definition touchesF :: "string set \<Rightarrow> ((webcall, 'w, 'z) keeper_scheme, 'a) fprog \<Rightarrow> bool" where
  "touchesF K m \<longleftrightarrow> (\<forall>s r t. m s = Some (r, t) \<longrightarrow>
     (\<forall>k. k \<notin> K \<longrightarrow> map_of (report t) k = map_of (report s) k) \<and> keeper.more t = keeper.more s)"

lemma touchesFD:
  assumes "touchesF K m" "m s = Some (r, t)"
  shows "k \<notin> K \<Longrightarrow> map_of (report t) k = map_of (report s) k" and "keeper.more t = keeper.more s"
  using assms by (auto simp: touchesF_def)

lemma touchesF_lift [keeps]: "touches K m \<Longrightarrow> touchesF K (liftF m)"
  unfolding touchesF_def liftF_def using touchesD by blast

lemma touchesF_poll [keeps]: "(\<And>l. touches K (body l)) \<Longrightarrow> touchesF K (\<lambda>s. repeat_until fuel (pass_of body) (l, s))"
  unfolding touchesF_def using touches_poll by metis

lemma touchesF_bind [keeps]:
  assumes m: "touchesF K m" and f: "\<And>a. touchesF K (f a)"
  shows "touchesF K (bindF m f)"
  unfolding touchesF_def
proof (intro allI impI)
  fix s r t assume run: "bindF m f s = Some (r, t)"
  then obtain r0 u where first: "m s = Some (r0, u)" by (auto simp: bindF_def split: option.splits)
  show "(\<forall>k. k \<notin> K \<longrightarrow> map_of (report t) k = map_of (report s) k) \<and> keeper.more t = keeper.more s"
  proof (cases r0)
    case (Inl e)
    with run first touchesFD [OF m first] show ?thesis by (simp add: bindF_def)
  next
    case (Inr a)
    with run first have "f a u = Some (r, t)" by (simp add: bindF_def)
    with touchesFD [OF m first] touchesFD [OF f this] show ?thesis by simp
  qed
qed

lemma touchesF_seq [keeps]: "touchesF K m \<Longrightarrow> touchesF K n \<Longrightarrow> touchesF K (seqF m n)"
  unfolding seqF_def by (rule touchesF_bind)

lemma touchesF_if [keeps]: "touchesF K m \<Longrightarrow> touchesF K n \<Longrightarrow> touchesF K (if c then m else n)"
  by simp

text \<open>A document was written, to its temporary name.\<close>

definition wrote :: "(webcall, 'w, 'z) desk_scheme \<Rightarrow> path \<Rightarrow> json \<Rightarrow> bool" where
  "wrote s p v \<longleftrightarrow> (\<exists>x. answered s (WriteSync (temporary p) v) x)"

lemma write_json_ok:
  assumes "write_json H p v s = (Inr u, t)"
  shows "finite_json v" "wrote t p v"
  using assms by (auto simp: write_json_def refuse_def ok_iff call_run answered_def wrote_def split: if_splits)

lemma wrote_later: "later s t \<Longrightarrow> wrote s p v \<Longrightarrow> wrote t p v"
  by (auto simp: wrote_def dest: later_answered)

section \<open>Runs on known answers\<close>

text \<open>From a state in the relation \<open>R\<close> to \<open>n\<close> the part of a run returns \<open>a\<close> in a state in the relation to \<open>k\<close>.\<close>

definition gives :: "('k \<Rightarrow> 's \<Rightarrow> bool) \<Rightarrow> 'k \<Rightarrow> ('s, 'a) prog \<Rightarrow> 'a \<Rightarrow> 'k \<Rightarrow> bool" where
  "gives R n m a k \<longleftrightarrow> (\<forall>s. R n s \<longrightarrow> (\<exists>t. m s = (Inr a, t) \<and> R k t))"

lemma givesD: "gives R n m a k \<Longrightarrow> R n s \<Longrightarrow> \<exists>t. m s = (Inr a, t) \<and> R k t"
  by (simp add: gives_def)

lemma gives_bind: "gives R n m a k \<Longrightarrow> gives R k (f a) b l \<Longrightarrow> gives R n (bindS m f) b l"
  unfolding gives_def bindS_def by fastforce

lemma gives_seq: "gives R n m u k \<Longrightarrow> gives R k p b l \<Longrightarrow> gives R n (seqS m p) b l"
  unfolding seqS_def by (rule gives_bind)

lemma gives_pure:
  "gives R n (retS a) a n" "r = Inr a \<Longrightarrow> gives R n (liftS r) a n" "\<not> bad \<Longrightarrow> gives R n (refuse bad kind msg) () n"
  by (simp_all add: gives_def refuse_def)

lemma gives_get: "(\<And>s. R n s \<Longrightarrow> gives R n (f (g s)) b l) \<Longrightarrow> gives R n (bindS (getS g) f) b l"
  by (fastforce simp: gives_def)

lemma gives_modify: "(\<And>s. R n s \<Longrightarrow> R k (f s)) \<Longrightarrow> gives R n (modifyS f) () k"
  by (simp add: gives_def)

lemma gives_both: "gives R n m a k \<Longrightarrow> gives R n m' a k \<Longrightarrow> gives R n (if c then m else m') a k"
  by simp

lemma gives_forS: "(\<And>x. x \<in> set xs \<Longrightarrow> gives R n (f x) () n) \<Longrightarrow> gives R n (forS f xs) () n"
  by (induction xs) (auto intro!: gives_pure gives_seq)

lemma gives_typed:
  "gives R n (call host c) v k \<Longrightarrow> gives R n (perform host c) () k"
  "gives R n (call host c) (JStr x) k \<Longrightarrow> gives R n (call_text host c) x k"
  "gives R n (call host c) (JInt i) k \<Longrightarrow> gives R n (call_int host c) i k"
  "gives R n (call host c) (JBool b) k \<Longrightarrow> gives R n (call_bool host c) b k"
  "gives R n (call host c) (JFloat f) k \<Longrightarrow> gives R n (call_float host c) f k"
  "gives R n (call host c) (JStr x) k \<Longrightarrow> gives R n (call_path host c) (pure_parts x) k"
  unfolding perform_def call_text_def call_int_def call_bool_def call_float_def call_path_def
  by (auto intro!: gives_bind gives_seq gives_pure simp: gives_pure)

lemma finite_dget: "finite_dict d \<Longrightarrow> finite_json (dget d k)"
  using finite_dict_map_of by (auto simp: dget_def split: option.split)

end
