(* ===== verification/Webots_Controller.thy ===== *)
theory Webots_Controller
  imports Webots_Common
begin

text \<open>
  The controller inside the simulator, \<open>workers/webots/native_controller.py\<close>: it checks the
  scene, waits for the permission to measure, takes a bounded number of steps, retains the state
  and the picture, probes the reset and reports. The wait for the permission runs on fuel.
\<close>

record ctl_args = run_args +
  world_file :: path

record 'w ctl = "(webcall, 'w) keeper" +
  status :: int

type_synonym ('w, 'a) control = "('w ctl, 'a) prog"

definition initial_report :: "ctl_args \<Rightarrow> dict" where
  "initial_report a = [
     (''owner_id'', JStr (owner_id a)), (''status'', JStr ''error''), (''samples'', JList []),
     (''time'', JObj [(''authority'', JStr ''Webots Supervisor.getTime''), (''native_unit'', JStr ''seconds''),
        (''representation'', JStr ''float64''), (''epoch'', JStr (owner_id a @ '':initial''))]),
     (''camera'', JObj [(''enabled'', JBool (with_camera a)), (''timestamp_origin'',
        JStr ''controller Supervisor.getTime observation after step; no camera timestamp API'')]),
     (''reset'', JObj [(''requested'', JBool False), (''observed'', JBool False)])]"

text \<open>Before the \<open>try\<close>: the limits, the signals and the handles of the scene.\<close>

definition acquire :: "'w station \<Rightarrow> ctl_args \<Rightarrow> ('w, json \<times> json \<times> pyfloat) control" where
  "acquire H a =
     seqS (refuse (\<not> limits_ok a) ValueError ''finite controller limits are invalid'')
    (seqS (perform (site_host H) SetSignals)
    (seqS (perform (site_host H) MakeSupervisor)
    (bindS (call (site_host H) (FromDef ''RR_WORLD_INFO'')) (\<lambda>world.
     bindS (call (site_host H) (FromDef ''RR_FALLING_BODY'')) (\<lambda>body.
     seqS (perform (site_host H) GetSelf)
    (bindS (call_float (site_host H) BasicTimeStep) (\<lambda>basic.
     seqS (perform (site_host H) (GetDevice ''native_camera''))
    (seqS (modifyS (\<lambda>s. s\<lparr>report := initial_report a, status := 1\<rparr>))
    (retS (world, body, basic))))))))))"

fun whole_multiple :: "pyfloat \<Rightarrow> int \<Rightarrow> bool" where
  "whole_multiple (Fin r) n = (r = of_int \<lfloor>r\<rfloor> \<and> 0 < r \<and> 0 < n \<and> n mod \<lfloor>r\<rfloor> = 0)"
| "whole_multiple _ n = False"

definition world_facts :: "'w station \<Rightarrow> ctl_args \<Rightarrow> pyfloat \<Rightarrow> ('w, json) control" where
  "world_facts H a basic =
     bindS (call_text (site_host H) WorldPath) (\<lambda>place.
     bindS (reference H (out_dir a @ [''inputs'', ''native.wbt''])) (\<lambda>src.
     bindS (call_text (site_host H) (WorldField ''title'')) (\<lambda>title.
     bindS (call_int (site_host H) (WorldField ''randomSeed'')) (\<lambda>seed.
     bindS (call_int (site_host H) (WorldField ''optimalThreadCount'')) (\<lambda>threads.
     bindS (call_text (site_host H) (WorldField ''coordinateSystem'')) (\<lambda>system.
     seqS (refuse (seed \<noteq> 1 \<or> threads \<noteq> 1) ValueError ''native deterministic settings differ'')
    (retS (JObj [(''path'', JStr place), (''source_ref'', src), (''title'', JStr title), (''random_seed'', JInt seed),
       (''optimal_thread_count'', JInt threads), (''coordinate_system'', JStr system),
       (''basic_time_step_ms'', JFloat basic)]))))))))"

definition snapshot :: "'w station \<Rightarrow> dict \<Rightarrow> ('w, json) control" where
  "snapshot H more_facts =
     bindS (call_float (site_host H) SimTime) (\<lambda>t.
     bindS (bindS (call (site_host H) BodyPosition) (\<lambda>v. liftS (float_list v))) (\<lambda>position.
     retS (JObj ([(''time_seconds'', JFloat t), (''body_position_m'', position)] @ more_facts))))"

text \<open>The checks of the scene, up to the document that announces the controller as ready.\<close>

definition check_scene :: "'w station \<Rightarrow> ctl_args \<Rightarrow> json \<times> json \<times> pyfloat \<Rightarrow> ('w, unit) control" where
  "check_scene H a = (\<lambda>(world, body, basic).
     seqS (refuse (\<not> whole_multiple basic (step_ms a)) ValueError
             ''step milliseconds must be positive multiples of native basicTimeStep'')
    (bindS (call_path (site_host H) WorldPath) (\<lambda>observed.
     bindS (call_path (site_host H) (ResolvePath observed)) (\<lambda>found.
     bindS (call_path (site_host H) (ResolvePath (world_file a))) (\<lambda>wanted.
     seqS (refuse (found \<noteq> wanted) ValueError ''observed native world path differs'')
    (bindS (call_text (site_host H) RobotName) (\<lambda>name.
     bindS (if name \<noteq> ''rr-native-probe'' then retS [] else call_text (site_host H) RobotModel) (\<lambda>model.
     seqS (refuse (name \<noteq> ''rr-native-probe'' \<or> model \<noteq> ''robotics-runtime-webots-native-v1'') ValueError
             ''observed native robot identity differs'')
    (seqS (refuse (world = JNull \<or> body = JNull) ValueError ''required native scene nodes are absent'')
          (retS ()))))))))))"

definition introduce :: "'w station \<Rightarrow> ctl_args \<Rightarrow> json \<Rightarrow> json \<Rightarrow> bool \<Rightarrow> ('w, unit) control" where
  "introduce H a native_world initial synchronization =
     bindS (call_text (site_host H) RobotName) (\<lambda>name.
     bindS (call_text (site_host H) RobotModel) (\<lambda>model.
     bindS (call_int (site_host H) RobotId) (\<lambda>node.
     let robot = JObj [(''name'', JStr name), (''model'', JStr model), (''node_id'', JInt node),
       (''synchronization'', JBool True), (''synchronization_native_value'', JBool synchronization)] in
     seqS (note_fact ''robot'' robot)
    (seqS (note_fact ''initial_state'' initial)
    (bindS (call_int (site_host H) SamplingPeriod) (\<lambda>period.
     seqS (amend_fact ''camera'' [(''sampling_period_ms'', JInt period)])
    (bindS (getS (\<lambda>s. dget (report s) ''camera'')) (\<lambda>camera.
     write_json H (out_dir a @ [''ready.json'']) (JObj [(''owner_id'', JStr (owner_id a)), (''native_world'', native_world),
       (''robot'', robot), (''initial_state'', initial), (''camera'', camera), (''ready'', JBool True),
       (''step_writer'', JStr ''single external native Python Supervisor'')])))))))))"

definition announce :: "'w station \<Rightarrow> ctl_args \<Rightarrow> pyfloat \<Rightarrow> ('w, unit) control" where
  "announce H a basic =
     bindS (world_facts H a basic) (\<lambda>native_world.
     bindS (call_bool (site_host H) Synchronization) (\<lambda>synchronization.
     seqS (refuse (\<not> synchronization) ValueError ''native robot synchronization must be TRUE'')
    (seqS (perform (site_host H) (if with_camera a then EnableCamera (step_ms a) else DisableCamera))
    (bindS (snapshot H []) (\<lambda>initial.
     seqS (note_fact ''world'' native_world)
          (introduce H a native_world initial synchronization))))))"

text \<open>\<open>stopping or (output / "cancel").exists()\<close>.\<close>

definition halted :: "'w station \<Rightarrow> ctl_args \<Rightarrow> ('w, bool) control" where
  "halted H a = bindS (call_bool (site_host H) Stopping) (\<lambda>b.
     if b then retS True else call_bool (site_host H) (Exists (out_dir a @ [''cancel''])))"

definition go_on :: "'w station \<Rightarrow> ctl_args \<Rightarrow> pyfloat \<Rightarrow> string \<Rightarrow> string \<Rightarrow> ('w, unit) control" where
  "go_on H a deadline canceled late =
     bindS (halted H a) (\<lambda>b.
     seqS (refuse b InterruptedError canceled)
    (bindS (call_float (site_host H) Monotonic) (\<lambda>t.
     refuse (fle deadline t) TimeoutError late)))"

definition measure_pass :: "'w station \<Rightarrow> ctl_args \<Rightarrow> pyfloat \<Rightarrow> unit \<Rightarrow> ('w, unit + unit) control" where
  "measure_pass H a deadline _ =
     bindS (call_bool (site_host H) (Exists (out_dir a @ [''measure'']))) (\<lambda>present.
     if present then retS (Inl ())
     else seqS (go_on H a deadline ''measurement canceled before opening'' ''measurement admission deadline exceeded'')
         (seqS (perform (site_host H) Sleep) (retS (Inr ()))))"

definition await_measure :: "'w station \<Rightarrow> nat \<Rightarrow> ctl_args \<Rightarrow> pyfloat \<Rightarrow> ('w ctl, unit) fprog" where
  "await_measure H fuel a deadline =
     (if auto_start a then liftF (retS ())
      else (\<lambda>s. repeat_until fuel (pass_of (measure_pass H a deadline)) ((), s)))"

section \<open>The measurement\<close>

definition sample_row :: "ctl_args \<Rightarrow> int \<Rightarrow> pyfloat \<Rightarrow> pyfloat \<Rightarrow> json \<Rightarrow> json" where
  "sample_row a result before after position = JObj [(''request_ms'', JInt (step_ms a)), (''result'', JInt result),
     (''before_seconds'', JFloat before), (''after_seconds'', JFloat after), (''body_position_m'', position)]"

definition take_sample :: "'w station \<Rightarrow> ctl_args \<Rightarrow> pyfloat \<Rightarrow> json list \<Rightarrow> ('w, json list) control" where
  "take_sample H a deadline samples =
     seqS (go_on H a deadline ''native measurement canceled'' ''native measurement deadline exceeded'')
    (bindS (call_float (site_host H) SimTime) (\<lambda>before.
     bindS (call_int (site_host H) (SimStep (step_ms a))) (\<lambda>result.
     bindS (call_float (site_host H) SimTime) (\<lambda>after.
     bindS (bindS (call (site_host H) BodyPosition) (\<lambda>v. liftS (float_list v))) (\<lambda>position.
     let samples' = samples @ [sample_row a result before after position] in
     seqS (note_fact ''samples'' (JList samples'))
    (seqS (refuse (result = -1) InterruptedError ''native simulation terminated during step'')
    (seqS (refuse (\<not> isfinite after \<or> fle after before) ValueError ''native simulation did not advance'')
    (retS samples'))))))))"

definition take_samples :: "'w station \<Rightarrow> ctl_args \<Rightarrow> pyfloat \<Rightarrow> ('w, json list) control" where
  "take_samples H a deadline = foldS (\<lambda>_. take_sample H a deadline) (replicate (nat (steps a)) ()) []"

definition retain_picture :: "'w station \<Rightarrow> ctl_args \<Rightarrow> ('w, unit) control" where
  "retain_picture H a =
     bindS (call (site_host H) CameraImage) (\<lambda>image.
     seqS (refuse (image = JNull) ValueError ''enabled native camera has no image'')
    (bindS (liftS (of_option TypeError ''bytes expected'' (as_str image))) (\<lambda>pixels.
     bindS (call_int (site_host H) CameraWidth) (\<lambda>w.
     bindS (call_int (site_host H) CameraHeight) (\<lambda>h.
     seqS (refuse (int (length pixels) \<noteq> w * h * 4) ValueError ''native BGRA size differs'')
    (seqS (perform (site_host H) (WriteBytes (out_dir a @ [''camera.bgra'']) pixels))
    (bindS (call_int (site_host H) (SaveImage (out_dir a @ [''camera.png'']))) (\<lambda>result.
     seqS (refuse (result \<noteq> 0) ValueError ''native Camera.saveImage failed'')
    (bindS (call_int (site_host H) CameraWidth) (\<lambda>width.
     bindS (call_int (site_host H) CameraHeight) (\<lambda>height.
     bindS (call_float (site_host H) SimTime) (\<lambda>t.
     bindS (reference H (out_dir a @ [''camera.bgra''])) (\<lambda>bgra.
     bindS (reference H (out_dir a @ [''camera.png''])) (\<lambda>png.
     amend_fact ''camera'' [(''width'', JInt width), (''height'', JInt height), (''format'', JStr ''BGRA''),
       (''controller_observed_time_seconds'', JFloat t), (''save_image_result'', JInt result),
       (''bgra_ref'', bgra), (''png_ref'', png)]))))))))))))))"

text \<open>Writing the last state, and the report with a reference to it.\<close>

definition retain_state :: "'w station \<Rightarrow> ctl_args \<Rightarrow> ('w, unit) control" where
  "retain_state H a =
     bindS (getS (\<lambda>s. dget (report s) ''last_native_state'')) (\<lambda>state.
     seqS (write_json H (out_dir a @ [''last-native-state.json'']) state)
    (bindS (reference H (out_dir a @ [''last-native-state.json''])) (note_fact ''last_native_state_ref'')))"

definition write_report :: "'w station \<Rightarrow> ctl_args \<Rightarrow> string \<Rightarrow> ('w, unit) control" where
  "write_report H a name = bindS (getS (\<lambda>s. JObj (report s))) (write_json H (out_dir a @ [name]))"

definition epoch :: "ctl_args \<Rightarrow> string \<Rightarrow> json" where
  "epoch a kind = JStr (owner_id a @ CHR '':'' # kind)"

definition try_reset :: "'w station \<Rightarrow> ctl_args \<Rightarrow> int \<Rightarrow> ('w, unit) control" where
  "try_reset H a basic =
     bindS (call_float (site_host H) SimTime) (\<lambda>previous.
     seqS (note_fact ''reset'' (JObj [(''requested'', JBool True), (''api'', JStr ''Supervisor.simulationReset''),
             (''before_seconds'', JFloat previous), (''observed'', JBool False)]))
    (seqS (write_report H a ''pre-reset.json'')
    (seqS (perform (site_host H) SimulationReset)
    (bindS (call_int (site_host H) (SimStep basic)) (\<lambda>response.
     bindS (call_float (site_host H) SimTime) (\<lambda>after.
     bindS (call_float (site_host H) SimTime) (\<lambda>again.
     let observed = flt again previous in
     seqS (amend_fact ''reset'' [(''step_result'', JInt response), (''after_seconds'', JFloat after),
             (''observed'', JBool observed), (''epoch'', epoch a ''reset'')])
          (refuse (response = -1 \<or> \<not> observed) ValueError ''native reset effect requires a new controller epoch''))))))))"

definition retain_measurement :: "'w station \<Rightarrow> ctl_args \<Rightarrow> pyfloat \<Rightarrow> ('w, unit) control" where
  "retain_measurement H a basic =
     bindS (snapshot H [(''epoch'', epoch a ''initial'')]) (\<lambda>state.
     seqS (note_fact ''last_native_state'' state)
    (seqS (if with_camera a then retain_picture H a else retS ())
    (seqS (retain_state H a)
    (seqS (write_report H a ''measurement.json'')
    (seqS (if probe_reset a then try_reset H a (case basic of Fin r \<Rightarrow> \<lfloor>r\<rfloor> | _ \<Rightarrow> 0) else retS ())
          (note_fact ''status'' (JStr ''completed'')))))))"

section \<open>The run\<close>

definition prepare_run :: "'w station \<Rightarrow> ctl_args \<Rightarrow> json \<times> json \<times> pyfloat \<Rightarrow> ('w, pyfloat) control" where
  "prepare_run H a scene =
     seqS (check_scene H a scene)
    (seqS (announce H a (snd (snd scene)))
    (bindS (call_float (site_host H) Monotonic) (\<lambda>t.
     retS (fadd t (deadline_seconds a)))))"

definition measurement :: "'w station \<Rightarrow> ctl_args \<Rightarrow> pyfloat \<Rightarrow> pyfloat \<Rightarrow> ('w, unit) control" where
  "measurement H a deadline basic =
     seqS (take_samples H a deadline) (retain_measurement H a basic)"

definition controller_body :: "'w station \<Rightarrow> nat \<Rightarrow> ctl_args \<Rightarrow> json \<times> json \<times> pyfloat \<Rightarrow> ('w ctl, unit) fprog" where
  "controller_body H fuel a scene =
     bindF (liftF (prepare_run H a scene)) (\<lambda>deadline.
     seqF (await_measure H fuel a deadline)
          (liftF (seqS (measurement H a deadline (snd (snd scene))) (modifyS (\<lambda>s. s\<lparr>status := 0\<rparr>)))))"

definition reported_kinds :: "exc_kind list" where
  "reported_kinds = [OSError, RuntimeError, TypeError, ValueError, AttributeError]"

definition record_failure :: "'w station \<Rightarrow> exc \<Rightarrow> ('w, unit) control" where
  "record_failure H e =
     seqS (note_fact ''diagnostic'' (JStr (describe e)))
    (seqS (note_fact ''status'' (JStr (outcome_of e)))
          (catchS reported_kinds
             (bindS (snapshot H []) (note_fact ''last_native_state''))
             (\<lambda>e'. note_fact ''last_state_diagnostic'' (JStr (exc_msg e')))))"

text \<open>The \<open>finally\<close> clause.\<close>

definition close_run :: "'w station \<Rightarrow> ctl_args \<Rightarrow> ('w, unit) control" where
  "close_run H a =
     bindS (getS (\<lambda>s. ''last_native_state'' \<in> fst ` set (report s))) (\<lambda>present.
     seqS (if present then retain_state H a else retS ())
    (seqS (write_report H a ''controller-result.json'')
    (bindS (getS status) (\<lambda>code.
     seqS (perform (site_host H) (SimulationQuit code))
          (perform (site_host H) (SimStep 0))))))"

definition controller_main :: "'w station \<Rightarrow> nat \<Rightarrow> ctl_args \<Rightarrow> ('w ctl, int) fprog" where
  "controller_main H fuel a =
     bindF (liftF (acquire H a)) (\<lambda>scene.
     seqF (finallyF (catch_onF reported_kinds (controller_body H fuel a scene) (record_failure H)) (close_run H a))
          (liftF (getS status)))"

definition new_ctl :: "'w \<Rightarrow> 'w ctl" where
  "new_ctl w = \<lparr>outside = w, asked = [], report = [], status = 1\<rparr>"

section \<open>Facts\<close>

lemma adds_scene [keeps]:
  "adds stays (acquire H a)" "adds stays (snapshot H more_facts)" "adds stays (world_facts H a basic)"
  "adds stays (check_scene H a scene)"
  by (auto simp: acquire_def snapshot_def world_facts_def check_scene_def intro!: keeps split: prod.split)

lemma adds_introduce [keeps]: "adds stays (introduce H a native_world initial synchronization)"
  by (auto simp: introduce_def Let_def intro!: keeps)

lemma adds_announce [keeps]: "adds stays (announce H a basic)"
  by (auto simp: announce_def intro!: keeps)

lemma adds_prepare [keeps]: "adds stays (prepare_run H a scene)"
  by (auto simp: prepare_run_def intro!: keeps)

lemma adds_go_on [keeps]: "adds stays (halted H a)" "adds stays (go_on H a deadline canceled late)"
  by (auto simp: halted_def go_on_def intro!: keeps)

lemma adds_measure_pass [keeps]: "adds stays (measure_pass H a deadline u)"
  by (auto simp: measure_pass_def intro!: keeps)

lemma adds_take_sample [keeps]: "adds stays (take_sample H a deadline samples)"
  by (auto simp: take_sample_def Let_def intro!: keeps)

lemma adds_take_samples [keeps]: "adds stays (take_samples H a deadline)"
  by (auto simp: take_samples_def intro!: keeps)

lemma adds_retaining [keeps]:
  "adds stays (retain_picture H a)" "adds stays (retain_state H a)" "adds stays (write_report H a name)"
  by (auto simp: retain_picture_def retain_state_def write_report_def intro!: keeps)

lemma adds_try_reset [keeps]: "adds stays (try_reset H a basic)"
  by (auto simp: try_reset_def Let_def intro!: keeps)

lemma adds_retain [keeps]: "adds stays (retain_measurement H a basic)"
  by (auto simp: retain_measurement_def intro!: keeps)

lemma adds_measurement [keeps]: "adds stays (measurement H a deadline basic)" "adds stays (record_failure H e)"
  by (auto simp: measurement_def record_failure_def intro!: keeps)

abbreviation scene_keys :: "string set" where
  "scene_keys \<equiv> {''world'', ''robot'', ''initial_state'', ''camera''}"

lemma touches_scene [keeps]:
  "touches K (snapshot H more_facts)" "touches K (world_facts H a basic)" "touches K (check_scene H a scene)"
  "touches K (halted H a)" "touches K (go_on H a deadline canceled late)" "touches K (write_report H a name)"
  by (auto simp: snapshot_def world_facts_def check_scene_def halted_def go_on_def write_report_def
      intro!: keeps split: prod.split)

lemma touches_introduce [keeps]:
  "{''robot'', ''initial_state'', ''camera''} \<subseteq> K \<Longrightarrow> touches K (introduce H a native_world initial synchronization)"
  by (auto simp: introduce_def Let_def intro!: keeps)

lemma touches_prepare [keeps]: "touches scene_keys (announce H a basic)" "touches scene_keys (prepare_run H a scene)"
  by (auto simp: prepare_run_def announce_def Let_def intro!: keeps)

lemma touches_measure_pass [keeps]: "touches K (measure_pass H a deadline u)"
  by (auto simp: measure_pass_def intro!: keeps)

lemma touches_take_sample [keeps]: "''samples'' \<in> K \<Longrightarrow> touches K (take_sample H a deadline samples)"
  by (auto simp: take_sample_def Let_def intro!: keeps)

lemma touches_foldS [keeps]: "(\<And>x acc. x \<in> set xs \<Longrightarrow> touches K (f x acc)) \<Longrightarrow> touches K (foldS f xs acc)"
  by (induction xs arbitrary: acc) (auto intro!: keeps)

lemma touches_take_samples [keeps]: "''samples'' \<in> K \<Longrightarrow> touches K (take_samples H a deadline)"
  by (auto simp: take_samples_def intro!: keeps)

lemma touches_retention [keeps]:
  "''camera'' \<in> K \<Longrightarrow> touches K (retain_picture H a)"
  "''last_native_state_ref'' \<in> K \<Longrightarrow> touches K (retain_state H a)"
  "''reset'' \<in> K \<Longrightarrow> touches K (try_reset H a basic)"
  by (auto simp: retain_picture_def retain_state_def try_reset_def Let_def intro!: keeps)

abbreviation result_keys :: "string set" where
  "result_keys \<equiv> {''last_native_state'', ''camera'', ''last_native_state_ref'', ''reset'', ''status''}"

lemma touches_retain [keeps]: "touches result_keys (retain_measurement H a basic)"
  by (auto simp: retain_measurement_def intro!: keeps)

lemma touches_measurement [keeps]: "touches (insert ''samples'' result_keys) (measurement H a deadline basic)"
  unfolding measurement_def
  by (rule touches_seqS, rule touches_take_samples, simp, unfold retain_measurement_def) (auto intro!: keeps)

lemma touches_record_failure [keeps]:
  "touches {''diagnostic'', ''status'', ''last_native_state'', ''last_state_diagnostic''} (record_failure H e)"
  by (auto simp: record_failure_def intro!: keeps)

lemma status_more: "keeper.more s = keeper.more t \<Longrightarrow> status s = status (t :: 'w ctl)"
  by (cases s; cases t) simp

lemma touches_more: "touches K m \<Longrightarrow> preserves (\<lambda>s. keeper.more s = c) m"
  by (auto simp: touches_def preserves_def)

lemma touches_status: "touches K m \<Longrightarrow> preserves (\<lambda>s :: 'w ctl. status s = c) m"
  unfolding preserves_def using touchesD(2) status_more by (metis surjective_pairing)

section \<open>A run that ends with 0\<close>

text \<open>A row of the samples: the step was accepted and moved the clock forward.\<close>

definition advanced :: "ctl_args \<Rightarrow> json \<Rightarrow> bool" where
  "advanced a row \<longleftrightarrow> (\<exists>result before after position. row = sample_row a result before after position \<and>
     result \<noteq> -1 \<and> isfinite after \<and> \<not> fle after before)"

lemma take_sample_ok:
  assumes "take_sample H a deadline samples s = (Inr rows, t)"
  obtains row where "rows = samples @ [row]" "advanced a row" "map_of (report t) ''samples'' = Some (JList rows)"
  using assms
  by (clarsimp simp: take_sample_def ok_iff Let_def simp del: isfinite.simps)
     (erule meta_mp, unfold advanced_def, blast)

lemma take_samples_foldS:
  assumes "foldS (\<lambda>_. take_sample H a deadline) (replicate n ()) samples s = (Inr rows, t)"
    and "map_of (report s) ''samples'' = Some (JList samples)" "list_all (advanced a) samples"
  shows "length rows = length samples + n \<and> list_all (advanced a) rows \<and> map_of (report t) ''samples'' = Some (JList rows)"
  using assms
proof (induction n arbitrary: samples s)
  case (Suc n)
  then obtain acc u where run: "take_sample H a deadline samples s = (Inr acc, u)"
      "foldS (\<lambda>_. take_sample H a deadline) (replicate n ()) acc u = (Inr rows, t)"
    by (auto simp: ok_iff)
  from run(1) obtain row where "acc = samples @ [row]" "advanced a row" "map_of (report u) ''samples'' = Some (JList acc)"
    by (rule take_sample_ok)
  with Suc.IH [OF run(2)] Suc.prems(3) show ?case by simp
qed (simp add: ok_iff)

lemma float_list_ok: "float_list v = Inr x \<Longrightarrow> \<exists>fs. x = JList (map JFloat fs)"
proof -
  have floats: "list_all2 (\<lambda>x y. (case x of JFloat f \<Rightarrow> Inr (JFloat f) | _ \<Rightarrow> raise TypeError ''float expected'') = Inr y) xs ys \<Longrightarrow>
      \<exists>fs. ys = map JFloat fs" for xs ys
    by (induction rule: list_all2_induct) (auto split: json.splits intro: exI [of _ "_ # _"])
  show "float_list v = Inr x \<Longrightarrow> \<exists>fs. x = JList (map JFloat fs)"
    by (auto simp: float_list_def ok_iff dest!: floats)
qed

lemma snapshot_ok:
  "snapshot H more_facts s = (Inr state, t) \<Longrightarrow>
   \<exists>now fs. state = JObj ([(''time_seconds'', JFloat now), (''body_position_m'', JList (map JFloat fs))] @ more_facts)"
  by (auto simp: snapshot_def ok_iff dest!: float_list_ok)

lemma write_report_ok:
  assumes "write_report H a name s = (Inr u, t)"
  shows "finite_dict (report s)" "wrote t (out_dir a @ [name]) (JObj (report s))"
  using assms write_json_ok [of H "out_dir a @ [name]" "JObj (report s)" s u t]
  by (auto simp: write_report_def ok_iff)

text \<open>The probe of the reset: what was reported before it, and what after.\<close>

definition reset_facts :: "ctl_args \<Rightarrow> pyfloat \<Rightarrow> int \<Rightarrow> pyfloat \<Rightarrow> json" where
  "reset_facts a previous response after = JObj [(''requested'', JBool True), (''api'', JStr ''Supervisor.simulationReset''),
     (''before_seconds'', JFloat previous), (''observed'', JBool True), (''step_result'', JInt response),
     (''after_seconds'', JFloat after), (''epoch'', epoch a ''reset'')]"

lemma try_reset_ok:
  assumes "try_reset H a basic s = (Inr u, t)"
  obtains previous response after pre where
    "map_of (report t) ''reset'' = Some (reset_facts a previous response after)" "wrote t (out_dir a @ [''pre-reset.json'']) (JObj pre)"
    "path_item (JObj pre) [''reset'', ''requested''] = Inr (JBool True)"
    "path_item (JObj pre) [''reset'', ''observed''] = Inr (JBool False)"
    "map_of pre ''last_native_state'' = map_of (report s) ''last_native_state''"
proof -
  from assms obtain previous v w x y z where runs:
      "write_report H a ''pre-reset.json'' (v\<lparr>report := dset ''reset'' (JObj [(''requested'', JBool True),
         (''api'', JStr ''Supervisor.simulationReset''), (''before_seconds'', JFloat previous), (''observed'', JBool False)])
         (report v)\<rparr>) = (Inr (), w)"
      "call_float (site_host H) SimTime s = (Inr previous, v)"
    and later_runs: "perform (site_host H) SimulationReset w = (Inr (), x)"
    and rest: "bindS (call_int (site_host H) (SimStep basic)) (\<lambda>response.
         bindS (call_float (site_host H) SimTime) (\<lambda>after.
         bindS (call_float (site_host H) SimTime) (\<lambda>again.
         let observed = flt again previous in
         seqS (amend_fact ''reset'' [(''step_result'', JInt response), (''after_seconds'', JFloat after),
             (''observed'', JBool observed), (''epoch'', epoch a ''reset'')])
          (refuse (response = -1 \<or> \<not> observed) ValueError ''native reset effect requires a new controller epoch'')))) x = (Inr u, t)"
    by (auto simp: try_reset_def ok_iff)
  let ?reset = "JObj [(''requested'', JBool True), (''api'', JStr ''Supervisor.simulationReset''),
     (''before_seconds'', JFloat previous), (''observed'', JBool False)]"
  let ?pre = "dset ''reset'' ?reset (report v)"
  from rest obtain response after again x1 x2 x3 where more:
      "call_int (site_host H) (SimStep basic) x = (Inr response, x1)" "call_float (site_host H) SimTime x1 = (Inr after, x2)"
      "call_float (site_host H) SimTime x2 = (Inr again, x3)"
      "t = x3\<lparr>report := dset ''reset'' (case dget (report x3) ''reset'' of JObj d \<Rightarrow> JObj (dmerge d [(''step_result'', JInt response),
         (''after_seconds'', JFloat after), (''observed'', JBool (flt again previous)), (''epoch'', epoch a ''reset'')]) | z \<Rightarrow> z) (report x3)\<rparr>"
      "flt again previous"
    by (auto simp: ok_iff Let_def amend_fact_def)
  have frame: "map_of (report x3) k = map_of ?pre k" for k
    using touchesD(1) [where K = "{}" and m = "write_report H a ''pre-reset.json''", OF _ runs(1), of k]
      touchesD(1) [where K = "{}" and m = "perform (site_host H) SimulationReset", OF _ later_runs, of k]
      touchesD(1) [where K = "{}" and m = "call_int (site_host H) (SimStep basic)", OF _ more(1), of k]
      touchesD(1) [where K = "{}" and m = "call_float (site_host H) SimTime", OF _ more(2), of k]
      touchesD(1) [where K = "{}" and m = "call_float (site_host H) SimTime", OF _ more(3), of k]
    by (simp add: keeps)
  have same: "map_of (report v) k = map_of (report s) k" for k
    using touchesD(1) [where K = "{}" and m = "call_float (site_host H) SimTime", OF _ runs(2), of k] by (simp add: keeps)
  show ?thesis
  proof (rule that)
    show "map_of (report t) ''reset'' = Some (reset_facts a previous response after)"
      using frame [of "''reset''"] using more(5) unfolding more(4) by (simp add: update_conv' dget_def reset_facts_def dmerge_def)
    have "later w t"
      using later_runs more(1-4) by (auto simp: later_def ok_iff call_run call_float_def)
    with write_report_ok(2) [OF runs(1)] show "wrote t (out_dir a @ [''pre-reset.json'']) (JObj ?pre)"
      by (simp add: wrote_later)
  qed (simp_all add: dict_item_def update_conv' same)
qed

lemma acquire_ok: "acquire H a s = (Inr scene, t) \<Longrightarrow> limits_ok a \<and> report t = initial_report a \<and> status t = 1"
  by (auto simp: acquire_def ok_iff)

lemma await_measure_keeps:
  assumes "await_measure H fuel a deadline s = Some (r, t)"
  shows "map_of (report t) k = map_of (report s) k" "keeper.more t = keeper.more s"
  using assms touches_poll [where body = "measure_pass H a deadline" and K = "{}", OF touches_measure_pass, of fuel "()" s r t]
  by (auto simp: await_measure_def liftF_def split: if_splits)

lemma body_failure_keeps_status:
  assumes "controller_body H fuel a scene s = Some (Inl e, t)"
  shows "status t = status s"
proof -
  let ?I = "\<lambda>u :: 'a ctl. keeper.more u = keeper.more s"
  have await: "holds ?I (await_measure H fuel a deadline) (\<lambda>_. ?I) ?I" for deadline
  proof (rule holdsI)
    fix u :: "'a ctl" assume "?I u"
    then show "ends (\<lambda>_. ?I) ?I (await_measure H fuel a deadline u)"
      using await_measure_keeps(2) [of H fuel a deadline u]
      by (cases "await_measure H fuel a deadline u") (auto, case_tac aa, simp_all)
  qed
  have "holds ?I (controller_body H fuel a scene) (\<lambda>_ _. True) ?I"
    unfolding controller_body_def liftF_seqS
    by (rule holds_bindF [OF holds_keeps [OF touches_more [OF touches_prepare(2)]]], assumption,
        rule holds_seqF [OF await], rule holds_seqF [OF holds_keeps [OF touches_more [OF touches_measurement]]], assumption,
        simp add: holds_modifyS)
  from holdsD [OF this, of s] assms have "keeper.more t = keeper.more s" by simp
  then show ?thesis by (rule status_more)
qed

lemma close_run_parts:
  assumes "close_run H a s = (Inr u, t)"
  obtains v x y where "status t = status s" "report t = report v" "\<forall>k. k \<noteq> ''last_native_state_ref'' \<longrightarrow> map_of (report v) k = map_of (report s) k"
    "finite_dict (report t)" "wrote v (out_dir a @ [''controller-result.json'']) (JObj (report t))"
    "asked t = asked v @ [(SimulationQuit (status s), Inr x), (SimStep 0, Inr y)]" "later s v"
proof -
  let ?first = "if ''last_native_state'' \<in> fst ` set (report s) then retain_state H a else retS ()"
  from assms obtain v1 v where runs: "?first s = (Inr (), v1)" "write_report H a ''controller-result.json'' v1 = (Inr (), v)"
    and quit: "seqS (perform (site_host H) (SimulationQuit (status v))) (perform (site_host H) (SimStep 0)) v = (Inr u, t)"
    by (auto simp: close_run_def ok_iff split: if_splits)
  have first: "touches {''last_native_state_ref''} ?first" by (auto intro!: keeps)
  have writes: "touches {} (write_report H a ''controller-result.json'')" by (rule keeps)
  from runs(2) have report: "report v = report v1"
    by (auto simp: write_report_def write_json_def refuse_def ok_iff call_run split: if_splits)
  from quit obtain x y where run: "asked t = asked v @ [(SimulationQuit (status v), Inr x), (SimStep 0, Inr y)]"
      "report t = report v" "status t = status v"
    by (auto simp: ok_iff call_run)
  show ?thesis
  proof (rule that)
    have "keeper.more v = keeper.more s"
      using touchesD(2) [OF writes runs(2)] touchesD(2) [OF first runs(1)] by simp
    then have status: "status v = status s" by (rule status_more)
    show "asked t = asked v @ [(SimulationQuit (status s), Inr x), (SimStep 0, Inr y)]" using run status by simp
    show "status t = status s" "report t = report v" using run status by simp_all
    show "finite_dict (report t)" "wrote v (out_dir a @ [''controller-result.json'']) (JObj (report t))"
      using write_report_ok [OF runs(2)] run report by simp_all
    show "\<forall>k. k \<noteq> ''last_native_state_ref'' \<longrightarrow> map_of (report v) k = map_of (report s) k"
      using touchesD(1) [OF writes runs(2)] touchesD(1) [OF first runs(1)] by simp
    have "later s v1"
      by (rule later_run [where C = stays and m = ?first, OF _ runs(1)]) (auto intro!: keeps)
    moreover have "later v1 v"
      by (rule later_run [where C = stays and m = "write_report H a ''controller-result.json''", OF _ runs(2)]) (rule keeps)
    ultimately show "later s v" by (rule later_trans)
  qed
qed

lemma world_facts_ok:
  "world_facts H a basic s = (Inr v, t) \<Longrightarrow> \<exists>d system. v = JObj d \<and> map_of d ''coordinate_system'' = Some (JStr system)"
  by (auto simp: world_facts_def ok_iff)

lemma announce_world:
  assumes "announce H a basic s = (Inr u, t)"
  shows "\<exists>d system. map_of (report t) ''world'' = Some (JObj d) \<and> map_of d ''coordinate_system'' = Some (JStr system)"
proof -
  from assms obtain native_world s1 s2 initial synchronization where runs:
      "world_facts H a basic s = (Inr native_world, s1)"
      "introduce H a native_world initial synchronization (s2\<lparr>report := dset ''world'' native_world (report s2)\<rparr>) = (Inr (), t)"
    by (auto simp: announce_def ok_iff)
  have "touches {''robot'', ''initial_state'', ''camera''} (introduce H a native_world initial synchronization)"
    by (rule keeps) simp
  from touchesD(1) [OF this runs(2), of "''world''"] world_facts_ok [OF runs(1)] show ?thesis
    by (auto simp: update_conv')
qed

lemma completed_parts:
  assumes "controller_main H fuel a (new_ctl w) = Some (Inr 0, t)"
  obtains scene s0 deadline s1 s2 s3 s4 where "acquire H a (new_ctl w) = (Inr scene, s0)"
    "prepare_run H a scene s0 = (Inr deadline, s1)" "await_measure H fuel a deadline s1 = Some (Inr (), s2)"
    "measurement H a deadline (snd (snd scene)) s2 = (Inr (), s3)" "s4 = s3\<lparr>status := 0\<rparr>" "close_run H a s4 = (Inr (), t)"
proof -
  from assms obtain scene s0 u where start: "acquire H a (new_ctl w) = (Inr scene, s0)"
      "catch_onF reported_kinds (controller_body H fuel a scene) (record_failure H) s0 = Some (Inr (), u)"
      "close_run H a u = (Inr (), t)" "status t = 0"
    by (auto simp: controller_main_def ok_iff)
  from close_run_parts [OF start(3)] start(4) have "status u = 0" by metis
  show ?thesis
  proof (cases "controller_body H fuel a scene s0 = Some (Inr (), u)")
    case True
    then obtain deadline s1 s2 s3 where body: "prepare_run H a scene s0 = (Inr deadline, s1)"
        "await_measure H fuel a deadline s1 = Some (Inr (), s2)"
        "measurement H a deadline (snd (snd scene)) s2 = (Inr (), s3)" "u = s3\<lparr>status := 0\<rparr>"
      by (auto simp: controller_body_def ok_iff)
    from that [OF start(1) body start(3)] show ?thesis .
  next
    case False
    with start(2) obtain e v where failed: "controller_body H fuel a scene s0 = Some (Inl e, v)"
        "record_failure H e v = (Inr (), u)"
      by (auto simp: catch_onF_ok)
    from body_failure_keeps_status [OF failed(1)] acquire_ok [OF start(1)] have "status v = 1" by simp
    with touchesD(2) [OF touches_record_failure failed(2)] have "status u = 1" using status_more by metis
    with \<open>status u = 0\<close> show ?thesis by simp
  qed
qed

definition state_document :: "ctl_args \<Rightarrow> pyfloat \<Rightarrow> json \<Rightarrow> json" where
  "state_document a now position = JObj [(''time_seconds'', JFloat now), (''body_position_m'', position),
     (''epoch'', epoch a ''initial'')]"

text \<open>What the probe leaves behind: the reset of the report and the report retained before it.\<close>

definition probed :: "ctl_args \<Rightarrow> 'w ctl \<Rightarrow> dict \<Rightarrow> bool" where
  "probed a s d \<longleftrightarrow> (\<exists>previous response after pre.
     map_of d ''reset'' = Some (reset_facts a previous response after) \<and>
     wrote s (out_dir a @ [''pre-reset.json'']) (JObj pre) \<and>
     path_item (JObj pre) [''reset'', ''requested''] = Inr (JBool True) \<and>
     path_item (JObj pre) [''reset'', ''observed''] = Inr (JBool False) \<and>
     map_of pre ''last_native_state'' = map_of d ''last_native_state'')"

lemma retain_measurement_ok:
  assumes "retain_measurement H a basic s = (Inr u, t)"
  shows "map_of (report t) ''status'' = Some (JStr ''completed'')"
    and "\<exists>now position. map_of (report t) ''last_native_state'' = Some (state_document a now (JList (map JFloat position)))"
    and "probe_reset a \<Longrightarrow> probed a t (report t)"
proof -
  let ?picture = "if with_camera a then retain_picture H a else retS ()"
  let ?basic = "case basic of Fin r \<Rightarrow> \<lfloor>r\<rfloor> | _ \<Rightarrow> 0"
  let ?probe = "if probe_reset a then try_reset H a ?basic else retS ()"
  from assms obtain state s1 s2 s3 s4 s5 where runs: "snapshot H [(''epoch'', epoch a ''initial'')] s = (Inr state, s1)"
      "?picture (s1\<lparr>report := dset ''last_native_state'' state (report s1)\<rparr>) = (Inr (), s2)"
      "retain_state H a s2 = (Inr (), s3)" "write_report H a ''measurement.json'' s3 = (Inr (), s4)"
      "?probe s4 = (Inr (), s5)" "t = s5\<lparr>report := dset ''status'' (JStr ''completed'') (report s5)\<rparr>"
    by (auto simp: retain_measurement_def ok_iff)
  show "map_of (report t) ''status'' = Some (JStr ''completed'')" by (simp add: runs(6) update_conv')
  have frames: "touches {''camera''} ?picture" "touches {''last_native_state_ref''} (retain_state H a)"
      "touches {} (write_report H a ''measurement.json'')" "touches {''reset''} ?probe"
    by (auto intro!: keeps)
  have kept: "map_of (report s4) ''last_native_state'' = Some state"
    using touchesD(1) [OF frames(1) runs(2), of "''last_native_state''"] touchesD(1) [OF frames(2) runs(3), of "''last_native_state''"]
      touchesD(1) [OF frames(3) runs(4), of "''last_native_state''"]
    by (simp add: update_conv')
  have final: "map_of (report t) ''last_native_state'' = Some state"
    using touchesD(1) [OF frames(4) runs(5), of "''last_native_state''"] kept by (simp add: runs(6) update_conv')
  with snapshot_ok [OF runs(1)] show "\<exists>now position. map_of (report t) ''last_native_state'' = Some (state_document a now (JList (map JFloat position)))"
    by (auto simp: state_document_def)
  assume "probe_reset a"
  with runs(5) have "try_reset H a ?basic s4 = (Inr (), s5)" by simp
  from try_reset_ok [OF this] obtain previous response after pre where
    "map_of (report s5) ''reset'' = Some (reset_facts a previous response after)"
    "wrote s5 (out_dir a @ [''pre-reset.json'']) (JObj pre)"
    "path_item (JObj pre) [''reset'', ''requested''] = Inr (JBool True)"
    "path_item (JObj pre) [''reset'', ''observed''] = Inr (JBool False)"
    "map_of pre ''last_native_state'' = map_of (report s4) ''last_native_state''" by metis
  then show "probed a t (report t)"
    unfolding probed_def using kept final
    by (intro exI [of _ previous] exI [of _ response] exI [of _ after] exI [of _ pre])
       (simp add: runs(6) update_conv' wrote_def answered_def)
qed

lemma measurement_ok:
  assumes "measurement H a deadline basic s = (Inr u, t)" "map_of (report s) ''samples'' = Some (JList [])" "1 \<le> steps a"
  shows "\<exists>rows. map_of (report t) ''samples'' = Some (JList rows) \<and> int (length rows) = steps a \<and> list_all (advanced a) rows"
    and "map_of (report t) ''status'' = Some (JStr ''completed'')"
    and "\<exists>now position. map_of (report t) ''last_native_state'' = Some (state_document a now (JList (map JFloat position)))"
    and "probe_reset a \<Longrightarrow> probed a t (report t)"
proof -
  from assms(1) obtain rows v where runs: "take_samples H a deadline s = (Inr rows, v)" "retain_measurement H a basic v = (Inr u, t)"
    by (auto simp: measurement_def ok_iff)
  from take_samples_foldS [OF runs(1) [unfolded take_samples_def] assms(2)]
  have "int (length rows) = steps a" "list_all (advanced a) rows" "map_of (report v) ''samples'' = Some (JList rows)"
    using assms(3) by simp_all
  with touchesD(1) [OF touches_retain runs(2), of "''samples''"]
  show "\<exists>rows. map_of (report t) ''samples'' = Some (JList rows) \<and> int (length rows) = steps a \<and> list_all (advanced a) rows"
    by auto
  show "map_of (report t) ''status'' = Some (JStr ''completed'')"
    "\<exists>now position. map_of (report t) ''last_native_state'' = Some (state_document a now (JList (map JFloat position)))"
    "probe_reset a \<Longrightarrow> probed a t (report t)"
    using retain_measurement_ok [OF runs(2)] by simp_all
qed

definition time_identity :: "ctl_args \<Rightarrow> json" where
  "time_identity a = JObj [(''authority'', JStr ''Webots Supervisor.getTime''), (''native_unit'', JStr ''seconds''),
     (''representation'', JStr ''float64''), (''epoch'', epoch a ''initial'')]"

text \<open>The report of a completed measurement.\<close>

definition completed_report :: "ctl_args \<Rightarrow> dict \<Rightarrow> bool" where
  "completed_report a d \<longleftrightarrow>
     map_of d ''status'' = Some (JStr ''completed'') \<and> map_of d ''owner_id'' = Some (JStr (owner_id a)) \<and>
     map_of d ''time'' = Some (time_identity a) \<and>
     (\<exists>rows. map_of d ''samples'' = Some (JList rows) \<and> int (length rows) = steps a \<and> list_all (advanced a) rows) \<and>
     (\<exists>now position. map_of d ''last_native_state'' = Some (state_document a now (JList (map JFloat position)))) \<and>
     (\<exists>world system. map_of d ''world'' = Some (JObj world) \<and> map_of world ''coordinate_system'' = Some (JStr system)) \<and>
     finite_dict d"

lemma completed_run:
  assumes "controller_main H fuel a (new_ctl w) = Some (Inr 0, t)"
  shows "completed_report a (report t)" and "wrote t (out_dir a @ [''controller-result.json'']) (JObj (report t))"
    and "probe_reset a \<Longrightarrow> probed a t (report t)"
    and "\<exists>before x y. asked t = before @ [(SimulationQuit 0, Inr x), (SimStep 0, Inr y)]"
proof -
  from assms obtain scene s0 deadline s1 s2 s3 s4 where runs: "acquire H a (new_ctl w) = (Inr scene, s0)"
      "prepare_run H a scene s0 = (Inr deadline, s1)" "await_measure H fuel a deadline s1 = Some (Inr (), s2)"
      "measurement H a deadline (snd (snd scene)) s2 = (Inr (), s3)" "s4 = s3\<lparr>status := 0\<rparr>" "close_run H a s4 = (Inr (), t)"
    by (rule completed_parts)
  from acquire_ok [OF runs(1)] have start: "limits_ok a" "report s0 = initial_report a" by simp_all
  have frame: "map_of (report s2) k = map_of (report s0) k" if "k \<notin> scene_keys" for k
    using touchesD(1) [OF touches_prepare(2) runs(2), of k] await_measure_keeps(1) [OF runs(3), of k] that by simp
  have fixed: "map_of (report s3) ''owner_id'' = Some (JStr (owner_id a))" "map_of (report s3) ''time'' = Some (time_identity a)"
    using touchesD(1) [OF touches_measurement runs(4)] frame
    by (simp_all add: start(2) initial_report_def time_identity_def epoch_def)
  from runs(2) obtain u v where "announce H a (snd (snd scene)) u = (Inr (), v)" "report s1 = report v"
    by (auto simp: prepare_run_def ok_iff call_run call_float_def)
  with announce_world [of H a "snd (snd scene)" u] have "\<exists>d system. map_of (report s1) ''world'' = Some (JObj d) \<and>
      map_of d ''coordinate_system'' = Some (JStr system)" by simp
  then have world: "\<exists>d system. map_of (report s3) ''world'' = Some (JObj d) \<and> map_of d ''coordinate_system'' = Some (JStr system)"
    using touchesD(1) [OF touches_measurement runs(4), of "''world''"] await_measure_keeps(1) [OF runs(3), of "''world''"] by simp
  have fresh: "map_of (report s2) ''samples'' = Some (JList [])"
    using frame [of "''samples''"] by (simp add: start(2) initial_report_def)
  have "1 \<le> steps a" using start(1) by (simp add: limits_ok_def)
  note measured = measurement_ok [OF runs(4) fresh this]
  from runs(6) obtain v x y where "status t = status s4" and closed: "report t = report v"
      "\<forall>k. k \<noteq> ''last_native_state_ref'' \<longrightarrow> map_of (report v) k = map_of (report s4) k"
      "finite_dict (report t)" "wrote v (out_dir a @ [''controller-result.json'']) (JObj (report t))"
      "asked t = asked v @ [(SimulationQuit (status s4), Inr x), (SimStep 0, Inr y)]" "later s4 v"
    by (rule close_run_parts)
  have final: "map_of (report t) k = map_of (report s3) k" if "k \<noteq> ''last_native_state_ref''" for k
    using closed(1,2) that by (simp add: runs(5))
  show "completed_report a (report t)"
    unfolding completed_report_def using fixed world measured closed(3) by (simp add: final)
  have "later v t" by (simp add: later_def closed(5))
  with closed(4) show "wrote t (out_dir a @ [''controller-result.json'']) (JObj (report t))" by (simp add: wrote_later)
  show "\<exists>before x y. asked t = before @ [(SimulationQuit 0, Inr x), (SimStep 0, Inr y)]"
    using closed(5) by (auto simp: runs(5))
  assume "probe_reset a"
  from measured(4) [OF this] obtain previous response after pre where probe:
    "map_of (report s3) ''reset'' = Some (reset_facts a previous response after)"
    "wrote s3 (out_dir a @ [''pre-reset.json'']) (JObj pre)"
    "path_item (JObj pre) [''reset'', ''requested''] = Inr (JBool True)"
    "path_item (JObj pre) [''reset'', ''observed''] = Inr (JBool False)"
    "map_of pre ''last_native_state'' = map_of (report s3) ''last_native_state''"
    unfolding probed_def by blast
  have "later s3 v" using closed(6) by (simp add: later_def runs(5))
  with \<open>later v t\<close> have "later s3 t" by (rule later_trans [rotated])
  from wrote_later [OF this probe(2)] probe show "probed a t (report t)"
    unfolding probed_def by (intro exI [of _ previous] exI [of _ response] exI [of _ after] exI [of _ pre]) (simp add: final)
qed


section \<open>Every run\<close>

lemma adds_await [keeps]: "addsF stays (await_measure H fuel a deadline)"
  unfolding await_measure_def by (intro keeps)

lemma adds_body [keeps]: "addsF stays (controller_body H fuel a scene)"
  unfolding controller_body_def by (intro keeps) simp

text \<open>The calls of the \<open>finally\<close> clause: the simulation is told to quit last, after the report.\<close>

definition quit_after_report :: "'w station \<Rightarrow> ctl_args \<Rightarrow> int res \<Rightarrow> (webcall \<times> json res) list \<Rightarrow> bool" where
  "quit_after_report H a r calls \<longleftrightarrow> (\<exists>before rest. calls = before @ rest \<and> list_all (stays \<circ> fst) before \<and>
     (case rest of [] \<Rightarrow> \<not> is_ok r
      | (c, x) # others \<Rightarrow> (\<exists>code d v. c = SimulationQuit code \<and> finite_dict d \<and>
          (WriteSync (temporary (out_dir a @ [''controller-result.json''])) (JObj d), Inr v) \<in> set before \<and>
          (is_ok r \<longrightarrow> r = Inr code \<and> map fst others = [SimStep 0]))))"

lemma perform_any: "perform host c s = (r, t) \<Longrightarrow> \<exists>x. asked t = asked s @ [(c, x)]"
  by (auto simp: perform_def seqS_def bindS_def call_def retS_def split: prod.splits sum.splits)

lemma perform_status: "perform host c s = (r, t) \<Longrightarrow> status t = status (s :: 'w ctl)"
  using touchesD(2) [OF touches_calls(1) [where K = "{}"]] status_more by blast

lemma quit_calls:
  assumes "seqS (perform host (SimulationQuit code)) (perform host (SimStep 0)) s = (r, t)"
  obtains x others where "asked t = asked s @ (SimulationQuit code, x) # others" "is_ok r \<longrightarrow> map fst others = [SimStep 0]"
proof -
  obtain r1 u where quit: "perform host (SimulationQuit code) s = (r1, u)" by fastforce
  obtain r2 v where step: "perform host (SimStep 0) u = (r2, v)" by fastforce
  from perform_any [OF quit] perform_any [OF step] obtain x y where
      "asked u = asked s @ [(SimulationQuit code, x)]" "asked v = asked u @ [(SimStep 0, y)]" by blast
  with assms quit step that [of x "[]"] that [of x "[(SimStep 0, y)]"] show ?thesis
    by (cases r1) (auto simp: seqS_def bindS_def)
qed

lemma close_run_split:
  "close_run H a s = seqS (seqS (if ''last_native_state'' \<in> fst ` set (report s) then retain_state H a else retS ())
       (write_report H a ''controller-result.json''))
     (bindS (getS status) (\<lambda>code. seqS (perform (site_host H) (SimulationQuit code)) (perform (site_host H) (SimStep 0)))) s"
  by (simp add: close_run_def seqS_assoc)

lemma close_run_calls:
  assumes "close_run H a s = (r, t)"
  shows "\<exists>before rest. asked t = asked s @ before @ rest \<and> list_all (stays \<circ> fst) before \<and>
    (case rest of [] \<Rightarrow> \<not> is_ok r
      | (c, x) # others \<Rightarrow> (\<exists>d v. c = SimulationQuit (status s) \<and> finite_dict d \<and>
          (WriteSync (temporary (out_dir a @ [''controller-result.json''])) (JObj d), Inr v) \<in> set (asked s @ before) \<and>
          (is_ok r \<longrightarrow> map fst others = [SimStep 0])))"
proof -
  let ?first = "if ''last_native_state'' \<in> fst ` set (report s) then retain_state H a else retS ()"
  let ?report = "seqS ?first (write_report H a ''controller-result.json'')"
  obtain r1 u where run: "?report s = (r1, u)" by fastforce
  have "adds stays ?report" by (auto intro!: keeps)
  from addsD [OF this run] obtain before where before: "asked u = asked s @ before" "list_all (stays \<circ> fst) before" by blast
  have touches: "touches {''last_native_state_ref''} ?report" by (auto intro!: keeps)
  from touchesD(2) [OF this run] have status: "status u = status s" by (rule status_more)
  show ?thesis
  proof (cases r1)
    case (Inl e)
    with assms run have "t = u" "r = Inl e"
      unfolding close_run_split by (simp_all add: seqS_def [of ?report] bindS_def)
    with before show ?thesis by (intro exI [of _ before] exI [of _ "[]"]) simp
  next
    case (Inr result)
    with run obtain v where "write_report H a ''controller-result.json'' v = (Inr (), u)" by (auto simp: ok_iff)
    from write_report_ok [OF this] before(1) obtain x where report: "finite_dict (report v)"
        "(WriteSync (temporary (out_dir a @ [''controller-result.json''])) (JObj (report v)), Inr x) \<in> set (asked s @ before)"
      by (auto simp: wrote_def answered_def)
    from assms run Inr have "seqS (perform (site_host H) (SimulationQuit (status u))) (perform (site_host H) (SimStep 0)) u = (r, t)"
      unfolding close_run_split by (simp add: seqS_run)
    then obtain y others where quit: "asked t = asked u @ (SimulationQuit (status u), y) # others"
        "is_ok r \<longrightarrow> map fst others = [SimStep 0]"
      by (rule quit_calls)
    show ?thesis
      using before quit report status
      by (intro exI [of _ before] exI [of _ "(SimulationQuit (status u), y) # others"]) auto
  qed
qed

text \<open>
  C12: However the controller ends, its simulation is told to quit only after the report was written,
  and nothing but the last step follows; an exit code is returned only then, the code the simulation
  quits with. A run that ends with an exception before that leaves the simulation running.
\<close>

theorem controller_reports_before_quitting:
  "case controller_main H fuel a (new_ctl w) of None \<Rightarrow> True
   | Some (r, t) \<Rightarrow> quit_after_report H a r (asked t)"
proof (cases "controller_main H fuel a (new_ctl w)")
  case (Some run)
  obtain r t where r: "run = (r, t)" by fastforce
  obtain r1 s1 where start: "acquire H a (new_ctl w) = (r1, s1)" by fastforce
  have "adds stays (acquire H a)" by (rule keeps)
  from addsD [OF this start] obtain new where new: "asked s1 = new" "list_all (stays \<circ> fst) new" by (auto simp: new_ctl_def)
  show ?thesis
  proof (cases r1)
    case (Inl e)
    with Some r start have "t = s1" "r = Inl e" by (auto simp: controller_main_def bindF_def liftF_def)
    with new Some r show ?thesis by (auto simp: quit_after_report_def intro: exI [of _ new] exI [of _ "[]"])
  next
    case (Inr scene)
    let ?body = "catch_onF reported_kinds (controller_body H fuel a scene) (record_failure H)"
    from Some r start Inr obtain r2 u r3 v where body: "?body s1 = Some (r2, u)" "close_run H a u = (r3, v)" "t = v"
        "is_ok r \<Longrightarrow> is_ok r3 \<and> r = Inr (status v)"
      by (auto simp: controller_main_def bindF_def seqF_def liftF_def finallyF_def finallyS_def getS_def
          split: prod.splits sum.splits option.splits)
    have "addsF stays ?body" by (intro keeps)
    from addsFD [OF this body(1)] obtain middle where middle: "asked u = asked s1 @ middle" "list_all (stays \<circ> fst) middle" by blast
    from close_run_calls [OF body(2)] obtain before rest where tail: "asked v = asked u @ before @ rest"
        "list_all (stays \<circ> fst) before" "case rest of [] \<Rightarrow> \<not> is_ok r3
         | (c, x) # others \<Rightarrow> (\<exists>d v. c = SimulationQuit (status u) \<and> finite_dict d \<and>
            (WriteSync (temporary (out_dir a @ [''controller-result.json''])) (JObj d), Inr v) \<in> set (asked u @ before) \<and>
            (is_ok r3 \<longrightarrow> map fst others = [SimStep 0]))" by blast
    have code: "is_ok r \<Longrightarrow> is_ok r3 \<and> r = Inr (status u)"
      using body(2,4) close_run_parts [of H a u _ v] by (auto simp: is_ok_iff)
    have calls: "asked t = (new @ middle @ before) @ rest" "list_all (stays \<circ> fst) (new @ middle @ before)"
        "asked u @ before = new @ middle @ before"
      using tail(1,2) middle new body(3) by simp_all
    show ?thesis
    proof (cases rest)
      case Nil
      with calls tail(3) code have "quit_after_report H a r (asked t)"
        unfolding quit_after_report_def by (intro exI [of _ "new @ middle @ before"] exI [of _ "[]"]) auto
      with Some r show ?thesis by simp
    next
      case (Cons c others)
      with tail(3) calls(3) code have "case c of (c, x) \<Rightarrow> \<exists>code d v. c = SimulationQuit code \<and> finite_dict d \<and>
          (WriteSync (temporary (out_dir a @ [''controller-result.json''])) (JObj d), Inr v) \<in> set (new @ middle @ before) \<and>
          (is_ok r \<longrightarrow> r = Inr code \<and> map fst others = [SimStep 0])"
        by (cases c) auto
      with Cons calls(1,2) have "quit_after_report H a r (asked t)"
        unfolding quit_after_report_def by (intro exI [of _ "new @ middle @ before"] exI [of _ rest]) simp
      with Some r show ?thesis by simp
    qed
  qed
qed simp

text \<open>
  A float that JSON does not have, which the \<open>samples\<close> keep when the clock of the simulator gives
  one, makes the \<open>finally\<close> clause itself fail: no report is written and the simulation runs on.
\<close>

lemma unwritable_report_is_lost:
  assumes "map_of (report s) k = Some v" "\<not> finite_json v" "k \<noteq> ''last_native_state_ref''" "close_run H a s = (r, t)"
  shows "\<not> is_ok r \<and> (\<exists>new. asked t = asked s @ new \<and>
    list_all ((\<lambda>c. stays c \<and> (\<forall>d. c \<noteq> WriteSync (temporary (out_dir a @ [''controller-result.json''])) d)) \<circ> fst) new)"
proof -
  let ?C = "\<lambda>c. stays c \<and> (\<forall>d. c \<noteq> WriteSync (temporary (out_dir a @ [''controller-result.json''])) d)"
  let ?first = "if ''last_native_state'' \<in> fst ` set (report s) then retain_state H a else retS ()"
  obtain r1 u where run: "?first s = (r1, u)" by fastforce
  have "adds ?C ?first"
    by (auto simp: retain_state_def write_json_def reference_def temporary_def path_parent_def path_name_def intro!: keeps)
  from addsD [OF this run] obtain new where new: "asked u = asked s @ new" "list_all (?C \<circ> fst) new" by blast
  have "touches {''last_native_state_ref''} ?first" by (auto intro!: keeps)
  from touchesD(1) [OF this run, of k] assms(1,3) have "map_of (report u) k = Some v" by simp
  with assms(2) have "\<not> finite_dict (report u)" using finite_dict_map_of by blast
  then have "\<exists>e. write_report H a ''controller-result.json'' u = (Inl e, u)"
    by (simp add: write_report_def write_json_def refuse_def seqS_def bindS_def getS_def)
  with run assms(4) have "t = u \<and> \<not> is_ok r"
    unfolding close_run_split by (cases r1) (auto simp: seqS_def bindS_def)
  with new show ?thesis by blast
qed

section \<open>Every run ends\<close>

lemma forward_halted [keeps]:
  assumes "ticking (site_host H) time d"
  shows "forward (desk_clock time) (halted H a)"
  using assms by (auto simp: halted_def intro!: keeps)

lemma measure_pass_goes_on:
  assumes pass: "passing (site_host H) time d deadline b" and run: "measure_pass H a deadline l s = (Inr (Inr l'), s')"
  shows "desk_clock time s < b \<and> desk_clock time s + d \<le> desk_clock time s'"
proof -
  note clock = passingD(1) [OF pass] and late = passingD(2) [OF pass]
  from run obtain s1 s2 t s3 where parts: "call_bool (site_host H) (Exists (out_dir a @ [''measure''])) s = (Inr False, s1)"
      "halted H a s1 = (Inr False, s2)" "call_float (site_host H) Monotonic s2 = (Inr t, s3)" "\<not> fle deadline t"
      "perform (site_host H) Sleep s3 = (Inr (), s')"
    by (auto simp: measure_pass_def go_on_def bindS_ok seqS_ok pure_ok refused_ok split: if_splits)
  note steps = forwardD [OF forward_calls(3) [OF clock] parts(1)] forwardD [OF forward_halted [OF clock] parts(2)]
    forwardD [OF forward_calls(5) [OF clock] parts(3)]
  from parts(4) late read_clock [OF clock parts(3)] have "desk_clock time s2 < b" by (metis linorder_not_less)
  with steps sleep_moves [OF clock parts(5)] show ?thesis by linarith
qed

interpretation measure_wait: deadline_wait "measure_pass H a deadline" "desk_clock time" b d
    "passing (site_host H) time d deadline b"
  for H :: "'w station" and a deadline time b d
  by unfold_locales (use measure_pass_goes_on in blast, rule passingD(3))

text \<open>A controller that is never permitted to measure does not wait for ever.\<close>

theorem controller_always_ends:
  assumes clock: "ticking (site_host H) time d" and "deadline_seconds a = Fin q"
  shows "\<exists>n outcome. \<forall>fuel \<ge> n. controller_main H fuel a s = Some outcome"
proof -
  have wait: "settles (\<lambda>fuel. await_measure H fuel a deadline)" if number: "deadline \<noteq> NaN" for deadline
  proof -
    obtain b where "passing (site_host H) time d deadline b" using passing_exists [OF clock number] by blast
    from measure_wait.settled [OF this] show ?thesis by (auto simp: await_measure_def intro: ending)
  qed
  have body: "settles (\<lambda>fuel. controller_body H fuel a scene)" for scene
    unfolding controller_body_def
  proof (rule settles_bind)
    fix k u deadline t
    assume "liftF (prepare_run H a scene) u = Some (Inr deadline, t)"
    then have "deadline \<noteq> NaN"
      using deadline_set [of _ q] by (auto simp: liftF_def prepare_run_def ok_iff assms(2) dest!: read_clock [OF clock])
    then show "settles (\<lambda>fuel. seqF (await_measure H fuel a deadline)
        (liftF (seqS (measurement H a deadline (snd (snd scene))) (modifyS (\<lambda>s. s\<lparr>status := 0\<rparr>)))))"
      by (intro ending wait)
  qed (rule ending)
  have "settles (\<lambda>fuel. controller_main H fuel a)"
    unfolding controller_main_def by (intro ending body)
  then show ?thesis by (rule settlesD)
qed

section \<open>A run\<close>

text \<open>A simulator whose clock counts its steps from the last reset.\<close>

fun counting_simulator :: "(webcall, nat) host" where
  "counting_simulator SimTime n = (Inr (JFloat (Fin (of_nat n))), n)"
| "counting_simulator (SimStep ms) n = (Inr (JInt 0), Suc n)"
| "counting_simulator SimulationReset n = (Inr JNull, 0)"
| "counting_simulator BasicTimeStep n = (Inr (JFloat (Fin 16)), n)"
| "counting_simulator Monotonic n = (Inr (JFloat (Fin 0)), n)"
| "counting_simulator WorldPath n = (Inr (JStr ''/w''), n)"
| "counting_simulator (ResolvePath p) n = (Inr (JStr ''/w''), n)"
| "counting_simulator (ReadFile p) n = (Inr (JStr []), n)"
| "counting_simulator (StatSize p) n = (Inr (JInt 0), n)"
| "counting_simulator (WorldField f) n =
     (Inr (if f = ''title'' \<or> f = ''coordinateSystem'' then JStr ''ENU'' else JInt 1), n)"
| "counting_simulator RobotName n = (Inr (JStr ''rr-native-probe''), n)"
| "counting_simulator RobotModel n = (Inr (JStr ''robotics-runtime-webots-native-v1''), n)"
| "counting_simulator RobotId n = (Inr (JInt 7), n)"
| "counting_simulator Synchronization n = (Inr (JBool True), n)"
| "counting_simulator SamplingPeriod n = (Inr (JInt 0), n)"
| "counting_simulator BodyPosition n = (Inr (JList [JFloat (Fin 0)]), n)"
| "counting_simulator (FromDef name) n = (Inr (JStr name), n)"
| "counting_simulator Stopping n = (Inr (JBool False), n)"
| "counting_simulator (Exists p) n = (Inr (JBool False), n)"
| "counting_simulator _ n = (Inr JNull, n)"

definition counting_station :: "nat station" where
  "counting_station = \<lparr>site_host = counting_simulator, sha = (\<lambda>content. content), install_dir = []\<rparr>"

definition probing_args :: ctl_args where
  "probing_args = \<lparr>out_dir = [''out''], owner_id = ''o'', mode = ''physics-only'', step_ms = 16,
     steps = 2, deadline_seconds = Fin 60, probe_reset = True, auto_start = True, world_file = [''w'']\<rparr>"

text \<open>The simulator stands at \<open>n\<close>, and the report is one that JSON has.\<close>

definition counting :: "nat \<Rightarrow> nat ctl \<Rightarrow> bool" where
  "counting n s \<longleftrightarrow> outside s = n \<and> finite_dict (report s)"

lemma gives_start: "finite_dict d \<Longrightarrow> gives counting n (modifyS (\<lambda>s. s\<lparr>report := d, status := c\<rparr>)) () n"
  by (simp add: gives_def counting_def)

lemma gives_call: "counting_simulator c n = (Inr v, k) \<Longrightarrow> gives counting n (call (site_host counting_station) c) v k"
  by (simp add: gives_def call_def counting_station_def counting_def)

lemmas gives_counted = gives_call gives_typed [OF gives_call]

lemma gives_note: "finite_json v \<Longrightarrow> gives counting n (note_fact k v) () n"
  by (simp add: gives_def counting_def note_fact_def finite_dset)

lemma gives_amend:
  assumes "finite_dict d"
  shows "gives counting n (amend_fact k d) () n"
proof -
  have "finite_json (case dget r k of JObj d' \<Rightarrow> JObj (dmerge d' d) | x \<Rightarrow> x)" if "finite_dict r" for r
    using finite_dget [OF that, of k] assms by (cases "dget r k") (simp_all add: finite_dmerge)
  then show ?thesis by (simp add: gives_def counting_def amend_fact_def finite_dset)
qed

lemma world_uri: "quote (abs_str (pure_parts ''/w'')) = ''/w''"
  by code_simp

lemma gives_write: "finite_json v \<Longrightarrow> gives counting n (write_json counting_station p v) () n"
  unfolding write_json_def by (rule gives_seq gives_pure gives_counted | simp)+

abbreviation world_ref :: json where
  "world_ref \<equiv> JObj [(''uri'', JStr ''file:///w''), (''sha256'', JStr []), (''size_bytes'', JInt 0)]"

lemma gives_reference: "gives counting n (reference counting_station p) world_ref n"
  unfolding reference_def
  by (rule gives_bind gives_pure gives_counted | simp add: counting_station_def world_uri)+

lemma gives_state: "gives counting n (snapshot counting_station facts) (JObj ([(''time_seconds'', JFloat (Fin (of_nat n))),
   (''body_position_m'', JList [JFloat (Fin 0)])] @ facts)) n"
  unfolding snapshot_def
  by (rule gives_bind gives_pure gives_counted | simp add: float_list_def)+


lemmas gives_rules = gives_get gives_bind gives_seq gives_pure gives_note gives_amend gives_write gives_reference gives_state
  gives_counted

lemma gives_written: "gives counting n (write_report counting_station a name) () n" "gives counting n (retain_state counting_station a) () n"
  unfolding write_report_def retain_state_def by (rule counting_simulator.simps gives_rules | simp add: finite_dget counting_def)+

lemma gives_check: "gives counting n (check_scene counting_station probing_args (JStr x, JStr y, Fin 16)) () n"
  unfolding check_scene_def
  by (rule counting_simulator.simps gives_rules | simp add: probing_args_def)+

lemma gives_announce: "gives counting n (announce counting_station probing_args (Fin 16)) () n"
  unfolding announce_def introduce_def world_facts_def Let_def
  by (rule counting_simulator.simps gives_rules | simp add: probing_args_def with_camera_def finite_dget counting_def)+

abbreviation counted_row :: "nat \<Rightarrow> json" where
  "counted_row n \<equiv> sample_row probing_args 0 (Fin (of_nat n)) (Fin (of_nat (Suc n))) (JList [JFloat (Fin 0)])"

lemma gives_sample: "finite_list rows \<Longrightarrow> 
   gives counting n (take_sample counting_station probing_args (Fin 60) rows) (rows @ [counted_row n]) (Suc n)"
  unfolding take_sample_def go_on_def halted_def Let_def
  by (rule counting_simulator.simps gives_rules | simp add: float_list_def finite_list_append sample_row_def probing_args_def)+

lemma probing_simps: "mode probing_args = ''physics-only''" "probe_reset probing_args" "auto_start probing_args" "steps probing_args = 2"
  by (simp_all add: probing_args_def)

lemma gives_samples: "gives counting 0 (take_samples counting_station probing_args (Fin 60)) [counted_row 0, counted_row 1] 2"
proof -
  note one = gives_sample [of "[]" 0] and two = gives_sample [of "[counted_row 0]" "Suc 0"]
  have "gives counting 0 (foldS (\<lambda>_. take_sample counting_station probing_args (Fin 60)) [(), ()] []) [counted_row 0, counted_row 1] (Suc (Suc 0))"
    unfolding foldS.simps
    by (rule gives_bind, rule one, simp, rule gives_bind, unfold append_Nil, rule two)
       (simp_all add: sample_row_def gives_pure)
  then show ?thesis by (simp add: take_samples_def probing_simps numeral_2_eq_2)
qed

lemma gives_reset: "gives counting 2 (try_reset counting_station probing_args 16) () 1"
  unfolding try_reset_def Let_def
  by (rule counting_simulator.simps gives_rules gives_written | simp add: epoch_def)+

lemma gives_retained: "gives counting 2 (retain_measurement counting_station probing_args (Fin 16)) () 1"
  unfolding retain_measurement_def
  by (rule counting_simulator.simps gives_rules gives_written gives_reset
      | simp add: epoch_def with_camera_def probing_simps)+

lemma gives_close: "gives counting 1 (close_run counting_station probing_args) () 2"
  unfolding close_run_def
  by (rule gives_both counting_simulator.simps gives_rules gives_written | simp)+

lemma probing_run: "\<exists>t. controller_main counting_station 0 probing_args (new_ctl 0) = Some (Inr 0, t)"
proof -
  have limits: "limits_ok probing_args" by (simp add: limits_ok_def probing_args_def)
  have "gives counting 0 (acquire counting_station probing_args) (JStr ''RR_WORLD_INFO'', JStr ''RR_FALLING_BODY'', Fin 16) 0"
    unfolding acquire_def
    by (rule counting_simulator.simps gives_start gives_rules | simp add: limits initial_report_def)+
  from givesD [OF this, of "new_ctl 0"] obtain s1 where s1: "acquire counting_station probing_args (new_ctl 0) =
      (Inr (JStr ''RR_WORLD_INFO'', JStr ''RR_FALLING_BODY'', Fin 16), s1)" "counting 0 s1"
    by (auto simp: new_ctl_def counting_def)
  have sum: "fadd (Fin 0) (deadline_seconds probing_args) = Fin 60"
    using rnd64_of_int [of 60] by (simp add: to_float_def float_bound_def probing_args_def)
  have "gives counting 0 (prepare_run counting_station probing_args (JStr ''RR_WORLD_INFO'', JStr ''RR_FALLING_BODY'', Fin 16)) (Fin 60) 0"
    unfolding prepare_run_def
    unfolding snd_conv
    by (rule gives_seq, rule gives_check, rule gives_seq, rule gives_announce, rule gives_bind, rule gives_typed(5),
        rule gives_call, rule counting_simulator.simps, unfold sum, rule gives_pure)
  from givesD [OF this, OF s1(2)] obtain s2 where
    s2: "prepare_run counting_station probing_args (JStr ''RR_WORLD_INFO'', JStr ''RR_FALLING_BODY'', Fin 16) s1 = (Inr (Fin 60), s2)" "counting 0 s2" by blast
  have "gives counting 0 (measurement counting_station probing_args (Fin 60) (Fin 16)) () 1"
    unfolding measurement_def by (rule gives_seq [OF gives_samples gives_retained])
  from givesD [OF this, OF s2(2)] obtain s3 where s3: "measurement counting_station probing_args (Fin 60) (Fin 16) s2 = (Inr (), s3)" "counting 1 s3" by blast
  from givesD [OF gives_close, of "s3\<lparr>status := 0\<rparr>"] s3(2) obtain t where
    t: "close_run counting_station probing_args (s3\<lparr>status := 0\<rparr>) = (Inr (), t)" by (auto simp: counting_def)
  from t have "status t = 0" by (rule close_run_parts) simp
  with s1(1) s2(1) s3(1) t show ?thesis
    by (auto simp: controller_main_def controller_body_def finallyF_def catch_onF_def bindF_def seqF_def liftF_def seqS_def bindS_def
        await_measure_def probing_simps catchS_def finallyS_def getS_def modifyS_def)
qed


end
