(* ===== verification/Webots_Launcher.thy ===== *)
theory Webots_Launcher
  imports Webots_Common
begin

text \<open>
  The owner of the processes, \<open>workers/webots/launcher.py\<close>: it starts a display, the simulator
  and its controller, waits for the controller until a deadline, notes what the controller exported,
  and in any case terminates and reaps every process group it started before it writes its result.
  The three waits run on fuel.
\<close>

record launch_args = run_args +
  operation :: string
  out_absolute :: bool
  expected_world :: "string option"

text \<open>\<open>processes\<close> and \<open>streams\<close> of \<open>main\<close>, and its local \<open>code\<close>.\<close>

record 'w lch = "(webcall, 'w) keeper" +
  processes :: "(string \<times> json) list"
  streams :: "string list"
  code :: int

type_synonym ('w, 'a) launch = "('w lch, 'a) prog"

definition init_sha256 :: string where
  "init_sha256 = ''43e9b836ca7631672f12d0610cd574875b62d236dfd62e3b86751f35862e5eba''"

definition webots_home :: path where
  "webots_home = [''usr'', ''local'', ''webots'']"

definition share :: "string \<Rightarrow> path" where
  "share name = [''usr'', ''local'', ''share'', ''robotics-webots'', name]"

definition owner_document :: "launch_args \<Rightarrow> json" where
  "owner_document a = JObj [(''owner_id'', JStr (owner_id a))]"

section \<open>Process groups\<close>

text \<open>\<open>os.killpg(pgid, 0)\<close>.\<close>

definition group_exists :: "'w station \<Rightarrow> json \<Rightarrow> ('w, bool) launch" where
  "group_exists H pid = catchS [ProcessLookupError]
     (seqS (perform (site_host H) (KillGroup pid ''0'')) (retS True)) (\<lambda>_. retS False)"

text \<open>Sending one signal: \<open>True\<close> when the group was there to receive it.\<close>

definition send_signal :: "'w station \<Rightarrow> json \<Rightarrow> string \<Rightarrow> ('w, bool) launch" where
  "send_signal H pid sig = catchS [ProcessLookupError]
     (seqS (perform (site_host H) (KillGroup pid sig)) (retS True)) (\<lambda>_. retS False)"

definition gone_pass :: "'w station \<Rightarrow> json \<Rightarrow> pyfloat \<Rightarrow> unit \<Rightarrow> ('w, unit + unit) launch" where
  "gone_pass H pid deadline _ =
     bindS (group_exists H pid) (\<lambda>present.
     bindS (if present then bindS (call_float (site_host H) Monotonic) (\<lambda>t. retS (flt t deadline)) else retS False) (\<lambda>go_on.
     if go_on then seqS (perform (site_host H) (Poll pid)) (seqS (perform (site_host H) Sleep) (retS (Inr ())))
     else retS (Inl ())))"

definition await_gone :: "'w station \<Rightarrow> nat \<Rightarrow> json \<Rightarrow> pyfloat \<Rightarrow> ('w lch, unit) fprog" where
  "await_gone H fuel pid deadline = (\<lambda>s. repeat_until fuel (pass_of (gone_pass H pid deadline)) ((), s))"

fun terminate :: "'w station \<Rightarrow> nat \<Rightarrow> json \<Rightarrow> string list \<Rightarrow> string list \<Rightarrow> ('w lch, string list) fprog" where
  "terminate H fuel pid [] sent = liftF (retS sent)"
| "terminate H fuel pid (sig # sigs) sent =
     bindF (liftF (group_exists H pid)) (\<lambda>present.
     if \<not> present then liftF (retS sent)
     else bindF (liftF (send_signal H pid sig)) (\<lambda>received.
       if \<not> received then liftF (retS sent)
       else bindF (liftF (call_float (site_host H) Monotonic)) (\<lambda>t.
         seqF (await_gone H fuel pid (fadd t (Fin 2)))
              (terminate H fuel pid sigs (sent @ [sig])))))"

definition child_report :: "json \<Rightarrow> json \<Rightarrow> string list \<Rightarrow> bool \<Rightarrow> dict" where
  "child_report pid exit signals absent = [
     (''pid'', pid), (''registered_pgid'', pid), (''exit_code'', exit), (''signals'', JList (map JStr signals)),
     (''group_absent'', JBool absent), (''reaped'', JBool (exit \<noteq> JNull \<and> absent))]"

definition reap :: "'w station \<Rightarrow> nat \<Rightarrow> json \<Rightarrow> ('w lch, dict) fprog" where
  "reap H fuel pid =
     bindF (terminate H fuel pid [''SIGTERM'', ''SIGKILL''] []) (\<lambda>signals.
     liftF (bindS (call (site_host H) (Poll pid)) (\<lambda>exit.
            bindS (group_exists H pid) (\<lambda>present.
            retS (child_report pid exit signals (\<not> present))))))"

section \<open>Before the processes\<close>

definition owner_ok :: "launch_args \<Rightarrow> bool" where
  "owner_ok a \<longleftrightarrow> owner_id a \<noteq> [] \<and> length (owner_id a) \<le> 128"

text \<open>The operations \<open>measure\<close> and \<open>cancel\<close> leave a marker for the owner of the run.\<close>

definition leave_marker :: "'w station \<Rightarrow> launch_args \<Rightarrow> ('w, int) launch" where
  "leave_marker H a =
     bindS (call (site_host H) (ReadDocument (out_dir a @ [''owner.json'']))) (\<lambda>ownership.
     bindS (liftS (item ownership ''owner_id'')) (\<lambda>owner.
     seqS (refuse (owner \<noteq> JStr (owner_id a)) ValueError ''cannot signal another owner'')
    (seqS (write_json H (out_dir a @ [operation a]) (owner_document a))
    (retS 0))))"

definition claim_output :: "'w station \<Rightarrow> launch_args \<Rightarrow> ('w, unit) launch" where
  "claim_output H a =
     seqS (refuse (\<not> out_absolute a \<or> \<not> limits_ok a) ValueError ''finite worker parameters are invalid'')
    (bindS (call_bool (site_host H) (Exists (out_dir a))) (\<lambda>present.
     bindS (if present then call_bool (site_host H) (Entries (out_dir a)) else retS False) (\<lambda>used.
     seqS (refuse used ValueError ''worker output must be new and single-writer'')
    (seqS (perform (site_host H) (MakeDir (out_dir a)))
    (seqS (perform (site_host H) (ChangeMode (out_dir a)))
          (write_json H (out_dir a @ [''owner.json'']) (owner_document a)))))))"

definition observe_init :: "'w station \<Rightarrow> launch_args \<Rightarrow> ('w, json) launch" where
  "observe_init H a =
     bindS (call_text (site_host H) (ReadLink [''proc'', ''1'', ''exe''])) (\<lambda>exe.
     bindS (call_text (site_host H) (ReadText [''proc'', ''1'', ''comm''])) (\<lambda>comm.
     bindS (bindS (reference H [''proc'', ''1'', ''exe'']) (\<lambda>r. liftS (item r ''sha256''))) (\<lambda>digest.
     let init = JObj [(''pid'', JInt 1), (''executable'', JStr exe), (''comm'', JStr (strip is_space comm)),
       (''sha256'', digest), (''expected_sha256'', JStr init_sha256), (''source'', JStr ''C08 stock catatonit asset'')] in
     seqS (refuse (digest \<noteq> JStr init_sha256) RuntimeError
             ''the qualified stock OCI init is required as observed PID 1'')
    (seqS (write_json H (out_dir a @ [''oci-init.json'']) init)
    (retS init)))))"

definition input_names :: "path list" where
  "input_names = [[''worlds'', ''native.wbt''], [''protos'', ''NativeProbe.proto''], [''native_controller.py''],
     [''common.py''], [''upstream.json'']]"

definition export_inputs :: "'w station \<Rightarrow> launch_args \<Rightarrow> ('w, unit) launch" where
  "export_inputs H a =
     seqS (perform (site_host H) (MakeDir (out_dir a @ [''inputs''])))
          (forS (\<lambda>name. let destination = out_dir a @ [''inputs'', path_name name] in
             seqS (perform (site_host H) (CopyFile (install_dir H @ name) destination))
                  (perform (site_host H) (ChangeMode destination))) input_names)"

definition world_path :: "'w station \<Rightarrow> path" where
  "world_path H = install_dir H @ [''worlds'', ''native.wbt'']"

definition check_world :: "'w station \<Rightarrow> launch_args \<Rightarrow> ('w, unit) launch" where
  "check_world H a =
     bindS (bindS (reference H (world_path H)) (\<lambda>r. liftS (item r ''sha256''))) (\<lambda>digest.
     refuse (case expected_world a of None \<Rightarrow> False | Some d \<Rightarrow> d \<noteq> [] \<and> JStr d \<noteq> digest)
       ValueError ''native world bytes differ from the requested scene digest'')"

definition private_dirs :: "'w station \<Rightarrow> ('w, unit) launch" where
  "private_dirs H =
     seqS (forS (\<lambda>variable. bindS (call_path (site_host H) (Environment variable)) (\<lambda>p. perform (site_host H) (MakeDir p)))
             [''HOME'', ''XDG_CACHE_HOME'', ''XDG_RUNTIME_DIR''])
          (bindS (call_path (site_host H) (Environment ''XDG_RUNTIME_DIR'')) (\<lambda>p. perform (site_host H) (ChangeMode p)))"

definition initial_result :: "launch_args \<Rightarrow> dict" where
  "initial_result a = [
     (''owner_id'', JStr (owner_id a)), (''status'', JStr ''error''), (''platform'', JStr ''linux/amd64''),
     (''main_view_rendering'', JBool False), (''sensor_rendering'', JBool (with_camera a)), (''display'', JStr ''Xvfb :99''),
     (''renderer_policy'', JStr ''Mesa software, LIBGL_ALWAYS_SOFTWARE=1''), (''children'', JList []),
     (''evidence_exported_before_stop'', JBool False)]"

definition set_up :: "'w station \<Rightarrow> launch_args \<Rightarrow> ('w, json \<times> pyfloat) launch" where
  "set_up H a =
     seqS (claim_output H a)
    (bindS (observe_init H a) (\<lambda>init.
     seqS (export_inputs H a)
    (seqS (check_world H a)
    (seqS (perform (site_host H) SetSignals)
    (seqS (private_dirs H)
    (seqS (modifyS (\<lambda>s. s\<lparr>report := initial_result a, processes := [], streams := [], code := 1\<rparr>))
    (bindS (call_float (site_host H) Monotonic) (\<lambda>t.
     retS (init, fadd t (deadline_seconds a))))))))))"

section \<open>The processes\<close>

definition spawn :: "'w station \<Rightarrow> launch_args \<Rightarrow> string \<Rightarrow> json list \<Rightarrow> ('w, json) launch" where
  "spawn H a name command =
     seqS (perform (site_host H) (OpenLog (out_dir a @ [name @ ''.log''])))
    (seqS (modifyS (\<lambda>s. s\<lparr>streams := streams s @ [name]\<rparr>))
    (bindS (call (site_host H) (Spawn name command)) (\<lambda>pid.
     seqS (modifyS (\<lambda>s. s\<lparr>processes := processes s @ [(name, pid)]\<rparr>))
    (retS pid))))"

definition display_command :: "json list" where
  "display_command = map JStr [''Xvfb'', '':99'', ''-screen'', ''0'', ''640x480x24'', ''-nolisten'', ''tcp'',
     ''+extension'', ''GLX'', ''+render'', ''-noreset'']"

definition display_pass :: "'w station \<Rightarrow> json \<Rightarrow> pyfloat \<Rightarrow> unit \<Rightarrow> ('w, unit + unit) launch" where
  "display_pass H display deadline _ =
     bindS (call_bool (site_host H) (Exists [''tmp'', ''.X11-unix'', ''X99''])) (\<lambda>present.
     if present then retS (Inl ())
     else bindS (call (site_host H) (Poll display)) (\<lambda>exit.
          bindS (if exit \<noteq> JNull then retS True
                 else bindS (call_float (site_host H) Monotonic) (\<lambda>t.
                   if fle deadline t then retS True else call_bool (site_host H) Stopping)) (\<lambda>failed.
          seqS (refuse failed RuntimeError ''native Xvfb display did not become ready'')
         (seqS (perform (site_host H) Sleep) (retS (Inr ()))))))"

definition await_display :: "'w station \<Rightarrow> nat \<Rightarrow> json \<Rightarrow> pyfloat \<Rightarrow> ('w lch, unit) fprog" where
  "await_display H fuel display deadline =
     (\<lambda>s. repeat_until fuel (pass_of (display_pass H display deadline)) ((), s))"

definition retain_identity :: "'w station \<Rightarrow> launch_args \<Rightarrow> json \<Rightarrow> ('w, unit) launch" where
  "retain_identity H a init =
     bindS (call_text (site_host H) RunGlxinfo) (\<lambda>graphics.
     seqS (perform (site_host H) (WriteText (out_dir a @ [''renderer.txt'']) graphics))
    (seqS (perform (site_host H) (CopyFile (share ''packages.tsv'') (out_dir a @ [''packages.tsv''])))
    (seqS (perform (site_host H) (CopyFile (share ''binaries.sha256'') (out_dir a @ [''binaries.sha256''])))
    (bindS (call_text (site_host H) (ReadText (webots_home @ [''resources'', ''version.txt'']))) (\<lambda>release.
     bindS (call (site_host H) (ReadDocument (install_dir H @ [''upstream.json'']))) (\<lambda>upstream.
     bindS (reference H (out_dir a @ [''packages.tsv''])) (\<lambda>packages.
     bindS (reference H (out_dir a @ [''binaries.sha256''])) (\<lambda>binaries.
     bindS (reference H (out_dir a @ [''renderer.txt''])) (\<lambda>renderer.
     bindS (call_int (site_host H) UserId) (\<lambda>uid.
     bindS (call_int (site_host H) GroupId) (\<lambda>gid.
     write_json H (out_dir a @ [''worker-identity.json'']) (JObj [(''owner_id'', JStr (owner_id a)),
       (''release'', JStr (strip is_space release)), (''upstream'', upstream), (''packages_ref'', packages),
       (''binaries_ref'', binaries), (''renderer_ref'', renderer), (''uid'', JInt uid), (''gid'', JInt gid),
       (''oci_init'', init)]))))))))))))"

definition simulator_command :: "'w station \<Rightarrow> json list" where
  "simulator_command H = [JStr (abs_str (webots_home @ [''webots'']))] @ map JStr [''--batch'', ''--stdout'', ''--stderr'',
     ''--no-rendering'', ''--mode=fast'', ''--port=1234''] @ [JStr (abs_str (world_path H))]"

text \<open>The numbers of the command line are shown before they are printed.\<close>

definition controller_command :: "'w station \<Rightarrow> launch_args \<Rightarrow> json list" where
  "controller_command H a = [JStr (abs_str (webots_home @ [''webots-controller''])), JStr ''--protocol=ipc'', JStr ''--port=1234'',
     JStr ''--robot-name=rr-native-probe'', JStr (abs_str (install_dir H @ [''native_controller.py''])),
     JStr ''--output'', JStr (abs_str (out_dir a)), JStr ''--owner-id'', JStr (owner_id a),
     JStr ''--world'', JStr (abs_str (world_path H)), JStr ''--mode'', JStr (mode a), JStr ''--steps'', JInt (steps a),
     JStr ''--step-ms'', JInt (step_ms a), JStr ''--deadline-seconds'', JFloat (deadline_seconds a)]
     @ (if auto_start a then [JStr ''--auto-start''] else [])
     @ (if probe_reset a then [JStr ''--probe-reset''] else [])"

text \<open>One pass of the wait for the controller, which ends with its exit code.\<close>

definition give_up :: "'w station \<Rightarrow> launch_args \<Rightarrow> json \<Rightarrow> ('w, unit) launch" where
  "give_up H a controller =
     bindS (call_bool (site_host H) Stopping) (\<lambda>stopping.
     seqS (perform (site_host H) (WriteText (out_dir a @ [''cancel'']) (if stopping then ''owner canceled'' else ''worker deadline'')))
    (seqS (catchS [ProcessLookupError] (perform (site_host H) (KillGroup controller ''SIGTERM'')) (\<lambda>_. retS ()))
    (seqS (catchS [TimeoutExpired] (perform (site_host H) (WaitFor controller)) (\<lambda>_. retS ()))
          (raiseS InterruptedError ''finite worker canceled or deadline exceeded''))))"

definition controller_pass ::
  "'w station \<Rightarrow> launch_args \<Rightarrow> json \<Rightarrow> json \<Rightarrow> pyfloat \<Rightarrow> unit \<Rightarrow> ('w, json + unit) launch" where
  "controller_pass H a simulator controller deadline _ =
     bindS (call (site_host H) (Poll controller)) (\<lambda>exit.
     if exit \<noteq> JNull then retS (Inl exit)
     else bindS (call_bool (site_host H) Stopping) (\<lambda>stopping.
          bindS (if stopping then retS True
                 else bindS (call_float (site_host H) Monotonic) (\<lambda>t. retS (fle deadline t))) (\<lambda>ended.
          seqS (if ended then give_up H a controller else retS ())
         (bindS (call (site_host H) (Poll simulator)) (\<lambda>simulated.
          seqS (refuse (simulated \<noteq> JNull) RuntimeError ''native Webots ended before its controller'')
         (seqS (perform (site_host H) Sleep) (retS (Inr ()))))))))"

definition await_controller ::
  "'w station \<Rightarrow> nat \<Rightarrow> launch_args \<Rightarrow> json \<Rightarrow> json \<Rightarrow> pyfloat \<Rightarrow> ('w lch, json) fprog" where
  "await_controller H fuel a simulator controller deadline =
     (\<lambda>s. repeat_until fuel (pass_of (controller_pass H a simulator controller deadline)) ((), s))"

section \<open>The run\<close>

definition note_evidence :: "'w station \<Rightarrow> launch_args \<Rightarrow> json \<Rightarrow> ('w, unit) launch" where
  "note_evidence H a exit =
     seqS (bindS (liftS (of_option TypeError ''integer expected'' (as_int exit))) (\<lambda>i. modifyS (\<lambda>s. s\<lparr>code := i\<rparr>)))
    (bindS (call (site_host H) (ReadDocument (out_dir a @ [''controller-result.json'']))) (\<lambda>native.
     bindS (reference H (out_dir a @ [''controller-result.json''])) (\<lambda>ref.
     seqS (note_fact ''controller_result_ref'' ref)
    (seqS (note_fact ''evidence_exported_before_stop'' (JBool True))
    (bindS (liftS (item native ''status'')) (\<lambda>outcome.
     note_fact ''status'' (if exit = JInt 0 \<and> outcome = JStr ''completed'' then JStr ''completed'' else outcome)))))))"

definition note_outcome :: "'w station \<Rightarrow> launch_args \<Rightarrow> json \<Rightarrow> json \<Rightarrow> ('w, unit) launch" where
  "note_outcome H a simulator exit =
     seqS (note_evidence H a exit)
    (seqS (note_fact ''requested_mode'' (JStr (mode a)))
    (seqS (bindS (reference H (out_dir a @ [''worker-identity.json''])) (note_fact ''worker_identity_ref''))
          (catchS [TimeoutExpired] (perform (site_host H) (WaitFor simulator)) (\<lambda>_. retS ()))))"

definition launcher_body :: "'w station \<Rightarrow> nat \<Rightarrow> launch_args \<Rightarrow> json \<Rightarrow> pyfloat \<Rightarrow> ('w lch, unit) fprog" where
  "launcher_body H fuel a init deadline =
     bindF (liftF (spawn H a ''xvfb'' display_command)) (\<lambda>display.
     seqF (await_display H fuel display deadline)
    (seqF (liftF (retain_identity H a init))
    (bindF (liftF (spawn H a ''webots'' (simulator_command H))) (\<lambda>simulator.
     bindF (liftF (spawn H a ''controller'' (controller_command H a))) (\<lambda>controller.
     bindF (await_controller H fuel a simulator controller deadline) (\<lambda>exit.
     liftF (note_outcome H a simulator exit)))))))"

definition supervised_kinds :: "exc_kind list" where
  "supervised_kinds = [OSError, RuntimeError, ValueError, CalledProcessError, TimeoutExpired]"

definition write_result :: "'w station \<Rightarrow> launch_args \<Rightarrow> string \<Rightarrow> ('w, unit) launch" where
  "write_result H a name = bindS (getS (\<lambda>s. JObj (report s))) (write_json H (out_dir a @ [name]))"

definition record_stop :: "'w station \<Rightarrow> launch_args \<Rightarrow> exc \<Rightarrow> ('w, unit) launch" where
  "record_stop H a e =
     seqS (note_fact ''diagnostic'' (JStr (describe e)))
    (seqS (note_fact ''status'' (JStr (outcome_of e)))
    (bindS (call_bool (site_host H) (Exists (out_dir a @ [''controller-result.json'']))) (\<lambda>present.
     seqS (if present
           then seqS (bindS (reference H (out_dir a @ [''controller-result.json''])) (note_fact ''controller_result_ref''))
                     (note_fact ''evidence_exported_before_stop'' (JBool True))
           else retS ())
          (write_result H a ''failure-before-stop.json''))))"

text \<open>The \<open>finally\<close> clause.\<close>

fun reap_all :: "'w station \<Rightarrow> nat \<Rightarrow> (string \<times> json) list \<Rightarrow> json list \<Rightarrow> ('w lch, json list) fprog" where
  "reap_all H fuel [] children = liftF (retS children)"
| "reap_all H fuel ((name, pid) # rest) children =
     bindF (reap H fuel pid) (\<lambda>d. reap_all H fuel rest (children @ [JObj ((''name'', JStr name) # d)]))"

fun is_reaped :: "json \<Rightarrow> bool" where
  "is_reaped (JObj d) = truthy (dget d ''reaped'')"
| "is_reaped _ = False"

definition note_children :: "'w station \<Rightarrow> launch_args \<Rightarrow> json list \<Rightarrow> ('w, unit) launch" where
  "note_children H a children =
     seqS (bindS (getS streams) (forS (\<lambda>name. perform (site_host H) (CloseLog (out_dir a @ [name @ ''.log''])))))
    (seqS (note_fact ''children'' (JList children))
    (seqS (note_fact ''processes_reaped'' (JBool (list_all is_reaped children)))
    (seqS (if list_all is_reaped children then retS ()
           else seqS (note_fact ''status'' (JStr ''error''))
                     (note_fact ''diagnostic'' (JStr ''registered process group remains after bounded cleanup'')))
    (bindS (getS processes) (\<lambda>ps.
     bindS (mapS (\<lambda>p. reference H (out_dir a @ [fst p @ ''.log''])) ps) (\<lambda>refs.
     seqS (note_fact ''log_refs'' (JList refs))
          (write_result H a ''worker-result.json'')))))))"

definition clean_up :: "'w station \<Rightarrow> nat \<Rightarrow> launch_args \<Rightarrow> ('w lch, unit) fprog" where
  "clean_up H fuel a =
     bindF (liftF (getS processes)) (\<lambda>ps.
     bindF (reap_all H fuel (rev ps) []) (\<lambda>children.
     liftF (note_children H a children)))"

definition run_worker :: "'w station \<Rightarrow> nat \<Rightarrow> launch_args \<Rightarrow> ('w lch, int) fprog" where
  "run_worker H fuel a =
     bindF (liftF (set_up H a)) (\<lambda>(init, deadline).
     seqF (finally_onF (catch_onF supervised_kinds (launcher_body H fuel a init deadline) (record_stop H a)) (clean_up H fuel a))
          (liftF (getS (\<lambda>s. if dget (report s) ''status'' = JStr ''completed'' then code s else 1))))"

definition launcher_main :: "'w station \<Rightarrow> nat \<Rightarrow> launch_args \<Rightarrow> ('w lch, int) fprog" where
  "launcher_main H fuel a =
     seqF (liftF (refuse (\<not> owner_ok a) ValueError ''owner identity is invalid''))
          (if operation a \<noteq> ''run'' then liftF (leave_marker H a) else run_worker H fuel a)"

definition new_lch :: "'w \<Rightarrow> 'w lch" where
  "new_lch w = \<lparr>outside = w, asked = [], report = [], processes = [], streams = [], code = 1\<rparr>"

section \<open>Facts\<close>

lemma touches_groups [keeps]:
  "touches K (group_exists H pid)" "touches K (send_signal H pid sig)" "touches K (gone_pass H pid deadline u)"
  by (auto simp: group_exists_def send_signal_def gone_pass_def intro!: keeps)

lemma touchesF_terminate [keeps]: "touchesF K (terminate H fuel pid sigs sent)"
  by (induction sigs arbitrary: sent) (auto simp: await_gone_def intro!: keeps)

lemma touchesF_reap [keeps]: "touchesF K (reap H fuel pid)"
  unfolding reap_def by (intro keeps)

lemma touchesF_reap_all [keeps]: "touchesF K (reap_all H fuel ps children)"
proof (induction ps arbitrary: children)
  case (Cons p ps)
  then show ?case by (cases p) (auto intro!: keeps)
qed (auto intro!: keeps)

lemma touches_passes [keeps]:
  "touches K (display_pass H display deadline u)" "touches K (controller_pass H a simulator controller deadline u)"
  "touches K (retain_identity H a init)" "touches K (write_result H a name)"
  by (auto simp: display_pass_def controller_pass_def give_up_def retain_identity_def write_result_def intro!: keeps)

lemma touchesF_waits [keeps]:
  "touchesF K (await_display H fuel display deadline)"
  "touchesF K (await_controller H fuel a simulator controller deadline)"
  unfolding await_display_def await_controller_def by (intro keeps)+

lemma adds_groups [keeps]:
  "adds anything (group_exists H pid)" "adds anything (send_signal H pid sig)" "adds anything (gone_pass H pid deadline u)"
  by (auto simp: group_exists_def send_signal_def gone_pass_def intro!: keeps)

lemma addsF_terminate [keeps]: "addsF anything (terminate H fuel pid sigs sent)"
  by (induction sigs arbitrary: sent) (auto simp: await_gone_def intro!: keeps)

lemma addsF_reap [keeps]: "addsF anything (reap H fuel pid)"
  unfolding reap_def by (intro keeps TrueI)

lemma addsF_reap_all [keeps]: "addsF anything (reap_all H fuel ps children)"
proof (induction ps arbitrary: children)
  case (Cons p ps)
  then show ?case by (cases p) (auto intro!: keeps)
qed (auto intro!: keeps)

lemma adds_note_children [keeps]: "adds anything (write_result H a name)" "adds anything (note_children H a children)"
  by (auto simp: note_children_def write_result_def intro!: keeps)

lemma adds_note_outcome [keeps]: "adds anything (note_outcome H a simulator exit)"
  by (auto simp: note_outcome_def note_evidence_def intro!: keeps)

section \<open>Reaping\<close>

text \<open>The operating system answered that there is no such group.\<close>

definition gone :: "(webcall, 'w, 'z) desk_scheme \<Rightarrow> json \<Rightarrow> bool" where
  "gone s pid \<longleftrightarrow> (\<exists>e. exc_kind e = ProcessLookupError \<and> (KillGroup pid ''0'', Inl e) \<in> set (asked s))"

lemma gone_later: "later s t \<Longrightarrow> gone s pid \<Longrightarrow> gone t pid"
  by (auto simp: gone_def later_def)

lemma group_exists_False:
  assumes "group_exists H pid s = (Inr False, t)"
  shows "gone t pid"
proof -
  obtain r w where "site_host H (KillGroup pid ''0'') (outside s) = (r, w)" by fastforce
  with assms show ?thesis
    by (cases r) (auto simp: group_exists_def catchS_def perform_def call_def seqS_def bindS_def retS_def gone_def
        is_subclass_def split: if_splits)
qed

text \<open>The entry of a process in the result of the worker.\<close>

definition child_of :: "(webcall, 'w, 'z) desk_scheme \<Rightarrow> string \<times> json \<Rightarrow> json \<Rightarrow> bool" where
  "child_of s p v \<longleftrightarrow> (\<exists>exit signals absent. v = JObj ((''name'', JStr (fst p)) # child_report (snd p) exit signals absent) \<and>
     answered s (Poll (snd p)) exit \<and> (absent \<longrightarrow> gone s (snd p)))"

lemma child_of_later: "later s t \<Longrightarrow> child_of s p v \<Longrightarrow> child_of t p v"
  unfolding child_of_def by (elim exE conjE) (intro exI conjI impI, assumption, auto dest: gone_later later_answered)

lemma reap_ok:
  assumes "reap H fuel pid s = Some (Inr d, t)"
  shows "child_of t (name, pid) (JObj ((''name'', JStr name) # d))"
proof -
  from assms obtain signals u exit v present where run: "call (site_host H) (Poll pid) u = (Inr exit, v)"
      "group_exists H pid v = (Inr present, t)" "d = child_report pid exit signals (\<not> present)"
    by (auto simp: reap_def ok_iff)
  have "answered v (Poll pid) exit" using run(1) by (auto simp: call_run answered_def)
  moreover have "later v t" by (rule later_run [OF adds_groups(1) run(2)])
  moreover have "\<not> present \<longrightarrow> gone t pid" using group_exists_False run(2) by auto
  ultimately show ?thesis
    unfolding child_of_def run(3) using later_answered by fastforce
qed

lemma reap_all_ok:
  assumes "reap_all H fuel ps children s = Some (Inr cs, t)"
  shows "\<exists>new. cs = children @ new \<and> list_all2 (child_of t) ps new"
  using assms
proof (induction ps arbitrary: children s)
  case (Cons p ps)
  obtain name pid where p: "p = (name, pid)" by fastforce
  with Cons.prems obtain d u where run: "reap H fuel pid s = Some (Inr d, u)"
      "reap_all H fuel ps (children @ [JObj ((''name'', JStr name) # d)]) u = Some (Inr cs, t)"
    by (auto simp: ok_iff)
  from later_runF [OF addsF_reap_all run(2)] reap_ok [OF run(1)]
  have "child_of t p (JObj ((''name'', JStr name) # d))" unfolding p by (rule child_of_later)
  with Cons.IH [OF run(2)] show ?case by auto
qed (simp add: ok_iff)

section \<open>A run that returns\<close>

lemma lch_more:
  assumes "keeper.more s = keeper.more t"
  shows "processes s = processes (t :: 'w lch)" "streams s = streams t" "code s = code t"
  using assms by (cases s; cases t; simp)+

lemma spawn_ok:
  assumes "spawn H a name command s = (Inr pid, t)"
  shows "processes t = processes s @ [(name, pid)]" "report t = report s" "answered t (Spawn name command) pid"
  using assms by (auto simp: spawn_def ok_iff call_run answered_def)

lemma note_evidence_ok:
  assumes "note_evidence H a exit s = (Inr u, t)"
  shows "exit = JInt (code t)" "processes t = processes s"
    "\<exists>native outcome. answered t (ReadDocument (out_dir a @ [''controller-result.json''])) native \<and>
       item native ''status'' = Inr outcome \<and>
       map_of (report t) ''status'' = Some (if exit = JInt 0 \<and> outcome = JStr ''completed'' then JStr ''completed'' else outcome)"
    "map_of (report t) ''evidence_exported_before_stop'' = Some (JBool True)"
proof -
  let ?read = "ReadDocument (out_dir a @ [''controller-result.json''])"
  from assms obtain i native v ref w outcome where run: "exit = JInt i" "call (site_host H) ?read (s\<lparr>code := i\<rparr>) = (Inr native, v)"
      "reference H (out_dir a @ [''controller-result.json'']) v = (Inr ref, w)" "item native ''status'' = Inr outcome"
      "t = w\<lparr>report := dset ''status'' (if exit = JInt 0 \<and> outcome = JStr ''completed'' then JStr ''completed'' else outcome)
         (dset ''evidence_exported_before_stop'' (JBool True) (dset ''controller_result_ref'' ref (report w)))\<rparr>"
    by (auto simp: note_evidence_def ok_iff)
  have "keeper.more w = keeper.more v" 
    by (rule touchesD(2) [where K = "{}", OF touches_shared(3) run(3)])
  with run(2) have "code w = i" "processes w = processes s"
    using lch_more [of w v] by (auto simp: call_run)
  then show "exit = JInt (code t)" "processes t = processes s" by (simp_all add: run(1,5))
  have "later v w" by (rule later_run [OF adds_any(2) run(3)])
  moreover have "answered v ?read native" using run(2) by (auto simp: call_run answered_def)
  ultimately have "answered w ?read native" by (rule later_answered)
  then have "answered t ?read native" by (simp add: run(5) answered_def)
  with run(4) show "\<exists>native outcome. answered t (ReadDocument (out_dir a @ [''controller-result.json''])) native \<and>
       item native ''status'' = Inr outcome \<and>
       map_of (report t) ''status'' = Some (if exit = JInt 0 \<and> outcome = JStr ''completed'' then JStr ''completed'' else outcome)"
    by (intro exI [of _ native] exI [of _ outcome]) (simp add: run(5) update_conv')
  show "map_of (report t) ''evidence_exported_before_stop'' = Some (JBool True)"
    by (simp add: run(5) update_conv')
qed

text \<open>
  The comparison of the exit code decides nothing: the status of the result is the status the
  controller exported, also when the controller ended with another code than 0.
\<close>

lemma status_ignores_the_exit_code:
  assumes "note_evidence H a exit s = (Inr u, t)"
  shows "\<exists>native outcome. answered t (ReadDocument (out_dir a @ [''controller-result.json''])) native \<and>
    item native ''status'' = Inr outcome \<and> map_of (report t) ''status'' = Some outcome"
  using note_evidence_ok(3) [OF assms] by auto

text \<open>What a run that ends with 0 has found in the exported result.\<close>

definition exported :: "launch_args \<Rightarrow> 'w lch \<Rightarrow> bool" where
  "exported a s \<longleftrightarrow> map_of (report s) ''evidence_exported_before_stop'' = Some (JBool True) \<and>
     (\<exists>native. answered s (ReadDocument (out_dir a @ [''controller-result.json''])) native \<and>
        item native ''status'' = Inr (JStr ''completed''))"

lemma note_outcome_ok:
  assumes "note_outcome H a simulator exit s = (Inr u, t)"
  shows "exit = JInt (code t)" "processes t = processes s" 
    "map_of (report t) ''status'' = Some (JStr ''completed'') \<Longrightarrow> exported a t"
proof -
  let ?tail = "seqS (note_fact ''requested_mode'' (JStr (mode a)))
    (seqS (bindS (reference H (out_dir a @ [''worker-identity.json''])) (note_fact ''worker_identity_ref''))
          (catchS [TimeoutExpired] (perform (site_host H) (WaitFor simulator)) (\<lambda>_. retS ())))"
  from assms obtain v where run: "note_evidence H a exit s = (Inr (), v)" "?tail v = (Inr (), t)"
    unfolding note_outcome_def seqS_ok [of "note_evidence H a exit"] by auto
  have tail: "touches {''requested_mode'', ''worker_identity_ref''} ?tail" by (auto intro!: keeps)
  have "adds anything ?tail" by (auto intro!: keeps)
  from later_run [OF this run(2)] have later: "later v t" .
  note evidence = note_evidence_ok [OF run(1)]
  show "exit = JInt (code t)" "processes t = processes s"
    using lch_more [OF touchesD(2) [OF tail run(2)]] evidence(1,2) by simp_all
  assume "map_of (report t) ''status'' = Some (JStr ''completed'')"
  with touchesD(1) [OF tail run(2)] evidence(3,4) later show "exported a t"
    by (auto simp: exported_def split: if_splits intro: later_answered)
qed

lemma record_stop_ok:
  assumes "record_stop H a e s = (r, t)"
  shows "is_ok r \<Longrightarrow> map_of (report t) ''status'' = Some (JStr (outcome_of e))" "keeper.more t = keeper.more s"
proof -
  let ?tail = "bindS (call_bool (site_host H) (Exists (out_dir a @ [''controller-result.json'']))) (\<lambda>present.
     seqS (if present
           then seqS (bindS (reference H (out_dir a @ [''controller-result.json''])) (note_fact ''controller_result_ref''))
                     (note_fact ''evidence_exported_before_stop'' (JBool True))
           else retS ())
          (write_result H a ''failure-before-stop.json''))"
  have tail: "touches {''controller_result_ref'', ''evidence_exported_before_stop''} ?tail" by (auto intro!: keeps)
  let ?s = "s\<lparr>report := dset ''status'' (JStr (outcome_of e)) (dset ''diagnostic'' (JStr (describe e)) (report s))\<rparr>"
  from assms have run: "?tail ?s = (r, t)" by (simp add: record_stop_def note_fact_def)
  from touchesD(1) [OF tail run, of "''status''"] touchesD(2) [OF tail run]
  show "map_of (report t) ''status'' = Some (JStr (outcome_of e))" "keeper.more t = keeper.more s"
    by (simp_all add: update_conv')
qed

lemma write_result_ok:
  assumes "write_result H a name s = (Inr u, t)"
  shows "report t = report s" "keeper.more t = keeper.more s" "wrote t (out_dir a @ [name]) (JObj (report t))"
    "\<exists>c x. asked t = asked s @ c @ [x] \<and> fst x = Replace (temporary (out_dir a @ [name])) (out_dir a @ [name])"
proof -
  from assms have run: "write_json H (out_dir a @ [name]) (JObj (report s)) s = (Inr u, t)" by (simp add: write_result_def)
  then show "report t = report s" by (auto simp: write_json_def ok_iff call_run)
  with write_json_ok(2) [OF run] show "wrote t (out_dir a @ [name]) (JObj (report t))" by simp
  show "keeper.more t = keeper.more s" by (rule touchesD(2) [where K = "{}", OF touches_passes(4) assms])
  from run show "\<exists>c x. asked t = asked s @ c @ [x] \<and> fst x = Replace (temporary (out_dir a @ [name])) (out_dir a @ [name])"
    by (auto simp: write_json_def ok_iff call_run)
qed

text \<open>The result of the worker, written by the last call.\<close>

definition result_written :: "launch_args \<Rightarrow> 'w lch \<Rightarrow> bool" where
  "result_written a s \<longleftrightarrow> wrote s (out_dir a @ [''worker-result.json'']) (JObj (report s)) \<and> asked s \<noteq> [] \<and>
     fst (last (asked s)) = Replace (temporary (out_dir a @ [''worker-result.json''])) (out_dir a @ [''worker-result.json''])"

lemma note_children_ok:
  assumes "note_children H a children s = (Inr u, t)"
  shows "map_of (report t) ''children'' = Some (JList children)"
    "map_of (report t) ''processes_reaped'' = Some (JBool (list_all is_reaped children))"
    "map_of (report t) ''status'' = (if list_all is_reaped children then map_of (report s) ''status'' else Some (JStr ''error''))"
    "map_of (report t) ''evidence_exported_before_stop'' = map_of (report s) ''evidence_exported_before_stop''"
    "keeper.more t = keeper.more s" "result_written a t"
proof -
  define logs :: "('a, unit) launch"
    where "logs = bindS (getS streams) (forS (\<lambda>name. perform (site_host H) (CloseLog (out_dir a @ [name @ ''.log'']))))"
  define verdict :: "('a, unit) launch" where "verdict = (if list_all is_reaped children then retS ()
     else seqS (note_fact ''status'' (JStr ''error''))
          (note_fact ''diagnostic'' (JStr ''registered process group remains after bounded cleanup'')))"
  define refer :: "('a, json list) launch"
    where "refer = bindS (getS processes) (mapS (\<lambda>p. reference H (out_dir a @ [fst p @ ''.log''])))"
  let ?noted = "\<lambda>s1. s1\<lparr>report := dset ''processes_reaped'' (JBool (list_all is_reaped children)) (dset ''children'' (JList children) (report s1))\<rparr>"
  have parts: "note_children H a children = seqS logs (seqS (note_fact ''children'' (JList children))
    (seqS (note_fact ''processes_reaped'' (JBool (list_all is_reaped children))) (seqS verdict
    (bindS refer (\<lambda>refs. seqS (note_fact ''log_refs'' (JList refs)) (write_result H a ''worker-result.json''))))))"
    by (simp add: note_children_def logs_def verdict_def refer_def fun_eq_iff seqS_def bindS_def getS_def split: prod.split sum.split)
  from assms obtain s1 s2 refs s3 where run: "logs s = (Inr (), s1)" "verdict (?noted s1) = (Inr (), s2)" "refer s2 = (Inr refs, s3)"
      "write_result H a ''worker-result.json'' (s3\<lparr>report := dset ''log_refs'' (JList refs) (report s3)\<rparr>) = (Inr (), t)"
    unfolding parts by (auto simp: ok_iff)
  have touches: "touches {} logs" "touches {''status'', ''diagnostic''} verdict" "touches {} refer"
    by (auto simp: logs_def verdict_def refer_def intro!: keeps)
  have verdict: "map_of (report s2) ''status'' = (if list_all is_reaped children then map_of (report s) ''status'' else Some (JStr ''error''))"
    using run(2) touchesD(1) [OF touches(1) run(1), of "''status''"]
    by (auto simp: verdict_def ok_iff update_conv')
  show "map_of (report t) ''children'' = Some (JList children)"
    "map_of (report t) ''processes_reaped'' = Some (JBool (list_all is_reaped children))"
    "map_of (report t) ''status'' = (if list_all is_reaped children then map_of (report s) ''status'' else Some (JStr ''error''))"
    "map_of (report t) ''evidence_exported_before_stop'' = map_of (report s) ''evidence_exported_before_stop''"
    using verdict touchesD(1) [OF touches(1) run(1)] touchesD(1) [OF touches(2) run(2)] touchesD(1) [OF touches(3) run(3)]
    by (simp_all add: write_result_ok(1) [OF run(4)] update_conv')
  show "keeper.more t = keeper.more s"
    using touchesD(2) [OF touches(1) run(1)] touchesD(2) [OF touches(2) run(2)] touchesD(2) [OF touches(3) run(3)]
    by (simp add: write_result_ok(2) [OF run(4)])
  show "result_written a t"
    using write_result_ok(3,4) [OF run(4)] by (auto simp: result_written_def)
qed

lemma controller_pass_ends:
  assumes "controller_pass H a simulator controller deadline l s = (Inr (Inl exit), t)"
  shows "answered t (Poll controller) exit"
proof -
  from assms obtain x u where run: "call (site_host H) (Poll controller) s = (Inr x, u)"
      "(if x \<noteq> JNull then retS (Inl x)
        else bindS (call_bool (site_host H) Stopping) (\<lambda>stopping.
          bindS (if stopping then retS True
                 else bindS (call_float (site_host H) Monotonic) (\<lambda>t. retS (fle deadline t))) (\<lambda>ended.
          seqS (if ended then give_up H a controller else retS ())
         (bindS (call (site_host H) (Poll simulator)) (\<lambda>simulated.
          seqS (refuse (simulated \<noteq> JNull) RuntimeError ''native Webots ended before its controller'')
         (seqS (perform (site_host H) Sleep) (retS (Inr ())))))))) u = (Inr (Inl exit), t)"
    unfolding controller_pass_def bindS_ok [of "call (site_host H) (Poll controller)"] by blast
  then have "x = exit \<and> u = t"
    by (cases "x = JNull") (simp_all add: ok_iff)
  with run(1) show ?thesis by (auto simp: call_run answered_def)
qed

lemma await_controller_ok:
  assumes "await_controller H fuel a simulator controller deadline s = Some (Inr exit, t)"
  shows "answered t (Poll controller) exit"
  using repeat_until_last [OF assms [unfolded await_controller_def], of "\<lambda>_. True"] controller_pass_ends
  by (metis old.prod.exhaust pass_of_ok(1))

lemma clean_up_ok:
  assumes "clean_up H fuel a s = Some (Inr u, t)"
  obtains cs where "map_of (report t) ''children'' = Some (JList cs)" "list_all2 (child_of t) (rev (processes t)) cs"
    "map_of (report t) ''processes_reaped'' = Some (JBool (list_all is_reaped cs))"
    "map_of (report t) ''status'' = (if list_all is_reaped cs then map_of (report s) ''status'' else Some (JStr ''error''))"
    "map_of (report t) ''evidence_exported_before_stop'' = map_of (report s) ''evidence_exported_before_stop''"
    "keeper.more t = keeper.more s" "result_written a t" "later s t"
proof -
  from assms obtain cs v where run: "reap_all H fuel (rev (processes s)) [] s = Some (Inr cs, v)"
      "note_children H a cs v = (Inr (), t)"
    by (auto simp: clean_up_def ok_iff)
  note reaped = touchesFD [OF touchesF_reap_all [where K = "{}"] run(1)] and noted = note_children_ok [OF run(2)]
  have later: "later v t" by (rule later_run [OF adds_note_children(2) run(2)])
  have "later s t" by (rule later_trans [OF later_runF [OF addsF_reap_all run(1)] later])
  moreover have "processes t = processes s" using lch_more(1) reaped(2) noted(5) by metis
  moreover have "list_all2 (child_of v) (rev (processes s)) cs" using reap_all_ok [OF run(1)] by simp
  then have "list_all2 (child_of t) (rev (processes s)) cs"
    by (rule list_all2_mono) (rule child_of_later [OF later])
  ultimately show ?thesis
    by (intro that [of cs]) (simp_all add: noted reaped)
qed

text \<open>Every process has its entry, in the reverse of the order in which the processes were started.\<close>

definition every_child_reported :: "'w lch \<Rightarrow> bool" where
  "every_child_reported s \<longleftrightarrow> (\<exists>cs. map_of (report s) ''children'' = Some (JList cs) \<and>
     list_all2 (child_of s) (rev (processes s)) cs \<and>
     map_of (report s) ''processes_reaped'' = Some (JBool (list_all is_reaped cs)))"

text \<open>
  What exit code 0 means: the result says so, the three processes were started, the controller ended
  with 0 and exported a completed result, and the operating system reported every group as gone.
\<close>

definition completed_worker :: "launch_args \<Rightarrow> 'w lch \<Rightarrow> bool" where
  "completed_worker a s \<longleftrightarrow> map_of (report s) ''status'' = Some (JStr ''completed'') \<and>
     map_of (report s) ''processes_reaped'' = Some (JBool True) \<and> exported a s \<and>
     (\<exists>display simulator controller. processes s = [(''xvfb'', display), (''webots'', simulator), (''controller'', controller)] \<and>
        answered s (Poll controller) (JInt 0)) \<and>
     (\<forall>p \<in> set (processes s). gone s (snd p))"

lemma child_of_reaped: "child_of s p v \<Longrightarrow> is_reaped v \<Longrightarrow> gone s (snd p)"
  by (auto simp: child_of_def child_report_def dget_def)

lemma all_gone:
  assumes "list_all2 (child_of s) (rev ps) cs" "list_all is_reaped cs"
  shows "\<forall>p \<in> set ps. gone s (snd p)"
proof
  fix p assume "p \<in> set ps"
  then obtain i where "i < length (rev ps)" "rev ps ! i = p" by (metis in_set_conv_nth set_rev)
  with assms show "gone s (snd p)"
    by (metis child_of_reaped list_all2_conv_all_nth list_all_length)
qed

lemma set_up_ok:
  assumes "set_up H a s = (Inr (init, deadline), t)"
  shows "report t = initial_result a" "processes t = []" "code t = 1"
  using assms by (auto simp: set_up_def ok_iff call_float_def call_run)

lemma launcher_body_ok:
  assumes "launcher_body H fuel a init deadline s = Some (Inr u, t)" "processes s = []"
  shows "\<exists>display simulator controller. processes t = [(''xvfb'', display), (''webots'', simulator), (''controller'', controller)] \<and>
      answered t (Poll controller) (JInt (code t))"
    "map_of (report t) ''status'' = Some (JStr ''completed'') \<Longrightarrow> exported a t"
proof -
  from assms(1) obtain display s1 s2 s3 simulator s4 controller s5 exit s6 where run:
      "spawn H a ''xvfb'' display_command s = (Inr display, s1)" "await_display H fuel display deadline s1 = Some (Inr (), s2)"
      "retain_identity H a init s2 = (Inr (), s3)" "spawn H a ''webots'' (simulator_command H) s3 = (Inr simulator, s4)"
      "spawn H a ''controller'' (controller_command H a) s4 = (Inr controller, s5)"
      "await_controller H fuel a simulator controller deadline s5 = Some (Inr exit, s6)"
      "note_outcome H a simulator exit s6 = (Inr (), t)"
    by (auto simp: launcher_body_def ok_iff)
  have "processes s2 = processes s1" "processes s3 = processes s2" "processes s6 = processes s5"
    using lch_more(1) touchesFD(2) [OF touchesF_waits(1) run(2)] touchesD(2) [OF touches_passes(3) run(3)]
      touchesFD(2) [OF touchesF_waits(2) run(6)] by blast+
  with spawn_ok(1) [OF run(1)] spawn_ok(1) [OF run(4)] spawn_ok(1) [OF run(5)] note_outcome_ok(2) [OF run(7)] assms(2)
  have "processes t = [(''xvfb'', display), (''webots'', simulator), (''controller'', controller)]" by simp
  moreover have "answered t (Poll controller) exit"
    by (rule later_answered [OF later_run [OF adds_note_outcome run(7)] await_controller_ok [OF run(6)]])
  ultimately show "\<exists>display simulator controller. processes t = [(''xvfb'', display), (''webots'', simulator), (''controller'', controller)] \<and>
      answered t (Poll controller) (JInt (code t))"
    using note_outcome_ok(1) [OF run(7)] by simp
  show "map_of (report t) ''status'' = Some (JStr ''completed'') \<Longrightarrow> exported a t"
    by (rule note_outcome_ok(3) [OF run(7)])
qed

lemma outcome_not_completed: "outcome_of e \<noteq> ''completed''"
  by (simp add: outcome_of_def)

lemma run_worker_ok:
  assumes "run_worker H fuel a s = Some (Inr c, t)"
  shows "result_written a t" "every_child_reported t" "c = 0 \<Longrightarrow> completed_worker a t"
proof -
  from assms obtain init deadline s1 u where start: "set_up H a s = (Inr (init, deadline), s1)"
      "finally_onF (catch_onF supervised_kinds (launcher_body H fuel a init deadline) (record_stop H a)) (clean_up H fuel a) s1 = Some (Inr u, t)"
      and c: "c = (if dget (report t) ''status'' = JStr ''completed'' then code t else 1)"
    by (auto simp: run_worker_def ok_iff)
  from start(2) obtain r1 v r2 where run: "catch_onF supervised_kinds (launcher_body H fuel a init deadline) (record_stop H a) s1 = Some (r1, v)"
      "clean_up H fuel a v = Some (r2, t)" "is_ok r2 \<longrightarrow> Inr u = r1" "is_ok (Inr u :: unit res) \<longrightarrow> is_ok r2"
    by (rule finally_onF_run)
  then have body: "catch_onF supervised_kinds (launcher_body H fuel a init deadline) (record_stop H a) s1 = Some (Inr u, v)"
    and clean: "clean_up H fuel a v = Some (Inr (), t)"
    by (auto simp: is_ok_iff)
  from clean obtain cs where ended: "map_of (report t) ''children'' = Some (JList cs)" "list_all2 (child_of t) (rev (processes t)) cs"
    "map_of (report t) ''processes_reaped'' = Some (JBool (list_all is_reaped cs))"
    "map_of (report t) ''status'' = (if list_all is_reaped cs then map_of (report v) ''status'' else Some (JStr ''error''))"
    "map_of (report t) ''evidence_exported_before_stop'' = map_of (report v) ''evidence_exported_before_stop''"
    "keeper.more t = keeper.more v" "result_written a t" "later v t"
    by (rule clean_up_ok)
  show "result_written a t" by (rule ended(7))
  show "every_child_reported t" unfolding every_child_reported_def using ended(1-3) by blast
  assume "c = 0"
  with c have status: "map_of (report t) ''status'' = Some (JStr ''completed'')" and zero: "code t = 0"
    by (auto simp: dget_def split: if_splits option.splits)
  from status ended(4) have reaped: "list_all is_reaped cs" and completed: "map_of (report v) ''status'' = Some (JStr ''completed'')"
    by (auto split: if_splits)
  have ok: "launcher_body H fuel a init deadline s1 = Some (Inr u, v)"
  proof (rule ccontr)
    assume "launcher_body H fuel a init deadline s1 \<noteq> Some (Inr u, v)"
    with body obtain e w where "record_stop H a e w = (Inr u, v)" by (auto simp: catch_onF_ok)
    from record_stop_ok(1) [OF this] completed outcome_not_completed [of e] show False by simp
  qed
  note finished = launcher_body_ok [OF ok set_up_ok(2) [OF start(1)]]
  from finished(2) [OF completed] ended(5,8) have "exported a t"
    unfolding exported_def using later_answered [OF ended(8)] by auto
  moreover from finished(1) obtain display simulator controller where
      "processes v = [(''xvfb'', display), (''webots'', simulator), (''controller'', controller)]"
      "answered v (Poll controller) (JInt (code v))" by blast
  with lch_more(1,3) [OF ended(6)] zero ended(8) later_answered
  have "processes t = [(''xvfb'', display), (''webots'', simulator), (''controller'', controller)]"
      "answered t (Poll controller) (JInt 0)" by metis+
  ultimately show "completed_worker a t"
    unfolding completed_worker_def using status ended(3) reaped all_gone [OF ended(2) reaped] by simp
qed

text \<open>
  C7: When a worker returns, its result was written by the last call and has one entry for each
  process it started, in reverse order, with the exit code that was polled and an absence that the
  operating system reported. Exit code 0 means in addition that the display, the simulator and the
  controller were started, the controller ended with 0 and exported a completed result, and all three
  process groups are gone.
\<close>

theorem completed_worker_is_reaped:
  assumes "launcher_main H fuel a (new_lch w) = Some (Inr c, t)" and "operation a = ''run''"
  shows "result_written a t \<and> every_child_reported t \<and> (c \<noteq> 0 \<or> completed_worker a t)"
proof -
  from assms have "run_worker H fuel a (new_lch w) = Some (Inr c, t)" by (auto simp: launcher_main_def ok_iff)
  with run_worker_ok show ?thesis by blast
qed

section \<open>Every run ends\<close>

lemma forward_groups [keeps]:
  assumes "ticking (site_host H) time d"
  shows "forward (desk_clock time) (group_exists H pid)"
  using assms by (auto simp: group_exists_def intro!: keeps)

lemma gone_pass_goes_on:
  assumes pass: "passing (site_host H) time d deadline b" and run: "gone_pass H pid deadline l s = (Inr (Inr l'), s')"
  shows "desk_clock time s < b \<and> desk_clock time s + d \<le> desk_clock time s'"
proof -
  note clock = passingD(1) [OF pass] and late = passingD(2) [OF pass]
  from run obtain s1 t s2 x s3 where parts: "group_exists H pid s = (Inr True, s1)"
      "call_float (site_host H) Monotonic s1 = (Inr t, s2)" "flt t deadline"
      "perform (site_host H) (Poll pid) s2 = (Inr x, s3)" "perform (site_host H) Sleep s3 = (Inr (), s')"
    by (auto simp: gone_pass_def bindS_ok seqS_ok pure_ok split: if_splits)
  note steps = forwardD [OF forward_groups [OF clock] parts(1)] forwardD [OF forward_calls(5) [OF clock] parts(2)]
    forwardD [OF forward_calls(1) [OF clock] parts(4)]
  have "\<not> fle deadline t" using parts(3) flt_asym by (auto simp: fle_def feq_def)
  with late read_clock [OF clock parts(2)] have "desk_clock time s1 < b" by (metis linorder_not_less)
  with steps sleep_moves [OF clock parts(5)] show ?thesis by linarith
qed

lemma display_pass_goes_on:
  assumes pass: "passing (site_host H) time d deadline b" and run: "display_pass H display deadline l s = (Inr (Inr l'), s')"
  shows "desk_clock time s < b \<and> desk_clock time s + d \<le> desk_clock time s'"
proof -
  note clock = passingD(1) [OF pass] and late = passingD(2) [OF pass]
  from run obtain s1 s2 t s3 s4 where parts: "call_bool (site_host H) (Exists [''tmp'', ''.X11-unix'', ''X99'']) s = (Inr False, s1)"
      "call (site_host H) (Poll display) s1 = (Inr JNull, s2)"
      "call_float (site_host H) Monotonic s2 = (Inr t, s3)" "\<not> fle deadline t"
      "call_bool (site_host H) Stopping s3 = (Inr False, s4)" "perform (site_host H) Sleep s4 = (Inr (), s')"
    by (auto simp: display_pass_def bindS_ok seqS_ok pure_ok refused_ok split: if_splits)
  note steps = forwardD [OF forward_calls(3) [OF clock] parts(1)] forwardD [OF forward_desk_call [OF clock] parts(2)]
    forwardD [OF forward_calls(5) [OF clock] parts(3)] forwardD [OF forward_calls(3) [OF clock] parts(5)]
  from parts(4) late read_clock [OF clock parts(3)] have "desk_clock time s2 < b" by (metis linorder_not_less)
  with steps sleep_moves [OF clock parts(6)] show ?thesis by linarith
qed

lemma controller_pass_goes_on:
  assumes pass: "passing (site_host H) time d deadline b"
    and run: "controller_pass H a simulator controller deadline l s = (Inr (Inr l'), s')"
  shows "desk_clock time s < b \<and> desk_clock time s + d \<le> desk_clock time s'"
proof -
  note clock = passingD(1) [OF pass] and late = passingD(2) [OF pass]
  have "give_up H a controller u \<noteq> (Inr x, v)" for u x v
    by (auto simp: give_up_def bindS_ok seqS_ok pure_ok)
  with run obtain s1 s2 t s3 s4 where parts: "call (site_host H) (Poll controller) s = (Inr JNull, s1)"
      "call_bool (site_host H) Stopping s1 = (Inr False, s2)"
      "call_float (site_host H) Monotonic s2 = (Inr t, s3)" "\<not> fle deadline t"
      "call (site_host H) (Poll simulator) s3 = (Inr JNull, s4)" "perform (site_host H) Sleep s4 = (Inr (), s')"
    by (auto simp: controller_pass_def bindS_ok seqS_ok pure_ok refused_ok split: if_splits)
  note steps = forwardD [OF forward_desk_call [OF clock] parts(1)] forwardD [OF forward_calls(3) [OF clock] parts(2)]
    forwardD [OF forward_calls(5) [OF clock] parts(3)] forwardD [OF forward_desk_call [OF clock] parts(5)]
  from parts(4) late read_clock [OF clock parts(3)] have "desk_clock time s2 < b" by (metis linorder_not_less)
  with steps sleep_moves [OF clock parts(6)] show ?thesis by linarith
qed

interpretation gone_wait: deadline_wait "gone_pass H pid deadline" "desk_clock time" b d
    "passing (site_host H) time d deadline b"
  for H :: "'w station" and pid deadline time b d
  by unfold_locales (use gone_pass_goes_on in blast, rule passingD(3))

interpretation display_wait: deadline_wait "display_pass H display deadline" "desk_clock time" b d
    "passing (site_host H) time d deadline b"
  for H :: "'w station" and display deadline time b d
  by unfold_locales (use display_pass_goes_on in blast, rule passingD(3))

interpretation controller_wait: deadline_wait "controller_pass H a simulator controller deadline" "desk_clock time" b d
    "passing (site_host H) time d deadline b"
  for H :: "'w station" and a simulator controller deadline time b d
  by unfold_locales (use controller_pass_goes_on in blast, rule passingD(3))

text \<open>Each wait ends, for a deadline that is a number.\<close>

lemma waits_settle:
  assumes clock: "ticking (site_host H) time d" and "deadline \<noteq> NaN"
  shows "settles (\<lambda>fuel. await_gone H fuel pid deadline)" "settles (\<lambda>fuel. await_display H fuel display deadline)"
    "settles (\<lambda>fuel. await_controller H fuel a simulator controller deadline)"
proof -
  obtain b where "passing (site_host H) time d deadline b" using passing_exists [OF assms] by blast
  from gone_wait.settled [OF this] display_wait.settled [OF this] controller_wait.settled [OF this]
  show "settles (\<lambda>fuel. await_gone H fuel pid deadline)" "settles (\<lambda>fuel. await_display H fuel display deadline)"
    "settles (\<lambda>fuel. await_controller H fuel a simulator controller deadline)"
    unfolding await_gone_def await_display_def await_controller_def .
qed

lemma terminate_settles:
  assumes clock: "ticking (site_host H) time d"
  shows "settles (\<lambda>fuel. terminate H fuel pid sigs sent)"
proof (induction sigs arbitrary: sent)
  case (Cons sig sigs)
  have "settles (\<lambda>fuel. bindF (liftF (call_float (site_host H) Monotonic)) (\<lambda>t.
      seqF (await_gone H fuel pid (fadd t (Fin 2))) (terminate H fuel pid sigs (sent @ [sig]))))"
    by (rule settles_bind, rule ending, rule settles_seq [OF waits_settle(1) [OF clock] Cons.IH])
       (auto simp: liftF_ok deadline_set dest: read_clock [OF clock])
  then show ?case by (auto intro!: ending)
qed (simp add: ending)

lemma reap_all_settles:
  assumes clock: "ticking (site_host H) time d"
  shows "settles (\<lambda>fuel. reap_all H fuel ps children)"
proof (induction ps arbitrary: children)
  case (Cons p ps)
  then show ?case
    by (cases p) (auto simp: reap_def simp del: terminate.simps intro!: ending terminate_settles [OF clock])
qed (simp add: ending)

lemma run_worker_settles:
  assumes clock: "ticking (site_host H) time d" and "deadline_seconds a = Fin q"
  shows "settles (\<lambda>fuel. run_worker H fuel a)"
proof -
  have body: "settles (\<lambda>fuel. launcher_body H fuel a init deadline)" if "deadline \<noteq> NaN" for init deadline
    unfolding launcher_body_def by (intro ending waits_settle [OF clock that])
  have clean: "settles (\<lambda>fuel. clean_up H fuel a)"
    unfolding clean_up_def by (intro ending reap_all_settles [OF clock])
  show ?thesis
    unfolding run_worker_def
  proof (rule settles_bind)
    fix k s and x :: "json \<times> pyfloat" and t
    obtain init deadline where x: "x = (init, deadline)" by fastforce
    assume "liftF (set_up H a) s = Some (Inr x, t)"
    then have "set_up H a s = (Inr (init, deadline), t)" by (simp add: liftF_def x)
    then have "deadline \<noteq> NaN"
      using deadline_set [of _ q] by (auto simp: set_up_def ok_iff assms(2) dest!: read_clock [OF clock])
    then show "settles (\<lambda>fuel. case x of (init, deadline) \<Rightarrow>
        seqF (finally_onF (catch_onF supervised_kinds (launcher_body H fuel a init deadline) (record_stop H a)) (clean_up H fuel a))
          (liftF (getS (\<lambda>s. if dget (report s) ''status'' = JStr ''completed'' then code s else 1))))"
      unfolding x prod.case by (intro ending body clean)
  qed (rule ending)
qed

text \<open>
  C8: The worker always ends: on a host whose clock shows the time and moves on in every sleep, each
  of its waits passes its deadline, so that from some amount of fuel on the run has one outcome,
  whatever the display, the simulator, the controller or their process groups do.
\<close>

theorem worker_always_ends:
  assumes "ticking (site_host H) time d" and "deadline_seconds a = Fin q"
  shows "\<exists>n outcome. \<forall>fuel \<ge> n. launcher_main H fuel a s = Some outcome"
proof -
  have "settles (\<lambda>fuel. launcher_main H fuel a)"
    unfolding launcher_main_def by (intro ending run_worker_settles [OF assms])
  then show ?thesis by (rule settlesD)
qed

section \<open>Runs\<close>

text \<open>A host on which nothing answers, under a clock that counts the calls.\<close>

definition idle_station :: "rat station" where
  "idle_station = \<lparr>site_host = (\<lambda>c w. (Inr (if c = Monotonic then JFloat (reading w) else JNull), w + 1)),
     sha = (\<lambda>content. content), install_dir = []\<rparr>"

definition worker_args :: launch_args where
  "worker_args = \<lparr>out_dir = [''out''], owner_id = ''o'', mode = ''physics-only'', step_ms = 16, steps = 2,
     deadline_seconds = Fin 60, probe_reset = True, auto_start = True, operation = ''run'', out_absolute = True,
     expected_world = None\<rparr>"

theorem worker_always_ends_witness:
  "\<exists>fuel outcome. launcher_main idle_station fuel worker_args (new_lch 0) = Some outcome"
proof -
  have "ticking (site_host idle_station) id 1" by (simp add: ticking_def idle_station_def)
  from worker_always_ends [OF this, of worker_args 60 "new_lch 0"]
  show ?thesis by (auto simp: worker_args_def)
qed

text \<open>A host on which the run succeeds: the files are there, the controller has completed, no group is left.\<close>

fun obliging_host :: "(webcall, unit) host" where
  "obliging_host (Exists p) w = (Inr (JBool (p = [''tmp'', ''.X11-unix'', ''X99''])), w)"
| "obliging_host (ReadLink p) w = (Inr (JStr ''/sbin/catatonit''), w)"
| "obliging_host (ReadText p) w = (Inr (JStr ''text''), w)"
| "obliging_host (ReadFile p) w = (Inr (JStr init_sha256), w)"
| "obliging_host (ResolvePath p) w = (Inr (JStr ''/f''), w)"
| "obliging_host (StatSize p) w = (Inr (JInt 0), w)"
| "obliging_host (Environment v) w = (Inr (JStr ''/e''), w)"
| "obliging_host Monotonic w = (Inr (JFloat (Fin 0)), w)"
| "obliging_host Stopping w = (Inr (JBool False), w)"
| "obliging_host (Spawn name command) w = (Inr (JStr name), w)"
| "obliging_host (Poll pid) w = (Inr (JInt 0), w)"
| "obliging_host (KillGroup pid sig) w = (raise ProcessLookupError [], w)"
| "obliging_host RunGlxinfo w = (Inr (JStr ''text''), w)"
| "obliging_host (ReadDocument p) w = (Inr (JObj [(''status'', JStr ''completed'')]), w)"
| "obliging_host UserId w = (Inr (JInt 0), w)"
| "obliging_host GroupId w = (Inr (JInt 0), w)"
| "obliging_host c w = (Inr JNull, w)"

definition obliging_station :: "unit station" where
  "obliging_station = \<lparr>site_host = obliging_host, sha = (\<lambda>content. content), install_dir = [''opt'']\<rparr>"

text \<open>
  The status and the code of the worker; the report is one that JSON has.
\<close>

definition stands :: "json option \<times> int \<Rightarrow> unit lch \<Rightarrow> bool" where
  "stands n s \<longleftrightarrow> finite_dict (report s) \<and> map_of (report s) ''status'' = fst n \<and> code s = snd n \<and>
     list_all (\<lambda>p. finite_json (snd p)) (processes s)"

lemma obliged_call: "obliging_host c () = (Inr v, ()) \<Longrightarrow> gives stands n (call (site_host obliging_station) c) v n"
  by (simp add: gives_def call_def obliging_station_def stands_def)

lemmas obliged_answers = obliged_call gives_typed [OF obliged_call]

lemma obliged_note:
  "finite_json v \<Longrightarrow> k \<noteq> ''status'' \<Longrightarrow> gives stands n (note_fact k v) () n"
  "finite_json v \<Longrightarrow> gives stands n (note_fact ''status'' v) () (Some v, snd n)"
  by (simp_all add: gives_def note_fact_def finite_dset stands_def)

lemma obliged_write: "finite_json v \<Longrightarrow> gives stands n (write_json obliging_station p v) () n"
  unfolding write_json_def by (rule obliging_host.simps gives_seq gives_pure obliged_answers | simp)+

abbreviation file_ref :: json where
  "file_ref \<equiv> JObj [(''uri'', JStr ''file:///f''), (''sha256'', JStr init_sha256), (''size_bytes'', JInt 0)]"

lemma file_uri: "quote (abs_str (pure_parts ''/f'')) = ''/f''"
  by code_simp

lemma obliged_reference: "gives stands n (reference obliging_station p) file_ref n"
  unfolding reference_def
  by (rule obliging_host.simps gives_bind gives_pure obliged_answers | simp add: obliging_station_def file_uri)+

lemma obliged_written: "gives stands n (write_result obliging_station a name) () n"
  unfolding write_result_def by (rule gives_get, rule obliged_write) (simp add: stands_def)

lemmas obliged_rules = gives_get gives_bind gives_seq gives_pure obliged_note obliged_write obliged_reference obliged_written
  obliged_answers

lemma obliged_spawn: "gives stands n (spawn obliging_station a name command) (JStr name) n"
  unfolding spawn_def
  by (rule obliging_host.simps obliged_rules gives_modify | simp add: stands_def)+

lemma obliged_init: "\<exists>init. finite_json init \<and> gives stands n (observe_init obliging_station a) init n"
  unfolding observe_init_def Let_def
  by (intro exI conjI [rotated])
     (rule obliging_host.simps obliged_rules | simp add: dict_item_def)+

lemma obliged_inputs: "gives stands n (export_inputs obliging_station a) () n"
  unfolding export_inputs_def Let_def
  by (rule obliging_host.simps obliged_rules gives_forS | simp)+

lemma obliged_world: "gives stands n (check_world obliging_station worker_args) () n"
  unfolding check_world_def
  by (rule obliging_host.simps obliged_rules | simp add: dict_item_def worker_args_def)+

lemma obliged_claim: "gives stands n (claim_output obliging_station worker_args) () n"
  unfolding claim_output_def
  by (rule obliging_host.simps obliged_rules | simp add: worker_args_def limits_ok_def owner_document_def)+

lemma obliged_dirs: "gives stands n (private_dirs obliging_station) () n"
  unfolding private_dirs_def
  by (rule obliging_host.simps gives_forS obliged_rules | simp)+

lemma obliged_identity: "finite_json init \<Longrightarrow> gives stands n (retain_identity obliging_station a init) () n"
  unfolding retain_identity_def
  by (rule obliging_host.simps obliged_rules | simp)+

lemma obliged_setup:
  "\<exists>init. finite_json init \<and> gives stands (None, 1) (set_up obliging_station worker_args) (init, Fin 60) (Some (JStr ''error''), 1)"
proof -
  obtain init where init: "finite_json init" "gives stands (None, 1) (observe_init obliging_station worker_args) init (None, 1)"
    using obliged_init by blast
  have sum: "fadd (Fin 0) (deadline_seconds worker_args) = Fin 60"
    using rnd64_of_int [of 60] by (simp add: to_float_def float_bound_def worker_args_def)
  have start: "gives stands (None, 1) (modifyS (\<lambda>s. s\<lparr>report := initial_result worker_args, processes := [], streams := [], code := 1\<rparr>)) ()
      (Some (JStr ''error''), 1)"
    by (rule gives_modify) (simp add: stands_def initial_result_def)
  have clock: "gives stands n (bindS (call_float (site_host obliging_station) Monotonic) (\<lambda>t. retS (init, fadd t (deadline_seconds worker_args))))
      (init, Fin 60) n" for n
    by (rule gives_bind, rule gives_typed(5), rule obliged_call, rule obliging_host.simps, unfold sum, rule gives_pure)
  have "gives stands (None, 1) (set_up obliging_station worker_args) (init, Fin 60) (Some (JStr ''error''), 1)"
    unfolding set_up_def
    by (rule gives_seq [OF obliged_claim], rule gives_bind [OF init(2)], rule gives_seq [OF obliged_inputs], rule gives_seq [OF obliged_world],
        rule gives_seq, rule obliged_answers(2), rule obliging_host.simps, rule gives_seq [OF obliged_dirs], rule gives_seq [OF start],
        rule clock)
  with init(1) show ?thesis by blast
qed

lemma obliged_outcome:
  "gives stands (Some (JStr ''error''), 1) (note_outcome obliging_station a simulator (JInt 0)) () (Some (JStr ''completed''), 0)"
proof -
  have code: "gives stands (v, 1) (modifyS (\<lambda>s. s\<lparr>code := 0\<rparr>)) () (v, 0)" for v
    by (rule gives_modify) (simp add: stands_def)
  have leave: "gives stands n (catchS ks (perform (site_host obliging_station) (WaitFor simulator)) h) () n" for n ks h
    by (simp add: gives_def perform_def call_def seqS_def bindS_def retS_def catchS_def obliging_station_def stands_def)
  show ?thesis
    unfolding note_outcome_def note_evidence_def
    by (rule code leave obliging_host.simps obliged_rules | simp add: dict_item_def)+
qed

text \<open>A group that is gone needs no fuel.\<close>

lemma obliged_group: "gives stands n (group_exists obliging_station pid) False n"
  by (simp add: gives_def group_exists_def perform_def call_def seqS_def bindS_def retS_def catchS_def obliging_station_def stands_def)

lemma obliging_reap:
  assumes "stands n s" "finite_json pid"
  shows "\<exists>d t. reap obliging_station (Suc 0) pid s = Some (Inr d, t) \<and> stands n t \<and> finite_dict d \<and> dget d ''reaped'' = JBool True"
proof -
  from givesD [OF obliged_group, OF assms(1)] obtain s1 where s1: "group_exists obliging_station pid s = (Inr False, s1)" "stands n s1" by blast
  have "gives stands n (call (site_host obliging_station) (Poll pid)) (JInt 0) n" by (rule obliged_call) simp
  from givesD [OF this, OF s1(2)] obtain s2 where s2: "call (site_host obliging_station) (Poll pid) s1 = (Inr (JInt 0), s2)" "stands n s2" by blast
  from givesD [OF obliged_group, OF s2(2)] obtain s3 where s3: "group_exists obliging_station pid s2 = (Inr False, s3)" "stands n s3" by blast
  show ?thesis
    by (intro exI [of _ "child_report pid (JInt 0) [] True"] exI [of _ s3])
       (simp add: reap_def bindF_def liftF_def s1(1) bindS_def s2(1) s3 child_report_def dget_def retS_def assms(2))
qed

lemma obliging_reap_all:
  assumes "stands n s" "list_all (\<lambda>p. finite_json (snd p)) ps" "list_all is_reaped children" "finite_list children"
  shows "\<exists>cs t. reap_all obliging_station (Suc 0) ps children s = Some (Inr cs, t) \<and> stands n t \<and> list_all is_reaped cs \<and> finite_list cs"
  using assms
proof (induction ps arbitrary: children s)
  case (Cons p ps)
  obtain name pid where p: "p = (name, pid)" by fastforce
  with Cons.prems obtain d t where run: "reap obliging_station (Suc 0) pid s = Some (Inr d, t)" "stands n t" "finite_dict d"
      "dget d ''reaped'' = JBool True"
    using obliging_reap [of n s pid] by auto
  let ?child = "JObj ((''name'', JStr name) # d)"
  have "list_all is_reaped (children @ [?child])" "finite_list (children @ [?child])"
    using Cons.prems(3,4) run(3,4) by (simp_all add: finite_list_append dget_def)
  with Cons.IH [OF run(2), of "children @ [?child]"] Cons.prems(2) show ?case
    by (auto simp: p bindF_def run(1))
qed (auto simp: liftF_def)

lemma obliged_children:
  assumes "list_all is_reaped cs" "finite_list cs"
  shows "gives stands n (note_children obliging_station a cs) () n"
proof -
  have refs: "\<exists>rs. finite_list rs \<and> gives stands n (mapS (\<lambda>p. reference obliging_station (out_dir a @ [fst p @ ''.log''])) ps) rs n" for ps :: "(string \<times> json) list"
  proof (induction ps)
    case (Cons p ps)
    then obtain rs where "finite_list rs" "gives stands n (mapS (\<lambda>p. reference obliging_station (out_dir a @ [fst p @ ''.log''])) ps) rs n" by blast
    then show ?case
      unfolding mapS.simps
      by (intro exI [of _ "file_ref # rs"] conjI gives_bind [OF obliged_reference]) (auto intro: gives_bind gives_pure)
  qed (auto intro!: exI [of _ "[]"] simp: gives_def)
  have listed: "gives stands n (bindS (mapS (\<lambda>p. reference obliging_station (out_dir a @ [fst p @ ''.log''])) ps) (\<lambda>refs.
      seqS (note_fact ''log_refs'' (JList refs)) (write_result obliging_station a ''worker-result.json''))) () n" for ps :: "(string \<times> json) list"
    using refs [of ps] by (auto intro!: gives_bind gives_seq obliged_note obliged_written)
  show ?thesis
    unfolding note_children_def
    by (rule obliging_host.simps listed gives_forS obliged_rules | simp add: assms)+
qed

lemma poll_at_once: "body l s = (Inr (Inl a), t) \<Longrightarrow> repeat_until (Suc 0) (pass_of body) (l, s) = Some (Inr a, t)"
  by (simp add: pass_of_def)

lemma obliging_body:
  assumes "stands (Some (JStr ''error''), 1) s" "finite_json init"
  shows "\<exists>t. launcher_body obliging_station (Suc 0) worker_args init (Fin 60) s = Some (Inr (), t) \<and>
    stands (Some (JStr ''completed''), 0) t"
proof -
  let ?H = obliging_station and ?n = "(Some (JStr ''error''), 1 :: int)"
  from givesD [OF obliged_spawn [where a = worker_args and name = "''xvfb''" and command = "display_command"], OF assms(1)] obtain s1 where
    s1: "spawn ?H worker_args ''xvfb'' display_command s = (Inr (JStr ''xvfb''), s1)" "stands ?n s1" by blast
  have "gives stands ?n (display_pass ?H (JStr ''xvfb'') (Fin 60) ()) (Inl ()) ?n"
    unfolding display_pass_def by (rule obliging_host.simps obliged_rules | simp)+
  from givesD [OF this, OF s1(2)] obtain s2 where
    shown: "display_pass ?H (JStr ''xvfb'') (Fin 60) () s1 = (Inr (Inl ()), s2)" and s2: "stands ?n s2" by blast
  have waited: "await_display ?H (Suc 0) (JStr ''xvfb'') (Fin 60) s1 = Some (Inr (), s2)"
    unfolding await_display_def by (rule poll_at_once) (rule shown)
  from givesD [OF obliged_identity [where a = worker_args, OF assms(2)], OF s2] obtain s3 where
    s3: "retain_identity ?H worker_args init s2 = (Inr (), s3)" "stands ?n s3" by blast
  from givesD [OF obliged_spawn [where a = worker_args and name = "''webots''" and command = "simulator_command ?H"], OF s3(2)] obtain s4 where
    s4: "spawn ?H worker_args ''webots'' (simulator_command ?H) s3 = (Inr (JStr ''webots''), s4)" "stands ?n s4" by blast
  from givesD [OF obliged_spawn [where a = worker_args and name = "''controller''" and command = "controller_command ?H worker_args"], OF s4(2)] obtain s5 where
    s5: "spawn ?H worker_args ''controller'' (controller_command ?H worker_args) s4 = (Inr (JStr ''controller''), s5)" "stands ?n s5" by blast
  have "gives stands ?n (controller_pass ?H worker_args (JStr ''webots'') (JStr ''controller'') (Fin 60) ()) (Inl (JInt 0)) ?n"
    unfolding controller_pass_def by (rule obliging_host.simps obliged_rules | simp)+
  from givesD [OF this, OF s5(2)] obtain s6 where
    ended: "controller_pass ?H worker_args (JStr ''webots'') (JStr ''controller'') (Fin 60) () s5 = (Inr (Inl (JInt 0)), s6)"
    and s6: "stands ?n s6" by blast
  have supervised: "await_controller ?H (Suc 0) worker_args (JStr ''webots'') (JStr ''controller'') (Fin 60) s5 = Some (Inr (JInt 0), s6)"
    unfolding await_controller_def by (rule poll_at_once) (rule ended)
  from givesD [OF obliged_outcome [where a = worker_args and simulator = "JStr ''webots''"], OF s6] obtain t where
    "note_outcome ?H worker_args (JStr ''webots'') (JInt 0) s6 = (Inr (), t)" "stands (Some (JStr ''completed''), 0) t" by blast
  with s1(1) waited s3(1) s4(1) s5(1) supervised show ?thesis
    by (auto simp: launcher_body_def ok_iff)
qed

lemma obliging_run: "\<exists>t. launcher_main obliging_station (Suc 0) worker_args (new_lch ()) = Some (Inr 0, t)"
proof -
  let ?H = obliging_station and ?n = "(Some (JStr ''completed''), 0 :: int)"
  have "stands (None, 1) (new_lch ())" by (simp add: stands_def new_lch_def)
  with obliged_setup obtain init s1 where
    s1: "set_up ?H worker_args (new_lch ()) = (Inr (init, Fin 60), s1)" "stands (Some (JStr ''error''), 1) s1" "finite_json init"
    unfolding gives_def by blast
  from obliging_body [OF s1(2,3)] obtain s2 where
    s2: "launcher_body ?H (Suc 0) worker_args init (Fin 60) s1 = Some (Inr (), s2)" "stands ?n s2" by blast
  have "list_all (\<lambda>p. finite_json (snd p)) (rev (processes s2))" using s2(2) by (simp add: stands_def)
  from obliging_reap_all [OF s2(2) this, of "[]"] obtain cs s3 where
    s3: "reap_all ?H (Suc 0) (rev (processes s2)) [] s2 = Some (Inr cs, s3)" "stands ?n s3" "list_all is_reaped cs" "finite_list cs" by auto
  from givesD [OF obliged_children [where a = worker_args, OF s3(3,4)], OF s3(2)] obtain t where
    t: "note_children ?H worker_args cs s3 = (Inr (), t)" "stands ?n t" by blast
  have "clean_up ?H (Suc 0) worker_args s2 = Some (Inr (), t)"
    using s3(1) t(1) by (simp add: clean_up_def ok_iff)
  with s1(1) s2(1) t(2) have "run_worker ?H (Suc 0) worker_args (new_lch ()) = Some (Inr 0, t)"
    by (simp add: run_worker_def bindF_def seqF_def liftF_def finally_onF_def catch_onF_def catchS_def getS_def stands_def dget_def)
  then show ?thesis by (auto simp: launcher_main_def ok_iff worker_args_def owner_ok_def)
qed

theorem completed_worker_is_reaped_witness:
  "\<exists>t. launcher_main obliging_station (Suc 0) worker_args (new_lch ()) = Some (Inr 0, t) \<and> completed_worker worker_args t"
proof -
  obtain t where run: "launcher_main obliging_station (Suc 0) worker_args (new_lch ()) = Some (Inr 0, t)"
    using obliging_run by blast
  with completed_worker_is_reaped [OF run] show ?thesis by (auto simp: worker_args_def)
qed

end
