(* ===== verification/Provider_Qualification.thy ===== *)
theory Provider_Qualification
  imports Py_Host
begin

text \<open>
  \<open>host/producers/provider_qualification.py\<close>: the projection of accepted native source evidence
  of a simulator (Webots, Gazebo, or the representative Isaac fixture) to a conformance result, and
  \<open>produce\<close>, which binds the evidence and writes the result through the contract library. The
  library and the file system are the calls \<open>libcall\<close> of a host; \<open>str\<close> on documents and
  SHA-256 are arguments.
\<close>

section \<open>Projections\<close>

definition provider_namespace :: string where
  "provider_namespace = ''org.robotics.runtime.native-provider''"

definition schema_uri :: string where
  "schema_uri = ''urn:robotics:infra:native-provider-source:v1''"

definition capabilities :: "string list" where
  "capabilities = [''simulated_physics'', ''native-lifecycle'', ''native-simulation-time'', ''native-evidence'']"

definition source :: "json \<Rightarrow> string \<Rightarrow> json" where
  "source digest pointer = JObj [(''sha256'', digest), (''pointer'', JStr pointer)]"

definition time_value :: "json \<Rightarrow> string \<Rightarrow> json \<Rightarrow> json \<Rightarrow> json \<Rightarrow> json res" where
  "time_value value unit authority epoch raw =
     (if unit = ''ns'' then
        unlessE (\<not> is_str value) ValueError ''integer native ns must remain a decimal string''
       (Inr (JObj [(''authority'', authority), (''epoch'', epoch), (''unit'', JStr ''ns''),
          (''representation'', JStr ''integer-decimal''), (''value'', value), (''source'', raw)]))
      else if unit \<noteq> ''s'' then raise ValueError ''native float seconds require their explicit s unit''
      else bindE (case value of
             JInt i \<Rightarrow> float_of_int i
           | JFloat f \<Rightarrow> Inr f
           | _ \<Rightarrow> raise ValueError ''native float seconds require their explicit s unit'') (\<lambda>native.
           Inr (JObj [(''authority'', authority), (''epoch'', epoch), (''unit'', JStr ''s''),
             (''representation'', JStr ''ieee754-binary64''), (''value'', JFloat native),
             (''hex'', JStr (float_hex native)), (''source'', raw)])))"

text \<open>\<open>x + text\<close> for a document \<open>x\<close>.\<close>

fun add_text :: "json \<Rightarrow> string \<Rightarrow> json res" where
  "add_text (JStr s) t = Inr (JStr (s @ t))"
| "add_text _ t = raise TypeError ''can only concatenate str''"

definition differs :: "json res \<Rightarrow> json \<Rightarrow> bool res" where
  "differs m v = bindE m (\<lambda>x. Inr (\<not> py_eq x v))"

definition is_not :: "json res \<Rightarrow> json \<Rightarrow> bool res" where
  "is_not m v = bindE m (\<lambda>x. Inr (x \<noteq> v))"

definition sample_pointer :: "nat \<Rightarrow> string \<Rightarrow> string" where
  "sample_pointer i field = ''/samples/'' @ nat_str i @ field"

definition webots_times :: "json \<Rightarrow> json \<Rightarrow> json \<Rightarrow> nat \<times> json \<Rightarrow> json list res" where
  "webots_times digest authority epoch = (\<lambda>(i, row). mapE (\<lambda>key.
     bindE (item row key) (\<lambda>value.
     time_value value ''s'' authority epoch (source digest (sample_pointer i (CHR ''/'' # key)))))
     [''before_seconds'', ''after_seconds''])"

definition webots_step :: "json \<Rightarrow> nat \<times> json \<Rightarrow> json" where
  "webots_step digest = (\<lambda>(i, row). JObj [
     (''native_api'', JStr ''Supervisor.step''),
     (''request'', source digest (sample_pointer i ''/request_ms'')),
     (''result'', JObj [(''kind'', JStr ''native-return''), (''source'', source digest (sample_pointer i ''/result''))]),
     (''effect'', JObj [(''observed'', JBool True), (''source'', source digest (sample_pointer i []))])])"

definition webots_reset :: "json \<Rightarrow> json \<Rightarrow> json" where
  "webots_reset digest pre_digest = JObj [
     (''native_api'', JStr ''Supervisor.simulationReset''),
     (''request'', source pre_digest ''/reset''),
     (''result'', JObj [(''kind'', JStr ''native-void-return''), (''source'', source digest ''/reset'')]),
     (''effect'', JObj [(''observed'', JBool True), (''source'', source digest ''/reset'')])]"

text \<open>\<open>enumerate(x[key])\<close> and the like need \<open>x[key]\<close> to be iterable.\<close>

definition list_item :: "json \<Rightarrow> string \<Rightarrow> json list res" where
  "list_item x key = bindE (item x key) as_list"

definition reset_time :: "json \<Rightarrow> json \<Rightarrow> json res \<Rightarrow> json \<Rightarrow> string \<Rightarrow> json res" where
  "reset_time digest authority epoch controller key =
     bindE (path_item controller [''reset'', key]) (\<lambda>value. bindE epoch (\<lambda>e.
     time_value value ''s'' authority e (source digest (''/reset/'' @ key))))"

text \<open>What every projection returns.\<close>

definition native_record ::
  "string \<Rightarrow> string \<Rightarrow> json \<Rightarrow> string \<Rightarrow> json list \<Rightarrow> json \<Rightarrow> json \<Rightarrow> json list \<Rightarrow> json" where
  "native_record scope backend execution_id evaluation stamps frame lifecycle operations = JObj [
     (''scope'', JStr scope), (''backend'', JStr backend), (''native_execution_id'', execution_id),
     (''execution_evaluation'', JStr evaluation), (''native_times'', JList stamps), (''frame'', frame),
     (''lifecycle'', lifecycle), (''operations'', JList operations)]"

definition lifecycle_record :: "json \<Rightarrow> json \<Rightarrow> string \<Rightarrow> json \<Rightarrow> json" where
  "lifecycle_record before_reset verified scope src = JObj [
     (''evidence_before_destructive_reset'', before_reset), (''cleanup_verified'', verified),
     (''cleanup_evidence_scope'', JStr scope), (''source'', src)]"

text \<open>The accepted outcome: the refusals of \<open>webots\<close>, in their order.\<close>

definition webots_accepted :: "json \<Rightarrow> json \<Rightarrow> json \<Rightarrow> unit res" where
  "webots_accepted controller worker pre =
     refuseE (orE (differs (item controller ''status'') (JStr ''completed''))
             (orE (differs (item worker ''status'') (JStr ''completed''))
             (orE (is_not (item worker ''processes_reaped'') (JBool True))
                  (is_not (item worker ''evidence_exported_before_stop'') (JBool True)))))
       ValueError ''accepted Webots check outcome is missing''
    (refuseE (bindE (item controller ''time'') (\<lambda>time.
              bindE (item controller ''owner_id'') (\<lambda>owner.
              bindE (add_text owner '':initial'') (\<lambda>epoch.
              differs (Inr time) (JObj [(''authority'', JStr ''Webots Supervisor.getTime''),
                (''native_unit'', JStr ''seconds''), (''representation'', JStr ''float64''), (''epoch'', epoch)])))))
       ValueError ''native Webots time identity differs''
    (refuseE (orE (bindE (item pre ''last_native_state'') (\<lambda>x.
                   bindE (item controller ''last_native_state'') (\<lambda>y. Inr (\<not> py_eq x y))))
             (orE (is_not (path_item pre [''reset'', ''requested'']) (JBool True))
                  (is_not (path_item pre [''reset'', ''observed'']) (JBool False))))
       ValueError ''retained pre-reset native snapshot differs''
    (refuseE (is_not (path_item controller [''reset'', ''observed'']) (JBool True))
       ValueError ''accepted Webots reset effect is missing''
    (Inr ()))))"

definition webots :: "dict \<Rightarrow> dict \<Rightarrow> (json \<times> json) res" where
  "webots documents digests =
     bindE (dict_item documents ''controller-result.json'') (\<lambda>controller.
     bindE (dict_item documents ''worker-result.json'') (\<lambda>worker.
     bindE (dict_item documents ''pre-reset.json'') (\<lambda>pre.
     bindE (webots_accepted controller worker pre) (\<lambda>_.
     bindE (dict_item digests ''controller-result.json'') (\<lambda>digest.
     bindE (list_item controller ''samples'') (\<lambda>samples.
     bindE (path_item controller [''time'', ''authority'']) (\<lambda>authority.
     bindE (path_item controller [''time'', ''epoch'']) (\<lambda>epoch.
     bindE (mapE (webots_times digest authority epoch) (enum_from 0 samples)) (\<lambda>stamps.
     bindE (reset_time digest authority (Inr epoch) controller ''before_seconds'') (\<lambda>before.
     bindE (reset_time digest authority (path_item controller [''reset'', ''epoch'']) controller ''after_seconds'') (\<lambda>after.
     bindE (dict_item digests ''pre-reset.json'') (\<lambda>pre_digest.
     bindE (path_item controller [''world'', ''coordinate_system'']) (\<lambda>basis.
     bindE (item controller ''owner_id'') (\<lambda>owner.
     bindE (dict_item digests ''worker-result.json'') (\<lambda>worker_digest.
     Inr (native_record ''native-cpu-source'' ''webots'' owner ''accepted-source-proof''
            (concat stamps @ [before, after])
            (JObj [(''native_name'', JStr ''Webots world''), (''native_basis'', basis),
               (''position_unit'', JStr ''m''), (''up_axis'', JStr ''Z''), (''source'', source digest ''/world'')])
            (lifecycle_record (JBool True) (JBool True) ''registered-native-process-groups'' (source worker_digest []))
            (map (webots_step digest) (enum_from 0 samples) @ [webots_reset digest pre_digest]),
          owner))))))))))))))))"

text \<open>\<open>next((index for index, row in enumerate(rows) if ...), None)\<close>.\<close>

fun find_index :: "nat \<Rightarrow> (json \<Rightarrow> bool res) \<Rightarrow> json list \<Rightarrow> nat option res" where
  "find_index i test [] = Inr None"
| "find_index i test (row # rows) = bindE (test row) (\<lambda>found.
     if found then Inr (Some i) else find_index (Suc i) test rows)"

definition gazebo_accepted :: "json \<Rightarrow> unit res" where
  "gazebo_accepted native =
     refuseE (orE (differs (item native ''completionStatus'') (JStr ''passed''))
             (orE (bindE (item native ''errors'') (\<lambda>v. Inr (truthy v)))
             (orE (is_not (item native ''sourceMountPresent'') (JBool False))
                  (bindE (item native ''verifiedRefCount'') (\<lambda>v. num_le v (JInt 0))))))
       ValueError ''accepted Gazebo source lifecycle/retention outcome missing''
    (refuseE (bindE (list_item native ''resourceOutcomes'') (anyE (\<lambda>row.
        orE (bindE (item row ''attempted'') (\<lambda>v. Inr (\<not> truthy v)))
       (orE (bindE (item row ''released'') (\<lambda>v. Inr (\<not> truthy v)))
            (bindE (get row ''cleanupError'') (\<lambda>v. Inr (truthy v)))))))
       ValueError ''Gazebo physical cleanup is not established''
    (Inr ()))"

definition gazebo_operation :: "json \<Rightarrow> nat \<Rightarrow> json" where
  "gazebo_operation digest i = JObj [
     (''native_api'', JStr ''simulation_interfaces ResetSimulation partial TIME''),
     (''request'', source digest (''/requests/'' @ nat_str i @ ''/request'')),
     (''result'', JObj [(''kind'', JStr ''native-return''),
        (''source'', source digest (''/requests/'' @ nat_str i @ ''/response''))]),
     (''effect'', JObj [(''observed'', JBool True), (''source'', source digest ''/afterPartial'')])]"

definition gazebo :: "(json \<Rightarrow> string) \<Rightarrow> dict \<Rightarrow> dict \<Rightarrow> (json \<times> json) res" where
  "gazebo str documents digests =
     bindE (dict_item documents ''independent-retained-review.json'') (\<lambda>native.
     bindE (dict_item digests ''independent-retained-review.json'') (\<lambda>digest.
     bindE (gazebo_accepted native) (\<lambda>_.
     bindE (path_item native [''provider'', ''conformance.json'', ''value'']) (\<lambda>conformance.
     bindE (path_item native [''provider'', ''observation.json'', ''value'']) (\<lambda>observation.
     refuseE (orE (differs (item conformance ''status'') (JStr ''passed''))
                  (differs (item observation ''status'') (JStr ''passed'')))
       ValueError ''native simulation conformance not passed''
    (bindE (bindE (item observation ''clock'') as_items) (\<lambda>clock.
     bindE (mapE (\<lambda>(key, value).
       bindE (bindE (item native ''runId'') (\<lambda>run_id. add_text run_id '':initial'')) (\<lambda>epoch.
       time_value (JStr (str value)) ''ns'' (JStr ''Gazebo ROS simulation_interfaces Clock'') epoch
         (source digest (''/provider/observation.json/value/clock/'' @ key)))) clock) (\<lambda>stamps.
     bindE (dict_item documents ''native-reset-probe.json'') (\<lambda>reset.
     bindE (dict_item digests ''native-reset-probe.json'') (\<lambda>reset_digest.
     refuseE (orE (is_not (get reset ''passed'') (JBool True))
                  (is_not (get reset ''unsupportedPartialEffectAbsent'') (JBool True)))
       ValueError ''accepted native unsupported-operation check missing''
    (bindE (list_item reset ''requests'') (\<lambda>requests.
     bindE (find_index 0 (\<lambda>row. bindE (item row ''service'') (\<lambda>v. Inr (py_eq v (JStr ''/simulator/reset_simulation'')))) requests)
       (\<lambda>partial.
     bindE (of_option ValueError ''actual unsupported partial request missing'' partial) (\<lambda>i.
     bindE (item native ''runId'') (\<lambda>run_id.
     Inr (native_record ''native-cpu-source'' ''gazebo'' run_id ''accepted-source-proof'' stamps
            (JObj [(''native_name'', JStr ''world''), (''native_basis'', JStr ''Gazebo world XYZ Z-up''),
               (''position_unit'', JStr ''m''), (''up_axis'', JStr ''Z''),
               (''source'', source digest ''/provider/configuration.json/value'')])
            (lifecycle_record JNull (JBool True) ''native-project-inventory'' (source digest ''/resourceOutcomes''))
            [gazebo_operation reset_digest i],
          run_id))))))))))))))))"

definition isaac :: "dict \<Rightarrow> dict \<Rightarrow> (json \<times> json) res" where
  "isaac documents digests =
     bindE (dict_item documents ''representative.json'') (\<lambda>native.
     bindE (dict_item digests ''representative.json'') (\<lambda>digest.
     refuseE (orE (differs (item native ''kind'') (JStr ''representative-fixture''))
                  (differs (item native ''execution_evaluation'') (JStr ''unevaluated'')))
       ValueError ''Isaac representative input cannot claim execution''
    (bindE (item native ''native_execution_id'') (\<lambda>execution_id.
     bindE (path_item native [''time'', ''value'']) (\<lambda>value.
     bindE (path_item native [''time'', ''authority'']) (\<lambda>authority.
     bindE (time_value value ''s'' authority (JStr ''representative-unobserved'') (source digest ''/time/value'')) (\<lambda>time.
     bindE (item native ''frame'') (\<lambda>frame.
     bindE (case frame of JObj d \<Rightarrow> Inr (JObj (dmerge d [(''source'', source digest ''/frame'')]))
            | _ \<Rightarrow> raise TypeError ''object is not a mapping'') (\<lambda>frame'.
     Inr (native_record ''representative'' ''isaac'' execution_id ''unevaluated'' [time] frame'
            (lifecycle_record JNull JNull ''unobserved'' (source digest []))
            [JObj [(''native_api'', JStr ''World.step''),
               (''request'', source digest ''/operation/request''),
               (''result'', JObj [(''kind'', JStr ''unobserved''), (''source'', source digest ''/operation/result'')]),
               (''effect'', JObj [(''observed'', JNull), (''source'', source digest ''/operation/effect'')])]],
          execution_id))))))))))"

definition project :: "(json \<Rightarrow> string) \<Rightarrow> string \<Rightarrow> dict \<Rightarrow> dict \<Rightarrow> (json \<times> json) res" where
  "project str backend documents digests =
     (if backend = ''gazebo'' then gazebo str documents digests
      else if backend = ''webots'' then webots documents digests
      else if backend = ''isaac'' then isaac documents digests
      else raise KeyError backend)"

section \<open>Binding and publication\<close>

datatype libcall =
    PathExists path | MakeDir path | ReadBytes path | WriteBytes bytes path
  | LoadMapping path | CreateIndex json | AddArtifact json path dict | FinalizeIndex json
  | ProtectInputs path "path list" | WriteDocument json path "(string \<times> bytes) list"
  | ValidateDocument json "(string \<times> bytes) list" | ValidateRequirements json json

record job =
  backend :: string
  input_root :: path
  manifest_path :: path
  schema_path :: path
  destination :: path
  generated_at :: string
  run_id :: string

text \<open>\<open>sum(...)\<close> over numbers of a document.\<close>

fun num_add :: "json \<Rightarrow> json \<Rightarrow> json res" where
  "num_add (JInt i) (JInt j) = Inr (JInt (i + j))"
| "num_add x y = (case (num_of x, num_of y) of
     (Some a, Some b) \<Rightarrow> (case (x, y) of
         (JBool p, JInt j) \<Rightarrow> Inr (JInt ((if p then 1 else 0) + j))
       | (JInt i, JBool q) \<Rightarrow> Inr (JInt (i + (if q then 1 else 0)))
       | (JBool p, JBool q) \<Rightarrow> Inr (JInt ((if p then 1 else 0) + (if q then 1 else 0)))
       | _ \<Rightarrow> Inr (JFloat (fadd a b)))
   | _ \<Rightarrow> raise TypeError ''unsupported operand'')"

definition size_total :: "dict \<Rightarrow> json res" where
  "size_total listed = foldE (\<lambda>(name, row) acc. bindE (item row ''size_bytes'') (num_add acc)) listed (JInt 0)"

definition index_template :: "job \<Rightarrow> json \<Rightarrow> json" where
  "index_template job bytes_total = JObj [(''run_id'', JStr (run_id job)), (''generated_at'', JStr (generated_at job)),
     (''policy_observation'', JObj [(''recording_mode'', JStr ''native-artifact''), (''compression'', JStr ''none''),
        (''retention_class'', JStr ''source-fixture''), (''upload_mode'', JStr ''local_only''),
        (''remote_sink_used'', JBool False), (''spool_peak_size_bytes'', bytes_total),
        (''upload_lag_max_sec'', JInt 0)])]"

definition artifact_id :: "job \<Rightarrow> string \<Rightarrow> string" where
  "artifact_id job name = backend job @ ''-'' @
     map (\<lambda>c. if c = CHR ''.'' then CHR ''-'' else c) (remove_suffix ''.json'' name)"

definition artifact_metadata :: "job \<Rightarrow> string \<Rightarrow> dict \<Rightarrow> dict" where
  "artifact_metadata job name expected = dmerge
     [(''artifact_id'', JStr (artifact_id job name)), (''kind'', JStr ''native-source-evidence''),
      (''media_type'', JStr ''application/json''), (''retention_class'', JStr ''source-fixture''),
      (''storage_state'', JStr ''local'')] expected"

definition profile_path :: "job \<Rightarrow> path" where
  "profile_path job = destination job @ [''qualification-profile.json'']"

definition result_path :: "job \<Rightarrow> path" where
  "result_path job = destination job @ [''conformance-result.json'']"

definition evidence_path :: "job \<Rightarrow> path" where
  "evidence_path job = destination job @ [''evidence-index.json'']"

definition bind_file ::
  "(libcall, 'w) host \<Rightarrow> job \<Rightarrow> json \<Rightarrow> string \<times> json \<Rightarrow> json \<times> dict \<times> dict \<Rightarrow>
   ((libcall, 'w) desk, json \<times> dict \<times> dict) prog" where
  "bind_file host job template = (\<lambda>(name, expected) (draft, digests, documents).
     let path = to_path (input_root job) name;
         retained = to_path (destination job @ [''raw'']) name;
         inputs = [path, manifest_path job, schema_path job] in
     seqS (perform host (ProtectInputs (evidence_path job) inputs))
    (bindS (liftS (case expected of JObj d \<Rightarrow> Inr d | _ \<Rightarrow> raise TypeError ''object is not a mapping'')) (\<lambda>facts.
     let metadata = artifact_metadata job name facts in
     bindS (call host (CreateIndex template)) (\<lambda>fresh.
     seqS (perform host (AddArtifact fresh path metadata))
    (seqS (perform host (ProtectInputs retained inputs))
    (bindS (call_text host (ReadBytes path)) (\<lambda>content.
     seqS (perform host (WriteBytes content retained))
    (bindS (call host (AddArtifact draft retained metadata)) (\<lambda>draft'.
     bindS (liftS (dict_item facts ''sha256'')) (\<lambda>digest.
     bindS (call host (LoadMapping retained)) (\<lambda>document.
     retS (draft', dset name digest digests, dset name document documents))))))))))))"

definition profile_document :: "job \<Rightarrow> json" where
  "profile_document job = JObj [(''schema_version'', JStr ''qualification-profile.v1''),
     (''profile_id'', JStr (''native-cpu-source-'' @ backend job)), (''provider_kind'', JStr ''simulator''),
     (''requirements'', JList (map (\<lambda>c. JObj [(''capability'', JStr c), (''required'', JBool True)]) capabilities))]"

definition result_status :: "job \<Rightarrow> string" where
  "result_status job = (if backend job = ''isaac'' then ''skipped'' else ''passed'')"

definition result_capabilities :: "job \<Rightarrow> json" where
  "result_capabilities job = JList (if backend job = ''isaac'' then [] else map JStr capabilities)"

definition check_row :: "job \<Rightarrow> json \<Rightarrow> string \<Rightarrow> json" where
  "check_row job execution_id c = JObj [
     (''check_id'', JStr (''accepted-source-'' @ map (\<lambda>x. if x = CHR ''_'' then CHR ''-'' else x) c)),
     (''capability'', JStr c), (''status'', JStr (result_status job)),
     (''observed_value'', if backend job = ''isaac'' then JNull else execution_id),
     (''message'', JStr (if backend job = ''isaac'' then ''Representative shape only; execution unevaluated.''
        else ''Projected from accepted byte-bound native source check.''))]"

definition evidence_row :: "json \<Rightarrow> json res" where
  "evidence_row row =
     bindE (item row ''uri'') (\<lambda>uri. bindE (item row ''sha256'') (\<lambda>digest.
     bindE (item row ''size_bytes'') (\<lambda>n. bindE (item row ''media_type'') (\<lambda>media.
     Inr (JObj [(''uri'', uri), (''sha256'', digest), (''size_bytes'', n), (''media_type'', media)])))))"

definition result_document ::
  "(bytes \<Rightarrow> string) \<Rightarrow> job \<Rightarrow> bytes \<Rightarrow> bytes \<Rightarrow> bytes \<Rightarrow> json \<Rightarrow> json \<Rightarrow> json list \<Rightarrow> json \<Rightarrow> json \<Rightarrow> json" where
  "result_document sha job profile_bytes manifest_bytes raw_schema subject version rows native execution_id = JObj [
     (''schema_version'', JStr ''conformance-result.v1''),
     (''result_id'', JStr (''native-source-'' @ backend job)), (''run_id'', JStr (run_id job)),
     (''generated_at'', JStr (generated_at job)),
     (''qualification_profile_sha256'', JStr (sha profile_bytes)),
     (''execution_subject_digest'', subject),
     (''provider'', JObj [(''kind'', JStr ''simulator''), (''implementation_id'', JStr (backend job)),
        (''version'', version), (''configuration_sha256'', JStr (sha manifest_bytes))]),
     (''target_id'', JStr (''native-source-'' @ backend job)), (''status'', JStr (result_status job)),
     (''capabilities'', result_capabilities job), (''checks'', JList (map (check_row job execution_id) capabilities)),
     (''evidence'', JList rows),
     (''extension_schemas'', JList [JObj [(''namespace'', JStr provider_namespace), (''schema_uri'', JStr schema_uri),
        (''sha256'', JStr (sha raw_schema))]]),
     (''extensions'', JObj [(provider_namespace, native)])]"

definition providers :: "string list" where
  "providers = [''gazebo'', ''webots'', ''isaac'']"

text \<open>Everything up to the bound evidence: the manifest, the schema, its files and the index.\<close>

definition bind_evidence ::
  "(libcall, 'w) host \<Rightarrow> job \<Rightarrow> ((libcall, 'w) desk, json \<times> bytes \<times> dict \<times> json \<times> dict \<times> dict) prog" where
  "bind_evidence host job =
     bindS (call_bool host (PathExists (destination job))) (\<lambda>present.
     seqS (liftS (unlessE present FileExistsError ''qualification output directory must be new'' (Inr ())))
    (seqS (liftS (unlessE (backend job \<notin> set providers) ValueError
             ''missing or unsupported provider'' (Inr ())))
    (bindS (call host (LoadMapping (manifest_path job))) (\<lambda>manifest.
     seqS (liftS (refuseE (differs (item manifest ''backend'') (JStr (backend job))) ValueError
             ''selected provider does not match admitted native inputs'' (Inr ())))
    (bindS (call_text host (ReadBytes (schema_path job))) (\<lambda>raw_schema.
     bindS (liftS (bindE (item manifest ''files'') as_items)) (\<lambda>listed.
     bindS (liftS (size_total listed)) (\<lambda>bytes_total.
     let template = index_template job bytes_total in
     bindS (call host (CreateIndex template)) (\<lambda>draft.
     seqS (perform host (MakeDir (destination job)))
    (bindS (foldS (bind_file host job template) listed (draft, [], [])) (\<lambda>(bound, digests, documents).
     bindS (call host (FinalizeIndex bound)) (\<lambda>index.
     retS (manifest, raw_schema, listed, index, digests, documents)))))))))))))"

definition conformance_result ::
  "(libcall, 'w) host \<Rightarrow> (bytes \<Rightarrow> string) \<Rightarrow> (json \<Rightarrow> string) \<Rightarrow> job \<Rightarrow>
   ((libcall, 'w) desk, json \<times> json \<times> bytes) prog" where
  "conformance_result host sha str job =
     bindS (bind_evidence host job) (\<lambda>(manifest, raw_schema, listed, index, digests, documents).
     bindS (liftS (project str (backend job) documents digests)) (\<lambda>(native, execution_id).
     seqS (forS (\<lambda>place. perform host (ProtectInputs place
             ([manifest_path job, schema_path job] @ map (\<lambda>(name, _). to_path (input_root job) name) listed)))
           [profile_path job, result_path job, evidence_path job])
    (seqS (perform host (WriteDocument (profile_document job) (profile_path job) []))
    (bindS (call_text host (ReadBytes (profile_path job))) (\<lambda>profile_bytes.
     bindS (liftS (item manifest ''executionSubjectDigest'')) (\<lambda>subject.
     bindS (liftS (item manifest ''version'')) (\<lambda>version.
     bindS (call_text host (ReadBytes (manifest_path job))) (\<lambda>manifest_bytes.
     bindS (liftS (bindE (list_item index ''artifacts'') (mapE evidence_row))) (\<lambda>rows.
     retS (result_document sha job profile_bytes manifest_bytes raw_schema subject version rows native execution_id,
           index, raw_schema))))))))))"

text \<open>The result is validated, and the index written, before the result is.\<close>

definition checked_result ::
  "(libcall, 'w) host \<Rightarrow> (bytes \<Rightarrow> string) \<Rightarrow> (json \<Rightarrow> string) \<Rightarrow> job \<Rightarrow>
   ((libcall, 'w) desk, json \<times> (string \<times> bytes) list) prog" where
  "checked_result host sha str job =
     bindS (conformance_result host sha str job) (\<lambda>(result, index, raw_schema).
     let schemas = [(schema_uri, raw_schema)] in
     seqS (perform host (ValidateDocument result schemas))
    (seqS (if backend job \<noteq> ''isaac''
           then perform host (ValidateRequirements (JObj [(''capabilities'', JList (map JStr capabilities))])
                  (JList [JObj [(''capabilities'', result_capabilities job)]]))
           else retS ())
    (seqS (perform host (WriteDocument index (evidence_path job) []))
    (retS (result, schemas)))))"

definition produce ::
  "(libcall, 'w) host \<Rightarrow> (bytes \<Rightarrow> string) \<Rightarrow> (json \<Rightarrow> string) \<Rightarrow> job \<Rightarrow>
   ((libcall, 'w) desk, (string \<times> path) list) prog" where
  "produce host sha str job =
     bindS (checked_result host sha str job) (\<lambda>(result, schemas).
     seqS (perform host (WriteDocument result (result_path job) schemas))
    (retS [(''profile'', profile_path job), (''conformance'', result_path job), (''evidence'', evidence_path job)]))"

text \<open>\<open>main\<close>: the run identifier and the time default to a new UUID and the current time.\<close>

definition qualification_main ::
  "(libcall, 'w) host \<Rightarrow> (bytes \<Rightarrow> string) \<Rightarrow> (json \<Rightarrow> string) \<Rightarrow> string \<Rightarrow> string \<Rightarrow> string \<Rightarrow> path \<Rightarrow> path \<Rightarrow>
   path \<Rightarrow> path \<Rightarrow> string option \<Rightarrow> string option \<Rightarrow> ((libcall, 'w) desk, (string \<times> path) list) prog" where
  "qualification_main host sha str uuid now chosen inputs manifest schema output run generated =
     produce host sha str \<lparr>backend = chosen, input_root = inputs, manifest_path = manifest, schema_path = schema,
       destination = output, generated_at = (case generated of None \<Rightarrow> now | Some g \<Rightarrow> g),
       run_id = (case run of None \<Rightarrow> ''run-'' @ uuid | Some r \<Rightarrow> r)\<rparr>"

section \<open>Facts\<close>

fun publishes :: "job \<Rightarrow> libcall \<Rightarrow> bool" where
  "publishes job (WriteDocument d p sch) = (p = result_path job)"
| "publishes job _ = False"

lemma result_path_new [simp]: "profile_path job \<noteq> result_path job" "evidence_path job \<noteq> result_path job"
  by (simp_all add: profile_path_def result_path_def evidence_path_def)

lemma adds_bind_file [keeps]: "adds (\<lambda>c. \<not> publishes job c) (bind_file host job template x acc)"
  by (auto simp: bind_file_def Let_def intro!: keeps split: prod.split)

lemma adds_bind_evidence [keeps]: "adds (\<lambda>c. \<not> publishes job c) (bind_evidence host job)"
  by (auto simp: bind_evidence_def Let_def intro!: keeps split: prod.split)

lemma adds_conformance_result [keeps]: "adds (\<lambda>c. \<not> publishes job c) (conformance_result host sha str job)"
  by (auto simp: conformance_result_def intro!: keeps split: prod.split)

lemma adds_checked_result [keeps]: "adds (\<lambda>c. \<not> publishes job c) (checked_result host sha str job)"
  by (auto simp: checked_result_def Let_def intro!: keeps split: prod.split)

text \<open>
  C25: the conformance result is the last thing \<open>produce\<close> writes, and at most once: whatever
  fails before (the manifest, the binding of a file, the native checks, the validation, the writing
  of the profile or of the index) leaves no conformance result, and every exception comes before
  that call or from it.
\<close>

theorem result_is_published_last:
  assumes "produce host sha str job (new_desk w) = (r, s)"
  shows "\<exists>before published. asked s = before @ published \<and> (\<forall>(c, v) \<in> set before. \<not> publishes job c) \<and>
    (published = [] \<and> (\<exists>e. r = Inl e) \<or>
     (\<exists>result schemas v. published = [(WriteDocument result (result_path job) schemas, v)] \<and> is_ok r = is_ok v))"
proof -
  obtain r0 t where run: "checked_result host sha str job (new_desk w) = (r0, t)" by fastforce
  from addsD [OF adds_checked_result run] have before: "\<forall>(c, v) \<in> set (asked t). \<not> publishes job c"
    by (auto simp: new_desk_def list_all_iff)
  show ?thesis
  proof (cases r0)
    case (Inl e)
    with assms run before show ?thesis by (auto simp: produce_def bindS_def)
  next
    case (Inr x)
    obtain result schemas where x: "x = (result, schemas)" by fastforce
    obtain v u where answer: "host (WriteDocument result (result_path job) schemas) (outside t) = (v, u)" by fastforce
    from assms run Inr x answer have "asked s = asked t @ [(WriteDocument result (result_path job) schemas, v)]"
        "is_ok r = is_ok v"
      by (auto simp: produce_def bindS_def seqS_def perform_def call_def retS_def split: sum.splits)
    with before show ?thesis by blast
  qed
qed

text \<open>JSON pointers, for member names without escapes.\<close>

fun follow :: "json \<Rightarrow> string list \<Rightarrow> json option" where
  "follow x [] = Some x"
| "follow x (k # ks) = (case x of
     JObj d \<Rightarrow> (case map_of d k of None \<Rightarrow> None | Some y \<Rightarrow> follow y ks)
   | JList xs \<Rightarrow> (if k \<noteq> [] \<and> list_all is_digit k \<and> dec_val 0 k < length xs then follow (xs ! dec_val 0 k) ks else None)
   | _ \<Rightarrow> None)"

definition json_pointer :: "json \<Rightarrow> string \<Rightarrow> json option" where
  "json_pointer x p = (case p of
      [] \<Rightarrow> Some x
    | c # q \<Rightarrow> if c = CHR ''/'' then follow x (split_on (CHR ''/'') q) else None)"

text \<open>The float of a native number.\<close>

fun native_float :: "json \<Rightarrow> pyfloat \<Rightarrow> bool" where
  "native_float (JInt i) f = (float_of_int i = Inr f)"
| "native_float (JFloat g) f = (g = f)"
| "native_float _ f = False"

text \<open>A time whose source names the place of its value in the document with that digest.\<close>

definition sourced :: "json \<Rightarrow> json \<Rightarrow> json \<Rightarrow> bool" where
  "sourced document digest t \<longleftrightarrow> (\<exists>pointer v f. item t ''source'' = Inr (source digest pointer) \<and>
     json_pointer document pointer = Some v \<and> item t ''value'' = Inr (JFloat f) \<and> native_float v f)"

lemma time_value_sourced:
  assumes "time_value v ''s'' a e (source digest p) = Inr t" "json_pointer document p = Some v"
  shows "sourced document digest t"
  using assms by (auto simp: time_value_def sourced_def ok_iff intro!: exI [of _ p] split: json.splits)

lemma sample_pointer_follows:
  assumes "map_of c ''samples'' = Some (JList xs)" "i < length xs" "xs ! i = JObj row" "map_of row key = Some v"
    and "CHR ''/'' \<notin> set key"
  shows "json_pointer (JObj c) (sample_pointer i (CHR ''/'' # key)) = Some v"
proof -
  have digits: "CHR ''/'' \<notin> set (nat_str i)"
    using nat_str_digits [of "CHR ''/''" i] by (auto simp: is_digit_def in_range_def)
  have "split_on (CHR ''/'') (''samples'' @ CHR ''/'' # (nat_str i @ CHR ''/'' # key)) = [''samples'', nat_str i, key]"
    using digits assms(5) by (subst split_on_append, simp, subst split_on_append, simp, simp add: split_on_no_sep)
  moreover have "list_all is_digit (nat_str i)" using nat_str_digits by (auto simp: list_all_iff)
  ultimately show ?thesis
    using assms by (simp add: json_pointer_def sample_pointer_def dec_val_nat_str)
qed

lemma reset_pointer_follows:
  assumes "path_item x [''reset'', key] = Inr v" "CHR ''/'' \<notin> set key"
  shows "json_pointer x (''/reset/'' @ key) = Some v"
proof -
  have "split_on (CHR ''/'') (''reset'' @ CHR ''/'' # key) = [''reset'', key]"
    using assms(2) by (subst split_on_append, simp, simp add: split_on_no_sep)
  with assms(1) show ?thesis by (auto simp: json_pointer_def ok_iff)
qed

lemma reset_time_sourced:
  assumes "reset_time digest authority epoch x key = Inr t" "CHR ''/'' \<notin> set key"
  shows "sourced x digest t"
  using assms reset_pointer_follows time_value_sourced by (fastforce simp: reset_time_def bindE_ok)

lemma webots_times_sourced:
  assumes "webots_times digest a e (i, row) = Inr ts" "map_of c ''samples'' = Some (JList xs)" "i < length xs" "xs ! i = row"
  shows "length ts = 2 \<and> (\<forall>t \<in> set ts. sourced (JObj c) digest t)"
proof -
  from assms(1) obtain r where row: "row = JObj r"
    by (cases row) (auto simp: webots_times_def ok_iff list_all2_Cons1)
  have "sourced (JObj c) digest t" if "map_of r key = Some v" "CHR ''/'' \<notin> set key"
      "time_value v ''s'' a e (source digest (sample_pointer i (CHR ''/'' # key))) = Inr t" for key v t
    using time_value_sourced sample_pointer_follows that assms(2-4) row by blast
  with assms(1) row show ?thesis
    by (auto simp: webots_times_def ok_iff list_all2_Cons1)
qed

text \<open>
  C24: every time of an accepted Webots projection is a number of the controller's result: the JSON
  pointer of its source, followed in that document, gives the native number whose float the time
  holds. There are two times for each sample and two for the reset, and one operation for each
  sample and one for the reset.
\<close>

theorem webots_times_are_sourced:
  assumes "webots documents digests = Inr (native, owner)"
  shows "\<exists>controller digest samples stamps operations.
    map_of documents ''controller-result.json'' = Some controller \<and>
    map_of digests ''controller-result.json'' = Some digest \<and>
    list_item controller ''samples'' = Inr samples \<and>
    item native ''native_times'' = Inr (JList stamps) \<and> item native ''operations'' = Inr (JList operations) \<and>
    length stamps = 2 * length samples + 2 \<and> length operations = length samples + 1 \<and>
    (\<forall>t \<in> set stamps. sourced controller digest t)"
proof -
  from assms obtain controller digest samples authority epoch stamps before after rest own basis frame life tail where
      found: "map_of documents ''controller-result.json'' = Some controller"
        "map_of digests ''controller-result.json'' = Some digest" "list_item controller ''samples'' = Inr samples"
      and stamps: "mapE (webots_times digest authority epoch) (enum_from 0 samples) = Inr stamps"
      and before: "reset_time digest authority (Inr epoch) controller ''before_seconds'' = Inr before"
      and after: "reset_time digest authority (path_item controller [''reset'', ''epoch'']) controller ''after_seconds'' = Inr after"
      and native: "native_record rest ''webots'' own basis (concat stamps @ [before, after]) frame life
        (map (webots_step digest) (enum_from 0 samples) @ [tail]) = native"
    by (simp only: webots_def bindE_ok dict_item_ok sum.inject prod.inject) (elim exE conjE, rule that; assumption)
  obtain c where c: "controller = JObj c"
    using found(3) by (cases controller) (auto simp: list_item_def ok_iff)
  have reset: "sourced controller digest before" "sourced controller digest after"
    using reset_time_sourced before after by simp_all
  have each: "length (stamps ! i) = 2 \<and> (\<forall>t \<in> set (stamps ! i). sourced controller digest t)" if i: "i < length samples" for i
  proof -
    from mapE_nth [OF stamps, of i] i have row: "webots_times digest authority epoch (i, samples ! i) = Inr (stamps ! i)"
      by simp
    then obtain r where "samples ! i = JObj r"
      by (cases "samples ! i") (auto simp: webots_times_def ok_iff list_all2_Cons1)
    with found(3) i c have "map_of c ''samples'' = Some (JList samples)"
      by (auto simp: list_item_def ok_iff elim!: as_list.elims)
    from webots_times_sourced [OF row this i refl] c show ?thesis by simp
  qed
  have "length stamps = length samples" using mapE_length [OF stamps] by simp
  moreover from this each have "length (concat stamps) = 2 * length samples"
    by (simp add: length_concat sum_list_sum_nth)
  moreover have "\<forall>t \<in> set ts. sourced controller digest t" if "ts \<in> set stamps" for ts
    using that each calculation(1) by (metis in_set_conv_nth)
  then have "\<forall>t \<in> set (concat stamps). sourced controller digest t" by auto
  ultimately show ?thesis
    using found native reset by (intro exI conjI) (auto simp: native_record_def ok_iff)
qed

text \<open>A listed file was bound: the library admitted the original, the bytes read from it were
  retained, and the library admitted the retained copy under the same metadata.\<close>

definition bound_file :: "job \<Rightarrow> (libcall, 'w) desk \<Rightarrow> string \<times> json \<Rightarrow> bool" where
  "bound_file job s = (\<lambda>(name, expected).
     let path = to_path (input_root job) name; retained = to_path (destination job @ [''raw'']) name in
     \<exists>facts content fresh draft v v' v''.
       expected = JObj facts \<and>
       answered s (AddArtifact fresh path (artifact_metadata job name facts)) v \<and>
       answered s (ReadBytes path) (JStr content) \<and> answered s (WriteBytes content retained) v' \<and>
       answered s (AddArtifact draft retained (artifact_metadata job name facts)) v'')"

lemma bind_file_binds:
  assumes "bind_file host job template x acc s = (Inr acc', t)"
  shows "bound_file job t x"
proof -
  obtain name expected draft digests documents where x: "x = (name, expected)" "acc = (draft, digests, documents)"
    by (metis prod.exhaust)
  from assms obtain facts where facts: "expected = JObj facts"
    by (cases expected) (auto simp: bind_file_def x ok_iff Let_def)
  from assms show ?thesis
    unfolding x facts bind_file_def Let_def prod.case json.case bindS_liftS_Inr
    by (clarsimp simp: ok_iff bound_file_def answered_def Let_def) blast
qed

lemma bound_file_later: "adds C m \<Longrightarrow> m s = (r, t) \<Longrightarrow> bound_file job s x \<Longrightarrow> bound_file job t x"
  unfolding bound_file_def Let_def split_beta by (meson answered_later)

lemma bind_files_bind:
  "foldS (bind_file host job template) listed acc s = (Inr acc', t) \<Longrightarrow> x \<in> set listed \<Longrightarrow> bound_file job t x"
proof (induction listed arbitrary: acc s)
  case (Cons y ys)
  then obtain acc1 u where run: "bind_file host job template y acc s = (Inr acc1, u)"
      "foldS (bind_file host job template) ys acc1 u = (Inr acc', t)"
    by (auto simp: ok_iff)
  have "adds (\<lambda>c. \<not> publishes job c) (foldS (bind_file host job template) ys acc1)" by (intro keeps)
  from bound_file_later [OF this run(2) bind_file_binds [OF run(1)]] Cons.IH [OF run(2)] Cons.prems(2)
  show ?case by auto
qed simp

lemma bind_evidence_result:
  assumes "bind_evidence host job s = (Inr (manifest, raw_schema, listed, index, digests, documents), t)"
  shows "answered t (LoadMapping (manifest_path job)) manifest \<and>
    item manifest ''backend'' = Inr (JStr (backend job)) \<and> item manifest ''files'' = Inr (JObj listed) \<and>
    (\<forall>x \<in> set listed. bound_file job t x)"
proof -
  from assms obtain d template u v f where
      fold: "foldS (bind_file host job template) listed (d, [], []) u = (Inr (f, digests, documents), v)"
      and last: "asked t = asked v @ [(FinalizeIndex f, Inr index)]"
      and early: "answered u (LoadMapping (manifest_path job)) manifest"
      and pure: "item manifest ''backend'' = Inr (JStr (backend job))" "item manifest ''files'' = Inr (JObj listed)"
    by (clarsimp simp: bind_evidence_def ok_iff Let_def differs_def answered_def)
  moreover have "adds (\<lambda>c. \<not> publishes job c) (foldS (bind_file host job template) listed (d, [], []))"
    by (intro keeps)
  ultimately have "answered v (LoadMapping (manifest_path job)) manifest"
    using answered_later fold early by metis
  moreover have "bound_file job v x" if "x \<in> set listed" for x
    using bind_files_bind [OF fold that] .
  ultimately show ?thesis
    using pure last by (auto simp: answered_def bound_file_def Let_def)
qed

lemma conformance_result_parts:
  assumes "conformance_result host sha str job s = (Inr (result, index, raw_schema), t)"
  obtains manifest listed digests documents u native execution_id profile_bytes manifest_bytes subject version artifacts rows rest
  where "bind_evidence host job s = (Inr (manifest, raw_schema, listed, index, digests, documents), u)"
    and "project str (backend job) documents digests = Inr (native, execution_id)"
    and "list_item index ''artifacts'' = Inr artifacts" "mapE evidence_row artifacts = Inr rows"
    and "result = result_document sha job profile_bytes manifest_bytes raw_schema subject version rows native execution_id"
    and "asked t = asked u @ rest"
    and "answered t (ReadBytes (profile_path job)) (JStr profile_bytes)"
    and "answered t (ReadBytes (manifest_path job)) (JStr manifest_bytes)"
  using assms
  by (clarsimp simp: conformance_result_def ok_iff answered_def simp del: mapE_ok)


section \<open>Applied\<close>

definition fixture_document :: json where
  "fixture_document = JObj [(''kind'', JStr ''representative-fixture''), (''execution_evaluation'', JStr ''unevaluated''),
     (''native_execution_id'', JStr ''fixture''), (''frame'', JObj [(''native_name'', JStr ''World'')]),
     (''time'', JObj [(''value'', JFloat (Fin 1)), (''authority'', JStr ''World.current_time'')])]"

definition fixture_manifest :: json where
  "fixture_manifest = JObj [(''backend'', JStr ''isaac''), (''version'', JStr ''6.1.0''),
     (''executionSubjectDigest'', JStr ''subject''),
     (''files'', JObj [(''representative.json'', JObj [(''sha256'', JStr ''digest''), (''size_bytes'', JInt 10)])])]"

definition fixture_host :: "(libcall, unit) host" where
  "fixture_host c w = (case c of
      PathExists p \<Rightarrow> Inr (JBool False)
    | LoadMapping p \<Rightarrow> Inr (if p = [''manifest.json''] then fixture_manifest else fixture_document)
    | ReadBytes p \<Rightarrow> Inr (JStr ''bytes'')
    | FinalizeIndex i \<Rightarrow> Inr (JObj [(''artifacts'', JList [])])
    | _ \<Rightarrow> Inr JNull, w)"

definition fixture_job :: job where
  "fixture_job = \<lparr>backend = ''isaac'', input_root = [''inputs''], manifest_path = [''manifest.json''],
     schema_path = [''schema.json''], destination = [''out''], generated_at = ''now'', run_id = ''run-1''\<rparr>"

lemma fixture_produces: "\<exists>paths s. produce fixture_host id (\<lambda>_. []) fixture_job (new_desk ()) = (Inr paths, s)"
  using to_float_of_int [of 1]
  by (simp add: produce_def checked_result_def conformance_result_def bind_evidence_def bind_file_def project_def
      isaac_def time_value_def fixture_job_def fixture_host_def fixture_manifest_def fixture_document_def new_desk_def
      providers_def size_total_def differs_def refuseE_def orE_def list_item_def dict_item_def call_def perform_def
      call_text_def call_bool_def bindS_def seqS_def retS_def liftS_def Let_def split_beta
      to_path_def is_absolute_def starts_with_def)

theorem result_is_published_last_witness:
  "\<exists>(s :: (libcall, unit) desk) before result schemas v. asked s = before @ [(WriteDocument result (result_path fixture_job) schemas, v)] \<and>
    (\<forall>(c, v) \<in> set before. \<not> publishes fixture_job c)"
proof -
  obtain paths s where run: "produce fixture_host id (\<lambda>_. []) fixture_job (new_desk ()) = (Inr paths, s)"
    using fixture_produces by blast
  from result_is_published_last [OF run] obtain before result schemas v where
      "asked s = before @ [(WriteDocument result (result_path fixture_job) schemas, v)]"
      "\<forall>(c, v) \<in> set before. \<not> publishes fixture_job c"
    by auto
  then show ?thesis by blast
qed


definition webots_documents :: dict where
  "webots_documents = [
     (''controller-result.json'', JObj [(''status'', JStr ''completed''), (''owner_id'', JStr ''owner''),
        (''time'', JObj [(''authority'', JStr ''Webots Supervisor.getTime''), (''native_unit'', JStr ''seconds''),
           (''representation'', JStr ''float64''), (''epoch'', JStr ''owner:initial'')]),
        (''last_native_state'', JStr ''state''),
        (''reset'', JObj [(''observed'', JBool True), (''before_seconds'', JFloat (Fin 2)),
           (''after_seconds'', JInt 0), (''epoch'', JStr ''owner:reset'')]),
        (''world'', JObj [(''coordinate_system'', JStr ''ENU'')]),
        (''samples'', JList [JObj [(''before_seconds'', JInt 0), (''after_seconds'', JFloat (Fin 2))]])]),
     (''worker-result.json'', JObj [(''status'', JStr ''completed''), (''processes_reaped'', JBool True),
        (''evidence_exported_before_stop'', JBool True)]),
     (''pre-reset.json'', JObj [(''last_native_state'', JStr ''state''),
        (''reset'', JObj [(''requested'', JBool True), (''observed'', JBool False)])])]"

definition webots_digests :: dict where
  "webots_digests = [(''controller-result.json'', JStr ''c''), (''worker-result.json'', JStr ''w''), (''pre-reset.json'', JStr ''p'')]"

lemma webots_projects: "\<exists>native owner. webots webots_documents webots_digests = Inr (native, owner)"
  using to_float_of_int [of 0]
  by (simp add: webots_def webots_accepted_def webots_documents_def webots_digests_def dict_item_def list_item_def
      refuseE_def orE_def differs_def is_not_def webots_times_def reset_time_def time_value_def float_of_int_def
      checked_float_def py_eq.simps)

theorem webots_times_are_sourced_witness:
  "\<exists>native owner stamps. webots webots_documents webots_digests = Inr (native, owner) \<and>
     item native ''native_times'' = Inr (JList stamps) \<and> length stamps = 4"
proof -
  obtain native owner where run: "webots webots_documents webots_digests = Inr (native, owner)"
    using webots_projects by blast
  have "list_item controller ''samples'' = Inr samples \<Longrightarrow> map_of webots_documents ''controller-result.json'' = Some controller \<Longrightarrow>
      length samples = 1" for controller samples
    by (auto simp: webots_documents_def list_item_def ok_iff)
  note one = this
  from webots_times_are_sourced [OF run] obtain controller samples stamps where
      "map_of webots_documents ''controller-result.json'' = Some controller" "list_item controller ''samples'' = Inr samples"
      "item native ''native_times'' = Inr (JList stamps)" "length stamps = 2 * length samples + 2"
    by blast
  with one [of controller samples] run show ?thesis by auto
qed

end
