(* ===== verification/Webots_Qualification.thy ===== *)
theory Webots_Qualification
  imports Webots_Controller Webots_Launcher Provider_Qualification
begin

text \<open>
  The parts of the Webots provider together: what a completed controller and a completed worker leave
  behind is what the qualification of the provider (\<open>host/producers/provider_qualification.py\<close>)
  accepts and projects.
\<close>

lemma py_eq_floats: "finite_list (map JFloat fs) \<Longrightarrow> py_eqs (map JFloat fs) (map JFloat fs)"
proof (induction fs)
  case (Cons f fs)
  then show ?case by (cases f) (simp_all add: py_eq.simps num_eq_def feq_def)
qed simp

lemma py_eq_state:
  assumes "finite_json (state_document a now (JList (map JFloat fs)))"
  shows "py_eq (state_document a now (JList (map JFloat fs))) (state_document a now (JList (map JFloat fs)))"
  using assms py_eq_floats [of fs]
  by (cases now) (simp_all add: state_document_def epoch_def py_eq.simps [of "JObj _"] py_eq.simps [of "JList _"]
      py_eq.simps [of "JFloat _"] num_eq_def feq_def)

lemma py_eq_time: "py_eq (time_identity a) (JObj [(''authority'', JStr ''Webots Supervisor.getTime''),
     (''native_unit'', JStr ''seconds''), (''representation'', JStr ''float64''), (''epoch'', JStr (owner_id a @ '':initial''))])"
  by (simp add: time_identity_def epoch_def py_eq.simps [of "JObj _"])

lemma times_of_row: "advanced a row \<Longrightarrow> \<exists>ts. webots_times digest authority e (i, row) = Inr ts"
  by (auto simp: advanced_def webots_times_def sample_row_def dict_item_def time_value_def)

lemma times_of_advanced:
  "list_all (advanced a) rows \<Longrightarrow> \<exists>stamps. mapE (webots_times digest authority e) (enum_from i rows) = Inr stamps"
proof (induction rows arbitrary: i)
  case (Cons row rows)
  then have "advanced a row" by simp
  from times_of_row [OF this] obtain ts where "webots_times digest authority e (i, row) = Inr ts" by blast
  moreover from Cons obtain stamps where "mapE (webots_times digest authority e) (enum_from (Suc i) rows) = Inr stamps" by auto
  ultimately show ?case by simp
qed simp

text \<open>The documents the projection reads.\<close>

definition run_documents :: "dict \<Rightarrow> dict \<Rightarrow> dict \<Rightarrow> dict" where
  "run_documents controller worker pre = [(''controller-result.json'', JObj controller),
     (''worker-result.json'', JObj worker), (''pre-reset.json'', JObj pre)]"

definition run_digests :: "json \<Rightarrow> json \<Rightarrow> json \<Rightarrow> dict" where
  "run_digests c w p = [(''controller-result.json'', c), (''worker-result.json'', w), (''pre-reset.json'', p)]"

lemma accepted_run:
  assumes controller: "completed_report a d" and pre: "map_of d ''reset'' = Some (reset_facts a previous response after)"
      "path_item (JObj pre) [''reset'', ''requested''] = Inr (JBool True)"
      "path_item (JObj pre) [''reset'', ''observed''] = Inr (JBool False)"
      "map_of pre ''last_native_state'' = map_of d ''last_native_state''"
    and worker: "completed_worker b u"
  shows "webots_accepted (JObj d) (JObj (report u)) (JObj pre) = Inr ()"
proof -
  from controller obtain now fs where state: "map_of d ''last_native_state'' = Some (state_document a now (JList (map JFloat fs)))"
    and facts: "map_of d ''status'' = Some (JStr ''completed'')" "map_of d ''owner_id'' = Some (JStr (owner_id a))"
      "map_of d ''time'' = Some (time_identity a)" "finite_dict d"
    unfolding completed_report_def by blast
  from state facts(4) have "finite_json (state_document a now (JList (map JFloat fs)))" by (rule finite_dict_map_of)
  then have same: "py_eq (state_document a now (JList (map JFloat fs))) (state_document a now (JList (map JFloat fs)))"
    by (rule py_eq_state)
  from worker have "map_of (report u) ''status'' = Some (JStr ''completed'')"
      "map_of (report u) ''processes_reaped'' = Some (JBool True)"
      "map_of (report u) ''evidence_exported_before_stop'' = Some (JBool True)"
    by (simp_all add: completed_worker_def exported_def)
  with facts same pre state py_eq_time [of a] show ?thesis
    by (simp add: webots_accepted_def refuseE_def orE_def differs_def is_not_def dict_item_def reset_facts_def)
qed

text \<open>
  C2: The provider is consistent from end to end: for every run of a controller that returns 0 with
  the reset probed and every run of a worker that returns 0, the qualification accepts the three
  documents these runs have written and projects them, for the owner the controller was started
  with. None of the refusals of the projection is met, whatever the simulator reported.
\<close>

theorem completed_webots_run_is_qualified:
  assumes "controller_main H fuel a (new_ctl w) = Some (Inr 0, t)" "probe_reset a"
    and "launcher_main H' fuel' b (new_lch w') = Some (Inr 0, u)" "operation b = ''run''"
  shows "\<exists>pre native. wrote t (out_dir a @ [''controller-result.json'']) (JObj (report t)) \<and>
    wrote t (out_dir a @ [''pre-reset.json'']) (JObj pre) \<and> wrote u (out_dir b @ [''worker-result.json'']) (JObj (report u)) \<and>
    webots (run_documents (report t) (report u) pre) (run_digests cd wd pd) = Inr (native, JStr (owner_id a))"
proof -
  from assms(3,4) have worker: "run_worker H' fuel' b (new_lch w') = Some (Inr 0, u)" by (auto simp: launcher_main_def ok_iff)
  note controller = completed_run [OF assms(1)] and worker = run_worker_ok [OF worker]
  from controller(3) [OF assms(2)] obtain previous response after pre where probe:
    "map_of (report t) ''reset'' = Some (reset_facts a previous response after)"
    "wrote t (out_dir a @ [''pre-reset.json'']) (JObj pre)"
    "path_item (JObj pre) [''reset'', ''requested''] = Inr (JBool True)"
    "path_item (JObj pre) [''reset'', ''observed''] = Inr (JBool False)"
    "map_of pre ''last_native_state'' = map_of (report t) ''last_native_state''"
    unfolding probed_def by blast
  from accepted_run [OF controller(1) probe(1,3-5) worker(3)]
  have accepted: "webots_accepted (JObj (report t)) (JObj (report u)) (JObj pre) = Inr ()" by simp
  from controller(1) obtain rows world system where facts: "map_of (report t) ''samples'' = Some (JList rows)"
      "list_all (advanced a) rows" "map_of (report t) ''time'' = Some (time_identity a)"
      "map_of (report t) ''owner_id'' = Some (JStr (owner_id a))"
      "map_of (report t) ''world'' = Some (JObj world)" "map_of world ''coordinate_system'' = Some (JStr system)"
    unfolding completed_report_def by blast
  from times_of_advanced [OF facts(2)] obtain stamps where
    "mapE (webots_times cd (JStr ''Webots Supervisor.getTime'') (epoch a ''initial'')) (enum_from 0 rows) = Inr stamps" by blast
  with accepted facts probe(1)
  have "\<exists>native. webots (run_documents (report t) (report u) pre) (run_digests cd wd pd) = Inr (native, JStr (owner_id a))"
    by (simp add: webots_def run_documents_def run_digests_def dict_item_def list_item_def reset_time_def time_value_def
        time_identity_def reset_facts_def)
  with controller(2) probe(2) worker(1) show ?thesis by (auto simp: result_written_def)
qed

theorem completed_webots_run_is_qualified_witness:
  "\<exists>t u pre native. webots (run_documents (report (t :: nat ctl)) (report (u :: unit lch)) pre) (run_digests JNull JNull JNull) =
     Inr (native, JStr ''o'')"
proof -
  obtain t where run: "controller_main counting_station 0 probing_args (new_ctl 0) = Some (Inr 0, t)"
    using probing_run by blast
  obtain u where work: "launcher_main obliging_station (Suc 0) worker_args (new_lch ()) = Some (Inr 0, u)"
    using obliging_run by blast
  have "probe_reset probing_args" "operation worker_args = ''run''" "owner_id probing_args = ''o''"
    by (simp_all add: probing_args_def worker_args_def)
  with completed_webots_run_is_qualified [OF run _ work, of JNull JNull JNull] show ?thesis by metis
qed

end
